(* ===== verification/Prelude.thy ===== *)
theory Prelude
  imports Main "HOL-Library.Word" "HOL-Library.Code_Target_Numeral"
begin

text \<open>
  Shared vocabulary of the development: the machine integers of Rust as words, the
  checked, saturating and profile-dependent arithmetic of the standard library,
  \<open>Result\<close> as a sum type, panics as a value, and the list lemmas that the component
  theories share.

  A computation that can panic has a result of type \<open>'a run\<close>; one that returns a
  \<open>Result<T, E>\<close> has a result of type \<open>'e + 'a\<close>. Plain \<open>+\<close>, \<open>*\<close> and \<open>pow\<close> on machine
  integers panic in a build with overflow checks (the \<open>dev\<close> profile) and wrap around in
  one without (the \<open>release\<close> profile); the definitions that use them take the flag
  \<open>oc\<close>, true for a build with overflow checks.
\<close>

named_theorems rust_arith \<open>unfolding rules of the integer operations\<close>
named_theorems str_simps \<open>simplification rules of the string operations\<close>
named_theorems codec_simps \<open>rules that run the decoders over the encoders\<close>

section \<open>Machine integers\<close>

type_synonym u8 = "8 word"
type_synonym u16 = "16 word"
type_synonym u32 = "32 word"
type_synonym u64 = "64 word"
type_synonym u128 = "128 word"
type_synonym usize = "64 word"
type_synonym bytes = "8 word list"

definition checked_add :: "'a::len word \<Rightarrow> 'a word \<Rightarrow> 'a word option" where
  "checked_add a b = (if unat a + unat b < 2 ^ LENGTH('a) then Some (a + b) else None)"

definition checked_sub :: "'a::len word \<Rightarrow> 'a word \<Rightarrow> 'a word option" where
  "checked_sub a b = (if b \<le> a then Some (a - b) else None)"

definition checked_mul :: "'a::len word \<Rightarrow> 'a word \<Rightarrow> 'a word option" where
  "checked_mul a b = (if unat a * unat b < 2 ^ LENGTH('a) then Some (a * b) else None)"

definition saturating_add :: "'a::len word \<Rightarrow> 'a word \<Rightarrow> 'a word" where
  "saturating_add a b = (if unat a + unat b < 2 ^ LENGTH('a) then a + b else - 1)"

definition saturating_sub :: "'a::len word \<Rightarrow> 'a word \<Rightarrow> 'a word" where
  "saturating_sub a b = (if b \<le> a then a - b else 0)"

definition saturating_mul :: "'a::len word \<Rightarrow> 'a word \<Rightarrow> 'a word" where
  "saturating_mul a b = (if unat a * unat b < 2 ^ LENGTH('a) then a * b else - 1)"

section \<open>Panics\<close>

datatype 'a run = Panic | Done 'a

fun run_bind :: "'a run \<Rightarrow> ('a \<Rightarrow> 'b run) \<Rightarrow> 'b run" where
  "run_bind Panic f = Panic"
| "run_bind (Done x) f = f x"

text \<open>\<open>expect\<close> and \<open>unwrap\<close>.\<close>

fun expect :: "'a option \<Rightarrow> 'a run" where
  "expect None = Panic"
| "expect (Some x) = Done x"

definition arith_add :: "bool \<Rightarrow> 'a::len word \<Rightarrow> 'a word \<Rightarrow> 'a word run" where
  "arith_add oc a b =
     (if oc \<and> \<not> unat a + unat b < 2 ^ LENGTH('a) then Panic else Done (a + b))"

definition arith_mul :: "bool \<Rightarrow> 'a::len word \<Rightarrow> 'a word \<Rightarrow> 'a word run" where
  "arith_mul oc a b =
     (if oc \<and> \<not> unat a * unat b < 2 ^ LENGTH('a) then Panic else Done (a * b))"

definition arith_pow :: "bool \<Rightarrow> 'a::len word \<Rightarrow> nat \<Rightarrow> 'a word run" where
  "arith_pow oc a e =
     (if oc \<and> \<not> unat a ^ e < 2 ^ LENGTH('a) then Panic else Done (a ^ e))"

text \<open>Division by zero panics in every profile.\<close>

definition arith_div :: "'a::len word \<Rightarrow> 'a word \<Rightarrow> 'a word run" where
  "arith_div a b = (if b = 0 then Panic else Done (a div b))"

definition arith_rem :: "'a::len word \<Rightarrow> 'a word \<Rightarrow> 'a word run" where
  "arith_rem a b = (if b = 0 then Panic else Done (a mod b))"

lemmas rust_int_defs =
  checked_add_def checked_sub_def checked_mul_def saturating_add_def saturating_sub_def
  saturating_mul_def arith_add_def arith_mul_def arith_pow_def arith_div_def arith_rem_def

declare rust_int_defs [rust_arith]

section \<open>Results\<close>

text \<open>The \<open>?\<close> operator on \<open>Result\<close>, and \<open>map_err\<close>.\<close>

fun rbind :: "'e + 'a \<Rightarrow> ('a \<Rightarrow> 'e + 'b) \<Rightarrow> 'e + 'b" where
  "rbind (Inl e) f = Inl e"
| "rbind (Inr x) f = f x"

fun rmap :: "('a \<Rightarrow> 'b) \<Rightarrow> 'e + 'a \<Rightarrow> 'e + 'b" where
  "rmap f (Inl e) = Inl e"
| "rmap f (Inr x) = Inr (f x)"

fun map_err :: "('e \<Rightarrow> 'f) \<Rightarrow> 'e + 'a \<Rightarrow> 'f + 'a" where
  "map_err f (Inl e) = Inl (f e)"
| "map_err f (Inr x) = Inr x"

fun ok_or :: "'e \<Rightarrow> 'a option \<Rightarrow> 'e + 'a" where
  "ok_or e None = Inl e"
| "ok_or e (Some x) = Inr x"

fun is_ok :: "'e + 'a \<Rightarrow> bool" where
  "is_ok (Inl e) = False"
| "is_ok (Inr x) = True"

text \<open>The \<open>?\<close> operator in code that can also panic.\<close>

fun try_run :: "('e + 'a) run \<Rightarrow> ('a \<Rightarrow> ('e + 'b) run) \<Rightarrow> ('e + 'b) run" where
  "try_run Panic f = Panic"
| "try_run (Done (Inl e)) f = Done (Inl e)"
| "try_run (Done (Inr x)) f = f x"

text \<open>Facts about the combinators.\<close>

lemma rbind_eq_Inr [simp]: "rbind m f = Inr y \<longleftrightarrow> (\<exists>x. m = Inr x \<and> f x = Inr y)"
  by (cases m) auto

lemma rbind_eq_Inl: "rbind m f = Inl e \<longleftrightarrow> m = Inl e \<or> (\<exists>x. m = Inr x \<and> f x = Inl e)"
  by (cases m) auto

lemma rmap_eq_Inr [simp]: "rmap f m = Inr y \<longleftrightarrow> (\<exists>x. m = Inr x \<and> y = f x)"
  by (cases m) auto

lemma map_err_eq_Inr [simp]: "map_err f m = Inr y \<longleftrightarrow> m = Inr y"
  by (cases m) auto

lemma ok_or_eq_Inr [simp]: "ok_or e m = Inr y \<longleftrightarrow> m = Some y"
  by (cases m) auto

lemma ok_or_eq_Inl [simp]: "ok_or e m = Inl e' \<longleftrightarrow> m = None \<and> e' = e"
  by (cases m) auto

lemma run_bind_eq_Done [simp]: "run_bind m f = Done y \<longleftrightarrow> (\<exists>x. m = Done x \<and> f x = Done y)"
  by (cases m) auto

lemma expect_eq_Done [simp]: "expect m = Done x \<longleftrightarrow> m = Some x"
  by (cases m) auto

lemma is_ok_iff: "is_ok r \<longleftrightarrow> (\<exists>x. r = Inr x)"
  by (cases r) auto

lemma try_run_eq_ok:
  "try_run m f = Done (Inr y) \<longleftrightarrow> (\<exists>x. m = Done (Inr x) \<and> f x = Done (Inr y))"
  by (cases "(m, f)" rule: try_run.cases) auto

lemma try_run_total: "(\<And>x. \<exists>r. f x = Done r) \<Longrightarrow> \<exists>r. try_run (Done m) f = Done r"
  by (cases m) auto

section \<open>Facts about the integer operations\<close>

lemma unat_add_nowrap:
  "unat a + unat b < 2 ^ LENGTH('a) \<Longrightarrow> unat (a + b) = unat a + unat b"
  for a b :: "'a::len word"
  by (simp add: unat_word_ariths)

lemma unat_mul_nowrap:
  "unat a * unat b < 2 ^ LENGTH('a) \<Longrightarrow> unat (a * b) = unat a * unat b"
  for a b :: "'a::len word"
  by (simp add: unat_word_ariths)

lemma unat_pow_nowrap:
  "unat a ^ e < 2 ^ LENGTH('a) \<Longrightarrow> unat (a ^ e) = unat a ^ e"
  for a :: "'a::len word"
proof (induction e)
  case (Suc e)
  show ?case
  proof (cases "unat a = 0")
    case True
    then show ?thesis by (simp add: unat_eq_0)
  next
    case False
    then have "unat a ^ e \<le> unat a ^ Suc e" by simp
    with Suc.prems have "unat a ^ e < 2 ^ LENGTH('a)" by linarith
    with Suc show ?thesis by (simp add: unat_word_ariths)
  qed
qed simp

lemma unat_sub_nowrap: "b \<le> a \<Longrightarrow> unat (a - b) = unat a - unat b"
  for a b :: "'a::len word"
  by (simp add: unat_sub)

lemma unat_lt_size [simp]: "unat (a :: 'a::len word) < 2 ^ LENGTH('a)"
  by (rule unsigned_less)

lemma unat_of_nat_small: "n < 2 ^ LENGTH('a) \<Longrightarrow> unat (of_nat n :: 'a::len word) = n"
  by (simp add: unat_of_nat take_bit_nat_eq_self)

lemma word_of_nat_unat: "of_nat (unat w) = w" for w :: "'a::len word"
  by simp

lemma unat_inj: "unat a = unat b \<longleftrightarrow> a = b" for a b :: "'a::len word"
  by (simp add: word_unat_eq_iff)

lemma checked_add_Some:
  "checked_add a b = Some c \<longleftrightarrow> unat c = unat a + unat b" for a b c :: "'a::len word"
proof
  assume "checked_add a b = Some c"
  then show "unat c = unat a + unat b"
    by (auto simp: checked_add_def unat_add_nowrap split: if_splits)
next
  assume h: "unat c = unat a + unat b"
  then have lt: "unat a + unat b < 2 ^ LENGTH('a)" by (metis unat_lt_size)
  then have "unat (a + b) = unat c" by (simp add: unat_add_nowrap h)
  with lt show "checked_add a b = Some c" by (simp add: checked_add_def unat_inj)
qed

lemma checked_add_None:
  "checked_add a b = None \<longleftrightarrow> 2 ^ LENGTH('a) \<le> unat a + unat b" for a b :: "'a::len word"
  by (auto simp: checked_add_def)

lemma checked_sub_Some:
  "checked_sub a b = Some c \<longleftrightarrow> unat a = unat b + unat c" for a b c :: "'a::len word"
proof (cases "unat b \<le> unat a")
  case True
  then have "(a - b = c) = (unat a - unat b = unat c)"
    by (metis unat_inj unat_sub_nowrap word_le_nat_alt)
  with True show ?thesis by (auto simp: checked_sub_def word_le_nat_alt)
next
  case False
  then show ?thesis by (simp add: checked_sub_def word_le_nat_alt)
qed

lemma checked_mul_Some:
  "checked_mul a b = Some c \<longleftrightarrow> unat c = unat a * unat b" for a b c :: "'a::len word"
proof
  assume "checked_mul a b = Some c"
  then show "unat c = unat a * unat b"
    by (auto simp: checked_mul_def unat_mul_nowrap split: if_splits)
next
  assume h: "unat c = unat a * unat b"
  then have lt: "unat a * unat b < 2 ^ LENGTH('a)" by (metis unat_lt_size)
  then have "unat (a * b) = unat c" by (simp add: unat_mul_nowrap h)
  with lt show "checked_mul a b = Some c" by (simp add: checked_mul_def unat_inj)
qed

lemma checked_mul_None:
  "checked_mul a b = None \<longleftrightarrow> 2 ^ LENGTH('a) \<le> unat a * unat b" for a b :: "'a::len word"
  by (auto simp: checked_mul_def)

lemma saturating_sub_unat: "unat (saturating_sub a b) = unat a - unat b"
  for a b :: "'a::len word"
  by (auto simp: saturating_sub_def unat_sub_nowrap word_le_nat_alt)

lemma saturating_add_unat:
  "unat (saturating_add a b) = min (2 ^ LENGTH('a) - 1) (unat a + unat b)"
  for a b :: "'a::len word"
proof (cases "unat a + unat b < 2 ^ LENGTH('a)")
  case True
  then show ?thesis by (simp add: saturating_add_def unat_add_nowrap)
next
  case False
  then show ?thesis by (simp add: saturating_add_def unsigned_minus_1_eq_mask mask_eq_exp_minus_1)
qed

section \<open>Little-endian and big-endian bytes\<close>

fun nat_le :: "nat \<Rightarrow> nat \<Rightarrow> bytes" where
  "nat_le 0 v = []"
| "nat_le (Suc n) v = of_nat (v mod 256) # nat_le n (v div 256)"

fun le_nat :: "bytes \<Rightarrow> nat" where
  "le_nat [] = 0"
| "le_nat (b # bs) = unat b + 256 * le_nat bs"

definition to_le_bytes :: "'a::len word \<Rightarrow> bytes" where
  "to_le_bytes w = nat_le (LENGTH('a) div 8) (unat w)"

definition to_be_bytes :: "'a::len word \<Rightarrow> bytes" where
  "to_be_bytes w = rev (to_le_bytes w)"

definition from_be_bytes :: "bytes \<Rightarrow> 'a::len word" where
  "from_be_bytes bs = of_nat (le_nat (rev bs))"

lemma length_nat_le [simp]: "length (nat_le n v) = n"
  by (induction n arbitrary: v) auto

lemma le_nat_nat_le: "le_nat (nat_le n v) = v mod 256 ^ n"
proof (induction n arbitrary: v)
  case (Suc n)
  have "unat (of_nat (v mod 256) :: 8 word) = v mod 256"
    by (rule unat_of_nat_small) simp
  with Suc show ?case by (simp add: mod_mult2_eq add.commute)
qed simp

lemma length_to_le_bytes [simp]: "length (to_le_bytes (w :: 'a::len word)) = LENGTH('a) div 8"
  by (simp add: to_le_bytes_def)

lemma length_to_be_bytes [simp]: "length (to_be_bytes (w :: 'a::len word)) = LENGTH('a) div 8"
  by (simp add: to_be_bytes_def)

lemma le_nat_to_le_bytes:
  assumes "8 dvd LENGTH('a)"
  shows "le_nat (to_le_bytes (w :: 'a::len word)) = unat w"
proof -
  have "(256::nat) ^ (LENGTH('a) div 8) = 2 ^ (8 * (LENGTH('a) div 8))"
    by (simp add: power_mult)
  also have "\<dots> = 2 ^ LENGTH('a)" using assms by simp
  finally show ?thesis by (simp add: to_le_bytes_def le_nat_nat_le)
qed

lemma from_be_bytes_to_be_bytes:
  "8 dvd LENGTH('a) \<Longrightarrow> from_be_bytes (to_be_bytes (w :: 'a::len word)) = w"
  by (simp add: from_be_bytes_def to_be_bytes_def le_nat_to_le_bytes)

section \<open>Lists\<close>

lemma take_append_len [simp]: "length xs = n \<Longrightarrow> take n (xs @ ys) = xs"
  by simp

lemma drop_append_len [simp]: "length xs = n \<Longrightarrow> drop n (xs @ ys) = ys"
  by simp

end
