(* ===== verification/Rust_Str.thy ===== *)
theory Rust_Str
  imports Prelude
begin

text \<open>
  The string operations of the Rust standard library that the sources use. A \<open>str\<close> is
  the list of its UTF-8 bytes, so that \<open>len\<close> and slicing count bytes as in Rust, slicing
  off a character boundary panics, and \<open>trim\<close> removes exactly the byte sequences that
  encode a character with the Unicode property White\_Space. Integer parsing follows
  \<open>from_str_radix\<close>: an optional leading \<open>+\<close>, at least one digit, no overflow.
\<close>

section \<open>Operations\<close>

type_synonym str = string

definition char_code :: "char \<Rightarrow> nat" where
  "char_code c = of_char c"

definition is_ascii_digit :: "char \<Rightarrow> bool" where
  "is_ascii_digit c \<longleftrightarrow> 48 \<le> char_code c \<and> char_code c \<le> 57"

definition digit_value :: "char \<Rightarrow> nat" where
  "digit_value c = char_code c - 48"

definition digit_char :: "nat \<Rightarrow> char" where
  "digit_char n = char_of (48 + n)"

text \<open>A continuation byte of a multi-byte character, and the number of characters.\<close>

definition is_cont :: "char \<Rightarrow> bool" where
  "is_cont c \<longleftrightarrow> 128 \<le> char_code c \<and> char_code c < 192"

definition char_count :: "str \<Rightarrow> nat" where
  "char_count s = length (filter (\<lambda>c. \<not> is_cont c) s)"

definition is_char_boundary :: "str \<Rightarrow> nat \<Rightarrow> bool" where
  "is_char_boundary s n \<longleftrightarrow> n = length s \<or> (n < length s \<and> \<not> is_cont (s ! n))"

text \<open>\<open>&s[..n]\<close>\<close>

definition slice_to :: "str \<Rightarrow> nat \<Rightarrow> str run" where
  "slice_to s n = (if is_char_boundary s n then Done (take n s) else Panic)"

text \<open>\<open>s.find(c)\<close> for an ASCII character: its byte position.\<close>

fun find_char :: "char \<Rightarrow> str \<Rightarrow> nat option" where
  "find_char c [] = None"
| "find_char c (x # xs) = (if x = c then Some 0 else map_option Suc (find_char c xs))"

fun split_char :: "char \<Rightarrow> str \<Rightarrow> str list" where
  "split_char c [] = [[]]"
| "split_char c (x # xs) =
     (if x = c then [] # split_char c xs
      else (case split_char c xs of [] \<Rightarrow> [[x]] | p # ps \<Rightarrow> (x # p) # ps))"

definition split_once :: "char \<Rightarrow> str \<Rightarrow> (str \<times> str) option" where
  "split_once c s = map_option (\<lambda>i. (take i s, drop (Suc i) s)) (find_char c s)"

definition strip_prefix :: "str \<Rightarrow> str \<Rightarrow> str option" where
  "strip_prefix p s = (if take (length p) s = p then Some (drop (length p) s) else None)"

definition strip_suffix :: "str \<Rightarrow> str \<Rightarrow> str option" where
  "strip_suffix p s =
     (if length p \<le> length s \<and> drop (length s - length p) s = p
      then Some (take (length s - length p) s) else None)"

definition starts_with :: "str \<Rightarrow> str \<Rightarrow> bool" where
  "starts_with s p \<longleftrightarrow> take (length p) s = p"

definition ends_with :: "str \<Rightarrow> str \<Rightarrow> bool" where
  "ends_with s p \<longleftrightarrow> length p \<le> length s \<and> drop (length s - length p) s = p"

fun str_contains :: "str \<Rightarrow> str \<Rightarrow> bool" where
  "str_contains [] p = (p = [])"
| "str_contains (x # xs) p = (starts_with (x # xs) p \<or> str_contains xs p)"

fun join :: "str \<Rightarrow> str list \<Rightarrow> str" where
  "join sep [] = []"
| "join sep [x] = x"
| "join sep (x # y # ys) = x @ sep @ join sep (y # ys)"

text \<open>The UTF-8 encodings of the White\_Space characters.\<close>

definition ws_codes :: "nat list list" where
  "ws_codes =
     [[9], [10], [11], [12], [13], [32], [194, 133], [194, 160], [225, 154, 128],
      [226, 128, 128], [226, 128, 129], [226, 128, 130], [226, 128, 131], [226, 128, 132],
      [226, 128, 133], [226, 128, 134], [226, 128, 135], [226, 128, 136], [226, 128, 137],
      [226, 128, 138], [226, 128, 168], [226, 128, 169], [226, 128, 175], [226, 129, 159],
      [227, 128, 128]]"

fun match_len :: "nat list list \<Rightarrow> nat list \<Rightarrow> nat" where
  "match_len [] s = 0"
| "match_len (p # ps) s = (if take (length p) s = p then length p else match_len ps s)"

fun trim_by :: "nat list list \<Rightarrow> str \<Rightarrow> str" where
  "trim_by ps [] = []"
| "trim_by ps (c # s) =
     (let k = match_len ps (map char_code (take 3 (c # s)))
      in if k = 0 then c # s else trim_by ps (drop (k - 1) s))"

definition trim_start :: "str \<Rightarrow> str" where
  "trim_start s = trim_by ws_codes s"

definition trim_end :: "str \<Rightarrow> str" where
  "trim_end s = rev (trim_by (map rev ws_codes) (rev s))"

definition trim :: "str \<Rightarrow> str" where
  "trim s = trim_end (trim_start s)"

text \<open>\<open>split_whitespace\<close>: the maximal runs of non-white-space bytes; \<open>cur\<close> is the run being
  read, reversed.\<close>

fun split_ws :: "str \<Rightarrow> str \<Rightarrow> str list" where
  "split_ws cur [] = (if cur = [] then [] else [rev cur])"
| "split_ws cur (c # s) =
     (let k = match_len ws_codes (map char_code (take 3 (c # s)))
      in if k = 0 then split_ws (c # cur) s
         else (if cur = [] then [] else [rev cur]) @ split_ws [] (drop (k - 1) s))"

definition split_whitespace :: "str \<Rightarrow> str list" where
  "split_whitespace s = split_ws [] s"

definition trim_end_matches :: "char \<Rightarrow> str \<Rightarrow> str" where
  "trim_end_matches c s = rev (dropWhile (\<lambda>x. x = c) (rev s))"

text \<open>Parsing and printing of unsigned integers.\<close>

fun digits_from :: "nat \<Rightarrow> str \<Rightarrow> nat option" where
  "digits_from acc [] = Some acc"
| "digits_from acc (c # s) =
     (if is_ascii_digit c then digits_from (acc * 10 + digit_value c) s else None)"

fun parse_nat :: "str \<Rightarrow> nat option" where
  "parse_nat [] = None"
| "parse_nat (c # s) =
     (if c = CHR ''+'' then (if s = [] then None else digits_from 0 s)
      else digits_from 0 (c # s))"

definition parse_uint :: "str \<Rightarrow> 'a::len word option" where
  "parse_uint s =
     (case parse_nat s of None \<Rightarrow> None
      | Some n \<Rightarrow> if n < 2 ^ LENGTH('a) then Some (of_nat n) else None)"

fun show_nat :: "nat \<Rightarrow> str" where
  "show_nat n =
     (if n < 10 then [digit_char n] else show_nat (n div 10) @ [digit_char (n mod 10)])"

declare show_nat.simps [simp del]

definition show_word :: "'a::len word \<Rightarrow> str" where
  "show_word w = show_nat (unat w)"

text \<open>\<open>{:0<width$}\<close> and \<open>{:0>width$}\<close>: the width counts characters.\<close>

definition pad_right0 :: "str \<Rightarrow> nat \<Rightarrow> str" where
  "pad_right0 s w = s @ replicate (w - char_count s) CHR ''0''"

definition pad_left0 :: "str \<Rightarrow> nat \<Rightarrow> str" where
  "pad_left0 s w = replicate (w - char_count s) CHR ''0'' @ s"

definition to_ascii_lowercase_char :: "char \<Rightarrow> char" where
  "to_ascii_lowercase_char c =
     (if 65 \<le> char_code c \<and> char_code c \<le> 90 then char_of (char_code c + 32) else c)"

definition to_ascii_lowercase :: "str \<Rightarrow> str" where
  "to_ascii_lowercase s = map to_ascii_lowercase_char s"

text \<open>\<open>as_bytes\<close> and \<open>from_utf8\<close> without the validity check.\<close>

definition as_bytes :: "str \<Rightarrow> bytes" where
  "as_bytes s = map (\<lambda>c. of_nat (char_code c)) s"

definition of_bytes :: "bytes \<Rightarrow> str" where
  "of_bytes bs = map (\<lambda>b. char_of (unat b)) bs"

text \<open>The well-formed UTF-8 byte sequences, which is what \<open>from_utf8\<close> accepts.\<close>

definition is_cont_code :: "nat \<Rightarrow> bool" where
  "is_cont_code n \<longleftrightarrow> 128 \<le> n \<and> n < 192"

fun utf8_codes :: "nat list \<Rightarrow> bool" where
  "utf8_codes [] = True"
| "utf8_codes [a] = (a < 128)"
| "utf8_codes [a, b] =
     (if a < 128 then utf8_codes [b] else 194 \<le> a \<and> a < 224 \<and> is_cont_code b)"
| "utf8_codes [a, b, c] =
     (if a < 128 then utf8_codes [b, c]
      else if a < 224 then 194 \<le> a \<and> is_cont_code b \<and> utf8_codes [c]
      else a < 240 \<and> is_cont_code b \<and> is_cont_code c \<and>
        (a = 224 \<longrightarrow> 160 \<le> b) \<and> (a = 237 \<longrightarrow> b < 160))"
| "utf8_codes (a # b # c # d # r) =
     (if a < 128 then utf8_codes (b # c # d # r)
      else if a < 224 then 194 \<le> a \<and> is_cont_code b \<and> utf8_codes (c # d # r)
      else if a < 240 then is_cont_code b \<and> is_cont_code c \<and>
        (a = 224 \<longrightarrow> 160 \<le> b) \<and> (a = 237 \<longrightarrow> b < 160) \<and> utf8_codes (d # r)
      else a < 245 \<and> is_cont_code b \<and> is_cont_code c \<and> is_cont_code d \<and>
        (a = 240 \<longrightarrow> 144 \<le> b) \<and> (a = 244 \<longrightarrow> b < 144) \<and> utf8_codes r)"

definition utf8_valid :: "str \<Rightarrow> bool" where
  "utf8_valid s = utf8_codes (map char_code s)"

section \<open>Digits and numerals\<close>

text \<open>The value of a digit string, as the parser reads it.\<close>

definition dec_value :: "str \<Rightarrow> nat" where
  "dec_value s = foldl (\<lambda>n c. n * 10 + digit_value c) 0 s"

abbreviation digits :: "str \<Rightarrow> bool" where
  "digits s \<equiv> list_all is_ascii_digit s"

lemma char_code_lt [simp]: "char_code c < 256"
  by (simp add: char_code_def)

lemma char_code_digit_char [simp]: "n < 10 \<Longrightarrow> char_code (digit_char n) = 48 + n"
  by (simp add: char_code_def digit_char_def)

lemma is_ascii_digit_digit_char [simp]: "n < 10 \<Longrightarrow> is_ascii_digit (digit_char n)"
  by (simp add: is_ascii_digit_def)

lemma digit_value_digit_char [simp]: "n < 10 \<Longrightarrow> digit_value (digit_char n) = n"
  by (simp add: digit_value_def)

lemma digit_char_value: "is_ascii_digit c \<Longrightarrow> digit_char (digit_value c) = c"
  by (simp add: digit_char_def digit_value_def is_ascii_digit_def char_code_def)

lemma digit_value_lt: "is_ascii_digit c \<Longrightarrow> digit_value c < 10"
  by (auto simp: digit_value_def is_ascii_digit_def)

lemma digits_replicate0 [simp]: "digits (replicate n CHR ''0'')"
  by (simp add: list_all_iff is_ascii_digit_def char_code_def)

lemma digits_from_foldl:
  "digits_from acc s = (if digits s then Some (foldl (\<lambda>n c. n * 10 + digit_value c) acc s) else None)"
  by (induction s arbitrary: acc) auto

lemma digits_from_0: "digits_from 0 s = (if digits s then Some (dec_value s) else None)"
  by (simp add: digits_from_foldl dec_value_def)

lemma foldl_dec:
  "foldl (\<lambda>n c. n * 10 + digit_value c) acc s = acc * 10 ^ length s + dec_value s"
proof (induction s arbitrary: acc)
  case (Cons c s)
  have "dec_value (c # s) = digit_value c * 10 ^ length s + dec_value s"
    using Cons.IH[of "digit_value c"] by (simp add: dec_value_def)
  with Cons.IH[of "acc * 10 + digit_value c"] show ?case by (simp add: algebra_simps)
qed (simp add: dec_value_def)

lemma dec_value_Nil [simp]: "dec_value [] = 0"
  by (simp add: dec_value_def)

lemma dec_value_Cons: "dec_value (c # s) = digit_value c * 10 ^ length s + dec_value s"
  using foldl_dec[of "digit_value c" s] by (simp add: dec_value_def)

lemma dec_value_append: "dec_value (s @ t) = dec_value s * 10 ^ length t + dec_value t"
  using foldl_dec[of "dec_value s" t] by (simp add: dec_value_def)

lemma dec_value_replicate0 [simp]: "dec_value (replicate n CHR ''0'') = 0"
  by (induction n) (simp_all add: dec_value_Cons digit_value_def char_code_def)

lemma dec_value_lt: "digits s \<Longrightarrow> dec_value s < 10 ^ length s"
proof (induction s)
  case (Cons c s)
  then have "digit_value c \<le> 9" using digit_value_lt[of c] by simp
  then have "digit_value c * 10 ^ length s \<le> 9 * 10 ^ length s" by simp
  moreover have "dec_value s < 10 ^ length s" using Cons by simp
  ultimately have "digit_value c * 10 ^ length s + dec_value s < 9 * 10 ^ length s + 10 ^ length s"
    by linarith
  then show ?case by (simp add: dec_value_Cons)
qed simp

lemma digit_not_plus: "is_ascii_digit c \<Longrightarrow> c \<noteq> CHR ''+''"
  by (auto simp: is_ascii_digit_def char_code_def)

lemma digit_not_dot: "is_ascii_digit c \<Longrightarrow> c \<noteq> CHR ''.''"
  by (auto simp: is_ascii_digit_def char_code_def)

lemma parse_nat_digits [simp]: "digits s \<Longrightarrow> s \<noteq> [] \<Longrightarrow> parse_nat s = Some (dec_value s)"
  by (cases s) (auto simp: digits_from_foldl dec_value_def digit_not_plus)

text \<open>What the integer parser accepts.\<close>

lemma parse_nat_Some:
  "parse_nat s = Some n \<longleftrightarrow>
     (\<exists>d. d \<noteq> [] \<and> digits d \<and> n = dec_value d \<and> (s = d \<or> s = CHR ''+'' # d))"
proof (cases s)
  case (Cons c t)
  have ne: "digits (c # t) \<Longrightarrow> c \<noteq> CHR ''+''" by (auto dest: digit_not_plus)
  show ?thesis
  proof (cases "c = CHR ''+''")
    case True
    with Cons ne show ?thesis by (auto simp: digits_from_0 simp del: digits_from.simps)
  next
    case False
    then have "parse_nat s = digits_from 0 (c # t)" using Cons by simp
    then show ?thesis using False Cons by (auto simp: digits_from_0 simp del: digits_from.simps)
  qed
qed auto

lemma digits_show_nat [simp]: "digits (show_nat n)"
  by (induction n rule: show_nat.induct) (simp add: show_nat.simps)

lemma show_nat_nonempty [simp]: "show_nat n \<noteq> []"
  by (subst show_nat.simps) simp

lemma dec_value_show_nat [simp]: "dec_value (show_nat n) = n"
proof (induction n rule: show_nat.induct)
  case (1 n)
  then show ?case
    by (subst show_nat.simps) (auto simp: dec_value_append dec_value_Cons)
qed

lemma parse_show_nat [simp]: "parse_nat (show_nat n) = Some n"
  by simp

lemma parse_show_word [simp]: "parse_uint (show_word w) = Some w"
  by (simp add: parse_uint_def show_word_def)

lemma show_nat_inj [simp]: "show_nat m = show_nat n \<longleftrightarrow> m = n"
  by (metis dec_value_show_nat)

lemma parse_uint_digits:
  "digits s \<Longrightarrow> s \<noteq> [] \<Longrightarrow> dec_value s < 2 ^ LENGTH('a) \<Longrightarrow>
   parse_uint s = Some (of_nat (dec_value s) :: 'a::len word)"
  by (simp add: parse_uint_def)

lemma parse_uint_Some:
  "parse_uint s = Some (w :: 'a::len word) \<longleftrightarrow> parse_nat s = Some (unat w)"
  by (auto simp: parse_uint_def unat_of_nat_small split: option.splits)

section \<open>Slicing, splitting, trimming\<close>

lemma is_cont_digit: "is_ascii_digit c \<Longrightarrow> \<not> is_cont c"
  by (auto simp: is_ascii_digit_def is_cont_def)

lemma char_count_no_cont: "list_all (\<lambda>c. \<not> is_cont c) s \<Longrightarrow> char_count s = length s"
  by (induction s) (auto simp: char_count_def)

lemma char_count_digits [simp]: "digits s \<Longrightarrow> char_count s = length s"
  by (rule char_count_no_cont) (auto simp: list_all_iff is_cont_digit)

lemma find_char_None: "c \<notin> set s \<Longrightarrow> find_char c s = None"
  by (induction s) auto

lemma find_char_append: "c \<notin> set s \<Longrightarrow> find_char c (s @ c # t) = Some (length s)"
  by (induction s) auto

lemma find_char_SomeD: "find_char c s = Some i \<Longrightarrow> i < length s \<and> s ! i = c \<and> c \<notin> set (take i s)"
proof (induction s arbitrary: i)
  case (Cons x s)
  then show ?case by (cases i) (auto split: if_splits)
qed simp

lemma split_once_append [simp]: "c \<notin> set s \<Longrightarrow> split_once c (s @ c # t) = Some (s, t)"
  by (simp add: split_once_def find_char_append)

lemma split_once_None [simp]: "c \<notin> set s \<Longrightarrow> split_once c s = None"
  by (simp add: split_once_def find_char_None)

lemma split_once_SomeD: "split_once c s = Some (a, b) \<Longrightarrow> s = a @ c # b \<and> c \<notin> set a"
  by (auto simp: split_once_def id_take_nth_drop dest!: find_char_SomeD)

lemma split_char_ne [simp]: "split_char c s \<noteq> []"
  by (induction s) (auto split: list.splits)

lemma split_char_no: "c \<notin> set s \<Longrightarrow> split_char c s = [s]"
  by (induction s) auto

lemma split_char_append: "c \<notin> set s \<Longrightarrow> split_char c (s @ c # t) = s # split_char c t"
  by (induction s) auto

lemma strip_prefix_append [simp]: "strip_prefix p (p @ s) = Some s"
  by (simp add: strip_prefix_def)

lemma strip_prefix_SomeD: "strip_prefix p s = Some t \<Longrightarrow> s = p @ t"
  by (auto simp: strip_prefix_def split: if_splits) (metis append_take_drop_id)

lemma strip_suffix_append [simp]: "strip_suffix p (s @ p) = Some s"
  by (simp add: strip_suffix_def)

lemma strip_suffix_SomeD: "strip_suffix p s = Some t \<Longrightarrow> s = t @ p"
  by (auto simp: strip_suffix_def split: if_splits) (metis append_take_drop_id)

lemma strip_suffix_None_last:
  "p \<noteq> [] \<Longrightarrow> s \<noteq> [] \<Longrightarrow> last p \<noteq> last s \<Longrightarrow> strip_suffix p s = None"
  by (auto simp: strip_suffix_def) (metis last_drop length_drop length_greater_0_conv zero_less_diff)

text \<open>Bytes that neither start nor end the encoding of a white-space character.\<close>

definition plain_byte :: "char \<Rightarrow> bool" where
  "plain_byte c \<longleftrightarrow> 33 \<le> char_code c \<and> char_code c < 128"

lemma match_len_plain:
  "list_all (\<lambda>p. p \<noteq> [] \<and> hd p \<noteq> n) ps \<Longrightarrow> match_len ps (n # s) = 0"
  by (induction ps) (auto simp: take_Cons' neq_Nil_conv)

lemma ws_codes_heads: "plain_byte c \<Longrightarrow> list_all (\<lambda>p. p \<noteq> [] \<and> hd p \<noteq> char_code c) ws_codes"
  by (auto simp: ws_codes_def plain_byte_def)

lemma ws_codes_lasts:
  "plain_byte c \<Longrightarrow> list_all (\<lambda>p. p \<noteq> [] \<and> hd p \<noteq> char_code c) (map rev ws_codes)"
  by (auto simp: ws_codes_def plain_byte_def)

lemma trim_start_plain: "plain_byte (hd s) \<Longrightarrow> trim_start s = s"
  by (cases s) (simp_all add: trim_start_def match_len_plain ws_codes_heads)

lemma trim_end_plain: "s \<noteq> [] \<Longrightarrow> plain_byte (last s) \<Longrightarrow> trim_end s = s"
  by (cases s rule: rev_cases)
    (simp_all add: trim_end_def match_len_plain ws_codes_lasts)

lemma trim_plain: "s \<noteq> [] \<Longrightarrow> plain_byte (hd s) \<Longrightarrow> plain_byte (last s) \<Longrightarrow> trim s = s"
  by (simp add: trim_def trim_start_plain trim_end_plain)

lemma plain_byte_digit [simp]: "is_ascii_digit c \<Longrightarrow> plain_byte c"
  by (auto simp: is_ascii_digit_def plain_byte_def)

lemma trim_digits [simp]: "digits s \<Longrightarrow> trim s = s"
proof (cases "s = []")
  case True
  then show ?thesis by (simp add: trim_def trim_start_def trim_end_def)
next
  case False
  moreover assume "digits s"
  ultimately show ?thesis
    by (intro trim_plain) (auto simp: list_all_iff)
qed

lemma trim_show_nat [simp]: "trim (show_nat n) = show_nat n"
  by simp

section \<open>Bytes\<close>

lemma of_bytes_as_bytes [simp]: "of_bytes (as_bytes s) = s"
proof -
  have "char_of (unat (of_nat (char_code c) :: 8 word)) = c" for c
    by (simp add: unat_of_nat_small char_code_def)
  then show ?thesis by (simp add: of_bytes_def as_bytes_def map_idI)
qed

lemma as_bytes_of_bytes [simp]: "as_bytes (of_bytes bs) = bs"
proof -
  have "of_nat (char_code (char_of (unat b))) = b" for b :: "8 word"
    using unat_lt_size[of b] by (simp add: char_code_def)
  then show ?thesis by (simp add: of_bytes_def as_bytes_def map_idI)
qed

lemma length_as_bytes [simp]: "length (as_bytes s) = length s"
  by (simp add: as_bytes_def)

lemma as_bytes_inj [simp]: "as_bytes s = as_bytes t \<longleftrightarrow> s = t"
  by (metis of_bytes_as_bytes)

end
