(* ===== verification/Borsh.thy ===== *)
theory Borsh
  imports Rust_Str
begin

text \<open>
  Wire codecs. A serializer returns \<open>None\<close> where \<open>borsh::to_vec\<close> fails (a length that
  does not fit its \<open>u32\<close> prefix, on which the callers' \<open>expect\<close> panics); a deserializer
  takes the bytes of the reader and returns an error or the value with the bytes that
  are left.

  The crates \<open>borsh\<close>, \<open>near-account-id\<close>, \<open>near-token\<close>, \<open>near-gas\<close> and
  \<open>near-global-contracts\<close> are not part of the repository: their codecs are the record
  \<open>borsh_ops\<close>, an argument of every codec of the development, and what the code relies on
  is the locale \<open>borsh_laws\<close>. The record \<open>borsh_le\<close> implements the published Borsh format
  (little-endian integers, \<open>u32\<close> length prefixes) and satisfies the laws. The derive
  macros are modelled by their documented layout: a struct is its fields in order, an
  enum is the index of the variant as one byte and the fields of the variant.

  The locale \<open>wire_codec\<close> is the contract of a serializer and a deserializer that belong
  together; the theories of the wire types give an instance for each type.
\<close>

section \<open>Errors and readers\<close>

datatype io_error =
    UnexpectedEof
  | InvalidData string
  | InvalidInput string
  | BorshError string

fun io_error_display :: "io_error \<Rightarrow> string" where
  "io_error_display UnexpectedEof = ''failed to fill whole buffer''"
| "io_error_display (InvalidData s) = s"
| "io_error_display (InvalidInput s) = s"
| "io_error_display (BorshError s) = s"

type_synonym 'a dec = "bytes \<Rightarrow> io_error + ('a \<times> bytes)"

text \<open>\<open>Read::read_exact\<close> of the standard library.\<close>

definition read_exact :: "nat \<Rightarrow> bytes dec" where
  "read_exact n bs =
     (if n \<le> length bs then Inr (take n bs, drop n bs) else Inl UnexpectedEof)"

text \<open>Sequencing of readers: the \<open>?\<close> operator with the reader threaded through.\<close>

definition dbind :: "io_error + ('a \<times> bytes) \<Rightarrow> ('a \<Rightarrow> bytes \<Rightarrow> io_error + 'b) \<Rightarrow> io_error + 'b" where
  "dbind m f = (case m of Inl e \<Rightarrow> Inl e | Inr (x, rest) \<Rightarrow> f x rest)"

definition dmap :: "('a \<Rightarrow> 'b) \<Rightarrow> io_error + ('a \<times> bytes) \<Rightarrow> io_error + ('b \<times> bytes)" where
  "dmap f m = dbind m (\<lambda>x rest. Inr (f x, rest))"

text \<open>Concatenation of serialized fields.\<close>

fun cat :: "bytes option list \<Rightarrow> bytes option" where
  "cat [] = Some []"
| "cat (x # xs) =
     (case x of None \<Rightarrow> None
      | Some a \<Rightarrow> (case cat xs of None \<Rightarrow> None | Some b \<Rightarrow> Some (a @ b)))"

section \<open>The crates\<close>

type_synonym account_id = string

datatype global_contract_id = CodeHash bytes | AccountId account_id

record state_init_v1 =
  si_code :: global_contract_id
  si_data :: "(bytes \<times> bytes) list"

datatype state_init = V1 state_init_v1

record borsh_ops =
  enc_u16 :: "u16 \<Rightarrow> bytes"
  dec_u16 :: "u16 dec"
  enc_u32 :: "u32 \<Rightarrow> bytes"
  dec_u32 :: "u32 dec"
  enc_u64 :: "u64 \<Rightarrow> bytes"
  dec_u64 :: "u64 dec"
  enc_u128 :: "u128 \<Rightarrow> bytes"
  dec_u128 :: "u128 dec"
  enc_len :: "nat \<Rightarrow> bytes option"
  dec_len :: "nat dec"
  enc_str :: "string \<Rightarrow> bytes option"
  dec_str :: "string dec"
  str_ok :: "string \<Rightarrow> bool"
  enc_acct :: "account_id \<Rightarrow> bytes option"
  dec_acct :: "account_id dec"
  acct_ok :: "account_id \<Rightarrow> bool"
  enc_gcid :: "global_contract_id \<Rightarrow> bytes option"
  dec_gcid :: "global_contract_id dec"
  gcid_ok :: "global_contract_id \<Rightarrow> bool"
  enc_state_init :: "state_init \<Rightarrow> bytes option"
  dec_state_init :: "state_init dec"
  state_init_ok :: "state_init \<Rightarrow> bool"
  eof_error :: io_error
  trailing_error :: io_error
  bad_tag_error :: "u8 \<Rightarrow> io_error"

section \<open>The layout of derived codecs\<close>

definition read_u8 :: "borsh_ops \<Rightarrow> u8 dec" where
  "read_u8 bo bs = (case bs of [] \<Rightarrow> Inl (eof_error bo) | b # rest \<Rightarrow> Inr (b, rest))"

definition dec_array :: "borsh_ops \<Rightarrow> nat \<Rightarrow> bytes dec" where
  "dec_array bo n bs =
     (if n \<le> length bs then Inr (take n bs, drop n bs) else Inl (eof_error bo))"

fun enc_items :: "('a \<Rightarrow> bytes option) \<Rightarrow> 'a list \<Rightarrow> bytes option" where
  "enc_items enc [] = Some []"
| "enc_items enc (x # xs) = cat [enc x, enc_items enc xs]"

fun dec_items :: "'a dec \<Rightarrow> nat \<Rightarrow> 'a list dec" where
  "dec_items dec 0 bs = Inr ([], bs)"
| "dec_items dec (Suc n) bs =
     dbind (dec bs) (\<lambda>x bs. dbind (dec_items dec n bs) (\<lambda>xs bs. Inr (x # xs, bs)))"

definition enc_list :: "borsh_ops \<Rightarrow> ('a \<Rightarrow> bytes option) \<Rightarrow> 'a list \<Rightarrow> bytes option" where
  "enc_list bo enc xs = cat [enc_len bo (length xs), enc_items enc xs]"

definition dec_list :: "borsh_ops \<Rightarrow> 'a dec \<Rightarrow> 'a list dec" where
  "dec_list bo dec bs = dbind (dec_len bo bs) (\<lambda>n bs. dec_items dec n bs)"

definition enc_vec :: "borsh_ops \<Rightarrow> bytes \<Rightarrow> bytes option" where
  "enc_vec bo bs = cat [enc_len bo (length bs), Some bs]"

definition dec_vec :: "borsh_ops \<Rightarrow> bytes dec" where
  "dec_vec bo bs = dbind (dec_len bo bs) (\<lambda>n bs. dec_array bo n bs)"

fun enc_option :: "('a \<Rightarrow> bytes option) \<Rightarrow> 'a option \<Rightarrow> bytes option" where
  "enc_option enc None = Some [0]"
| "enc_option enc (Some x) = cat [Some [1], enc x]"

definition dec_option :: "borsh_ops \<Rightarrow> 'a dec \<Rightarrow> 'a option dec" where
  "dec_option bo dec bs =
     dbind (read_u8 bo bs) (\<lambda>t bs.
       if t = 0 then Inr (None, bs)
       else if t = 1 then dmap Some (dec bs)
       else Inl (bad_tag_error bo t))"

definition from_slice :: "borsh_ops \<Rightarrow> 'a dec \<Rightarrow> bytes \<Rightarrow> io_error + 'a" where
  "from_slice bo dec bs =
     dbind (dec bs) (\<lambda>x rest. if rest = [] then Inr x else Inl (trailing_error bo))"

section \<open>Facts about readers\<close>

lemma dbind_simps [simp]:
  "dbind (Inl e) f = Inl e"
  "dbind (Inr (x, rest)) f = f x rest"
  by (simp_all add: dbind_def)

lemma dmap_simps [simp]:
  "dmap g (Inl e) = Inl e"
  "dmap g (Inr (x, rest)) = Inr (g x, rest)"
  by (simp_all add: dmap_def)

lemma dbind_eq_Inr: "dbind m f = Inr y \<longleftrightarrow> (\<exists>x rest. m = Inr (x, rest) \<and> f x rest = Inr y)"
  by (auto simp: dbind_def split: sum.splits prod.splits)

lemma dmap_eq_Inr: "dmap g m = Inr (y, r) \<longleftrightarrow> (\<exists>x. m = Inr (x, r) \<and> y = g x)"
  by (auto simp: dmap_def dbind_eq_Inr)

lemma cat_eq_Some [simp]:
  "cat (x # xs) = Some bs \<longleftrightarrow> (\<exists>a b. x = Some a \<and> cat xs = Some b \<and> bs = a @ b)"
  by (auto split: option.splits)

declare cat.simps(2) [simp del]

lemma read_exact_append [simp]: "length xs = n \<Longrightarrow> read_exact n (xs @ rest) = Inr (xs, rest)"
  by (simp add: read_exact_def)

lemma read_u8_Cons [simp]: "read_u8 bo (b # rest) = Inr (b, rest)"
  by (simp add: read_u8_def)

lemma dec_array_append [simp]: "length xs = n \<Longrightarrow> dec_array bo n (xs @ rest) = Inr (xs, rest)"
  by (simp add: dec_array_def)

section \<open>Codecs that belong together\<close>

locale wire_codec =
  fixes enc :: "'a \<Rightarrow> bytes option"
    and dec :: "'a dec"
    and ok :: "'a \<Rightarrow> bool"
  assumes round_trip: "ok x \<Longrightarrow> enc x = Some bs \<Longrightarrow> dec (bs @ rest) = Inr (x, rest)"
begin

lemma round_trip_exact: "ok x \<Longrightarrow> enc x = Some bs \<Longrightarrow> dec bs = Inr (x, [])"
  using round_trip[of x bs "[]"] by simp

lemma from_slice_round_trip: "ok x \<Longrightarrow> enc x = Some bs \<Longrightarrow> from_slice bo dec bs = Inr x"
  by (simp add: from_slice_def round_trip_exact)

lemma prefix_free:
  "ok x \<Longrightarrow> ok y \<Longrightarrow> enc x = Some a \<Longrightarrow> enc y = Some b \<Longrightarrow> a @ r = b @ s \<Longrightarrow> x = y \<and> r = s"
  by (metis Pair_inject round_trip sum.inject(2))

lemma enc_inj: "ok x \<Longrightarrow> ok y \<Longrightarrow> enc x = Some a \<Longrightarrow> enc y = Some a \<Longrightarrow> x = y"
  using prefix_free[of x y a a "[]" "[]"] by simp

lemma items_round_trip:
  "list_all ok xs \<Longrightarrow> enc_items enc xs = Some bs \<Longrightarrow>
   dec_items dec (length xs) (bs @ rest) = Inr (xs, rest)"
proof (induction xs arbitrary: bs)
  case (Cons x xs)
  then show ?case by (auto simp: round_trip)
qed simp

lemma option_round_trip:
  "pred_option ok m \<Longrightarrow> enc_option enc m = Some bs \<Longrightarrow> dec_option bo dec (bs @ rest) = Inr (m, rest)"
  by (cases m) (auto simp: dec_option_def round_trip)

end

section \<open>What the crates promise\<close>

locale borsh_laws =
  fixes bo :: borsh_ops
  assumes u16_rt: "dec_u16 bo (enc_u16 bo a @ rest) = Inr (a, rest)"
    and u32_rt: "dec_u32 bo (enc_u32 bo b @ rest) = Inr (b, rest)"
    and u64_rt: "dec_u64 bo (enc_u64 bo c @ rest) = Inr (c, rest)"
    and u128_rt: "dec_u128 bo (enc_u128 bo d @ rest) = Inr (d, rest)"
    and len_rt: "enc_len bo n = Some bs \<Longrightarrow> dec_len bo (bs @ rest) = Inr (n, rest)"
    and str_rt: "str_ok bo s \<Longrightarrow> enc_str bo s = Some bs \<Longrightarrow> dec_str bo (bs @ rest) = Inr (s, rest)"
    and acct_rt:
      "acct_ok bo i \<Longrightarrow> enc_acct bo i = Some bs \<Longrightarrow> dec_acct bo (bs @ rest) = Inr (i, rest)"
    and gcid_rt:
      "gcid_ok bo g \<Longrightarrow> enc_gcid bo g = Some bs \<Longrightarrow> dec_gcid bo (bs @ rest) = Inr (g, rest)"
    and state_init_rt:
      "state_init_ok bo si \<Longrightarrow> enc_state_init bo si = Some bs \<Longrightarrow>
       dec_state_init bo (bs @ rest) = Inr (si, rest)"
    and acct_wire:
      "acct_ok bo i \<Longrightarrow> enc_acct bo i = Some bs \<Longrightarrow> \<exists>n m. bs = n # 0 # m \<and> 2 \<le> n"
begin

lemmas prim_rt [simp] = u16_rt u32_rt u64_rt u128_rt len_rt str_rt acct_rt gcid_rt state_init_rt

lemma vec_rt [simp]: "enc_vec bo v = Some bs \<Longrightarrow> dec_vec bo (bs @ rest) = Inr (v, rest)"
  by (auto simp: enc_vec_def dec_vec_def)

lemma list_rt:
  assumes "wire_codec enc dec ok" "list_all ok xs" "enc_list bo enc xs = Some bs"
  shows "dec_list bo dec (bs @ rest) = Inr (xs, rest)"
  using assms by (auto simp: enc_list_def dec_list_def wire_codec.items_round_trip)

end

end
