(* ===== verification/Crypto.thy ===== *)
theory Crypto
  imports Borsh
begin

text \<open>
  The interface to the cryptographic and encoding crates (\<open>bs58\<close>, \<open>base64\<close>, \<open>sha2\<close>,
  \<open>sha3\<close>, \<open>hmac\<close>, \<open>ed25519-dalek\<close>, \<open>k256\<close>, \<open>ml-dsa\<close>, \<open>bip39\<close>), none of which is part of
  the repository: a record of functions that every definition using them takes as an
  argument. A point of secp256k1 is represented by its uncompressed SEC1 encoding, an
  expanded ML-DSA-65 signing key by an opaque byte string. The locales state what the
  code relies on.
\<close>

record crypto_ops =
  bs58_encode :: "bytes \<Rightarrow> string"
  bs58_decode :: "string \<Rightarrow> string + bytes"
  b64_encode :: "bytes \<Rightarrow> string"
  b64_decode :: "string \<Rightarrow> string + bytes"
  sha256 :: "bytes \<Rightarrow> bytes"
  sha3_256 :: "bytes \<Rightarrow> bytes"
  hmac_sha512 :: "bytes \<Rightarrow> bytes \<Rightarrow> bytes"
  ed_point_ok :: "bytes \<Rightarrow> bool"
  ed_verifying_key :: "bytes \<Rightarrow> bytes"
  ed_sign :: "bytes \<Rightarrow> bytes \<Rightarrow> bytes"
  ed_verify_strict :: "bytes \<Rightarrow> bytes \<Rightarrow> bytes \<Rightarrow> bool"
  sec1_from_bytes_ok :: "bytes \<Rightarrow> bool"
  sec1_point :: "bytes \<Rightarrow> bytes option"
  k256_scalar_ok :: "bytes \<Rightarrow> bool"
  k256_public_key :: "bytes \<Rightarrow> bytes"
  k256_sign_prehash :: "bytes \<Rightarrow> bytes \<Rightarrow> bytes \<times> u8"
  k256_vk_ok :: "bytes \<Rightarrow> bool"
  k256_sig_ok :: "bytes \<Rightarrow> bool"
  k256_verify_prehash :: "bytes \<Rightarrow> bytes \<Rightarrow> bytes \<Rightarrow> bool"
  ml_from_seed :: "bytes \<Rightarrow> bytes"
  ml_from_expanded :: "bytes \<Rightarrow> bytes option"
  ml_to_expanded :: "bytes \<Rightarrow> bytes"
  ml_verifying_key :: "bytes \<Rightarrow> bytes"
  ml_sign :: "bytes \<Rightarrow> bytes \<Rightarrow> bytes"
  ml_sig_ok :: "bytes \<Rightarrow> bool"
  ml_verify :: "bytes \<Rightarrow> bytes \<Rightarrow> bytes \<Rightarrow> bool"
  bip39_parse :: "string \<Rightarrow> bytes option"
  bip39_to_seed :: "bytes \<Rightarrow> string \<Rightarrow> bytes"
  bip39_from_entropy :: "bytes \<Rightarrow> string + string"
  str_to_lowercase :: "string \<Rightarrow> string"

text \<open>A printer and a parser that belong together.\<close>

locale str_codec =
  fixes print :: "'a \<Rightarrow> string"
    and parse :: "string \<Rightarrow> 'e + 'a"
    and ok :: "'a \<Rightarrow> bool"
  assumes parse_print: "ok x \<Longrightarrow> parse (print x) = Inr x"
begin

lemma print_inj: "ok x \<Longrightarrow> ok y \<Longrightarrow> print x = print y \<Longrightarrow> x = y"
  by (metis parse_print sum.inject(2))

lemma print_parses: "ok x \<Longrightarrow> is_ok (parse (print x))"
  by (simp add: parse_print)

end

text \<open>What the string forms rely on: decoding base58 inverts encoding it.\<close>

locale bs58_laws =
  fixes cr :: crypto_ops
  assumes bs58_rt [simp]: "bs58_decode cr (bs58_encode cr b) = Inr b"

text \<open>The same for base64.\<close>

locale b64_laws =
  fixes cr :: crypto_ops
  assumes b64_rt [simp]: "b64_decode cr (b64_encode cr b) = Inr b"

text \<open>The codecs of the wire types: the laws of Borsh, and a set of cryptographic functions.\<close>

locale wire_env = borsh_laws bo for bo :: borsh_ops +
  fixes cr :: crypto_ops

end
