(* ===== verification/Base58.thy ===== *)
theory Base58
  imports Crypto
begin

text \<open>
  Base58 with the Bitcoin alphabet and Base64 with the standard alphabet and padding, as
  the crates \<open>bs58\<close> and \<open>base64\<close> document them. The record \<open>crypto_ref\<close> uses them; they show that
  the laws the development assumes of the two crates can hold.
\<close>

section \<open>Base58\<close>

definition b58_alphabet :: string where
  "b58_alphabet = ''123456789ABCDEFGHJKLMNPQRSTUVWXYZabcdefghijkmnopqrstuvwxyz''"

text \<open>The digits of a number in a base, most significant first, without leading zeros.\<close>

function base_digits :: "nat \<Rightarrow> nat \<Rightarrow> nat list" where
  "base_digits b n = (if b < 2 \<or> n = 0 then [] else base_digits b (n div b) @ [n mod b])"
  by auto
termination by (relation "measure snd") (auto intro: div_less_dividend)

declare base_digits.simps [simp del]

definition base_value :: "nat \<Rightarrow> nat list \<Rightarrow> nat" where
  "base_value b ds = foldl (\<lambda>acc d. acc * b + d) 0 ds"

fun index_of :: "char \<Rightarrow> string \<Rightarrow> nat option" where
  "index_of c [] = None"
| "index_of c (x # xs) = (if x = c then Some 0 else map_option Suc (index_of c xs))"

fun indices_of :: "string \<Rightarrow> string \<Rightarrow> nat list option" where
  "indices_of a [] = Some []"
| "indices_of a (c # s) =
     (case (index_of c a, indices_of a s) of (Some i, Some is) \<Rightarrow> Some (i # is) | _ \<Rightarrow> None)"

definition byte_vals :: "bytes \<Rightarrow> nat list" where
  "byte_vals bs = map unat bs"

definition b58_encode :: "bytes \<Rightarrow> string" where
  "b58_encode bs =
     (let ds = byte_vals bs; z = length (takeWhile (\<lambda>d. d = 0) ds)
      in map (\<lambda>d. b58_alphabet ! d) (replicate z 0 @ base_digits 58 (base_value 256 ds)))"

definition b58_decode :: "string \<Rightarrow> string + bytes" where
  "b58_decode s =
     (case indices_of b58_alphabet s of None \<Rightarrow> Inl ''invalid character''
      | Some ds \<Rightarrow>
          let z = length (takeWhile (\<lambda>d. d = 0) ds)
          in Inr (map of_nat (replicate z 0 @ base_digits 256 (base_value 58 ds))))"

lemma base_value_snoc: "base_value b (ds @ [d]) = base_value b ds * b + d"
  by (simp add: base_value_def)

lemma base_value_zeros: "base_value b (replicate z 0 @ ds) = base_value b ds"
  by (induction z) (simp_all add: base_value_def)

lemma base_digits_0 [simp]: "base_digits b 0 = []"
  by (simp add: base_digits.simps)

lemma base_value_digits: "2 \<le> b \<Longrightarrow> base_value b (base_digits b n) = n"
proof (induction b n rule: base_digits.induct)
  case (1 b n)
  then show ?case
    by (cases "n = 0")
      (simp_all add: base_digits.simps[of b n] base_value_snoc base_value_def[of b "[]"])
qed

lemma base_digits_lt: "2 \<le> b \<Longrightarrow> list_all (\<lambda>d. d < b) (base_digits b n)"
proof (induction b n rule: base_digits.induct)
  case (1 b n)
  then show ?case by (subst base_digits.simps) auto
qed

lemma base_digits_hd: "2 \<le> b \<Longrightarrow> base_digits b n \<noteq> [] \<Longrightarrow> hd (base_digits b n) \<noteq> 0"
proof (induction b n rule: base_digits.induct)
  case (1 b n)
  then have n: "\<not> (b < 2 \<or> n = 0)" by (auto simp: base_digits.simps[of b n] split: if_splits)
  show ?case
  proof (cases "n div b = 0")
    case True
    with n have "n < b" by (simp add: div_eq_0_iff)
    with n True show ?thesis by (simp add: base_digits.simps[of b n])
  next
    case False
    then have "base_digits b (n div b) \<noteq> []"
      using n by (subst base_digits.simps) simp
    then show ?thesis using 1 n by (simp add: base_digits.simps[of b n])
  qed
qed

lemma base_digits_value:
  "2 \<le> b \<Longrightarrow> list_all (\<lambda>d. d < b) ds \<Longrightarrow> (ds \<noteq> [] \<Longrightarrow> hd ds \<noteq> 0) \<Longrightarrow>
   base_digits b (base_value b ds) = ds"
proof (induction ds rule: rev_induct)
  case (snoc d ds)
  have ds: "base_digits b (base_value b ds) = ds"
    using snoc by (cases ds) auto
  have "base_value b (ds @ [d]) \<noteq> 0"
  proof (cases "ds = []")
    case True
    then show ?thesis using snoc by (simp add: base_value_def)
  next
    case False
    then have "base_value b ds \<noteq> 0" using ds by (metis base_digits_0)
    then show ?thesis using snoc.prems by (simp add: base_value_snoc)
  qed
  then show ?case
    using snoc.prems ds by (subst base_digits.simps) (simp add: base_value_snoc)
qed (simp add: base_value_def)

text \<open>Leading zeros are kept apart from the number.\<close>

lemma strip_zeros:
  assumes "2 \<le> b" "list_all (\<lambda>d. d < b) ds"
  shows "replicate (length (takeWhile (\<lambda>d. d = 0) ds)) 0 @ base_digits b (base_value b ds) = ds"
proof -
  let ?z = "takeWhile (\<lambda>d. d = 0) ds" and ?r = "dropWhile (\<lambda>d. d = 0) ds"
  have z: "?z = replicate (length ?z) 0"
    by (rule replicate_length_same[symmetric]) (auto dest: set_takeWhileD)
  have split: "ds = replicate (length ?z) 0 @ ?r"
    using z takeWhile_dropWhile_id[of "\<lambda>d. d = 0" ds] by metis
  have "base_value b ds = base_value b ?r" by (subst split) (rule base_value_zeros)
  moreover have "base_digits b (base_value b ?r) = ?r"
  proof (rule base_digits_value[OF assms(1)])
    show "list_all (\<lambda>d. d < b) ?r"
      using assms(2) by (auto simp: list_all_iff dest: set_dropWhileD)
    show "?r \<noteq> [] \<Longrightarrow> hd ?r \<noteq> 0" using hd_dropWhile[of "\<lambda>d. d = 0" ds] by simp
  qed
  ultimately show ?thesis using split by simp
qed

lemma leading_zeros:
  assumes "ds = [] \<or> hd ds \<noteq> 0"
  shows "takeWhile (\<lambda>d. d = (0::nat)) (replicate z 0 @ ds) = replicate z 0"
  using assms by (induction z) (cases ds; auto)+

lemma index_of_alphabet: "list_all (\<lambda>i. index_of (b58_alphabet ! i) b58_alphabet = Some i) [0..<58]"
  by code_simp

lemma index_of_nth: "d < 58 \<Longrightarrow> index_of (b58_alphabet ! d) b58_alphabet = Some d"
  using index_of_alphabet by (simp add: list_all_iff)

lemma indices_of_map:
  "list_all (\<lambda>d. d < 58) ds \<Longrightarrow> indices_of b58_alphabet (map (\<lambda>d. b58_alphabet ! d) ds) = Some ds"
  by (induction ds) (simp_all add: index_of_nth)

lemma map_of_nat_byte_vals [simp]: "map of_nat (byte_vals bs) = bs"
  by (simp add: byte_vals_def map_idI)

theorem b58_decode_encode: "b58_decode (b58_encode bs) = Inr bs"
proof -
  let ?ds = "byte_vals bs"
  let ?z = "length (takeWhile (\<lambda>d. d = 0) ?ds)"
  let ?es = "base_digits 58 (base_value 256 ?ds)"
  have lt: "list_all (\<lambda>d. d < 256) ?ds"
  proof -
    have "unat w < 256" for w :: u8 using unat_lt_size[of w] by simp
    then show ?thesis by (simp add: byte_vals_def list_all_iff)
  qed
  have "list_all (\<lambda>d. d < 58) (replicate ?z 0 @ ?es)"
    using base_digits_lt[of 58] by (auto simp: list_all_iff)
  then have idx: "indices_of b58_alphabet (b58_encode bs) = Some (replicate ?z 0 @ ?es)"
    by (simp add: b58_encode_def Let_def indices_of_map del: map_append)
  have hd: "?es = [] \<or> hd ?es \<noteq> 0" using base_digits_hd[of 58 "base_value 256 ?ds"] by (cases "?es = []") simp_all
  have val: "base_value 58 (replicate ?z 0 @ ?es) = base_value 256 ?ds"
    by (simp add: base_value_zeros base_value_digits)
  have "b58_decode (b58_encode bs) =
      Inr (map of_nat (replicate ?z 0 @ base_digits 256 (base_value 256 ?ds)))"
    unfolding b58_decode_def idx by (simp add: Let_def leading_zeros[OF hd] val del: map_append)
  also have "\<dots> = Inr bs" using strip_zeros[OF _ lt] by (simp del: map_append)
  finally show ?thesis .
qed

section \<open>Base64\<close>

definition b64_alphabet :: string where
  "b64_alphabet = ''ABCDEFGHIJKLMNOPQRSTUVWXYZabcdefghijklmnopqrstuvwxyz0123456789+/''"

fun b64_groups :: "nat list \<Rightarrow> string" where
  "b64_groups [] = []"
| "b64_groups [a] =
     [b64_alphabet ! (a div 4), b64_alphabet ! (a mod 4 * 16), CHR ''='', CHR ''='']"
| "b64_groups [a, b] =
     [b64_alphabet ! (a div 4), b64_alphabet ! (a mod 4 * 16 + b div 16),
      b64_alphabet ! (b mod 16 * 4), CHR ''='']"
| "b64_groups (a # b # c # r) =
     [b64_alphabet ! (a div 4), b64_alphabet ! (a mod 4 * 16 + b div 16),
      b64_alphabet ! (b mod 16 * 4 + c div 64), b64_alphabet ! (c mod 64)] @ b64_groups r"

definition sextet :: "char \<Rightarrow> nat option" where
  "sextet c = index_of c b64_alphabet"

fun b64_ungroup :: "string \<Rightarrow> nat list option" where
  "b64_ungroup [] = Some []"
| "b64_ungroup (w # x # y # z # r) =
     (if z = CHR ''='' \<and> r = [] then
        (if y = CHR ''='' then
           (case (sextet w, sextet x) of
              (Some i, Some j) \<Rightarrow> if j mod 16 = 0 then Some [i * 4 + j div 16] else None
            | _ \<Rightarrow> None)
         else
           (case (sextet w, sextet x, sextet y) of
              (Some i, Some j, Some k) \<Rightarrow>
                if k mod 4 = 0 then Some [i * 4 + j div 16, j mod 16 * 16 + k div 4] else None
            | _ \<Rightarrow> None))
      else
        (case (sextet w, sextet x, sextet y, sextet z, b64_ungroup r) of
           (Some i, Some j, Some k, Some l, Some ns) \<Rightarrow>
             Some ((i * 4 + j div 16) # (j mod 16 * 16 + k div 4) # (k mod 4 * 64 + l) # ns)
         | _ \<Rightarrow> None))"
| "b64_ungroup _ = None"

definition base64_encode :: "bytes \<Rightarrow> string" where
  "base64_encode bs = b64_groups (byte_vals bs)"

definition base64_decode :: "string \<Rightarrow> string + bytes" where
  "base64_decode s =
     (case b64_ungroup s of None \<Rightarrow> Inl ''Invalid padding''
      | Some ns \<Rightarrow> Inr (map of_nat ns))"

lemma sextet_alphabet:
  "list_all (\<lambda>i. sextet (b64_alphabet ! i) = Some i \<and> b64_alphabet ! i \<noteq> CHR ''='') [0..<64]"
  by code_simp

lemma sextet_nth [simp]: "d < 64 \<Longrightarrow> sextet (b64_alphabet ! d) = Some d"
  using sextet_alphabet by (simp add: list_all_iff)

lemma sextet_nth_ne [simp]: "d < 64 \<Longrightarrow> b64_alphabet ! d \<noteq> CHR ''=''"
  using sextet_alphabet by (simp add: list_all_iff)

lemma b64_arith:
  fixes a b c :: nat
  shows "a < 256 \<Longrightarrow> a div 4 < 64"
    and "a mod 4 * 16 < 64"
    and "b < 256 \<Longrightarrow> a mod 4 * 16 + b div 16 < 64"
    and "b mod 16 * 4 < 64"
    and "c < 256 \<Longrightarrow> b mod 16 * 4 + c div 64 < 64"
    and "c mod 64 < 64"
proof -
  have m4: "a mod 4 \<le> 3" and m16: "b mod 16 \<le> 15"
    using mod_less_divisor[of 4 a] mod_less_divisor[of 16 b] by simp_all
  show "a < 256 \<Longrightarrow> a div 4 < 64" by (simp add: less_mult_imp_div_less)
  show "a mod 4 * 16 < 64" "b mod 16 * 4 < 64" using m4 m16 by simp_all
  show "b < 256 \<Longrightarrow> a mod 4 * 16 + b div 16 < 64"
    using m4 less_mult_imp_div_less[of b 16 16] by simp
  show "c < 256 \<Longrightarrow> b mod 16 * 4 + c div 64 < 64"
    using m16 less_mult_imp_div_less[of c 4 64] by simp
  show "c mod 64 < 64" by simp
qed

lemma b64_bits:
  fixes b c :: nat
  shows "b < 256 \<Longrightarrow> b div 16 div 16 = 0"
    and "b < 256 \<Longrightarrow> b div 16 mod 16 * 16 + b mod 16 = b"
    and "c < 256 \<Longrightarrow> c div 64 div 4 = 0"
    and "c < 256 \<Longrightarrow> c div 64 mod 4 * 64 + c mod 64 = c"
proof -
  assume b: "b < 256"
  then have "b div 16 < 16" by (simp add: less_mult_imp_div_less)
  then show "b div 16 div 16 = 0" "b div 16 mod 16 * 16 + b mod 16 = b" by simp_all
next
  assume c: "c < 256"
  then have "c div 64 < 4" by (simp add: less_mult_imp_div_less)
  then show "c div 64 div 4 = 0" "c div 64 mod 4 * 64 + c mod 64 = c" by simp_all
qed

lemma b64_ungroup_groups: "list_all (\<lambda>d. d < 256) ns \<Longrightarrow> b64_ungroup (b64_groups ns) = Some ns"
  by (induction ns rule: b64_groups.induct) (simp_all add: b64_arith b64_bits)

theorem base64_decode_encode: "base64_decode (base64_encode bs) = Inr bs"
proof -
  have "unat w < 256" for w :: u8 using unat_lt_size[of w] by simp
  then have "list_all (\<lambda>d. d < 256) (byte_vals bs)" by (simp add: byte_vals_def list_all_iff)
  then show ?thesis
    by (simp add: base64_decode_def base64_encode_def b64_ungroup_groups)
qed

end
