(* ===== verification/Borsh_Le.thy ===== *)
theory Borsh_Le
  imports Borsh
begin

text \<open>
  The published Borsh format as an instance of \<open>borsh_ops\<close>: little-endian integers, a
  \<open>u32\<close> length before strings, vectors and maps, one byte for the variant of an enum. It
  shows that the laws the development assumes of the crates can hold, and it is what the
  examples are evaluated with.
\<close>

definition le_dec_word :: "bytes \<Rightarrow> io_error + ('a::len word \<times> bytes)" where
  "le_dec_word bs =
     (let n = LENGTH('a) div 8
      in if n \<le> length bs then Inr (of_nat (le_nat (take n bs)), drop n bs)
         else Inl (BorshError ''Unexpected length of input''))"

definition le_enc_len :: "nat \<Rightarrow> bytes option" where
  "le_enc_len n = (if n < 2 ^ 32 then Some (nat_le 4 n) else None)"

definition le_dec_len :: "nat dec" where
  "le_dec_len bs = dbind (le_dec_word bs) (\<lambda>w rest. Inr (unat (w :: u32), rest))"

definition le_enc_bytes :: "bytes \<Rightarrow> bytes option" where
  "le_enc_bytes v = cat [le_enc_len (length v), Some v]"

definition le_dec_bytes :: "bytes dec" where
  "le_dec_bytes bs =
     dbind (le_dec_len bs) (\<lambda>n rest.
       if n \<le> length rest then Inr (take n rest, drop n rest)
       else Inl (BorshError ''Unexpected length of input''))"

definition le_enc_str :: "string \<Rightarrow> bytes option" where
  "le_enc_str s = le_enc_bytes (as_bytes s)"

definition le_dec_str :: "string dec" where
  "le_dec_str bs =
     dbind (le_dec_bytes bs) (\<lambda>v rest.
       if utf8_valid (of_bytes v) then Inr (of_bytes v, rest)
       else Inl (BorshError ''invalid utf-8''))"

definition account_char :: "char \<Rightarrow> bool" where
  "account_char c \<longleftrightarrow>
     (97 \<le> char_code c \<and> char_code c \<le> 122) \<or> is_ascii_digit c \<or> c \<in> set ''-_.''"

fun account_seps_ok :: "bool \<Rightarrow> string \<Rightarrow> bool" where
  "account_seps_ok sep [] = (\<not> sep)"
| "account_seps_ok sep (c # s) =
     (if c \<in> set ''-_.'' then \<not> sep \<and> account_seps_ok True s else account_seps_ok False s)"

definition le_acct_ok :: "account_id \<Rightarrow> bool" where
  "le_acct_ok a \<longleftrightarrow> 2 \<le> length a \<and> length a \<le> 64 \<and> list_all account_char a
     \<and> account_seps_ok True a"

definition le_dec_acct :: "account_id dec" where
  "le_dec_acct bs =
     dbind (le_dec_bytes bs) (\<lambda>v rest.
       if le_acct_ok (of_bytes v) then Inr (of_bytes v, rest)
       else Inl (BorshError ''invalid account id''))"

fun le_enc_gcid :: "global_contract_id \<Rightarrow> bytes option" where
  "le_enc_gcid (CodeHash h) = Some (0 # h)"
| "le_enc_gcid (AccountId a) = cat [Some [1], le_enc_str a]"

fun le_gcid_ok :: "global_contract_id \<Rightarrow> bool" where
  "le_gcid_ok (CodeHash h) = (length h = 32)"
| "le_gcid_ok (AccountId a) = le_acct_ok a"

fun le_dec_gcid :: "global_contract_id dec" where
  "le_dec_gcid [] = Inl (BorshError ''Unexpected length of input'')"
| "le_dec_gcid (t # bs) =
     (if t = 0 then
        (if 32 \<le> length bs then Inr (CodeHash (take 32 bs), drop 32 bs)
         else Inl (BorshError ''Unexpected length of input''))
      else if t = 1 then dmap AccountId (le_dec_acct bs)
      else Inl (BorshError ''Unexpected variant tag''))"

definition le_enc_pair :: "bytes \<times> bytes \<Rightarrow> bytes option" where
  "le_enc_pair p = cat [le_enc_bytes (fst p), le_enc_bytes (snd p)]"

definition le_dec_pair :: "(bytes \<times> bytes) dec" where
  "le_dec_pair bs =
     dbind (le_dec_bytes bs) (\<lambda>k bs. dbind (le_dec_bytes bs) (\<lambda>v bs. Inr ((k, v), bs)))"

text \<open>Keys of a map are in strictly ascending lexicographic order.\<close>

fun bytes_less :: "bytes \<Rightarrow> bytes \<Rightarrow> bool" where
  "bytes_less [] ys = (ys \<noteq> [])"
| "bytes_less (x # xs) [] = False"
| "bytes_less (x # xs) (y # ys) = (x < y \<or> x = y \<and> bytes_less xs ys)"

fun keys_ascending :: "(bytes \<times> bytes) list \<Rightarrow> bool" where
  "keys_ascending (p # q # r) = (bytes_less (fst p) (fst q) \<and> keys_ascending (q # r))"
| "keys_ascending r = True"

fun le_enc_state_init :: "state_init \<Rightarrow> bytes option" where
  "le_enc_state_init (V1 v) =
     cat [Some [0], le_enc_gcid (si_code v), le_enc_len (length (si_data v)),
          enc_items le_enc_pair (si_data v)]"

fun le_state_init_ok :: "state_init \<Rightarrow> bool" where
  "le_state_init_ok (V1 v) = (le_gcid_ok (si_code v) \<and> keys_ascending (si_data v))"

fun le_dec_state_init :: "state_init dec" where
  "le_dec_state_init [] = Inl (BorshError ''Unexpected length of input'')"
| "le_dec_state_init (t # bs) =
     (if t = 0 then
        dbind (le_dec_gcid bs) (\<lambda>g bs.
        dbind (le_dec_len bs) (\<lambda>n bs.
        dbind (dec_items le_dec_pair n bs) (\<lambda>m bs.
          if keys_ascending m then Inr (V1 \<lparr>si_code = g, si_data = m\<rparr>, bs)
          else Inl (BorshError ''keys out of order''))))
      else Inl (BorshError ''Unexpected variant tag''))"

definition borsh_le :: borsh_ops where
  "borsh_le = \<lparr>
     enc_u16 = to_le_bytes, dec_u16 = le_dec_word,
     enc_u32 = to_le_bytes, dec_u32 = le_dec_word,
     enc_u64 = to_le_bytes, dec_u64 = le_dec_word,
     enc_u128 = to_le_bytes, dec_u128 = le_dec_word,
     enc_len = le_enc_len, dec_len = le_dec_len,
     enc_str = le_enc_str, dec_str = le_dec_str, str_ok = utf8_valid,
     enc_acct = le_enc_str, dec_acct = le_dec_acct, acct_ok = le_acct_ok,
     enc_gcid = le_enc_gcid, dec_gcid = le_dec_gcid, gcid_ok = le_gcid_ok,
     enc_state_init = le_enc_state_init, dec_state_init = le_dec_state_init,
     state_init_ok = le_state_init_ok,
     eof_error = BorshError ''Unexpected length of input'',
     trailing_error = BorshError ''Not all bytes read'',
     bad_tag_error = (\<lambda>t. BorshError ''Unexpected variant tag'') \<rparr>"

section \<open>The laws\<close>

lemma le_word_rt:
  assumes "8 dvd LENGTH('a)"
  shows "le_dec_word (to_le_bytes (w :: 'a::len word) @ rest) = Inr (w, rest)"
  using le_nat_to_le_bytes[OF assms, of w] by (simp add: le_dec_word_def)

lemma le_len_rt: "le_enc_len n = Some bs \<Longrightarrow> le_dec_len (bs @ rest) = Inr (n, rest)"
  by (auto simp: le_enc_len_def le_dec_len_def le_dec_word_def le_nat_nat_le unat_of_nat_small
      split: if_splits)

lemma le_bytes_rt: "le_enc_bytes v = Some bs \<Longrightarrow> le_dec_bytes (bs @ rest) = Inr (v, rest)"
  by (auto simp: le_enc_bytes_def le_dec_bytes_def le_len_rt)

lemma le_str_rt:
  "utf8_valid s \<Longrightarrow> le_enc_str s = Some bs \<Longrightarrow> le_dec_str (bs @ rest) = Inr (s, rest)"
  by (simp add: le_enc_str_def le_dec_str_def le_bytes_rt)

lemma le_acct_rt:
  "le_acct_ok s \<Longrightarrow> le_enc_str s = Some bs \<Longrightarrow> le_dec_acct (bs @ rest) = Inr (s, rest)"
  by (simp add: le_enc_str_def le_dec_acct_def le_bytes_rt)

lemma le_gcid_rt:
  "le_gcid_ok g \<Longrightarrow> le_enc_gcid g = Some bs \<Longrightarrow> le_dec_gcid (bs @ rest) = Inr (g, rest)"
  by (cases g) (auto simp: le_acct_rt)

interpretation le_pair: wire_codec le_enc_pair le_dec_pair "\<lambda>_. True"
  by unfold_locales (auto simp: le_enc_pair_def le_dec_pair_def le_bytes_rt)

lemma le_state_init_rt:
  "le_state_init_ok si \<Longrightarrow> le_enc_state_init si = Some bs \<Longrightarrow>
   le_dec_state_init (bs @ rest) = Inr (si, rest)"
  by (cases si) (auto simp: le_gcid_rt le_len_rt le_pair.items_round_trip list_all_iff)

lemma nat_le_4_small: "v < 256 \<Longrightarrow> nat_le 4 v = [of_nat v, 0, 0, 0]"
proof -
  assume v: "v < 256"
  have four: "(4::nat) = Suc (Suc (Suc (Suc 0)))" by simp
  have "v mod 256 = v" "v div 256 = 0" using v by auto
  then show ?thesis unfolding four nat_le.simps by simp
qed

lemma le_acct_wire:
  assumes "le_acct_ok a" "le_enc_str a = Some bs"
  shows "\<exists>n m. bs = n # 0 # m \<and> 2 \<le> n"
proof -
  have len: "2 \<le> length a" "length a \<le> 64" using assms(1) by (auto simp: le_acct_ok_def)
  have "bs = nat_le 4 (length a) @ as_bytes a"
    using assms(2) len by (auto simp: le_enc_str_def le_enc_bytes_def le_enc_len_def)
  moreover have "nat_le 4 (length a) = [of_nat (length a), 0, 0, 0]"
    using len by (intro nat_le_4_small) simp
  moreover have "2 \<le> (of_nat (length a) :: u8)"
    using len by (simp add: word_le_nat_alt unat_of_nat_small)
  ultimately show ?thesis by simp
qed

interpretation le: borsh_laws borsh_le
proof unfold_locales
  fix i bs
  assume "acct_ok borsh_le i" "enc_acct borsh_le i = Some bs"
  then show "\<exists>n m. bs = n # 0 # m \<and> 2 \<le> n"
    using le_acct_wire[of i bs] by (simp add: borsh_le_def)
qed (simp_all add: borsh_le_def le_word_rt le_len_rt le_str_rt le_acct_rt le_gcid_rt
      le_state_init_rt)

end
