(* ===== verification/Crypto_Ref.thy ===== *)
theory Crypto_Ref
  imports Base58 Borsh_Le
begin

text \<open>
  A concrete instance of \<open>crypto_ops\<close>: Base58 and Base64 are the real encodings; the
  hash, signature and mnemonic functions are simple stand-ins with the lengths of the
  real ones. The instance serves to evaluate examples and to show that the assumptions
  on the crates are consistent; no theorem about the program rests on it.
\<close>

definition fit :: "nat \<Rightarrow> bytes \<Rightarrow> bytes" where
  "fit n bs = take n (bs @ replicate n 0)"

definition ref_digest :: "bytes \<Rightarrow> bytes" where
  "ref_digest m = fit 32 (rev m)"

definition crypto_ref :: crypto_ops where
  "crypto_ref = \<lparr>
     bs58_encode = b58_encode, bs58_decode = b58_decode,
     b64_encode = base64_encode, b64_decode = base64_decode,
     sha256 = ref_digest, sha3_256 = ref_digest,
     hmac_sha512 = (\<lambda>k d. fit 64 (ref_digest d @ ref_digest k)),
     ed_point_ok = (\<lambda>b. length b = 32),
     ed_verifying_key = fit 32,
     ed_sign = (\<lambda>sk m. fit 32 sk @ ref_digest m),
     ed_verify_strict = (\<lambda>vk m s. s = vk @ ref_digest m),
     sec1_from_bytes_ok = (\<lambda>b. length b = 65 \<or> length b = 33),
     sec1_point = (\<lambda>b. if length b = 65 \<and> hd b = 4 then Some b else None),
     k256_scalar_ok = (\<lambda>b. length b = 32),
     k256_public_key = (\<lambda>sk. 4 # sk @ sk),
     k256_sign_prehash = (\<lambda>sk h. (fit 32 sk @ fit 32 h, 0)),
     k256_vk_ok = (\<lambda>b. length b = 65),
     k256_sig_ok = (\<lambda>b. length b = 64),
     k256_verify_prehash = (\<lambda>vk h s. s = fit 32 (tl vk) @ fit 32 h),
     ml_from_seed = fit 4032,
     ml_from_expanded = (\<lambda>b. if length b = 4032 then Some b else None),
     ml_to_expanded = (\<lambda>k. k),
     ml_verifying_key = fit 1952,
     ml_sign = (\<lambda>k m. fit 3309 (fit 1952 k @ ref_digest m)),
     ml_sig_ok = (\<lambda>s. length s = 3309),
     ml_verify = (\<lambda>vk m s. s = fit 3309 (vk @ ref_digest m)),
     bip39_parse = (\<lambda>s. if s = [] then None else Some (as_bytes s)),
     bip39_to_seed = (\<lambda>m p. fit 64 (m @ as_bytes p)),
     bip39_from_entropy = (\<lambda>e. Inr (of_bytes e)),
     str_to_lowercase = to_ascii_lowercase \<rparr>"

lemma length_fit [simp]: "length (fit n bs) = n"
  by (simp add: fit_def)

lemma fit_id [simp]: "length bs = n \<Longrightarrow> fit n bs = bs"
  by (simp add: fit_def)

lemma length_ref_digest [simp]: "length (ref_digest m) = 32"
  by (simp add: ref_digest_def)

lemma fit_append [simp]: "length a = n \<Longrightarrow> fit n (a @ b) = a"
  by (simp add: fit_def)

interpretation ref58: bs58_laws crypto_ref
  by unfold_locales (simp add: crypto_ref_def b58_decode_encode)

interpretation ref64: b64_laws crypto_ref
  by unfold_locales (simp add: crypto_ref_def base64_decode_encode)

interpretation ref_env: wire_env borsh_le crypto_ref
  by unfold_locales

end
