(* ===== verification/Keys.thy ===== *)
theory Keys
  imports Crypto_Ref
begin

text \<open>
  Keys, signatures and hashes (\<open>types/key.rs\<close>, \<open>types/hash.rs\<close>): the data types, their
  string forms, their wire forms, signing and verification. Byte arrays of a fixed length
  are lists; the predicates \<open>public_key_ok\<close>, \<open>secret_key_ok\<close> and \<open>signature_ok\<close> say that
  the arrays have their length and that points and scalars are valid, which is what
  parsing and deserialization establish.
\<close>

section \<open>Types\<close>

datatype parse_key_error =
    KeyInvalidFormat
  | KeyUnknownKeyType string
  | KeyInvalidBase58 string
  | KeyInvalidLength nat nat
  | KeyInvalidCurvePoint
  | KeyInvalidScalar
  | KeyMlDsa65HashHandle

datatype parse_hash_error = HashInvalidBase58 string | HashInvalidLength nat

datatype signer_error =
    InvalidSeedPhrase
  | SigningFailed string
  | KeyDerivationFailed string

datatype key_type = KeyType_Ed25519 | KeyType_Secp256k1 | KeyType_MlDsa65

datatype public_key =
    PublicKey_Ed25519 bytes
  | PublicKey_Secp256k1 bytes
  | PublicKey_MlDsa65 bytes

datatype public_key_handle = Full public_key | MlDsa65Hash bytes

datatype ml_dsa65_secret_key = Seed bytes | Expanded bytes

datatype secret_key =
    SecretKey_Ed25519 bytes
  | SecretKey_Secp256k1 bytes
  | SecretKey_MlDsa65 ml_dsa65_secret_key

datatype signature =
    Signature_Ed25519 bytes
  | Signature_Secp256k1 bytes
  | Signature_MlDsa65 bytes

type_synonym crypto_hash = bytes

definition ML_DSA_65_PUBLIC_KEY_LENGTH :: nat where "ML_DSA_65_PUBLIC_KEY_LENGTH = 1952"
definition ML_DSA_65_SEED_LENGTH :: nat where "ML_DSA_65_SEED_LENGTH = 32"
definition ML_DSA_65_SECRET_KEY_LENGTH :: nat where "ML_DSA_65_SECRET_KEY_LENGTH = 4032"
definition ML_DSA_65_SIGNATURE_LENGTH :: nat where "ML_DSA_65_SIGNATURE_LENGTH = 3309"
definition ML_DSA_65_HASH_LENGTH :: nat where "ML_DSA_65_HASH_LENGTH = 32"

definition ML_DSA_65_PUBKEY_HASH_DOMAIN :: bytes where
  "ML_DSA_65_PUBKEY_HASH_DOMAIN = as_bytes ''near:ml-dsa-65-pubkey-hash:v1''"

definition ML_DSA_65_HASH_PREFIX :: string where
  "ML_DSA_65_HASH_PREFIX = ''ml-dsa-65-hash''"

lemmas key_lengths =
  ML_DSA_65_PUBLIC_KEY_LENGTH_def ML_DSA_65_SEED_LENGTH_def ML_DSA_65_SECRET_KEY_LENGTH_def
  ML_DSA_65_SIGNATURE_LENGTH_def ML_DSA_65_HASH_LENGTH_def

section \<open>Key types\<close>

fun key_type_as_str :: "key_type \<Rightarrow> string" where
  "key_type_as_str KeyType_Ed25519 = ''ed25519''"
| "key_type_as_str KeyType_Secp256k1 = ''secp256k1''"
| "key_type_as_str KeyType_MlDsa65 = ''ml-dsa-65''"

fun public_key_len :: "key_type \<Rightarrow> nat" where
  "public_key_len KeyType_Ed25519 = 32"
| "public_key_len KeyType_Secp256k1 = 64"
| "public_key_len KeyType_MlDsa65 = ML_DSA_65_PUBLIC_KEY_LENGTH"

fun signature_len :: "key_type \<Rightarrow> nat" where
  "signature_len KeyType_Ed25519 = 64"
| "signature_len KeyType_Secp256k1 = 65"
| "signature_len KeyType_MlDsa65 = ML_DSA_65_SIGNATURE_LENGTH"

fun key_type_as_u8 :: "key_type \<Rightarrow> u8" where
  "key_type_as_u8 KeyType_Ed25519 = 0"
| "key_type_as_u8 KeyType_Secp256k1 = 1"
| "key_type_as_u8 KeyType_MlDsa65 = 2"

definition key_type_try_from :: "u8 \<Rightarrow> parse_key_error + key_type" where
  "key_type_try_from value =
     (if value = 0 then Inr KeyType_Ed25519
      else if value = 1 then Inr KeyType_Secp256k1
      else if value = 2 then Inr KeyType_MlDsa65
      else Inl (KeyUnknownKeyType (show_word value)))"

text \<open>The prefix match that parsing of secret keys and signatures shares.\<close>

definition key_type_of_prefix :: "string \<Rightarrow> parse_key_error + key_type" where
  "key_type_of_prefix prefix =
     (if prefix = ''ed25519'' then Inr KeyType_Ed25519
      else if prefix = ''secp256k1'' then Inr KeyType_Secp256k1
      else if prefix = ''ml-dsa-65'' then Inr KeyType_MlDsa65
      else Inl (KeyUnknownKeyType prefix))"

definition quoted :: "string \<Rightarrow> string" where
  "quoted s = CHR 0x27 # s @ [CHR 0x27]"

fun parse_key_error_display :: "parse_key_error \<Rightarrow> string" where
  "parse_key_error_display KeyInvalidFormat =
     ''Invalid key format: expected '' @ quoted ''ed25519:...'' @ '' or '' @ quoted ''secp256k1:...''"
| "parse_key_error_display (KeyUnknownKeyType t) = ''Unknown key type: '' @ quoted t"
| "parse_key_error_display (KeyInvalidBase58 e) = ''Invalid base58 encoding: '' @ e"
| "parse_key_error_display (KeyInvalidLength expected actual) =
     ''Invalid key length: expected '' @ show_nat expected @ '' bytes, got '' @ show_nat actual"
| "parse_key_error_display KeyInvalidCurvePoint =
     ''Invalid curve point: key bytes do not represent a valid point on the curve''"
| "parse_key_error_display KeyInvalidScalar =
     ''Invalid scalar: secret key bytes are not a valid scalar for this curve''"
| "parse_key_error_display KeyMlDsa65HashHandle =
     quoted ''ml-dsa-65-hash:'' @
     '' is the on-chain handle (hash) of an ML-DSA-65 key, not a public key; supply the full '' @
     quoted ''ml-dsa-65:'' @ '' key, or parse it as a PublicKeyHandle''"

section \<open>Public keys\<close>

fun public_key_type :: "public_key \<Rightarrow> key_type" where
  "public_key_type (PublicKey_Ed25519 _) = KeyType_Ed25519"
| "public_key_type (PublicKey_Secp256k1 _) = KeyType_Secp256k1"
| "public_key_type (PublicKey_MlDsa65 _) = KeyType_MlDsa65"

fun public_key_as_bytes :: "public_key \<Rightarrow> bytes" where
  "public_key_as_bytes (PublicKey_Ed25519 bs) = bs"
| "public_key_as_bytes (PublicKey_Secp256k1 bs) = bs"
| "public_key_as_bytes (PublicKey_MlDsa65 bs) = bs"

fun as_ed25519_bytes :: "public_key \<Rightarrow> bytes option" where
  "as_ed25519_bytes (PublicKey_Ed25519 bs) = Some bs"
| "as_ed25519_bytes _ = None"

fun as_secp256k1_bytes :: "public_key \<Rightarrow> bytes option" where
  "as_secp256k1_bytes (PublicKey_Secp256k1 bs) = Some bs"
| "as_secp256k1_bytes _ = None"

fun as_ml_dsa65_bytes :: "public_key \<Rightarrow> bytes option" where
  "as_ml_dsa65_bytes (PublicKey_MlDsa65 bs) = Some bs"
| "as_ml_dsa65_bytes _ = None"

text \<open>The check of an uncompressed secp256k1 point, with the \<open>0x04\<close> prefix put back.\<close>

definition secp256k1_point_ok :: "crypto_ops \<Rightarrow> bytes \<Rightarrow> bool" where
  "secp256k1_point_ok cr bs \<longleftrightarrow>
     sec1_from_bytes_ok cr (4 # bs) \<and> sec1_point cr (4 # bs) \<noteq> None"

definition public_key_ed25519_from_bytes :: "bytes \<Rightarrow> public_key" where
  "public_key_ed25519_from_bytes bs = PublicKey_Ed25519 bs"

definition public_key_secp256k1_from_bytes :: "crypto_ops \<Rightarrow> bytes \<Rightarrow> public_key run" where
  "public_key_secp256k1_from_bytes cr bs =
     (if secp256k1_point_ok cr bs then Done (PublicKey_Secp256k1 bs) else Panic)"

definition public_key_secp256k1_from_compressed :: "crypto_ops \<Rightarrow> bytes \<Rightarrow> public_key run" where
  "public_key_secp256k1_from_compressed cr bs =
     (if \<not> sec1_from_bytes_ok cr bs then Panic
      else (case sec1_point cr bs of None \<Rightarrow> Panic
            | Some uncompressed \<Rightarrow>
                if length uncompressed = 65 \<and> hd uncompressed = 4
                then Done (PublicKey_Secp256k1 (tl uncompressed)) else Panic))"

definition public_key_secp256k1_from_uncompressed :: "crypto_ops \<Rightarrow> bytes \<Rightarrow> public_key run" where
  "public_key_secp256k1_from_uncompressed cr bs =
     (if sec1_from_bytes_ok cr bs \<and> sec1_point cr bs \<noteq> None
      then Done (PublicKey_Secp256k1 (tl bs)) else Panic)"

definition public_key_ml_dsa65_from_bytes :: "bytes \<Rightarrow> public_key" where
  "public_key_ml_dsa65_from_bytes bs = PublicKey_MlDsa65 bs"

fun to_ml_dsa65_hash :: "crypto_ops \<Rightarrow> public_key \<Rightarrow> public_key_handle option" where
  "to_ml_dsa65_hash cr (PublicKey_MlDsa65 bs) =
     Some (MlDsa65Hash (sha3_256 cr (ML_DSA_65_PUBKEY_HASH_DOMAIN @ bs)))"
| "to_ml_dsa65_hash cr _ = None"

definition public_key_prefix :: "string \<Rightarrow> parse_key_error + key_type" where
  "public_key_prefix prefix =
     (if prefix = ''ed25519'' then Inr KeyType_Ed25519
      else if prefix = ''secp256k1'' then Inr KeyType_Secp256k1
      else if prefix = ''ml-dsa-65'' then Inr KeyType_MlDsa65
      else if prefix = ML_DSA_65_HASH_PREFIX then Inl KeyMlDsa65HashHandle
      else Inl (KeyUnknownKeyType prefix))"

fun public_key_of_data :: "crypto_ops \<Rightarrow> key_type \<Rightarrow> bytes \<Rightarrow> parse_key_error + public_key" where
  "public_key_of_data cr KeyType_Ed25519 data =
     (if ed_point_ok cr data then Inr (PublicKey_Ed25519 data) else Inl KeyInvalidCurvePoint)"
| "public_key_of_data cr KeyType_Secp256k1 data =
     (if secp256k1_point_ok cr data then Inr (PublicKey_Secp256k1 data)
      else Inl KeyInvalidCurvePoint)"
| "public_key_of_data cr KeyType_MlDsa65 data = Inr (PublicKey_MlDsa65 data)"

definition public_key_from_str :: "crypto_ops \<Rightarrow> string \<Rightarrow> parse_key_error + public_key" where
  "public_key_from_str cr s =
     (case split_once CHR '':'' s of None \<Rightarrow> Inl KeyInvalidFormat
      | Some (prefix, data_str) \<Rightarrow>
          rbind (public_key_prefix prefix) (\<lambda>kt.
          rbind (map_err KeyInvalidBase58 (bs58_decode cr data_str)) (\<lambda>data.
            if length data \<noteq> public_key_len kt
            then Inl (KeyInvalidLength (public_key_len kt) (length data))
            else public_key_of_data cr kt data)))"

definition public_key_display :: "crypto_ops \<Rightarrow> public_key \<Rightarrow> string" where
  "public_key_display cr pk =
     key_type_as_str (public_key_type pk) @ '':'' @ bs58_encode cr (public_key_as_bytes pk)"

fun public_key_debug :: "crypto_ops \<Rightarrow> public_key \<Rightarrow> string" where
  "public_key_debug cr (PublicKey_MlDsa65 bs) = ''PublicKey(ml-dsa-65:<1952 bytes>)''"
| "public_key_debug cr pk = ''PublicKey('' @ public_key_display cr pk @ '')''"

definition ser_public_key :: "public_key \<Rightarrow> bytes option" where
  "ser_public_key pk = Some (key_type_as_u8 (public_key_type pk) # public_key_as_bytes pk)"

fun de_public_key_data :: "crypto_ops \<Rightarrow> key_type \<Rightarrow> public_key dec" where
  "de_public_key_data cr KeyType_Ed25519 bs =
     dbind (read_exact 32 bs) (\<lambda>k rest.
       if ed_point_ok cr k then Inr (PublicKey_Ed25519 k, rest)
       else Inl (InvalidData ''invalid ed25519 curve point''))"
| "de_public_key_data cr KeyType_Secp256k1 bs =
     dbind (read_exact 64 bs) (\<lambda>k rest.
       if \<not> sec1_from_bytes_ok cr (4 # k) then Inl (InvalidData ''invalid secp256k1 encoding'')
       else if sec1_point cr (4 # k) = None
            then Inl (InvalidData ''invalid secp256k1 curve point'')
       else Inr (PublicKey_Secp256k1 k, rest))"
| "de_public_key_data cr KeyType_MlDsa65 bs =
     dbind (read_exact ML_DSA_65_PUBLIC_KEY_LENGTH bs) (\<lambda>k rest. Inr (PublicKey_MlDsa65 k, rest))"

text \<open>The key type byte of a key or a signature on the wire.\<close>

definition de_key_type :: "borsh_ops \<Rightarrow> key_type dec" where
  "de_key_type bo bs =
     dbind (read_u8 bo bs) (\<lambda>b rest.
       rmap (\<lambda>kt. (kt, rest))
         (map_err (\<lambda>e. InvalidData (parse_key_error_display e)) (key_type_try_from b)))"

definition de_public_key :: "borsh_ops \<Rightarrow> crypto_ops \<Rightarrow> public_key dec" where
  "de_public_key bo cr bs =
     dbind (de_key_type bo bs) (\<lambda>kt rest. de_public_key_data cr kt rest)"

section \<open>Public key handles\<close>

fun full_pubkey :: "public_key_handle \<Rightarrow> public_key option" where
  "full_pubkey (Full pk) = Some pk"
| "full_pubkey (MlDsa65Hash _) = None"

fun handle_key_type :: "public_key_handle \<Rightarrow> key_type" where
  "handle_key_type (Full pk) = public_key_type pk"
| "handle_key_type (MlDsa65Hash _) = KeyType_MlDsa65"

fun handle_as_bytes :: "public_key_handle \<Rightarrow> bytes" where
  "handle_as_bytes (Full pk) = public_key_as_bytes pk"
| "handle_as_bytes (MlDsa65Hash bs) = bs"

fun is_ml_dsa65_hash :: "public_key_handle \<Rightarrow> bool" where
  "is_ml_dsa65_hash (Full _) = False"
| "is_ml_dsa65_hash (MlDsa65Hash _) = True"

fun refers_to :: "crypto_ops \<Rightarrow> public_key_handle \<Rightarrow> public_key \<Rightarrow> bool" where
  "refers_to cr (Full pk) key = (pk = key)"
| "refers_to cr (MlDsa65Hash h) key = (to_ml_dsa65_hash cr key = Some (MlDsa65Hash h))"

definition handle_from :: "public_key \<Rightarrow> public_key_handle" where
  "handle_from key = Full key"

definition handle_from_str :: "crypto_ops \<Rightarrow> string \<Rightarrow> parse_key_error + public_key_handle" where
  "handle_from_str cr s =
     (case split_once CHR '':'' s of
        Some (prefix, data_str) \<Rightarrow>
          if prefix = ML_DSA_65_HASH_PREFIX then
            rbind (map_err KeyInvalidBase58 (bs58_decode cr data_str)) (\<lambda>data.
              if length data = ML_DSA_65_HASH_LENGTH then Inr (MlDsa65Hash data)
              else Inl (KeyInvalidLength ML_DSA_65_HASH_LENGTH (length data)))
          else rmap Full (public_key_from_str cr s)
      | None \<Rightarrow> rmap Full (public_key_from_str cr s))"

fun handle_display :: "crypto_ops \<Rightarrow> public_key_handle \<Rightarrow> string" where
  "handle_display cr (Full pk) = public_key_display cr pk"
| "handle_display cr (MlDsa65Hash bs) = ML_DSA_65_HASH_PREFIX @ '':'' @ bs58_encode cr bs"

fun handle_debug :: "crypto_ops \<Rightarrow> public_key_handle \<Rightarrow> string" where
  "handle_debug cr (Full (PublicKey_MlDsa65 _)) = ''PublicKeyHandle(ml-dsa-65:<1952 bytes>)''"
| "handle_debug cr h = ''PublicKeyHandle('' @ handle_display cr h @ '')''"

section \<open>Secret keys\<close>

definition secret_key_ed25519_from_bytes :: "bytes \<Rightarrow> secret_key" where
  "secret_key_ed25519_from_bytes bs = SecretKey_Ed25519 bs"

definition secret_key_secp256k1_from_bytes :: "crypto_ops \<Rightarrow> bytes \<Rightarrow> parse_key_error + secret_key" where
  "secret_key_secp256k1_from_bytes cr bs =
     (if k256_scalar_ok cr bs then Inr (SecretKey_Secp256k1 bs) else Inl KeyInvalidScalar)"

definition ml_dsa65_from_seed :: "bytes \<Rightarrow> secret_key" where
  "ml_dsa65_from_seed seed = SecretKey_MlDsa65 (Seed seed)"

definition ml_dsa65_from_expanded :: "crypto_ops \<Rightarrow> bytes \<Rightarrow> parse_key_error + secret_key" where
  "ml_dsa65_from_expanded cr bs =
     (if ml_from_expanded cr bs = None then Inl KeyInvalidScalar
      else Inr (SecretKey_MlDsa65 (Expanded bs)))"

fun secret_key_type :: "secret_key \<Rightarrow> key_type" where
  "secret_key_type (SecretKey_Ed25519 _) = KeyType_Ed25519"
| "secret_key_type (SecretKey_Secp256k1 _) = KeyType_Secp256k1"
| "secret_key_type (SecretKey_MlDsa65 _) = KeyType_MlDsa65"

fun secret_key_as_bytes :: "secret_key \<Rightarrow> bytes" where
  "secret_key_as_bytes (SecretKey_Ed25519 bs) = bs"
| "secret_key_as_bytes (SecretKey_Secp256k1 bs) = bs"
| "secret_key_as_bytes (SecretKey_MlDsa65 (Seed seed)) = seed"
| "secret_key_as_bytes (SecretKey_MlDsa65 (Expanded sk)) = sk"

text \<open>The expanded signing key; decoding a malformed expanded key panics.\<close>

fun ml_dsa65_signing_key :: "crypto_ops \<Rightarrow> ml_dsa65_secret_key \<Rightarrow> bytes run" where
  "ml_dsa65_signing_key cr (Seed seed) = Done (ml_from_seed cr seed)"
| "ml_dsa65_signing_key cr (Expanded bs) =
     (case ml_from_expanded cr bs of None \<Rightarrow> Panic | Some k \<Rightarrow> Done k)"

fun to_ml_dsa65_expanded_bytes :: "crypto_ops \<Rightarrow> secret_key \<Rightarrow> bytes option run" where
  "to_ml_dsa65_expanded_bytes cr (SecretKey_MlDsa65 (Expanded bs)) = Done (Some bs)"
| "to_ml_dsa65_expanded_bytes cr (SecretKey_MlDsa65 (Seed seed)) =
     run_bind (ml_dsa65_signing_key cr (Seed seed)) (\<lambda>k. Done (Some (ml_to_expanded cr k)))"
| "to_ml_dsa65_expanded_bytes cr _ = Done None"

definition to_ml_dsa65_expanded :: "crypto_ops \<Rightarrow> secret_key \<Rightarrow> secret_key option run" where
  "to_ml_dsa65_expanded cr sk =
     run_bind (to_ml_dsa65_expanded_bytes cr sk)
       (\<lambda>m. Done (map_option (\<lambda>bs. SecretKey_MlDsa65 (Expanded bs)) m))"

fun secret_public_key :: "crypto_ops \<Rightarrow> secret_key \<Rightarrow> public_key run" where
  "secret_public_key cr (SecretKey_Ed25519 bs) = Done (PublicKey_Ed25519 (ed_verifying_key cr bs))"
| "secret_public_key cr (SecretKey_Secp256k1 bs) =
     (if \<not> k256_scalar_ok cr bs then Panic
      else let uncompressed = k256_public_key cr bs
           in if length uncompressed = 65 then Done (PublicKey_Secp256k1 (tl uncompressed)) else Panic)"
| "secret_public_key cr (SecretKey_MlDsa65 sk) =
     run_bind (ml_dsa65_signing_key cr sk) (\<lambda>k. Done (PublicKey_MlDsa65 (ml_verifying_key cr k)))"

fun secret_sign :: "crypto_ops \<Rightarrow> secret_key \<Rightarrow> bytes \<Rightarrow> signature run" where
  "secret_sign cr (SecretKey_Ed25519 bs) m = Done (Signature_Ed25519 (ed_sign cr bs m))"
| "secret_sign cr (SecretKey_Secp256k1 bs) m =
     (if \<not> k256_scalar_ok cr bs then Panic
      else let hash = sha256 cr m; (sig, recovery_id) = k256_sign_prehash cr bs hash
           in Done (Signature_Secp256k1 (sig @ [recovery_id])))"
| "secret_sign cr (SecretKey_MlDsa65 sk) m =
     run_bind (ml_dsa65_signing_key cr sk) (\<lambda>k. Done (Signature_MlDsa65 (ml_sign cr k m)))"

fun secret_key_of_data :: "crypto_ops \<Rightarrow> key_type \<Rightarrow> bytes \<Rightarrow> parse_key_error + secret_key" where
  "secret_key_of_data cr KeyType_MlDsa65 data =
     (if length data = ML_DSA_65_SEED_LENGTH then Inr (SecretKey_MlDsa65 (Seed data))
      else if length data = ML_DSA_65_SECRET_KEY_LENGTH then ml_dsa65_from_expanded cr data
      else Inl (KeyInvalidLength ML_DSA_65_SEED_LENGTH (length data)))"
| "secret_key_of_data cr KeyType_Ed25519 data =
     (if \<not> (length data = 32 \<or> length data = 64) then Inl (KeyInvalidLength 32 (length data))
      else Inr (SecretKey_Ed25519 (take 32 data)))"
| "secret_key_of_data cr KeyType_Secp256k1 data =
     (if length data \<noteq> 32 then Inl (KeyInvalidLength 32 (length data))
      else if k256_scalar_ok cr (take 32 data) then Inr (SecretKey_Secp256k1 (take 32 data))
      else Inl KeyInvalidScalar)"

definition secret_key_from_str :: "crypto_ops \<Rightarrow> string \<Rightarrow> parse_key_error + secret_key" where
  "secret_key_from_str cr s =
     (case split_once CHR '':'' s of None \<Rightarrow> Inl KeyInvalidFormat
      | Some (prefix, data_str) \<Rightarrow>
          rbind (key_type_of_prefix prefix) (\<lambda>kt.
          rbind (map_err KeyInvalidBase58 (bs58_decode cr data_str)) (\<lambda>data.
            secret_key_of_data cr kt data)))"

definition secret_key_display :: "crypto_ops \<Rightarrow> secret_key \<Rightarrow> string" where
  "secret_key_display cr sk =
     key_type_as_str (secret_key_type sk) @ '':'' @ bs58_encode cr (secret_key_as_bytes sk)"

definition secret_key_debug :: "secret_key \<Rightarrow> string" where
  "secret_key_debug sk = ''SecretKey('' @ key_type_as_str (secret_key_type sk) @ '':***)''"

record key_pair =
  kp_secret_key :: secret_key
  kp_public_key :: public_key

definition key_pair_from_secret_key :: "crypto_ops \<Rightarrow> secret_key \<Rightarrow> key_pair run" where
  "key_pair_from_secret_key cr sk =
     run_bind (secret_public_key cr sk) (\<lambda>pk. Done \<lparr>kp_secret_key = sk, kp_public_key = pk\<rparr>)"

section \<open>Signatures\<close>

fun signature_key_type :: "signature \<Rightarrow> key_type" where
  "signature_key_type (Signature_Ed25519 _) = KeyType_Ed25519"
| "signature_key_type (Signature_Secp256k1 _) = KeyType_Secp256k1"
| "signature_key_type (Signature_MlDsa65 _) = KeyType_MlDsa65"

fun signature_as_bytes :: "signature \<Rightarrow> bytes" where
  "signature_as_bytes (Signature_Ed25519 bs) = bs"
| "signature_as_bytes (Signature_Secp256k1 bs) = bs"
| "signature_as_bytes (Signature_MlDsa65 bs) = bs"

fun signature_verify :: "crypto_ops \<Rightarrow> signature \<Rightarrow> bytes \<Rightarrow> public_key \<Rightarrow> bool" where
  "signature_verify cr (Signature_Ed25519 sig) m (PublicKey_Ed25519 pk) =
     (ed_point_ok cr pk \<and> ed_verify_strict cr pk m sig)"
| "signature_verify cr (Signature_Secp256k1 sig) m (PublicKey_Secp256k1 pk) =
     (k256_vk_ok cr (4 # pk) \<and> sig ! 64 \<le> 3 \<and> k256_sig_ok cr (take 64 sig) \<and>
      k256_verify_prehash cr (4 # pk) (sha256 cr m) (take 64 sig))"
| "signature_verify cr (Signature_MlDsa65 sig) m (PublicKey_MlDsa65 pk) =
     (ml_sig_ok cr sig \<and> ml_verify cr pk m sig)"
| "signature_verify cr _ m _ = False"

fun signature_of_data :: "key_type \<Rightarrow> bytes \<Rightarrow> signature" where
  "signature_of_data KeyType_Ed25519 data = Signature_Ed25519 data"
| "signature_of_data KeyType_Secp256k1 data = Signature_Secp256k1 data"
| "signature_of_data KeyType_MlDsa65 data = Signature_MlDsa65 data"

definition signature_from_str :: "crypto_ops \<Rightarrow> string \<Rightarrow> parse_key_error + signature" where
  "signature_from_str cr s =
     (case split_once CHR '':'' s of None \<Rightarrow> Inl KeyInvalidFormat
      | Some (prefix, data_str) \<Rightarrow>
          rbind (key_type_of_prefix prefix) (\<lambda>kt.
          rbind (map_err KeyInvalidBase58 (bs58_decode cr data_str)) (\<lambda>data.
            if length data \<noteq> signature_len kt
            then Inl (KeyInvalidLength (signature_len kt) (length data))
            else Inr (signature_of_data kt data))))"

definition signature_display :: "crypto_ops \<Rightarrow> signature \<Rightarrow> string" where
  "signature_display cr sig =
     key_type_as_str (signature_key_type sig) @ '':'' @ bs58_encode cr (signature_as_bytes sig)"

fun signature_debug :: "crypto_ops \<Rightarrow> signature \<Rightarrow> string" where
  "signature_debug cr (Signature_MlDsa65 bs) = ''Signature(ml-dsa-65:<3309 bytes>)''"
| "signature_debug cr sig = ''Signature('' @ signature_display cr sig @ '')''"

definition ser_signature :: "signature \<Rightarrow> bytes option" where
  "ser_signature sig = Some (key_type_as_u8 (signature_key_type sig) # signature_as_bytes sig)"

definition de_signature :: "borsh_ops \<Rightarrow> signature dec" where
  "de_signature bo bs =
     dbind (de_key_type bo bs) (\<lambda>kt bs.
     dbind (read_exact (signature_len kt) bs) (\<lambda>data rest. Inr (signature_of_data kt data, rest)))"

section \<open>Hashes\<close>

definition crypto_hash_hash :: "crypto_ops \<Rightarrow> bytes \<Rightarrow> crypto_hash" where
  "crypto_hash_hash cr data = sha256 cr data"

definition crypto_hash_is_zero :: "crypto_hash \<Rightarrow> bool" where
  "crypto_hash_is_zero h \<longleftrightarrow> h = replicate 32 0"

definition crypto_hash_try_from :: "bytes \<Rightarrow> parse_hash_error + crypto_hash" where
  "crypto_hash_try_from bs =
     (if length bs \<noteq> 32 then Inl (HashInvalidLength (length bs)) else Inr bs)"

definition crypto_hash_from_str :: "crypto_ops \<Rightarrow> string \<Rightarrow> parse_hash_error + crypto_hash" where
  "crypto_hash_from_str cr s =
     rbind (map_err HashInvalidBase58 (bs58_decode cr s)) (\<lambda>bs.
       if length bs \<noteq> 32 then Inl (HashInvalidLength (length bs)) else Inr bs)"

definition crypto_hash_display :: "crypto_ops \<Rightarrow> crypto_hash \<Rightarrow> string" where
  "crypto_hash_display cr h = bs58_encode cr h"

definition ser_crypto_hash :: "crypto_hash \<Rightarrow> bytes option" where
  "ser_crypto_hash h = Some h"

definition de_crypto_hash :: "crypto_hash dec" where
  "de_crypto_hash bs = read_exact 32 bs"

section \<open>Well-formed values\<close>

fun public_key_ok :: "crypto_ops \<Rightarrow> public_key \<Rightarrow> bool" where
  "public_key_ok cr (PublicKey_Ed25519 bs) = (length bs = 32 \<and> ed_point_ok cr bs)"
| "public_key_ok cr (PublicKey_Secp256k1 bs) = (length bs = 64 \<and> secp256k1_point_ok cr bs)"
| "public_key_ok cr (PublicKey_MlDsa65 bs) = (length bs = ML_DSA_65_PUBLIC_KEY_LENGTH)"

fun handle_ok :: "crypto_ops \<Rightarrow> public_key_handle \<Rightarrow> bool" where
  "handle_ok cr (Full pk) = public_key_ok cr pk"
| "handle_ok cr (MlDsa65Hash bs) = (length bs = ML_DSA_65_HASH_LENGTH)"

fun secret_key_ok :: "crypto_ops \<Rightarrow> secret_key \<Rightarrow> bool" where
  "secret_key_ok cr (SecretKey_Ed25519 bs) = (length bs = 32)"
| "secret_key_ok cr (SecretKey_Secp256k1 bs) = (length bs = 32 \<and> k256_scalar_ok cr bs)"
| "secret_key_ok cr (SecretKey_MlDsa65 (Seed bs)) = (length bs = ML_DSA_65_SEED_LENGTH)"
| "secret_key_ok cr (SecretKey_MlDsa65 (Expanded bs)) =
     (length bs = ML_DSA_65_SECRET_KEY_LENGTH \<and> ml_from_expanded cr bs \<noteq> None)"

definition signature_ok :: "signature \<Rightarrow> bool" where
  "signature_ok sig \<longleftrightarrow> length (signature_as_bytes sig) = signature_len (signature_key_type sig)"

definition crypto_hash_ok :: "crypto_hash \<Rightarrow> bool" where
  "crypto_hash_ok h \<longleftrightarrow> length h = 32"

section \<open>Lemmas\<close>

lemma key_type_as_str_no_colon [simp]: "CHR '':'' \<notin> set (key_type_as_str kt)"
  by (cases kt) simp_all

lemma split_key_string [simp]:
  "split_once CHR '':'' (key_type_as_str kt @ CHR '':'' # d) = Some (key_type_as_str kt, d)"
  by simp

lemma key_type_of_prefix_as_str [simp]: "key_type_of_prefix (key_type_as_str kt) = Inr kt"
  by (cases kt) (simp_all add: key_type_of_prefix_def)

lemma public_key_prefix_as_str [simp]: "public_key_prefix (key_type_as_str kt) = Inr kt"
  by (cases kt) (simp_all add: public_key_prefix_def)

lemma public_key_prefix_hash [simp]:
  "public_key_prefix ML_DSA_65_HASH_PREFIX = Inl KeyMlDsa65HashHandle"
  by (simp add: public_key_prefix_def ML_DSA_65_HASH_PREFIX_def)

lemma key_type_as_str_not_hash [simp]: "key_type_as_str kt \<noteq> ML_DSA_65_HASH_PREFIX"
  by (cases kt) (simp_all add: ML_DSA_65_HASH_PREFIX_def)

lemma hash_prefix_no_colon [simp]: "CHR '':'' \<notin> set ML_DSA_65_HASH_PREFIX"
  by (simp add: ML_DSA_65_HASH_PREFIX_def)

lemma key_type_try_from_as_u8 [simp]: "key_type_try_from (key_type_as_u8 kt) = Inr kt"
  by (cases kt) (simp_all add: key_type_try_from_def)

lemma key_type_try_from_Inr: "key_type_try_from b = Inr kt \<longleftrightarrow> b = key_type_as_u8 kt"
  by (cases kt) (auto simp: key_type_try_from_def)

lemma public_key_ok_len:
  "public_key_ok cr pk \<Longrightarrow> length (public_key_as_bytes pk) = public_key_len (public_key_type pk)"
  by (cases pk) simp_all

lemma public_key_of_data_ok:
  "public_key_ok cr pk \<Longrightarrow> public_key_of_data cr (public_key_type pk) (public_key_as_bytes pk) = Inr pk"
  by (cases pk) simp_all

lemma public_key_of_data_Inr:
  "public_key_of_data cr kt d = Inr pk \<Longrightarrow> length d = public_key_len kt \<Longrightarrow>
   public_key_ok cr pk \<and> public_key_type pk = kt \<and> public_key_as_bytes pk = d"
  by (cases kt) (auto split: if_splits)

lemma signature_of_data_inverse [simp]:
  "signature_of_data (signature_key_type sig) (signature_as_bytes sig) = sig"
  by (cases sig) simp_all

lemma signature_of_data_sel [simp]:
  "signature_key_type (signature_of_data kt d) = kt"
  "signature_as_bytes (signature_of_data kt d) = d"
  by (cases kt; simp)+

lemma de_key_type_Cons [simp]: "de_key_type bo (key_type_as_u8 kt # rest) = Inr (kt, rest)"
  by (simp add: de_key_type_def)

lemma de_key_type_InrD: "de_key_type bo bs = Inr (kt, rest) \<Longrightarrow> bs = key_type_as_u8 kt # rest"
  by (cases bs) (auto simp: de_key_type_def read_u8_def key_type_try_from_Inr)

lemma read_exact_InrD: "read_exact n bs = Inr (xs, rest) \<Longrightarrow> bs = xs @ rest \<and> length xs = n"
  by (auto simp: read_exact_def split: if_splits)

lemma de_public_key_data_ok:
  assumes "public_key_ok cr pk"
  shows "de_public_key_data cr (public_key_type pk) (public_key_as_bytes pk @ rest) = Inr (pk, rest)"
  using assms by (cases pk) (simp_all add: secp256k1_point_ok_def)

lemma de_public_key_data_InrD:
  assumes "de_public_key_data cr kt bs = Inr (pk, rest)"
  shows "public_key_ok cr pk \<and> public_key_type pk = kt \<and> bs = public_key_as_bytes pk @ rest"
  using assms
  by (cases kt)
    (auto simp: dbind_eq_Inr secp256k1_point_ok_def dest!: read_exact_InrD split: if_splits)

lemma secret_key_of_data_ok:
  "secret_key_ok cr sk \<Longrightarrow> secret_key_of_data cr (secret_key_type sk) (secret_key_as_bytes sk) = Inr sk"
  by (cases sk rule: secret_key_as_bytes.cases)
    (simp_all add: ml_dsa65_from_expanded_def key_lengths)

lemma secret_key_of_data_Inr: "secret_key_of_data cr kt d = Inr sk \<Longrightarrow> secret_key_ok cr sk"
  by (cases kt) (auto simp: ml_dsa65_from_expanded_def split: if_splits)

lemma ser_public_key_eq:
  "ser_public_key pk = Some bs \<longleftrightarrow> bs = key_type_as_u8 (public_key_type pk) # public_key_as_bytes pk"
  by (auto simp: ser_public_key_def)

lemma ser_signature_eq:
  "ser_signature sig = Some bs \<longleftrightarrow>
   bs = key_type_as_u8 (signature_key_type sig) # signature_as_bytes sig"
  by (auto simp: ser_signature_def)

section \<open>Instances of the codec contracts\<close>

sublocale wire_env < pk: wire_codec ser_public_key "de_public_key bo cr" "public_key_ok cr"
  by unfold_locales (auto simp: ser_public_key_eq de_public_key_def de_public_key_data_ok)

sublocale wire_env < sg: wire_codec ser_signature "de_signature bo" signature_ok
  by unfold_locales (auto simp: ser_signature_eq de_signature_def signature_ok_def)

interpretation hash: wire_codec ser_crypto_hash de_crypto_hash crypto_hash_ok
  by unfold_locales (auto simp: ser_crypto_hash_def de_crypto_hash_def crypto_hash_ok_def)

sublocale bs58_laws < pks: str_codec "public_key_display cr" "public_key_from_str cr" "public_key_ok cr"
  by unfold_locales
    (simp add: public_key_from_str_def public_key_display_def public_key_ok_len public_key_of_data_ok)

sublocale bs58_laws < sks: str_codec "secret_key_display cr" "secret_key_from_str cr" "secret_key_ok cr"
  by unfold_locales
    (simp add: secret_key_from_str_def secret_key_display_def secret_key_of_data_ok)

sublocale bs58_laws < sgs: str_codec "signature_display cr" "signature_from_str cr" signature_ok
  by unfold_locales (simp add: signature_from_str_def signature_display_def signature_ok_def)

sublocale bs58_laws < hashs: str_codec "crypto_hash_display cr" "crypto_hash_from_str cr" crypto_hash_ok
  by unfold_locales (simp add: crypto_hash_from_str_def crypto_hash_display_def crypto_hash_ok_def)

lemma handle_from_str_full:
  "public_key_from_str cr s = Inr pk \<Longrightarrow> handle_from_str cr s = Inr (Full pk)"
proof -
  assume h: "public_key_from_str cr s = Inr pk"
  then obtain p d where sp: "split_once CHR '':'' s = Some (p, d)"
    by (auto simp: public_key_from_str_def split: option.splits)
  have "p \<noteq> ML_DSA_65_HASH_PREFIX"
  proof
    assume "p = ML_DSA_65_HASH_PREFIX"
    with h sp show False by (simp add: public_key_from_str_def)
  qed
  with sp h show ?thesis by (simp add: handle_from_str_def)
qed

sublocale bs58_laws < handles: str_codec "handle_display cr" "handle_from_str cr" "handle_ok cr"
proof unfold_locales
  fix h
  assume ok: "handle_ok cr h"
  show "handle_from_str cr (handle_display cr h) = Inr h"
  proof (cases h)
    case (Full pk)
    with ok show ?thesis by (simp add: handle_from_str_full pks.parse_print)
  next
    case (MlDsa65Hash d)
    with ok show ?thesis by (simp add: handle_from_str_def)
  qed
qed

context bs58_laws
begin

lemmas public_key_str_rt = pks.parse_print
lemmas secret_key_str_rt = sks.parse_print
lemmas signature_str_rt = sgs.parse_print
lemmas crypto_hash_str_rt = hashs.parse_print
lemmas handle_str_rt = handles.parse_print

end

context wire_env
begin

lemmas public_key_rt = pk.round_trip
lemmas signature_rt = sg.round_trip

end

section \<open>Properties\<close>

text \<open>What the code relies on in the signature crates: a signature made with a secret key
  verifies under its public key, the outputs have their documented lengths, public keys are valid
  points, the recovery id is at most 3, and expanding a seed gives a key that decodes again.\<close>

definition ed25519_law :: "crypto_ops \<Rightarrow> bool" where
  "ed25519_law cr \<longleftrightarrow>
     (\<forall>sk m. length sk = 32 \<longrightarrow> length (ed_verifying_key cr sk) = 32 \<and>
        ed_point_ok cr (ed_verifying_key cr sk) \<and> length (ed_sign cr sk m) = 64 \<and>
        ed_verify_strict cr (ed_verifying_key cr sk) m (ed_sign cr sk m))"

definition k256_law :: "crypto_ops \<Rightarrow> bool" where
  "k256_law cr \<longleftrightarrow>
     (\<forall>sk h. k256_scalar_ok cr sk \<longrightarrow>
        (case (k256_public_key cr sk, k256_sign_prehash cr sk h) of (vk, (sig, v)) \<Rightarrow>
           length vk = 65 \<and> hd vk = 4 \<and> k256_vk_ok cr vk \<and> secp256k1_point_ok cr (tl vk) \<and>
           length sig = 64 \<and> v \<le> 3 \<and> k256_sig_ok cr sig \<and> k256_verify_prehash cr vk h sig))"

definition ml_dsa_law :: "crypto_ops \<Rightarrow> bool" where
  "ml_dsa_law cr \<longleftrightarrow>
     (\<forall>k m. length (ml_verifying_key cr k) = 1952 \<and> length (ml_sign cr k m) = 3309 \<and>
        ml_sig_ok cr (ml_sign cr k m) \<and> ml_verify cr (ml_verifying_key cr k) m (ml_sign cr k m)) \<and>
     (\<forall>s. length s = 32 \<longrightarrow> length (ml_to_expanded cr (ml_from_seed cr s)) = 4032 \<and>
        ml_from_expanded cr (ml_to_expanded cr (ml_from_seed cr s)) = Some (ml_from_seed cr s))"

definition signature_laws :: "crypto_ops \<Rightarrow> bool" where
  "signature_laws cr \<longleftrightarrow> ed25519_law cr \<and> k256_law cr \<and> ml_dsa_law cr"

lemma signature_laws_ref: "signature_laws crypto_ref"
  by (auto simp: signature_laws_def ed25519_law_def k256_law_def ml_dsa_law_def crypto_ref_def
      secp256k1_point_ok_def)

lemma ml_signing_key_ok:
  "secret_key_ok cr (SecretKey_MlDsa65 sk) \<Longrightarrow> \<exists>k. ml_dsa65_signing_key cr sk = Done k"
  by (cases sk) auto

text \<open>C27: Reading a public key off the wire succeeds exactly on the serialization of a
  well-formed key (right length, valid curve point), followed by any bytes, which are left
  unread; so the wire form round-trips, is canonical, and never yields an invalid key.\<close>

theorem public_key_wire_exact:
  "de_public_key bo cr bs = Inr (pk, rest) \<longleftrightarrow>
     public_key_ok cr pk \<and> (\<exists>b. ser_public_key pk = Some b \<and> bs = b @ rest)"
proof
  assume "de_public_key bo cr bs = Inr (pk, rest)"
  then obtain kt r where "de_key_type bo bs = Inr (kt, r)" "de_public_key_data cr kt r = Inr (pk, rest)"
    by (auto simp: de_public_key_def dbind_eq_Inr)
  then show "public_key_ok cr pk \<and> (\<exists>b. ser_public_key pk = Some b \<and> bs = b @ rest)"
    using de_key_type_InrD de_public_key_data_InrD by (fastforce simp: ser_public_key_eq)
next
  assume "public_key_ok cr pk \<and> (\<exists>b. ser_public_key pk = Some b \<and> bs = b @ rest)"
  then show "de_public_key bo cr bs = Inr (pk, rest)"
    by (auto simp: ser_public_key_eq de_public_key_def de_public_key_data_ok)
qed

text \<open>The string form of a well-formed public key parses back to it, and whatever
  parses is well-formed.\<close>

theorem public_key_str_round_trip:
  assumes "bs58_laws cr"
  shows "(public_key_ok cr pk \<longrightarrow> public_key_from_str cr (public_key_display cr pk) = Inr pk) \<and>
         (public_key_from_str cr s = Inr pk' \<longrightarrow> public_key_ok cr pk')"
proof -
  have "public_key_ok cr pk'" if "public_key_from_str cr s = Inr pk'"
    using that by (auto simp: public_key_from_str_def dest: public_key_of_data_Inr
        split: option.splits if_splits)
  then show ?thesis using bs58_laws.public_key_str_rt[OF assms] by blast
qed

theorem public_key_str_round_trip_witness:
  "public_key_from_str crypto_ref (public_key_display crypto_ref (PublicKey_Ed25519 (replicate 32 7)))
     = Inr (PublicKey_Ed25519 (replicate 32 7))"
proof -
  have "public_key_ok crypto_ref (PublicKey_Ed25519 (replicate 32 7))" by (simp add: crypto_ref_def)
  then show ?thesis using public_key_str_round_trip[OF ref58.bs58_laws_axioms] by blast
qed

text \<open>The string form of an ML-DSA-65 hash handle parses back as a handle but is
  rejected as a public key with the pointed error; handles of full keys round-trip too.\<close>

theorem handle_str_forms:
  assumes "bs58_laws cr" "handle_ok cr h"
  shows "handle_from_str cr (handle_display cr h) = Inr h \<and>
         (is_ml_dsa65_hash h \<longrightarrow> public_key_from_str cr (handle_display cr h) = Inl KeyMlDsa65HashHandle)"
proof -
  have "public_key_from_str cr (handle_display cr h) = Inl KeyMlDsa65HashHandle"
    if "is_ml_dsa65_hash h"
    using that by (cases h) (simp_all add: public_key_from_str_def)
  then show ?thesis using bs58_laws.handle_str_rt[OF assms] by blast
qed

theorem handle_str_forms_witness:
  "handle_from_str crypto_ref (handle_display crypto_ref (MlDsa65Hash (replicate 32 9)))
     = Inr (MlDsa65Hash (replicate 32 9))
   \<and> public_key_from_str crypto_ref (handle_display crypto_ref (MlDsa65Hash (replicate 32 9)))
     = Inl KeyMlDsa65HashHandle"
  using handle_str_forms[OF ref58.bs58_laws_axioms, of "MlDsa65Hash (replicate 32 9)"]
  by (simp add: ML_DSA_65_HASH_LENGTH_def)

text \<open>The string form of a well-formed secret key of each kind (an ML-DSA-65 key in
  either of its two forms) parses back to it; a 64-byte expanded ed25519 key is accepted
  and only its 32-byte seed kept; whatever parses is well-formed.\<close>

theorem secret_key_str_round_trip:
  assumes "bs58_laws cr"
  shows "(secret_key_ok cr sk \<longrightarrow> secret_key_from_str cr (secret_key_display cr sk) = Inr sk) \<and>
         (length a = 32 \<and> length b = 32 \<longrightarrow>
            secret_key_from_str cr (''ed25519:'' @ bs58_encode cr (a @ b)) = Inr (SecretKey_Ed25519 a)) \<and>
         (secret_key_from_str cr s = Inr sk' \<longrightarrow> secret_key_ok cr sk')"
proof -
  have "secret_key_ok cr sk'" if "secret_key_from_str cr s = Inr sk'"
    using that by (auto simp: secret_key_from_str_def dest: secret_key_of_data_Inr
        split: option.splits)
  moreover have "secret_key_from_str cr (''ed25519:'' @ bs58_encode cr (a @ b)) = Inr (SecretKey_Ed25519 a)"
    if "length a = 32 \<and> length b = 32"
  proof -
    have "bs58_decode cr (bs58_encode cr (a @ b)) = Inr (a @ b)"
      by (rule bs58_laws.bs58_rt[OF assms])
    then show ?thesis
      using that split_key_string[of KeyType_Ed25519 "bs58_encode cr (a @ b)"]
        key_type_of_prefix_as_str[of KeyType_Ed25519]
      by (simp add: secret_key_from_str_def)
  qed
  ultimately show ?thesis using bs58_laws.secret_key_str_rt[OF assms] by blast
qed

theorem secret_key_str_round_trip_witness:
  "secret_key_from_str crypto_ref (secret_key_display crypto_ref (SecretKey_MlDsa65 (Seed (replicate 32 1))))
     = Inr (SecretKey_MlDsa65 (Seed (replicate 32 1)))"
proof -
  have "secret_key_ok crypto_ref (SecretKey_MlDsa65 (Seed (replicate 32 1)))"
    by (simp add: ML_DSA_65_SEED_LENGTH_def)
  then show ?thesis using secret_key_str_round_trip[OF ref58.bs58_laws_axioms] by blast
qed

lemma signing_verifies:
  assumes "signature_laws cr" "secret_key_ok cr sk"
  shows "\<exists>pk sig. secret_public_key cr sk = Done pk \<and> secret_sign cr sk m = Done sig \<and>
           public_key_ok cr pk \<and> signature_ok sig \<and> signature_verify cr sig m pk \<and>
           public_key_type pk = secret_key_type sk \<and> signature_key_type sig = secret_key_type sk \<and>
           (\<forall>sk'. to_ml_dsa65_expanded cr sk = Done (Some sk') \<longrightarrow> secret_key_ok cr sk' \<and>
              secret_public_key cr sk' = Done pk \<and> secret_sign cr sk' m = Done sig)"
proof (cases sk)
  case (SecretKey_Ed25519 b)
  then show ?thesis using assms
    by (simp add: signature_laws_def ed25519_law_def signature_ok_def to_ml_dsa65_expanded_def)
next
  case (SecretKey_Secp256k1 b)
  obtain sg v where sv: "k256_sign_prehash cr b (sha256 cr m) = (sg, v)" by fastforce
  have sc: "k256_scalar_ok cr b" using assms(2) SecretKey_Secp256k1 by simp
  have "k256_law cr" using assms(1) by (simp add: signature_laws_def)
  note this[unfolded k256_law_def, rule_format, OF sc, of "sha256 cr m"]
  then obtain p where "k256_public_key cr b = 4 # p" "length p = 64" "k256_vk_ok cr (4 # p)"
    "secp256k1_point_ok cr p" "length sg = 64" "v \<le> 3" "k256_sig_ok cr sg"
    "k256_verify_prehash cr (4 # p) (sha256 cr m) sg"
    using sv by (cases "k256_public_key cr b") auto
  then show ?thesis using sc SecretKey_Secp256k1 sv
    by (simp add: signature_ok_def to_ml_dsa65_expanded_def nth_append)
next
  case (SecretKey_MlDsa65 ms)
  then obtain k where k: "ml_dsa65_signing_key cr ms = Done k" using ml_signing_key_ok assms by blast
  have ml: "length (ml_verifying_key cr k) = 1952" "length (ml_sign cr k m) = 3309"
    "ml_sig_ok cr (ml_sign cr k m)" "ml_verify cr (ml_verifying_key cr k) m (ml_sign cr k m)"
    using assms(1) by (simp_all add: signature_laws_def ml_dsa_law_def)
  have same: "secret_key_ok cr (SecretKey_MlDsa65 (Expanded e)) \<and> ml_dsa65_signing_key cr (Expanded e) = Done k"
    if "to_ml_dsa65_expanded_bytes cr sk = Done (Some e)" for e
  proof (cases ms)
    case (Seed s)
    then have "length s = 32" "e = ml_to_expanded cr k" "k = ml_from_seed cr s"
      using that k assms(2) SecretKey_MlDsa65 by (simp_all add: key_lengths)
    then show ?thesis using assms(1) by (simp add: signature_laws_def ml_dsa_law_def key_lengths)
  next
    case (Expanded x)
    then show ?thesis using that k assms(2) SecretKey_MlDsa65 by simp
  qed
  show ?thesis using SecretKey_MlDsa65 k same ml
    by (auto simp: signature_ok_def to_ml_dsa65_expanded_def key_lengths)
qed

text \<open>For every well-formed secret key, deriving the public key and signing do not
  panic, the public key and the signature are well-formed and of the same type, and the
  signature verifies; the expanded form of an ML-DSA-65 seed has the same public key and
  the same signatures as the seed.\<close>

theorem sign_then_verify:
  assumes "signature_laws cr" "secret_key_ok cr sk"
  shows "\<exists>pk sig. secret_public_key cr sk = Done pk \<and> secret_sign cr sk m = Done sig \<and>
           public_key_ok cr pk \<and> signature_ok sig \<and> signature_verify cr sig m pk \<and>
           public_key_type pk = secret_key_type sk \<and> signature_key_type sig = secret_key_type sk \<and>
           (\<forall>sk'. to_ml_dsa65_expanded cr sk = Done (Some sk') \<longrightarrow> secret_key_ok cr sk' \<and>
              secret_public_key cr sk' = Done pk \<and> secret_sign cr sk' m = Done sig)"
  by (rule signing_verifies[OF assms])

theorem sign_then_verify_witness:
  "\<exists>pk sig. secret_public_key crypto_ref (SecretKey_Ed25519 (replicate 32 5)) = Done pk \<and>
     secret_sign crypto_ref (SecretKey_Ed25519 (replicate 32 5)) [1, 2] = Done sig \<and>
     signature_verify crypto_ref sig [1, 2] pk"
proof -
  have "secret_key_ok crypto_ref (SecretKey_Ed25519 (replicate 32 5))" by simp
  from sign_then_verify[OF signature_laws_ref this, of "[1, 2]"] show ?thesis by blast
qed

end
