(* ===== verification/Units.thy ===== *)
theory Units
  imports Rust_Str
begin

text \<open>
  Amount and gas parsing (\<open>types/units.rs\<close>). \<open>NearToken\<close> and \<open>Gas\<close> are the newtypes of the
  crates \<open>near-token\<close> and \<open>near-gas\<close> around a number of yoctoNEAR and of gas; here they are
  that number. Slicing the fraction at byte 24 can panic, so the parsers of amounts have
  a result of type \<open>run\<close>.
\<close>

section \<open>The model\<close>

type_synonym near_token = u128
type_synonym gas = u64

datatype parse_amount_error =
    AmbiguousAmount string
  | AmountInvalidFormat string
  | AmountInvalidNumber string
  | AmountOverflow

datatype parse_gas_error =
    GasInvalidFormat string
  | GasInvalidNumber string
  | GasOverflow

definition YOCTO_PER_NEAR :: u128 where "YOCTO_PER_NEAR = 1000000000000000000000000"
definition YOCTO_PER_MILLINEAR :: u128 where "YOCTO_PER_MILLINEAR = 1000000000000000000000"
definition GAS_PER_TGAS :: u64 where "GAS_PER_TGAS = 1000000000000"
definition GAS_PER_GGAS :: u64 where "GAS_PER_GGAS = 1000000000"

definition near_decimal_fraction ::
  "bool \<Rightarrow> str \<Rightarrow> u128 \<Rightarrow> str \<Rightarrow> (parse_amount_error + near_token) run" where
  "near_decimal_fraction oc s integer decimal_str =
     try_run (Done (if decimal_str = [] then Inr 0
                    else ok_or (AmountInvalidNumber s) (parse_uint decimal_str))) (\<lambda>decimal.
     run_bind (arith_pow oc 10 (24 - length decimal_str)) (\<lambda>scale.
     run_bind (arith_mul oc decimal scale) (\<lambda>decimal_yocto.
       Done (ok_or AmountOverflow
         (Option.bind (checked_mul integer YOCTO_PER_NEAR) (\<lambda>v. checked_add v decimal_yocto))))))"

definition parse_near_decimal :: "bool \<Rightarrow> str \<Rightarrow> (parse_amount_error + near_token) run" where
  "parse_near_decimal oc s0 =
     (let s = trim s0
      in case find_char CHR ''.'' s of
           Some dot_pos \<Rightarrow>
             let integer_part = take dot_pos s; decimal_part = drop (Suc dot_pos) s
             in try_run (Done (if integer_part = [] then Inr 0
                               else ok_or (AmountInvalidNumber s) (parse_uint integer_part))) (\<lambda>integer.
                run_bind (if 24 < length decimal_part then slice_to decimal_part 24
                          else Done decimal_part) (\<lambda>decimal_str.
                  near_decimal_fraction oc s integer decimal_str))
         | None \<Rightarrow>
             Done (rbind (ok_or (AmountInvalidNumber s) (parse_uint s)) (\<lambda>near.
               ok_or AmountOverflow (checked_mul near YOCTO_PER_NEAR))))"

text \<open>\<open>strip_suffix(a).or_else(|| strip_suffix(b)) ...\<close>\<close>

fun strip_suffixes :: "str list \<Rightarrow> str \<Rightarrow> str option" where
  "strip_suffixes [] s = None"
| "strip_suffixes (p # ps) s =
     (case strip_suffix p s of Some v \<Rightarrow> Some v | None \<Rightarrow> strip_suffixes ps s)"

definition parse_near_token :: "bool \<Rightarrow> str \<Rightarrow> (parse_amount_error + near_token) run" where
  "parse_near_token oc s0 =
     (let s = trim s0
      in case strip_suffixes ['' NEAR'', '' near''] s of
           Some value \<Rightarrow> parse_near_decimal oc (trim value)
         | None \<Rightarrow>
      (case strip_suffixes ['' milliNEAR'', '' mNEAR''] s of
           Some value \<Rightarrow>
             Done (rbind (ok_or (AmountInvalidNumber s) (parse_uint (trim value))) (\<lambda>v.
               ok_or AmountOverflow (checked_mul v YOCTO_PER_MILLINEAR)))
         | None \<Rightarrow>
      (case strip_suffixes ['' yoctoNEAR'', '' yocto''] s of
           Some value \<Rightarrow> Done (ok_or (AmountInvalidNumber s) (parse_uint (trim value)))
         | None \<Rightarrow>
             if list_all (\<lambda>c. is_ascii_digit c \<or> c = CHR ''.'') s then Done (Inl (AmbiguousAmount s))
             else Done (Inl (AmountInvalidFormat s)))))"

definition parse_gas :: "str \<Rightarrow> parse_gas_error + gas" where
  "parse_gas s0 =
     (let s = trim s0
      in case strip_suffixes ['' Tgas'', '' tgas'', '' TGas''] s of
           Some value \<Rightarrow>
             rbind (ok_or (GasInvalidNumber s) (parse_uint (trim value))) (\<lambda>v.
               ok_or GasOverflow (checked_mul v GAS_PER_TGAS))
         | None \<Rightarrow>
      (case strip_suffixes ['' Ggas'', '' ggas'', '' GGas''] s of
           Some value \<Rightarrow>
             rbind (ok_or (GasInvalidNumber s) (parse_uint (trim value))) (\<lambda>v.
               ok_or GasOverflow (checked_mul v GAS_PER_GGAS))
         | None \<Rightarrow>
      (case strip_suffix '' gas'' s of
           Some value \<Rightarrow> ok_or (GasInvalidNumber s) (parse_uint (trim value))
         | None \<Rightarrow> Inl (GasInvalidFormat s))))"

text \<open>The conversion traits: a typed amount is itself, a string is parsed.\<close>

datatype near_token_arg = TokenArg near_token | TokenStr string
datatype gas_arg = GasArg gas | GasStr string

fun into_near_token :: "bool \<Rightarrow> near_token_arg \<Rightarrow> (parse_amount_error + near_token) run" where
  "into_near_token oc (TokenArg t) = Done (Inr t)"
| "into_near_token oc (TokenStr s) = parse_near_token oc s"

fun into_gas :: "gas_arg \<Rightarrow> parse_gas_error + gas" where
  "into_gas (GasArg g) = Inr g"
| "into_gas (GasStr s) = parse_gas s"

section \<open>Specification\<close>

text \<open>The value of a decimal numeral in units of 10 to the minus \<open>k\<close>.\<close>

definition decimal_value :: "nat \<Rightarrow> str \<Rightarrow> str \<Rightarrow> nat" where
  "decimal_value k i f = dec_value i * 10 ^ k + dec_value f * 10 ^ (k - length f)"

text \<open>The outcome for an integer part \<open>i\<close>, an exact value \<open>v\<close> and a whole number of units.\<close>

definition exact_result :: "'e \<Rightarrow> 'e \<Rightarrow> nat \<Rightarrow> nat \<Rightarrow> 'e + 'a::len word" where
  "exact_result bad ovf i v =
     (if 2 ^ LENGTH('a) \<le> i then Inl bad else if 2 ^ LENGTH('a) \<le> v then Inl ovf else Inr (of_nat v))"

section \<open>Lemmas\<close>

lemma unat_YOCTO [simp]: "unat YOCTO_PER_NEAR = 10 ^ 24"
  by (simp add: YOCTO_PER_NEAR_def)

lemma unat_MILLI [simp]: "unat YOCTO_PER_MILLINEAR = 10 ^ 21"
  by (simp add: YOCTO_PER_MILLINEAR_def)

lemma unat_TGAS [simp]: "unat GAS_PER_TGAS = 10 ^ 12"
  by (simp add: GAS_PER_TGAS_def)

lemma unat_GGAS [simp]: "unat GAS_PER_GGAS = 10 ^ 9"
  by (simp add: GAS_PER_GGAS_def)

text \<open>The numeral parser and the scaling that follows it, on exact values.\<close>

lemma parse_uint_digits_eq:
  "digits s \<Longrightarrow> s \<noteq> [] \<Longrightarrow>
   parse_uint s = (if dec_value s < 2 ^ LENGTH('a) then Some (of_nat (dec_value s) :: 'a::len word) else None)"
  by (simp add: parse_uint_def)

lemma checked_mul_of_nat:
  fixes u :: "'a::len word"
  assumes "n < 2 ^ LENGTH('a)"
  shows "checked_mul (of_nat n) u = (if n * unat u < 2 ^ LENGTH('a) then Some (of_nat (n * unat u)) else None)"
  using assms by (simp add: checked_mul_def unat_of_nat_small)

lemma checked_add_of_nat:
  assumes "a < 2 ^ LENGTH('a)" "b < 2 ^ LENGTH('a)"
  shows "checked_add (of_nat a) (of_nat b :: 'a::len word) =
     (if a + b < 2 ^ LENGTH('a) then Some (of_nat (a + b)) else None)"
  using assms by (simp add: checked_add_def unat_of_nat_small)

lemma mul_add_exact:
  fixes u :: "'a::len word"
  assumes "a < 2 ^ LENGTH('a)" "b < 2 ^ LENGTH('a)"
  shows "rbind (ok_or ovf (checked_mul (of_nat a) u)) (\<lambda>v. ok_or ovf (checked_add v (of_nat b))) =
     (if a * unat u + b < 2 ^ LENGTH('a) then Inr (of_nat (a * unat u + b)) else Inl ovf)"
  using assms by (simp add: checked_mul_of_nat checked_add_of_nat del: of_nat_mult of_nat_add)

lemma parse_then_scale:
  fixes u :: "'a::len word"
  assumes "digits s" "s \<noteq> []" "0 < unat u"
  shows "rbind (ok_or bad (parse_uint s)) (\<lambda>v. ok_or ovf (checked_mul v u)) =
     exact_result bad ovf (dec_value s) (dec_value s * unat u)"
  using assms by (simp add: parse_uint_digits_eq checked_mul_of_nat exact_result_def)

text \<open>The scaled fraction stays below one NEAR, so the plain multiplication cannot overflow.\<close>

lemma parse_nat_bound: "parse_nat s = Some n \<Longrightarrow> n < 10 ^ length s"
proof -
  assume "parse_nat s = Some n"
  then obtain d where d: "digits d" "n = dec_value d" "length d \<le> length s"
    by (auto simp: parse_nat_Some)
  have "dec_value d < 10 ^ length d" by (rule dec_value_lt[OF d(1)])
  also have "\<dots> \<le> 10 ^ length s" using d(3) by (rule power_increasing) simp
  finally show ?thesis using d(2) by simp
qed

lemma scale_no_overflow:
  assumes "length f \<le> 24" "n < 10 ^ length f"
  shows "n * 10 ^ (24 - length f) < (10::nat) ^ 24"
proof -
  have "n * 10 ^ (24 - length f) < 10 ^ length f * 10 ^ (24 - length f)"
    using assms(2) by simp
  also have "\<dots> = (10::nat) ^ 24" using assms(1) by (simp flip: power_add)
  finally show ?thesis .
qed

lemma pow10_nowrap: "k \<le> 38 \<Longrightarrow> arith_pow oc (10::u128) k = Done (10 ^ k) \<and> unat ((10::u128) ^ k) = 10 ^ k"
proof -
  assume "k \<le> 38"
  then have "(10::nat) ^ k \<le> 10 ^ 38" by (rule power_increasing) simp
  also have "(10::nat) ^ 38 < 2 ^ 128" by simp
  finally have lt: "(10::nat) ^ k < 2 ^ 128" .
  then have "unat (10::u128) ^ k < 2 ^ LENGTH(128)" by simp
  from unat_pow_nowrap[OF this] lt show ?thesis by (simp add: arith_pow_def)
qed

lemma near_decimal_fraction_eq:
  assumes "length f \<le> 24"
  shows "near_decimal_fraction oc s integer f =
     (if f \<noteq> [] \<and> parse_nat f = None then Done (Inl (AmountInvalidNumber s))
      else let v = unat integer * 10 ^ 24 + (if f = [] then 0 else the (parse_nat f)) * 10 ^ (24 - length f)
           in if v < 2 ^ 128 then Done (Inr (of_nat v)) else Done (Inl AmountOverflow))"
proof (cases "f \<noteq> [] \<and> parse_nat f = None")
  case True
  then show ?thesis by (simp add: near_decimal_fraction_def parse_uint_def)
next
  case False
  define n where "n = (if f = [] then 0 else the (parse_nat f))"
  have n: "n < 10 ^ length f"
    using False parse_nat_bound[of f n] by (auto simp: n_def)
  have "(10::nat) ^ length f \<le> 10 ^ 24" using assms by (intro power_increasing) simp_all
  then have n128: "n < 2 ^ 128" using n by simp
  have "(if f = [] then Inr 0 else ok_or (AmountInvalidNumber s) (parse_uint f)) = Inr (of_nat n :: u128)"
  proof (cases "f = []")
    case False
    then obtain m where "parse_nat f = Some m" using \<open>\<not> (f \<noteq> [] \<and> parse_nat f = None)\<close> by auto
    then show ?thesis using False n128 by (simp add: n_def parse_uint_def)
  qed (simp add: n_def)
  moreover have un: "unat (of_nat n :: u128) = n" using n128 by (simp add: unat_of_nat_small)
  moreover have pw: "arith_pow oc (10::u128) (24 - length f) = Done (10 ^ (24 - length f))"
      "unat ((10::u128) ^ (24 - length f)) = 10 ^ (24 - length f)"
    using pow10_nowrap[of "24 - length f" oc] by simp_all
  moreover have small: "n * 10 ^ (24 - length f) < 2 ^ 128"
    using scale_no_overflow[OF assms n] by simp
  ultimately have run: "near_decimal_fraction oc s integer f =
      Done (ok_or AmountOverflow (Option.bind (checked_mul integer YOCTO_PER_NEAR)
        (\<lambda>v. checked_add v (of_nat n * 10 ^ (24 - length f)))))"
    by (simp add: near_decimal_fraction_def arith_mul_def)
  have "unat (of_nat n * 10 ^ (24 - length f) :: u128) = n * 10 ^ (24 - length f)"
    using un pw(2) small by (simp add: unat_mul_nowrap)
  then have val: "Option.bind (checked_mul integer YOCTO_PER_NEAR) (\<lambda>v. checked_add v (of_nat n * 10 ^ (24 - length f)))
      = (if unat integer * 10 ^ 24 + n * 10 ^ (24 - length f) < 2 ^ 128
         then Some (of_nat (unat integer * 10 ^ 24 + n * 10 ^ (24 - length f))) else None)"
    by (auto simp: checked_mul_def checked_add_def unat_mul_nowrap YOCTO_PER_NEAR_def)
  show ?thesis using False unfolding run val n_def[symmetric] Let_def by auto
qed

text \<open>Suffixes of a string whose end is known.\<close>

lemma strip_suffix_mismatch:
  "n < length p \<Longrightarrow> n < length q \<Longrightarrow> rev p ! n \<noteq> rev q ! n \<Longrightarrow> strip_suffix p (s @ q) = None"
proof (rule ccontr)
  assume n: "n < length p" "n < length q" and ne: "rev p ! n \<noteq> rev q ! n"
  assume "strip_suffix p (s @ q) \<noteq> None"
  then obtain t where "s @ q = t @ p" by (auto dest: strip_suffix_SomeD)
  then have "rev q @ rev s = rev p @ rev t" by (metis rev_append)
  then have "(rev q @ rev s) ! n = (rev p @ rev t) ! n" by simp
  with n ne show False by (simp add: nth_append)
qed

text \<open>The names of the units.\<close>

definition near_units :: "str set" where "near_units = {'' NEAR'', '' near''}"
definition milli_units :: "str set" where "milli_units = {'' milliNEAR'', '' mNEAR''}"
definition yocto_units :: "str set" where "yocto_units = {'' yoctoNEAR'', '' yocto''}"

lemma near_suffix: "u \<in> near_units \<Longrightarrow> strip_suffixes ['' NEAR'', '' near''] (s @ u) = Some s"
  using strip_suffix_append[of "'' NEAR''" s] strip_suffix_append[of "'' near''" s]
    strip_suffix_mismatch[of 0 "'' NEAR''" "'' near''" s]
  by (auto simp: near_units_def)

lemma milli_suffix:
  assumes "u \<in> milli_units"
  shows "strip_suffixes ['' NEAR'', '' near''] (s @ u) = None"
    and "strip_suffixes ['' milliNEAR'', '' mNEAR''] (s @ u) = Some s"
  using assms strip_suffix_append[of "'' mNEAR''" s] strip_suffix_append[of "'' milliNEAR''" s]
    strip_suffix_mismatch[of 4 "'' NEAR''" "'' mNEAR''" s]
    strip_suffix_mismatch[of 0 "'' near''" "'' mNEAR''" s]
    strip_suffix_mismatch[of 4 "'' milliNEAR''" "'' mNEAR''" s]
    strip_suffix_mismatch[of 4 "'' NEAR''" "'' milliNEAR''" s]
    strip_suffix_mismatch[of 0 "'' near''" "'' milliNEAR''" s]
  by (auto simp: milli_units_def)

lemma yocto_suffix:
  assumes "u \<in> yocto_units"
  shows "strip_suffixes ['' NEAR'', '' near''] (s @ u) = None"
    and "strip_suffixes ['' milliNEAR'', '' mNEAR''] (s @ u) = None"
    and "strip_suffixes ['' yoctoNEAR'', '' yocto''] (s @ u) = Some s"
  using assms strip_suffix_append[of "'' yocto''" s] strip_suffix_append[of "'' yoctoNEAR''" s]
    strip_suffix_mismatch[of 0 "'' NEAR''" "'' yocto''" s]
    strip_suffix_mismatch[of 0 "'' near''" "'' yocto''" s]
    strip_suffix_mismatch[of 0 "'' milliNEAR''" "'' yocto''" s]
    strip_suffix_mismatch[of 0 "'' mNEAR''" "'' yocto''" s]
    strip_suffix_mismatch[of 0 "'' yoctoNEAR''" "'' yocto''" s]
    strip_suffix_mismatch[of 4 "'' NEAR''" "'' yoctoNEAR''" s]
    strip_suffix_mismatch[of 0 "'' near''" "'' yoctoNEAR''" s]
    strip_suffix_mismatch[of 4 "'' milliNEAR''" "'' yoctoNEAR''" s]
    strip_suffix_mismatch[of 4 "'' mNEAR''" "'' yoctoNEAR''" s]
  by (auto simp: yocto_units_def)

lemma gas_suffix:
  "strip_suffixes ['' Tgas'', '' tgas'', '' TGas''] (s @ '' Tgas'') = Some s"
  "strip_suffixes ['' Tgas'', '' tgas'', '' TGas''] (s @ '' Ggas'') = None"
  "strip_suffixes ['' Ggas'', '' ggas'', '' GGas''] (s @ '' Ggas'') = Some s"
  "strip_suffixes ['' Tgas'', '' tgas'', '' TGas''] (s @ '' gas'') = None"
  "strip_suffixes ['' Ggas'', '' ggas'', '' GGas''] (s @ '' gas'') = None"
  using strip_suffix_append[of "'' Tgas''" s] strip_suffix_append[of "'' Ggas''" s]
    strip_suffix_mismatch[of 3 "'' Tgas''" "'' Ggas''" s]
    strip_suffix_mismatch[of 3 "'' tgas''" "'' Ggas''" s]
    strip_suffix_mismatch[of 2 "'' TGas''" "'' Ggas''" s]
    strip_suffix_mismatch[of 3 "'' Tgas''" "'' gas''" s]
    strip_suffix_mismatch[of 3 "'' tgas''" "'' gas''" s]
    strip_suffix_mismatch[of 3 "'' TGas''" "'' gas''" s]
    strip_suffix_mismatch[of 3 "'' Ggas''" "'' gas''" s]
    strip_suffix_mismatch[of 3 "'' ggas''" "'' gas''" s]
    strip_suffix_mismatch[of 3 "'' GGas''" "'' gas''" s]
  by simp_all

lemma plain_dot [simp]: "plain_byte CHR ''.''"
  by (simp add: plain_byte_def char_code_def)

lemma plain_letters [simp]: "plain_byte CHR ''R''" "plain_byte CHR ''r''" "plain_byte CHR ''o''" "plain_byte CHR ''s''"
  by (simp_all add: plain_byte_def char_code_def)

lemma trim_unit:
  assumes "s \<noteq> []" "plain_byte (hd s)" "u \<noteq> []" "plain_byte (last u)"
  shows "trim (s @ u) = s @ u"
  using assms by (intro trim_plain) simp_all

lemma trim_numeral:
  assumes "digits i" "digits f" "i \<noteq> [] \<or> f \<noteq> []"
  shows "trim (i @ ''.'' @ f) = i @ ''.'' @ f"
  using assms by (intro trim_plain) (cases i; auto simp: list_all_iff)+

lemma digits_hd_plain: "digits i \<Longrightarrow> i \<noteq> [] \<Longrightarrow> plain_byte (hd i)"
  by (cases i) auto

lemma trim_amount:
  assumes "s \<noteq> []" "plain_byte (hd s)" "u \<in> near_units \<union> milli_units \<union> yocto_units"
  shows "trim (s @ u) = s @ u"
  using assms by (intro trim_unit) (auto simp: near_units_def milli_units_def yocto_units_def)

lemma parse_near_unit:
  assumes "u \<in> near_units" "s \<noteq> []" "plain_byte (hd s)" "trim s = s"
  shows "parse_near_token oc (s @ u) = parse_near_decimal oc s"
  unfolding parse_near_token_def trim_amount[OF assms(2,3) UnI1[OF UnI1[OF assms(1)]]] near_suffix[OF assms(1)] Let_def option.case assms(4) ..

text \<open>A decimal with the integer part \<open>i\<close> and anything after the point.\<close>

lemma parse_near_decimal_parts:
  assumes "digits i" "trim (i @ ''.'' @ d) = i @ ''.'' @ d"
  shows "parse_near_decimal oc (i @ ''.'' @ d) =
    try_run (Done (if dec_value i < 2 ^ 128 then Inr (of_nat (dec_value i)) else Inl (AmountInvalidNumber (i @ ''.'' @ d))))
      (\<lambda>n. run_bind (if 24 < length d then slice_to d 24 else Done d) (near_decimal_fraction oc (i @ ''.'' @ d) n))"
proof -
  let ?s = "i @ ''.'' @ d"
  have ni: "CHR ''.'' \<notin> set i" using assms(1) digit_not_dot by (auto simp: list_all_iff)
  have find: "find_char CHR ''.'' ?s = Some (length i)" using find_char_append[OF ni] by simp
  have pi: "(if i = [] then Inr 0 else ok_or (AmountInvalidNumber ?s) (parse_uint i)) =
      (if dec_value i < 2 ^ 128 then Inr (of_nat (dec_value i) :: u128) else Inl (AmountInvalidNumber ?s))"
    using assms(1) by (cases "i = []") (simp_all add: parse_uint_digits_eq)
  have parts: "take (length i) ?s = i" "drop (Suc (length i)) ?s = d" by simp_all
  show ?thesis unfolding parse_near_decimal_def assms(2) find Let_def option.case parts pi ..
qed

lemma near_decimal_fraction_value:
  assumes "length d \<le> 24" "(if d = [] then Some 0 else parse_nat d) = Some v" "dec_value i < 2 ^ 128"
  shows "near_decimal_fraction oc s (of_nat (dec_value i)) d =
    Done (if dec_value i * 10 ^ 24 + v * 10 ^ (24 - length d) < 2 ^ 128
      then Inr (of_nat (dec_value i * 10 ^ 24 + v * 10 ^ (24 - length d))) else Inl AmountOverflow)"
  using assms unfolding near_decimal_fraction_eq[OF assms(1)]
  by (cases "d = []") (simp_all add: unat_of_nat_small Let_def)

text \<open>What follows the 24th digit of a fraction is cut off.\<close>

lemma parse_near_decimal_numeral:
  assumes "digits i" "digits f" "i \<noteq> [] \<or> f \<noteq> []"
  shows "parse_near_decimal oc (i @ ''.'' @ f) =
     Done (exact_result (AmountInvalidNumber (i @ ''.'' @ f)) AmountOverflow (dec_value i) (decimal_value 24 i (take 24 f)))"
proof -
  have "\<not> is_cont (f ! n)" if "n < length f" for n
    using assms(2) that by (auto simp: list_all_length is_cont_def is_ascii_digit_def dest!: spec[of _ n])
  then have cut: "(if 24 < length f then slice_to f 24 else Done f) = Done (take 24 f)"
    by (simp add: slice_to_def is_char_boundary_def)
  have d: "digits (take 24 f)" using assms(2) by (auto simp: list_all_iff dest: in_set_takeD)
  then have "(if take 24 f = [] then Some 0 else parse_nat (take 24 f)) = Some (dec_value (take 24 f))"
    by (cases "take 24 f = []") simp_all
  from near_decimal_fraction_value[OF _ this, of i oc] show ?thesis
    unfolding parse_near_decimal_parts[OF assms(1) trim_numeral[OF assms]] cut
    by (simp add: exact_result_def decimal_value_def)
qed

lemma parse_near_decimal_whole:
  assumes "digits i" "i \<noteq> []"
  shows "parse_near_decimal oc i =
     Done (exact_result (AmountInvalidNumber i) AmountOverflow (dec_value i) (dec_value i * 10 ^ 24))"
proof -
  have "CHR ''.'' \<notin> set i" using assms(1) digit_not_dot by (auto simp: list_all_iff)
  then show ?thesis
    using parse_then_scale[OF assms, of YOCTO_PER_NEAR "AmountInvalidNumber i" AmountOverflow] assms
    by (simp add: parse_near_decimal_def find_char_None)
qed

text \<open>What trimming and suffix removal keep.\<close>

lemma set_trim_by: "set (trim_by ps s) \<subseteq> set s"
  by (induction ps s rule: trim_by.induct) (auto simp: Let_def split: if_splits dest: in_set_dropD)

lemma set_trim: "set (trim s) \<subseteq> set s"
  using set_trim_by[of ws_codes s] set_trim_by[of "map rev ws_codes" "rev (trim_by ws_codes s)"]
  by (auto simp: trim_def trim_start_def trim_end_def)

lemma set_strip_suffixes: "strip_suffixes ps s = Some v \<Longrightarrow> set v \<subseteq> set s"
  by (induction ps) (auto split: option.splits dest: strip_suffix_SomeD)

definition ascii :: "str \<Rightarrow> bool" where
  "ascii s \<longleftrightarrow> list_all (\<lambda>c. char_code c < 128) s"

lemma ascii_mono: "ascii s \<Longrightarrow> set t \<subseteq> set s \<Longrightarrow> ascii t"
  by (auto simp: ascii_def list_all_iff)

lemma ascii_slice: "ascii s \<Longrightarrow> n \<le> length s \<Longrightarrow> slice_to s n = Done (take n s)"
proof -
  assume "ascii s" "n \<le> length s"
  moreover have "\<not> is_cont (s ! n)" if "n < length s"
    using \<open>ascii s\<close> that by (auto simp: ascii_def is_cont_def list_all_length dest!: spec[of _ n])
  ultimately show ?thesis by (cases "n = length s") (simp_all add: slice_to_def is_char_boundary_def)
qed

lemma fraction_total: "length f \<le> 24 \<Longrightarrow> \<exists>r. \<forall>oc. near_decimal_fraction oc s n f = Done r"
  by (cases "f \<noteq> [] \<and> parse_nat f = None") (auto simp: near_decimal_fraction_eq Let_def)

lemma parse_near_decimal_oc: "parse_near_decimal oc s = parse_near_decimal oc' s"
proof -
  have "near_decimal_fraction oc t n f = near_decimal_fraction oc' t n f" if "length f \<le> 24" for t n f
    using fraction_total[OF that] by metis
  moreover have "length d = 24" if "slice_to f 24 = Done d" "24 < length f" for d f :: str
    using that by (auto simp: slice_to_def split: if_splits)
  ultimately have "run_bind (if 24 < length f then slice_to f 24 else Done f) (near_decimal_fraction oc t n)
      = run_bind (if 24 < length f then slice_to f 24 else Done f) (near_decimal_fraction oc' t n)" for t n f
    by (cases "slice_to f 24") auto
  then show ?thesis by (simp add: parse_near_decimal_def Let_def split: option.splits)
qed

lemma parse_near_decimal_ascii:
  assumes "ascii s"
  shows "\<exists>r. parse_near_decimal oc s = Done r"
proof (cases "find_char CHR ''.'' (trim s)")
  case (Some p)
  let ?i = "take p (trim s)" and ?f = "drop (Suc p) (trim s)"
  have "ascii ?f" using ascii_mono[OF assms] set_trim[of s] set_drop_subset[of "Suc p" "trim s"] by blast
  then have "\<exists>d. (if 24 < length ?f then slice_to ?f 24 else Done ?f) = Done d \<and> length d \<le> 24"
    by (auto simp: ascii_slice)
  then obtain d where d: "(if 24 < length ?f then slice_to ?f 24 else Done ?f) = Done d" "length d \<le> 24"
    by blast
  obtain r where r: "near_decimal_fraction oc (trim s) n d = Done (r n)" for n
    using fraction_total[OF d(2), of "trim s"] by metis
  show ?thesis
    unfolding parse_near_decimal_def Some Let_def option.case d(1)
    by (rule try_run_total) (simp add: r)
qed (simp add: parse_near_decimal_def Let_def)

lemma numeral_hd_plain: "digits i \<Longrightarrow> plain_byte (hd (i @ CHR ''.'' # d))"
  by (cases i) auto

lemma parse_near_fraction:
  assumes "digits i" "digits f" and ne: "i \<noteq> [] \<or> f \<noteq> []" and u: "u \<in> near_units"
  shows "parse_near_token oc ((i @ ''.'' @ f) @ u) =
    Done (exact_result (AmountInvalidNumber (i @ ''.'' @ f)) AmountOverflow (dec_value i) (decimal_value 24 i (take 24 f)))"
proof -
  have "parse_near_token oc ((i @ ''.'' @ f) @ u) = parse_near_decimal oc (i @ ''.'' @ f)"
    using numeral_hd_plain[OF assms(1)] trim_numeral[OF assms(1,2) ne] by (intro parse_near_unit[OF u]) simp_all
  then show ?thesis using parse_near_decimal_numeral[OF assms(1,2) ne] by simp
qed

lemma exact_result_u128:
  "exact_result bad ovf i v = (if 2 ^ 128 \<le> i then Inl bad else if 2 ^ 128 \<le> v then Inl ovf else Inr (of_nat v :: u128))"
  by (simp add: exact_result_def)

section \<open>Properties\<close>

text \<open>C33: With each of the two names that a unit has, a decimal amount of NEAR (any integer part, at
  most 24 fractional digits) and a whole amount of NEAR, milliNEAR or yoctoNEAR parses to its
  exact value in yoctoNEAR if that fits 128 bits; nothing is rounded. Otherwise the error is
  \<open>InvalidNumber\<close> when the integer part alone does not fit 128 bits, and \<open>Overflow\<close> when only
  the value in yoctoNEAR does not.\<close>

theorem parse_near_token_exact:
  assumes "digits i" "digits f" "length f \<le> 24"
  shows "(\<forall>u \<in> {'' NEAR'', '' near''}.
       (i \<noteq> [] \<or> f \<noteq> [] \<longrightarrow> parse_near_token oc ((i @ ''.'' @ f) @ u) =
          Done (if 2 ^ 128 \<le> dec_value i then Inl (AmountInvalidNumber (i @ ''.'' @ f))
                else if 2 ^ 128 \<le> decimal_value 24 i f then Inl AmountOverflow else Inr (of_nat (decimal_value 24 i f)))) \<and>
       (i \<noteq> [] \<longrightarrow> parse_near_token oc (i @ u) =
          Done (if 2 ^ 128 \<le> dec_value i then Inl (AmountInvalidNumber i)
                else if 2 ^ 128 \<le> dec_value i * 10 ^ 24 then Inl AmountOverflow else Inr (of_nat (dec_value i * 10 ^ 24))))) \<and>
     (\<forall>u \<in> {'' milliNEAR'', '' mNEAR''}. i \<noteq> [] \<longrightarrow> parse_near_token oc (i @ u) =
        Done (if 2 ^ 128 \<le> dec_value i then Inl (AmountInvalidNumber (i @ u))
              else if 2 ^ 128 \<le> dec_value i * 10 ^ 21 then Inl AmountOverflow else Inr (of_nat (dec_value i * 10 ^ 21)))) \<and>
     (\<forall>u \<in> {'' yoctoNEAR'', '' yocto''}. i \<noteq> [] \<longrightarrow> parse_near_token oc (i @ u) =
        Done (if 2 ^ 128 \<le> dec_value i then Inl (AmountInvalidNumber (i @ u)) else Inr (of_nat (dec_value i))))"
proof (intro conjI ballI impI)
  fix u :: str
  assume u: "u \<in> {'' NEAR'', '' near''}"
  show "parse_near_token oc ((i @ ''.'' @ f) @ u) =
          Done (if 2 ^ 128 \<le> dec_value i then Inl (AmountInvalidNumber (i @ ''.'' @ f))
                else if 2 ^ 128 \<le> decimal_value 24 i f then Inl AmountOverflow else Inr (of_nat (decimal_value 24 i f)))"
    if "i \<noteq> [] \<or> f \<noteq> []"
    using parse_near_fraction[OF assms(1,2) that u[folded near_units_def], of oc] assms(3) by (simp add: exact_result_def)
  show "parse_near_token oc (i @ u) =
          Done (if 2 ^ 128 \<le> dec_value i then Inl (AmountInvalidNumber i)
                else if 2 ^ 128 \<le> dec_value i * 10 ^ 24 then Inl AmountOverflow else Inr (of_nat (dec_value i * 10 ^ 24)))"
    if "i \<noteq> []"
    using parse_near_unit[OF u[folded near_units_def] that digits_hd_plain[OF assms(1) that] trim_digits[OF assms(1)], of oc]
      parse_near_decimal_whole[OF assms(1) that, of oc] by (simp add: exact_result_def)
next
  fix u :: str
  assume u: "u \<in> {'' milliNEAR'', '' mNEAR''}" and i: "i \<noteq> []"
  note u' = u[folded milli_units_def]
  have t: "trim (i @ u) = i @ u" using trim_amount[OF i digits_hd_plain[OF assms(1) i]] u' by blast
  show "parse_near_token oc (i @ u) =
        Done (if 2 ^ 128 \<le> dec_value i then Inl (AmountInvalidNumber (i @ u))
              else if 2 ^ 128 \<le> dec_value i * 10 ^ 21 then Inl AmountOverflow else Inr (of_nat (dec_value i * 10 ^ 21)))"
    using parse_then_scale[OF assms(1) i, of YOCTO_PER_MILLINEAR]
    unfolding parse_near_token_def t milli_suffix[OF u'] Let_def option.case trim_digits[OF assms(1)]
      exact_result_u128[symmetric] by simp
next
  fix u :: str
  assume u: "u \<in> {'' yoctoNEAR'', '' yocto''}" and i: "i \<noteq> []"
  note u' = u[folded yocto_units_def]
  have t: "trim (i @ u) = i @ u" using trim_amount[OF i digits_hd_plain[OF assms(1) i]] u' by blast
  show "parse_near_token oc (i @ u) =
        Done (if 2 ^ 128 \<le> dec_value i then Inl (AmountInvalidNumber (i @ u)) else Inr (of_nat (dec_value i)))"
    unfolding parse_near_token_def t yocto_suffix[OF u'] Let_def option.case trim_digits[OF assms(1)]
    using assms(1) i by (simp add: parse_uint_digits_eq)
qed

theorem parse_near_token_exact_witness:
  "parse_near_token True ''1.5 near'' = Done (Inr 1500000000000000000000000)"
proof -
  have "digits ''1''" "digits ''5''" "length ''5'' \<le> 24"
    by (simp_all add: is_ascii_digit_def char_code_def)
  from parse_near_token_exact[OF this, of True] show ?thesis
    by (simp add: decimal_value_def dec_value_def digit_value_def char_code_def)
qed

text \<open>Parsing an amount gives the same result in a build with and one without overflow
  checks, and on ASCII input it never panics.\<close>

theorem parse_near_token_total:
  "parse_near_token True s = parse_near_token False s \<and>
   (ascii s \<longrightarrow> (\<exists>r. parse_near_token oc s = Done r))"
proof -
  have "\<exists>r. parse_near_token oc s = Done r" if "ascii s"
  proof (cases "strip_suffixes ['' NEAR'', '' near''] (trim s)")
    case (Some v)
    have "ascii (trim v)"
      using ascii_mono[OF that] set_strip_suffixes[OF Some] set_trim[of s] set_trim[of v] by blast
    then show ?thesis using parse_near_decimal_ascii[of "trim v" oc] Some
      by (simp add: parse_near_token_def)
  qed (auto simp: parse_near_token_def Let_def split: option.splits)
  then show ?thesis
    using parse_near_decimal_oc[of True _ False]
    by (simp add: parse_near_token_def Let_def split: option.splits)
qed

theorem parse_near_token_total_witness: "\<exists>r. parse_near_token True ''oops'' = Done r"
proof -
  have "ascii ''oops''" by (simp add: ascii_def char_code_def)
  then show ?thesis using parse_near_token_total[of "''oops''" True] by blast
qed

text \<open>A whole number of Tgas, Ggas or gas parses to its exact value if that fits 64 bits,
  and to an error otherwise.\<close>

theorem parse_gas_exact:
  assumes "digits i" "i \<noteq> []"
  shows "parse_gas (i @ '' Tgas'') =
           exact_result (GasInvalidNumber (i @ '' Tgas'')) GasOverflow (dec_value i) (dec_value i * 10 ^ 12) \<and>
         parse_gas (i @ '' Ggas'') =
           exact_result (GasInvalidNumber (i @ '' Ggas'')) GasOverflow (dec_value i) (dec_value i * 10 ^ 9) \<and>
         parse_gas (i @ '' gas'') =
           exact_result (GasInvalidNumber (i @ '' gas'')) GasOverflow (dec_value i) (dec_value i)"
proof -
  have t: "trim (i @ u) = i @ u" if "u \<in> {'' Tgas'', '' Ggas'', '' gas''}" for u
    using that assms by (intro trim_unit) (auto simp: digits_hd_plain)
  have "parse_gas (i @ '' Tgas'') =
      exact_result (GasInvalidNumber (i @ '' Tgas'')) GasOverflow (dec_value i) (dec_value i * 10 ^ 12)"
    using parse_then_scale[OF assms, of GAS_PER_TGAS]
    unfolding parse_gas_def t[of "'' Tgas''", simplified] gas_suffix Let_def option.case
      trim_digits[OF assms(1)] by simp
  moreover have "parse_gas (i @ '' Ggas'') =
      exact_result (GasInvalidNumber (i @ '' Ggas'')) GasOverflow (dec_value i) (dec_value i * 10 ^ 9)"
    using parse_then_scale[OF assms, of GAS_PER_GGAS]
    unfolding parse_gas_def t[of "'' Ggas''", simplified] gas_suffix Let_def option.case
      trim_digits[OF assms(1)] by simp
  moreover have "parse_gas (i @ '' gas'') =
      exact_result (GasInvalidNumber (i @ '' gas'')) GasOverflow (dec_value i) (dec_value i)"
    unfolding parse_gas_def t[of "'' gas''", simplified] gas_suffix Let_def option.case
      strip_suffix_append trim_digits[OF assms(1)]
    using assms by (simp add: parse_uint_digits_eq exact_result_def)
  ultimately show ?thesis by blast
qed

theorem parse_gas_exact_witness: "parse_gas ''30 Tgas'' = Inr 30000000000000"
proof -
  have "digits ''30''" "''30'' \<noteq> []" by (simp_all add: is_ascii_digit_def char_code_def)
  from parse_gas_exact[OF this] show ?thesis
    by (simp add: exact_result_def dec_value_def digit_value_def char_code_def)
qed

text \<open>An amount without a unit is refused as ambiguous.\<close>

theorem bare_number_refused:
  assumes "list_all (\<lambda>c. is_ascii_digit c \<or> c = CHR ''.'') s"
  shows "parse_near_token oc s = Done (Inl (AmbiguousAmount s))"
proof -
  have plain: "plain_byte c" if "c \<in> set s" for c using assms that by (auto simp: list_all_iff)
  have trim: "trim s = s"
    using plain by (cases "s = []") (auto simp: trim_def trim_start_def trim_end_def intro!: trim_plain[unfolded trim_def trim_start_def trim_end_def])
  have "\<not> plain_byte CHR '' ''" by (simp add: plain_byte_def char_code_def)
  then have "CHR '' '' \<notin> set s" using plain by blast
  then have "strip_suffix p s = None" if "CHR '' '' \<in> set p" for p
    using that strip_suffix_SomeD[of p s] by (cases "strip_suffix p s") fastforce+
  then have "strip_suffixes ps s = None" if "list_all (\<lambda>p. CHR '' '' \<in> set p) ps" for ps
    using that by (induction ps) auto
  then show ?thesis using assms by (simp add: parse_near_token_def trim del: strip_suffixes.simps)
qed

theorem bare_number_refused_witness:
  "parse_near_token True ''1.5'' = Done (Inl (AmbiguousAmount ''1.5''))"
  by (rule bare_number_refused) (simp add: is_ascii_digit_def char_code_def)

text \<open>C34: Where the parser departs from decimal notation. It cuts a fraction after its 24th byte: further
  digits are ignored without an error, and when the cut falls inside a multi-byte character it
  panics. And it takes a plus sign at the start of a fraction as a digit zero.\<close>

theorem amount_parser_quirks:
  assumes "digits i" "digits f" "u \<in> {'' NEAR'', '' near''}"
  shows "(i \<noteq> [] \<or> f \<noteq> [] \<longrightarrow> parse_near_token oc ((i @ ''.'' @ f) @ u) =
       Done (if 2 ^ 128 \<le> dec_value i then Inl (AmountInvalidNumber (i @ ''.'' @ f))
             else if 2 ^ 128 \<le> decimal_value 24 i (take 24 f) then Inl AmountOverflow
             else Inr (of_nat (decimal_value 24 i (take 24 f))))) \<and>
    (dec_value i < 2 ^ 128 \<and> 24 < length d \<and> is_cont (d ! 24) \<and> trim (i @ ''.'' @ d) = i @ ''.'' @ d \<longrightarrow>
       parse_near_token oc ((i @ ''.'' @ d) @ u) = Panic) \<and>
    (f \<noteq> [] \<and> length f < 24 \<longrightarrow> parse_near_token oc ((i @ ''.+'' @ f) @ u) =
       Done (if 2 ^ 128 \<le> dec_value i then Inl (AmountInvalidNumber (i @ ''.+'' @ f))
             else if 2 ^ 128 \<le> decimal_value 24 i (CHR ''0'' # f) then Inl AmountOverflow
             else Inr (of_nat (decimal_value 24 i (CHR ''0'' # f)))))"
proof (intro conjI impI)
  note u = assms(3)[folded near_units_def] and hd = numeral_hd_plain[OF assms(1)]
  show "parse_near_token oc ((i @ ''.'' @ f) @ u) =
       Done (if 2 ^ 128 \<le> dec_value i then Inl (AmountInvalidNumber (i @ ''.'' @ f))
             else if 2 ^ 128 \<le> decimal_value 24 i (take 24 f) then Inl AmountOverflow
             else Inr (of_nat (decimal_value 24 i (take 24 f))))" if "i \<noteq> [] \<or> f \<noteq> []"
    using parse_near_fraction[OF assms(1,2) that u] by (simp add: exact_result_def)
  show "parse_near_token oc ((i @ ''.'' @ d) @ u) = Panic"
    if d: "dec_value i < 2 ^ 128 \<and> 24 < length d \<and> is_cont (d ! 24) \<and> trim (i @ ''.'' @ d) = i @ ''.'' @ d"
  proof -
    have "slice_to d 24 = Panic" using d by (simp add: slice_to_def is_char_boundary_def)
    then have "parse_near_decimal oc (i @ ''.'' @ d) = Panic"
      using d parse_near_decimal_parts[OF assms(1), of d oc] by simp
    then show ?thesis using d hd parse_near_unit[OF u, of "i @ ''.'' @ d" oc] by simp
  qed
  show "parse_near_token oc ((i @ ''.+'' @ f) @ u) =
       Done (if 2 ^ 128 \<le> dec_value i then Inl (AmountInvalidNumber (i @ ''.+'' @ f))
             else if 2 ^ 128 \<le> decimal_value 24 i (CHR ''0'' # f) then Inl AmountOverflow
             else Inr (of_nat (decimal_value 24 i (CHR ''0'' # f))))" if f: "f \<noteq> [] \<and> length f < 24"
  proof -
    have t: "trim (i @ ''.'' @ CHR ''+'' # f) = i @ ''.'' @ CHR ''+'' # f"
      using f assms(2) hd by (intro trim_plain) (auto simp: list_all_iff)
    have p: "(if CHR ''+'' # f = [] then Some 0 else parse_nat (CHR ''+'' # f)) = Some (dec_value f)"
      using f assms(2) by (simp add: digits_from_0)
    have z: "dec_value (CHR ''0'' # f) = dec_value f" by (simp add: dec_value_def digit_value_def char_code_def)
    have "parse_near_decimal oc (i @ ''.'' @ CHR ''+'' # f) =
       Done (if 2 ^ 128 \<le> dec_value i then Inl (AmountInvalidNumber (i @ ''.'' @ CHR ''+'' # f))
             else if 2 ^ 128 \<le> decimal_value 24 i (CHR ''0'' # f) then Inl AmountOverflow
             else Inr (of_nat (decimal_value 24 i (CHR ''0'' # f))))"
      using f near_decimal_fraction_value[OF _ p, of i oc]
      unfolding parse_near_decimal_parts[OF assms(1) t] by (simp add: decimal_value_def z)
    then show ?thesis using hd parse_near_unit[OF u _ _ t, of oc] by simp
  qed
qed

theorem amount_parser_quirks_witness:
  "parse_near_token True (''0.'' @ replicate 24 CHR ''0'' @ ''9 NEAR'') = Done (Inr 0) \<and>
   parse_near_token True (''0.'' @ replicate 23 CHR ''0'' @ [CHR 0xC3, CHR 0xA9] @ '' NEAR'') = Panic \<and>
   parse_near_token True ''1.+5 NEAR'' = Done (Inr 1050000000000000000000000)"
proof (intro conjI)
  let ?f = "replicate 24 CHR ''0'' @ ''9''" and ?d = "replicate 23 CHR ''0'' @ [CHR 0xC3, CHR 0xA9]"
  have dg: "digits ''0''" "digits ''1''" "digits ''5''" "digits ?f" by code_simp+
  have v: "dec_value ''0'' = 0" "decimal_value 24 ''0'' (take 24 ?f) = 0" "dec_value ''1'' = 1"
    "decimal_value 24 ''1'' (CHR ''0'' # ''5'') = 1050000000000000000000000"
    by code_simp+
  show "parse_near_token True (''0.'' @ replicate 24 CHR ''0'' @ ''9 NEAR'') = Done (Inr 0)"
    using amount_parser_quirks [OF dg(1,4), of "'' NEAR''" True] v(1,2) by simp
  have "24 < length ?d" "is_cont (?d ! 24)" "trim (''0'' @ ''.'' @ ?d) = ''0'' @ ''.'' @ ?d" by code_simp+
  then show "parse_near_token True (''0.'' @ replicate 23 CHR ''0'' @ [CHR 0xC3, CHR 0xA9] @ '' NEAR'') = Panic"
    using amount_parser_quirks [OF dg(1,4), of "'' NEAR''" True ?d] v(1) by simp
  show "parse_near_token True ''1.+5 NEAR'' = Done (Inr 1050000000000000000000000)"
    using amount_parser_quirks [OF dg(2,3), of "'' NEAR''" True] v(3,4) by simp
qed

end
