(* ===== verification/Json.thy ===== *)
theory Json
  imports Rust_Str
begin

text \<open>
  JSON values as the code handles them (\<open>serde_json::Value\<close>) and the accessors it calls:
  \<open>get\<close> on an object, \<open>as_str\<close>, \<open>as_u64\<close>, \<open>is_object\<close>, \<open>json!\<close> objects and
  \<open>Map::insert\<close>/\<open>extend\<close>. An integer is kept as its value, any other number by the
  bit pattern of the \<open>f64\<close>. Text to value and back, and the deserializers that
  \<open>serde\<close> derives, are parameters of the definitions that use them (\<open>fmt_ops\<close> here and
  \<open>serde_ops\<close> of the RPC client).
\<close>

datatype f64 = F64_bits u64

datatype json = JNull | JBool bool | JInt int | JFloat f64 | JStr string | JArr "json list"
  | JObj "(string \<times> json) list"

definition json_get :: "string \<Rightarrow> json \<Rightarrow> json option" where
  "json_get k v = (case v of JObj kvs \<Rightarrow> map_of kvs k | _ \<Rightarrow> None)"

definition json_as_str :: "json \<Rightarrow> string option" where
  "json_as_str v = (case v of JStr s \<Rightarrow> Some s | _ \<Rightarrow> None)"

definition json_as_u64 :: "json \<Rightarrow> u64 option" where
  "json_as_u64 v =
     (case v of JInt i \<Rightarrow> if 0 \<le> i \<and> i < 2 ^ 64 then Some (word_of_int i) else None | _ \<Rightarrow> None)"

definition json_is_object :: "json \<Rightarrow> bool" where
  "json_is_object v = (case v of JObj _ \<Rightarrow> True | _ \<Rightarrow> False)"

text \<open>\<open>Map::insert\<close> replaces the value of a key that is present; \<open>Map::extend\<close> inserts the
  entries of the other map.\<close>

fun json_insert :: "string \<Rightarrow> json \<Rightarrow> (string \<times> json) list \<Rightarrow> (string \<times> json) list" where
  "json_insert k v [] = [(k, v)]"
| "json_insert k v ((k', v') # kvs) = (if k' = k then (k, v) # kvs else (k', v') # json_insert k v kvs)"

definition json_extend :: "(string \<times> json) list \<Rightarrow> (string \<times> json) list \<Rightarrow> (string \<times> json) list" where
  "json_extend m other = fold (\<lambda>(k, v). json_insert k v) other m"

record fmt_ops =
  json_show :: "json \<Rightarrow> string"
  near_exact :: "u128 \<Rightarrow> string"
  gas_display :: "u64 \<Rightarrow> string"
  f64_2 :: "f64 \<Rightarrow> string"

lemma map_of_json_insert [simp]: "map_of (json_insert k v m) = (map_of m)(k \<mapsto> v)"
  by (induction k v m rule: json_insert.induct) auto

lemma map_of_json_extend: "map_of (json_extend m other) = map_of m ++ map_of (rev other)"
proof (induction other arbitrary: m)
  case Nil
  show ?case by (simp add: json_extend_def)
next
  case (Cons kv other)
  obtain k v where "kv = (k, v)" by force
  then have "json_extend m (kv # other) = json_extend (json_insert k v m) other"
    by (simp add: json_extend_def)
  then show ?case by (simp only: Cons.IH) (simp add: \<open>kv = (k, v)\<close> map_add_def fun_eq_iff split: option.splits)
qed

lemma json_get_JObj [simp]: "json_get k (JObj kvs) = map_of kvs k"
  by (simp add: json_get_def)

lemma json_as_str_JStr [simp]: "json_as_str (JStr s) = Some s"
  by (simp add: json_as_str_def)

lemma json_as_str_Some [simp]: "json_as_str v = Some s \<longleftrightarrow> v = JStr s"
  by (cases v) (simp_all add: json_as_str_def)

lemma json_as_u64_JInt [simp]: "json_as_u64 (JInt (uint w)) = Some w"
  using uint_lt2p [of w] by (simp add: json_as_u64_def)

end
