(* ===== verification/Error_Types.thy ===== *)
theory Error_Types
  imports Keys Units Json
begin

text \<open>
  The structured errors of the protocol (\<open>types/error.rs\<close>): what a node reports about a
  rejected transaction, a failed action or a failed contract call, with their
  \<open>Display\<close> texts, and the classification of validation errors that the retry loops use.
  A variant is written with the prefix of its enum; its fields are in the order of the
  source. The formatting of amounts, gas, floats and raw JSON belongs to other crates and
  is a parameter (\<open>fmt_ops\<close>).
\<close>

section \<open>Global contract identifiers\<close>

datatype global_contract_identifier_view = Gciv_CodeHash crypto_hash | Gciv_AccountId account_id

datatype global_contract_id_compat =
  Compat_CodeHash crypto_hash
  | Compat_AccountId account_id
  | Compat_LegacyCodeHash crypto_hash
  | Compat_LegacyAccountId account_id
  | Compat_DeprecatedCodeHash crypto_hash
  | Compat_DeprecatedAccountId account_id

fun gciv_from_compat :: "global_contract_id_compat \<Rightarrow> global_contract_identifier_view" where
  "gciv_from_compat (Compat_CodeHash h) = Gciv_CodeHash h"
| "gciv_from_compat (Compat_LegacyCodeHash h) = Gciv_CodeHash h"
| "gciv_from_compat (Compat_DeprecatedCodeHash h) = Gciv_CodeHash h"
| "gciv_from_compat (Compat_AccountId a) = Gciv_AccountId a"
| "gciv_from_compat (Compat_LegacyAccountId a) = Gciv_AccountId a"
| "gciv_from_compat (Compat_DeprecatedAccountId a) = Gciv_AccountId a"

fun gciv_display :: "crypto_ops \<Rightarrow> global_contract_identifier_view \<Rightarrow> string" where
  "gciv_display cr (Gciv_CodeHash h) = ''hash('' @ crypto_hash_display cr h @ '')''"
| "gciv_display cr (Gciv_AccountId a) = a"

section \<open>The error enums\<close>

datatype missing_trie_value_context =
  Ctx_TrieIterator
  | Ctx_TriePrefetchingStorage
  | Ctx_TrieMemoryPartialStorage
  | Ctx_TrieStorage

primrec missing_trie_value_context_display :: "crypto_ops \<Rightarrow> fmt_ops \<Rightarrow> missing_trie_value_context \<Rightarrow> string" where
  "missing_trie_value_context_display cr fm Ctx_TrieIterator = ''trie iterator''"
| "missing_trie_value_context_display cr fm Ctx_TriePrefetchingStorage = ''prefetching storage''"
| "missing_trie_value_context_display cr fm Ctx_TrieMemoryPartialStorage =
     ''memory partial storage''"
| "missing_trie_value_context_display cr fm Ctx_TrieStorage = ''trie storage''"

record missing_trie_value =
  mtv_context :: missing_trie_value_context
  mtv_hash :: crypto_hash

datatype storage_error =
  Stor_StorageInternalError
  | Stor_MissingTrieValue missing_trie_value
  | Stor_UnexpectedTrieValue
  | Stor_StorageInconsistentState string
  | Stor_FlatStorageBlockNotSupported string
  | Stor_MemTrieLoadingError string
  | Stor_Unknown json

primrec storage_error_display :: "crypto_ops \<Rightarrow> fmt_ops \<Rightarrow> storage_error \<Rightarrow> string" where
  "storage_error_display cr fm Stor_StorageInternalError = ''internal storage error''"
| "storage_error_display cr fm (Stor_MissingTrieValue v) =
     ''missing trie value '' @ crypto_hash_display cr (mtv_hash v) @ '' in '' @ missing_trie_value_context_display cr fm (mtv_context v)"
| "storage_error_display cr fm Stor_UnexpectedTrieValue = ''unexpected trie value''"
| "storage_error_display cr fm (Stor_StorageInconsistentState msg) =
     ''storage is in an inconsistent state: '' @ msg"
| "storage_error_display cr fm (Stor_FlatStorageBlockNotSupported msg) =
     ''block is not supported by flat storage: '' @ msg"
| "storage_error_display cr fm (Stor_MemTrieLoadingError msg) =
     ''trie is not loaded in memory: '' @ msg"
| "storage_error_display cr fm (Stor_Unknown value) =
     ''unknown storage error: '' @ json_show fm value"

datatype deposit_cost_failure_reason =
  Deposit_NotEnoughBalance
  | Deposit_LackBalanceForState

primrec deposit_cost_failure_reason_display :: "crypto_ops \<Rightarrow> fmt_ops \<Rightarrow> deposit_cost_failure_reason \<Rightarrow> string" where
  "deposit_cost_failure_reason_display cr fm Deposit_NotEnoughBalance = ''not enough balance''"
| "deposit_cost_failure_reason_display cr fm Deposit_LackBalanceForState =
     ''not enough balance for state''"

datatype invalid_access_key_error =
  Iak_AccessKeyNotFound account_id public_key
  | Iak_ReceiverMismatch string account_id
  | Iak_MethodNameMismatch string
  | Iak_RequiresFullAccess
  | Iak_NotEnoughAllowance account_id near_token near_token public_key
  | Iak_DepositWithFunctionCall
  | Iak_Unknown json

primrec invalid_access_key_error_display :: "crypto_ops \<Rightarrow> fmt_ops \<Rightarrow> invalid_access_key_error \<Rightarrow> string" where
  "invalid_access_key_error_display cr fm (Iak_AccessKeyNotFound account_id public_key) =
     ''public key '' @ public_key_display cr public_key @ '' doesn't exist for account '' @ account_id"
| "invalid_access_key_error_display cr fm (Iak_ReceiverMismatch ak_receiver tx_receiver) =
     ''transaction receiver '' @ tx_receiver @ '' doesn't match access key receiver '' @ ak_receiver"
| "invalid_access_key_error_display cr fm (Iak_MethodNameMismatch method_name) =
     ''method '' @ method_name @ '' isn't allowed by the access key''"
| "invalid_access_key_error_display cr fm Iak_RequiresFullAccess =
     ''transaction requires a full access key''"
| "invalid_access_key_error_display cr fm (Iak_NotEnoughAllowance account_id allowance cost public_key) =
     ''access key '' @ public_key_display cr public_key @ '' for account '' @ account_id @ '' does not have enough allowance ('' @ near_exact fm allowance @ '') to cover transaction cost ('' @ near_exact fm cost @ '')''"
| "invalid_access_key_error_display cr fm Iak_DepositWithFunctionCall =
     ''deposits are not allowed with function call access keys''"
| "invalid_access_key_error_display cr fm (Iak_Unknown value) =
     ''unknown access key error: '' @ json_show fm value"

datatype method_resolve_error =
  Mre_MethodEmptyName
  | Mre_MethodNotFound
  | Mre_MethodInvalidSignature
  | Mre_Unknown json

primrec method_resolve_error_display :: "crypto_ops \<Rightarrow> fmt_ops \<Rightarrow> method_resolve_error \<Rightarrow> string" where
  "method_resolve_error_display cr fm Mre_MethodEmptyName = ''method name is empty''"
| "method_resolve_error_display cr fm Mre_MethodNotFound = ''method not found in contract''"
| "method_resolve_error_display cr fm Mre_MethodInvalidSignature =
     ''method has an invalid signature''"
| "method_resolve_error_display cr fm (Mre_Unknown value) =
     ''unknown method resolve error: '' @ json_show fm value"

datatype wasm_trap =
  Trap_Unreachable
  | Trap_IncorrectCallIndirectSignature
  | Trap_MemoryOutOfBounds
  | Trap_CallIndirectOob
  | Trap_IllegalArithmetic
  | Trap_MisalignedAtomicAccess
  | Trap_IndirectCallToNull
  | Trap_StackOverflow
  | Trap_GenericTrap
  | Trap_Unknown json

primrec wasm_trap_display :: "crypto_ops \<Rightarrow> fmt_ops \<Rightarrow> wasm_trap \<Rightarrow> string" where
  "wasm_trap_display cr fm Trap_Unreachable = ''unreachable instruction executed''"
| "wasm_trap_display cr fm Trap_IncorrectCallIndirectSignature =
     ''incorrect call indirect signature''"
| "wasm_trap_display cr fm Trap_MemoryOutOfBounds = ''memory out of bounds''"
| "wasm_trap_display cr fm Trap_CallIndirectOob = ''call indirect out of bounds''"
| "wasm_trap_display cr fm Trap_IllegalArithmetic = ''illegal arithmetic operation''"
| "wasm_trap_display cr fm Trap_MisalignedAtomicAccess = ''misaligned atomic access''"
| "wasm_trap_display cr fm Trap_IndirectCallToNull = ''indirect call to null''"
| "wasm_trap_display cr fm Trap_StackOverflow = ''stack overflow''"
| "wasm_trap_display cr fm Trap_GenericTrap = ''generic trap''"
| "wasm_trap_display cr fm (Trap_Unknown value) = ''unknown Wasm trap: '' @ json_show fm value"

datatype prepare_error =
  Prep_Serialization
  | Prep_Deserialization
  | Prep_InternalMemoryDeclared
  | Prep_GasInstrumentation
  | Prep_StackHeightInstrumentation
  | Prep_Instantiate
  | Prep_Memory
  | Prep_TooManyFunctions
  | Prep_TooManyLocals
  | Prep_TooManyTables
  | Prep_TooManyTableElements
  | Prep_FunctionBodyTooLarge
  | Prep_InstrumentedCodeTooLarge
  | Prep_TooManyBlocksPerFunction
  | Prep_TooManyBlocksPerContract
  | Prep_TooManyTypes
  | Prep_TooManyParamsPerFunction
  | Prep_TooManyParamsPerContract
  | Prep_OperandStackTooLarge
  | Prep_Unknown json

primrec prepare_error_display :: "crypto_ops \<Rightarrow> fmt_ops \<Rightarrow> prepare_error \<Rightarrow> string" where
  "prepare_error_display cr fm Prep_Serialization = ''Wasm serialization error''"
| "prepare_error_display cr fm Prep_Deserialization = ''Wasm deserialization error''"
| "prepare_error_display cr fm Prep_InternalMemoryDeclared =
     ''Wasm module declares internal memory''"
| "prepare_error_display cr fm Prep_GasInstrumentation = ''gas instrumentation failed''"
| "prepare_error_display cr fm Prep_StackHeightInstrumentation =
     ''stack height instrumentation failed''"
| "prepare_error_display cr fm Prep_Instantiate = ''Wasm instantiation error''"
| "prepare_error_display cr fm Prep_Memory = ''Wasm memory error''"
| "prepare_error_display cr fm Prep_TooManyFunctions = ''too many functions in Wasm module''"
| "prepare_error_display cr fm Prep_TooManyLocals = ''too many locals in Wasm module''"
| "prepare_error_display cr fm Prep_TooManyTables = ''too many tables in Wasm module''"
| "prepare_error_display cr fm Prep_TooManyTableElements =
     ''too many table elements in Wasm module''"
| "prepare_error_display cr fm Prep_FunctionBodyTooLarge =
     ''a function body in the Wasm module is too large''"
| "prepare_error_display cr fm Prep_InstrumentedCodeTooLarge =
     ''instrumented Wasm code exceeds the size limit''"
| "prepare_error_display cr fm Prep_TooManyBlocksPerFunction =
     ''too many basic blocks in a Wasm function''"
| "prepare_error_display cr fm Prep_TooManyBlocksPerContract =
     ''too many basic blocks in Wasm module''"
| "prepare_error_display cr fm Prep_TooManyTypes = ''too many types in Wasm module''"
| "prepare_error_display cr fm Prep_TooManyParamsPerFunction =
     ''too many parameters in a Wasm function''"
| "prepare_error_display cr fm Prep_TooManyParamsPerContract =
     ''too many parameters in Wasm module''"
| "prepare_error_display cr fm Prep_OperandStackTooLarge =
     ''operand stack of a Wasm function is too large''"
| "prepare_error_display cr fm (Prep_Unknown value) =
     ''unknown prepare error: '' @ json_show fm value"

datatype compilation_error =
  Comp_CodeDoesNotExist account_id
  | Comp_PrepareError prepare_error
  | Comp_WasmerCompileError string
  | Comp_Unknown json

primrec compilation_error_display :: "crypto_ops \<Rightarrow> fmt_ops \<Rightarrow> compilation_error \<Rightarrow> string" where
  "compilation_error_display cr fm (Comp_CodeDoesNotExist account_id) =
     ''contract code does not exist for account '' @ account_id"
| "compilation_error_display cr fm (Comp_PrepareError e) = prepare_error_display cr fm e"
| "compilation_error_display cr fm (Comp_WasmerCompileError msg) =
     ''Wasmer compilation error: '' @ msg"
| "compilation_error_display cr fm (Comp_Unknown value) =
     ''unknown compilation error: '' @ json_show fm value"

datatype host_error =
  Host_BadUtf16
  | Host_BadUtf8
  | Host_GasExceeded
  | Host_GasLimitExceeded
  | Host_BalanceExceeded
  | Host_EmptyMethodName
  | Host_GuestPanic string
  | Host_IntegerOverflow
  | Host_InvalidPromiseIndex u64
  | Host_CannotAppendActionToJointPromise
  | Host_CannotReturnJointPromise
  | Host_InvalidPromiseResultIndex u64
  | Host_InvalidRegisterId u64
  | Host_IteratorWasInvalidated u64
  | Host_MemoryAccessViolation
  | Host_InvalidReceiptIndex u64
  | Host_InvalidIteratorIndex u64
  | Host_InvalidAccountId
  | Host_InvalidMethodName
  | Host_InvalidPublicKey
  | Host_ProhibitedInView string
  | Host_NumberOfLogsExceeded u64
  | Host_KeyLengthExceeded u64 u64
  | Host_ValueLengthExceeded u64 u64
  | Host_TotalLogLengthExceeded u64 u64
  | Host_NumberPromisesExceeded u64 u64
  | Host_NumberInputDataDependenciesExceeded u64 u64
  | Host_ReturnedValueLengthExceeded u64 u64
  | Host_ContractSizeExceeded u64 u64
  | Host_Deprecated string
  | Host_EcRecoverError string
  | Host_AltBn128InvalidInput string
  | Host_Ed25519VerifyInvalidInput string
  | Host_P256VerifyInvalidInput string
  | Host_Unknown json

primrec host_error_display :: "crypto_ops \<Rightarrow> fmt_ops \<Rightarrow> host_error \<Rightarrow> string" where
  "host_error_display cr fm Host_BadUtf16 = ''bad UTF-16 string''"
| "host_error_display cr fm Host_BadUtf8 = ''bad UTF-8 string''"
| "host_error_display cr fm Host_GasExceeded = ''gas exceeded''"
| "host_error_display cr fm Host_GasLimitExceeded = ''gas limit exceeded''"
| "host_error_display cr fm Host_BalanceExceeded = ''balance exceeded''"
| "host_error_display cr fm Host_EmptyMethodName = ''method name is empty''"
| "host_error_display cr fm (Host_GuestPanic panic_msg) = ''smart contract panicked: '' @ panic_msg"
| "host_error_display cr fm Host_IntegerOverflow = ''integer overflow''"
| "host_error_display cr fm (Host_InvalidPromiseIndex promise_idx) =
     ''invalid promise index '' @ show_word promise_idx"
| "host_error_display cr fm Host_CannotAppendActionToJointPromise =
     ''cannot append action to joint promise''"
| "host_error_display cr fm Host_CannotReturnJointPromise = ''cannot return joint promise''"
| "host_error_display cr fm (Host_InvalidPromiseResultIndex result_idx) =
     ''invalid promise result index '' @ show_word result_idx"
| "host_error_display cr fm (Host_InvalidRegisterId register_id) =
     ''invalid register ID '' @ show_word register_id"
| "host_error_display cr fm (Host_IteratorWasInvalidated iterator_index) =
     ''iterator '' @ show_word iterator_index @ '' was invalidated''"
| "host_error_display cr fm Host_MemoryAccessViolation = ''memory access violation''"
| "host_error_display cr fm (Host_InvalidReceiptIndex receipt_index) =
     ''invalid receipt index '' @ show_word receipt_index"
| "host_error_display cr fm (Host_InvalidIteratorIndex iterator_index) =
     ''invalid iterator index '' @ show_word iterator_index"
| "host_error_display cr fm Host_InvalidAccountId = ''invalid account ID''"
| "host_error_display cr fm Host_InvalidMethodName = ''invalid method name''"
| "host_error_display cr fm Host_InvalidPublicKey = ''invalid public key''"
| "host_error_display cr fm (Host_ProhibitedInView method_name) =
     ''method '' @ method_name @ '' is not allowed in a view call''"
| "host_error_display cr fm (Host_NumberOfLogsExceeded limit) =
     ''number of logs exceeded the limit of '' @ show_word limit"
| "host_error_display cr fm (Host_KeyLengthExceeded len limit) =
     ''key length '' @ show_word len @ '' exceeded the limit of '' @ show_word limit"
| "host_error_display cr fm (Host_ValueLengthExceeded len limit) =
     ''value length '' @ show_word len @ '' exceeded the limit of '' @ show_word limit"
| "host_error_display cr fm (Host_TotalLogLengthExceeded len limit) =
     ''total log length '' @ show_word len @ '' exceeded the limit of '' @ show_word limit"
| "host_error_display cr fm (Host_NumberPromisesExceeded limit number_of_promises) =
     ''number of promises '' @ show_word number_of_promises @ '' exceeded the limit of '' @ show_word limit"
| "host_error_display cr fm (Host_NumberInputDataDependenciesExceeded limit number_of_input_data_dependencies) =
     ''number of input data dependencies '' @ show_word number_of_input_data_dependencies @ '' exceeded the limit of '' @ show_word limit"
| "host_error_display cr fm (Host_ReturnedValueLengthExceeded len limit) =
     ''returned value length '' @ show_word len @ '' exceeded the limit of '' @ show_word limit"
| "host_error_display cr fm (Host_ContractSizeExceeded limit sz) =
     ''contract size '' @ show_word sz @ '' exceeded the limit of '' @ show_word limit"
| "host_error_display cr fm (Host_Deprecated method_name) =
     ''method '' @ method_name @ '' is deprecated''"
| "host_error_display cr fm (Host_EcRecoverError msg) = ''EC recover error: '' @ msg"
| "host_error_display cr fm (Host_AltBn128InvalidInput msg) = ''AltBn128 invalid input: '' @ msg"
| "host_error_display cr fm (Host_Ed25519VerifyInvalidInput msg) =
     ''Ed25519 verification invalid input: '' @ msg"
| "host_error_display cr fm (Host_P256VerifyInvalidInput msg) =
     ''P-256 verification invalid input: '' @ msg"
| "host_error_display cr fm (Host_Unknown value) = ''unknown host error: '' @ json_show fm value"

datatype function_call_error =
  Fce_WasmUnknownError
  | Fce_EvmError
  | Fce_CompilationError compilation_error
  | Fce_LinkError string
  | Fce_MethodResolveError method_resolve_error
  | Fce_WasmTrap wasm_trap
  | Fce_HostError host_error
  | Fce_ExecutionError string
  | Fce_Unknown json

primrec function_call_error_display :: "crypto_ops \<Rightarrow> fmt_ops \<Rightarrow> function_call_error \<Rightarrow> string" where
  "function_call_error_display cr fm Fce_WasmUnknownError = ''unknown Wasm error''"
| "function_call_error_display cr fm Fce_EvmError = ''EVM error''"
| "function_call_error_display cr fm (Fce_CompilationError e) =
     ''compilation error: '' @ compilation_error_display cr fm e"
| "function_call_error_display cr fm (Fce_LinkError msg) = ''link error: '' @ msg"
| "function_call_error_display cr fm (Fce_MethodResolveError e) =
     ''method resolve error: '' @ method_resolve_error_display cr fm e"
| "function_call_error_display cr fm (Fce_WasmTrap e) = ''Wasm trap: '' @ wasm_trap_display cr fm e"
| "function_call_error_display cr fm (Fce_HostError e) =
     ''host error: '' @ host_error_display cr fm e"
| "function_call_error_display cr fm (Fce_ExecutionError msg) = ''execution error: '' @ msg"
| "function_call_error_display cr fm (Fce_Unknown value) =
     ''unknown function call error: '' @ json_show fm value"

datatype actions_validation_error =
  Ave_DeleteActionMustBeFinal
  | Ave_TotalPrepaidGasExceeded gas gas
  | Ave_TotalNumberOfActionsExceeded u64 u64
  | Ave_AddKeyMethodNamesNumberOfBytesExceeded u64 u64
  | Ave_AddKeyMethodNameLengthExceeded u64 u64
  | Ave_IntegerOverflow
  | Ave_InvalidAccountId string
  | Ave_ContractSizeExceeded u64 u64
  | Ave_FunctionCallMethodNameLengthExceeded u64 u64
  | Ave_FunctionCallArgumentsLengthExceeded u64 u64
  | Ave_UnsuitableStakingKey public_key
  | Ave_FunctionCallZeroAttachedGas
  | Ave_DelegateActionMustBeOnlyOne
  | Ave_UnsupportedProtocolFeature string u32
  | Ave_InvalidDeterministicStateInitReceiver account_id account_id
  | Ave_DeterministicStateInitKeyLengthExceeded u64 u64
  | Ave_DeterministicStateInitValueLengthExceeded u64 u64
  | Ave_GasKeyInvalidNumNonces u16 u16
  | Ave_AddGasKeyWithNonZeroBalance near_token
  | Ave_GasKeyFunctionCallAllowanceNotAllowed
  | Ave_TotalNumberOfDeployActionsExceeded u64 u64
  | Ave_Unknown json

primrec actions_validation_error_display :: "crypto_ops \<Rightarrow> fmt_ops \<Rightarrow> actions_validation_error \<Rightarrow> string" where
  "actions_validation_error_display cr fm Ave_DeleteActionMustBeFinal =
     ''delete action must be the final action in a transaction''"
| "actions_validation_error_display cr fm (Ave_TotalPrepaidGasExceeded limit total_prepaid_gas) =
     ''total prepaid gas ('' @ gas_display fm total_prepaid_gas @ '') exceeded the limit ('' @ gas_display fm limit @ '')''"
| "actions_validation_error_display cr fm (Ave_TotalNumberOfActionsExceeded limit total_number_of_actions) =
     ''number of actions ('' @ show_word total_number_of_actions @ '') exceeded the limit ('' @ show_word limit @ '')''"
| "actions_validation_error_display cr fm (Ave_AddKeyMethodNamesNumberOfBytesExceeded limit total_number_of_bytes) =
     ''total size of method names ('' @ show_word total_number_of_bytes @ '' bytes) exceeded the limit ('' @ show_word limit @ '') in add key action''"
| "actions_validation_error_display cr fm (Ave_AddKeyMethodNameLengthExceeded len limit) =
     ''method name length ('' @ show_word len @ '') exceeded the limit ('' @ show_word limit @ '') in add key action''"
| "actions_validation_error_display cr fm Ave_IntegerOverflow = ''integer overflow''"
| "actions_validation_error_display cr fm (Ave_InvalidAccountId account_id) =
     ''invalid account ID '' @ account_id"
| "actions_validation_error_display cr fm (Ave_ContractSizeExceeded limit sz) =
     ''contract size ('' @ show_word sz @ '') exceeded the limit ('' @ show_word limit @ '') in deploy action''"
| "actions_validation_error_display cr fm (Ave_FunctionCallMethodNameLengthExceeded len limit) =
     ''method name length ('' @ show_word len @ '') exceeded the limit ('' @ show_word limit @ '') in function call action''"
| "actions_validation_error_display cr fm (Ave_FunctionCallArgumentsLengthExceeded len limit) =
     ''arguments length ('' @ show_word len @ '') exceeded the limit ('' @ show_word limit @ '') in function call action''"
| "actions_validation_error_display cr fm (Ave_UnsuitableStakingKey public_key) =
     ''public key '' @ public_key_display cr public_key @ '' is not suitable for staking''"
| "actions_validation_error_display cr fm Ave_FunctionCallZeroAttachedGas =
     ''function call must have a positive amount of gas attached''"
| "actions_validation_error_display cr fm Ave_DelegateActionMustBeOnlyOne =
     ''transaction must contain only one delegate action''"
| "actions_validation_error_display cr fm (Ave_UnsupportedProtocolFeature protocol_feature version) =
     ''protocol feature '' @ protocol_feature @ '' is unsupported in version '' @ show_word version"
| "actions_validation_error_display cr fm (Ave_InvalidDeterministicStateInitReceiver derived_id receiver_id) =
     ''invalid receiver '' @ receiver_id @ '' for deterministic account '' @ derived_id"
| "actions_validation_error_display cr fm (Ave_DeterministicStateInitKeyLengthExceeded len limit) =
     ''deterministic state init key length ('' @ show_word len @ '') exceeded the limit ('' @ show_word limit @ '')''"
| "actions_validation_error_display cr fm (Ave_DeterministicStateInitValueLengthExceeded len limit) =
     ''deterministic state init value length ('' @ show_word len @ '') exceeded the limit ('' @ show_word limit @ '')''"
| "actions_validation_error_display cr fm (Ave_GasKeyInvalidNumNonces limit requested_nonces) =
     ''gas key requested invalid number of nonces: '' @ show_word requested_nonces @ '' (must be between 1 and '' @ show_word limit @ '')''"
| "actions_validation_error_display cr fm (Ave_AddGasKeyWithNonZeroBalance balance) =
     ''adding a gas key with non-zero balance ('' @ near_exact fm balance @ '') is not allowed''"
| "actions_validation_error_display cr fm Ave_GasKeyFunctionCallAllowanceNotAllowed =
     ''gas keys with function call permission cannot have an allowance''"
| "actions_validation_error_display cr fm (Ave_TotalNumberOfDeployActionsExceeded limit number_of_deploy_actions) =
     ''number of deploy actions ('' @ show_word number_of_deploy_actions @ '') exceeded the limit ('' @ show_word limit @ '')''"
| "actions_validation_error_display cr fm (Ave_Unknown value) =
     ''unknown actions validation error: '' @ json_show fm value"

datatype receipt_validation_error =
  Rve_InvalidPredecessorId string
  | Rve_InvalidReceiverId string
  | Rve_InvalidSignerId string
  | Rve_InvalidDataReceiverId string
  | Rve_ReturnedValueLengthExceeded u64 u64
  | Rve_NumberInputDataDependenciesExceeded u64 u64
  | Rve_ActionsValidation actions_validation_error
  | Rve_ReceiptSizeExceeded u64 u64
  | Rve_InvalidRefundTo string
  | Rve_Unknown json

primrec receipt_validation_error_display :: "crypto_ops \<Rightarrow> fmt_ops \<Rightarrow> receipt_validation_error \<Rightarrow> string" where
  "receipt_validation_error_display cr fm (Rve_InvalidPredecessorId account_id) =
     ''invalid predecessor ID '' @ account_id"
| "receipt_validation_error_display cr fm (Rve_InvalidReceiverId account_id) =
     ''invalid receiver ID '' @ account_id"
| "receipt_validation_error_display cr fm (Rve_InvalidSignerId account_id) =
     ''invalid signer ID '' @ account_id"
| "receipt_validation_error_display cr fm (Rve_InvalidDataReceiverId account_id) =
     ''invalid data receiver ID '' @ account_id"
| "receipt_validation_error_display cr fm (Rve_ReturnedValueLengthExceeded len limit) =
     ''returned value length ('' @ show_word len @ '') exceeded the limit ('' @ show_word limit @ '')''"
| "receipt_validation_error_display cr fm (Rve_NumberInputDataDependenciesExceeded limit number_of_input_data_dependencies) =
     ''number of input data dependencies ('' @ show_word number_of_input_data_dependencies @ '') exceeded the limit ('' @ show_word limit @ '')''"
| "receipt_validation_error_display cr fm (Rve_ActionsValidation e) =
     actions_validation_error_display cr fm e"
| "receipt_validation_error_display cr fm (Rve_ReceiptSizeExceeded limit sz) =
     ''receipt size ('' @ show_word sz @ '') exceeded the limit ('' @ show_word limit @ '')''"
| "receipt_validation_error_display cr fm (Rve_InvalidRefundTo account_id) =
     ''invalid refund-to account ID '' @ account_id"
| "receipt_validation_error_display cr fm (Rve_Unknown value) =
     ''unknown receipt validation error: '' @ json_show fm value"

datatype action_error_kind =
  Ak_AccountAlreadyExists account_id
  | Ak_AccountDoesNotExist account_id
  | Ak_CreateAccountOnlyByRegistrar account_id account_id account_id
  | Ak_CreateAccountNotAllowed account_id account_id
  | Ak_ActorNoPermission account_id account_id
  | Ak_DeleteKeyDoesNotExist account_id public_key
  | Ak_AddKeyAlreadyExists account_id public_key
  | Ak_DeleteAccountStaking account_id
  | Ak_LackBalanceForState account_id near_token
  | Ak_TriesToUnstake account_id
  | Ak_TriesToStake account_id near_token near_token near_token
  | Ak_InsufficientStake account_id near_token near_token
  | Ak_FunctionCallError function_call_error
  | Ak_NewReceiptValidationError receipt_validation_error
  | Ak_OnlyImplicitAccountCreationAllowed account_id
  | Ak_DeleteAccountWithLargeState account_id
  | Ak_DelegateActionInvalidSignature
  | Ak_DelegateActionSenderDoesNotMatchTxReceiver account_id account_id
  | Ak_DelegateActionExpired
  | Ak_DelegateActionAccessKeyError invalid_access_key_error
  | Ak_DelegateActionInvalidNonce u64 u64
  | Ak_DelegateActionNonceTooLarge u64 u64
  | Ak_GlobalContractDoesNotExist global_contract_identifier_view
  | Ak_GasKeyDoesNotExist account_id public_key
  | Ak_InsufficientGasKeyBalance account_id near_token public_key near_token
  | Ak_GasKeyBalanceTooHigh account_id near_token "public_key option"
  | Ak_Unknown json

primrec action_error_kind_display :: "crypto_ops \<Rightarrow> fmt_ops \<Rightarrow> action_error_kind \<Rightarrow> string" where
  "action_error_kind_display cr fm (Ak_AccountAlreadyExists account_id) =
     ''account '' @ account_id @ '' already exists''"
| "action_error_kind_display cr fm (Ak_AccountDoesNotExist account_id) =
     ''account '' @ account_id @ '' does not exist''"
| "action_error_kind_display cr fm (Ak_CreateAccountOnlyByRegistrar account_id predecessor_id registrar_account_id) =
     ''top-level account '' @ account_id @ '' can only be created by registrar '' @ registrar_account_id @ '', not by '' @ predecessor_id"
| "action_error_kind_display cr fm (Ak_CreateAccountNotAllowed account_id predecessor_id) =
     ''account '' @ account_id @ '' must be under a namespace of the creator account '' @ predecessor_id"
| "action_error_kind_display cr fm (Ak_ActorNoPermission account_id actor_id) =
     ''actor '' @ actor_id @ '' does not have permission to act on account '' @ account_id"
| "action_error_kind_display cr fm (Ak_DeleteKeyDoesNotExist account_id public_key) =
     ''account '' @ account_id @ '' tries to remove an access key '' @ public_key_display cr public_key @ '' that doesn't exist''"
| "action_error_kind_display cr fm (Ak_AddKeyAlreadyExists account_id public_key) =
     ''public key '' @ public_key_display cr public_key @ '' already exists for account '' @ account_id"
| "action_error_kind_display cr fm (Ak_DeleteAccountStaking account_id) =
     ''account '' @ account_id @ '' is staking and cannot be deleted''"
| "action_error_kind_display cr fm (Ak_LackBalanceForState account_id amount) =
     ''account '' @ account_id @ '' needs '' @ near_exact fm amount @ '' to cover storage cost''"
| "action_error_kind_display cr fm (Ak_TriesToUnstake account_id) =
     ''account '' @ account_id @ '' is not staked but tries to unstake''"
| "action_error_kind_display cr fm (Ak_TriesToStake account_id balance _ stake) =
     ''account '' @ account_id @ '' doesn't have enough balance ('' @ near_exact fm balance @ '') to increase the stake ('' @ near_exact fm stake @ '')''"
| "action_error_kind_display cr fm (Ak_InsufficientStake account_id minimum_stake stake) =
     ''account '' @ account_id @ '' has insufficient stake ('' @ near_exact fm stake @ ''), minimum required is '' @ near_exact fm minimum_stake"
| "action_error_kind_display cr fm (Ak_FunctionCallError e) = function_call_error_display cr fm e"
| "action_error_kind_display cr fm (Ak_NewReceiptValidationError e) =
     ''receipt validation error: '' @ receipt_validation_error_display cr fm e"
| "action_error_kind_display cr fm (Ak_OnlyImplicitAccountCreationAllowed account_id) =
     ''only implicit account creation is allowed for '' @ account_id"
| "action_error_kind_display cr fm (Ak_DeleteAccountWithLargeState account_id) =
     ''deleting account '' @ account_id @ '' with large state is temporarily banned''"
| "action_error_kind_display cr fm Ak_DelegateActionInvalidSignature =
     ''invalid signature on delegate action''"
| "action_error_kind_display cr fm (Ak_DelegateActionSenderDoesNotMatchTxReceiver receiver_id sender_id) =
     ''delegate action sender '' @ sender_id @ '' does not match transaction receiver '' @ receiver_id"
| "action_error_kind_display cr fm Ak_DelegateActionExpired = ''delegate action has expired''"
| "action_error_kind_display cr fm (Ak_DelegateActionAccessKeyError e) =
     ''delegate action access key error: '' @ invalid_access_key_error_display cr fm e"
| "action_error_kind_display cr fm (Ak_DelegateActionInvalidNonce ak_nonce delegate_nonce) =
     ''delegate action nonce '' @ show_word delegate_nonce @ '' must be larger than access key nonce '' @ show_word ak_nonce"
| "action_error_kind_display cr fm (Ak_DelegateActionNonceTooLarge delegate_nonce upper_bound) =
     ''delegate action nonce '' @ show_word delegate_nonce @ '' is larger than the upper bound '' @ show_word upper_bound"
| "action_error_kind_display cr fm (Ak_GlobalContractDoesNotExist identifier) =
     ''global contract '' @ gciv_display cr identifier @ '' does not exist''"
| "action_error_kind_display cr fm (Ak_GasKeyDoesNotExist account_id public_key) =
     ''gas key '' @ public_key_display cr public_key @ '' does not exist for account '' @ account_id"
| "action_error_kind_display cr fm (Ak_InsufficientGasKeyBalance account_id balance public_key required) =
     ''gas key '' @ public_key_display cr public_key @ '' for account '' @ account_id @ '' has insufficient balance ('' @ near_exact fm balance @ '', required: '' @ near_exact fm required @ '')''"
| "action_error_kind_display cr fm (Ak_GasKeyBalanceTooHigh account_id balance key) =
     ''balance ('' @ near_exact fm balance @ '') of '' @ (case key of Some pk \<Rightarrow> ''gas key '' @ public_key_display cr pk | None \<Rightarrow> ''gas keys'') @ '' for account '' @ account_id @ '' is too high''"
| "action_error_kind_display cr fm (Ak_Unknown value) =
     ''unknown action error: '' @ json_show fm value"

datatype invalid_tx_error =
  InvalidTx_InvalidAccessKeyError invalid_access_key_error
  | InvalidTx_InvalidSignerId string
  | InvalidTx_SignerDoesNotExist account_id
  | InvalidTx_InvalidNonce u64 u64
  | InvalidTx_NonceTooLarge u64 u64
  | InvalidTx_InvalidReceiverId string
  | InvalidTx_InvalidSignature
  | InvalidTx_NotEnoughBalance near_token near_token account_id
  | InvalidTx_LackBalanceForState near_token account_id
  | InvalidTx_CostOverflow
  | InvalidTx_InvalidChain
  | InvalidTx_Expired
  | InvalidTx_ActionsValidation actions_validation_error
  | InvalidTx_TransactionSizeExceeded u64 u64
  | InvalidTx_InvalidTransactionVersion
  | InvalidTx_StorageError storage_error
  | InvalidTx_ShardCongested f64 u64
  | InvalidTx_ShardStuck u64 u64
  | InvalidTx_InvalidNonceIndex u16 "u16 option"
  | InvalidTx_NotEnoughGasKeyBalance near_token near_token account_id
  | InvalidTx_NotEnoughBalanceForDeposit near_token near_token deposit_cost_failure_reason account_id
  | InvalidTx_Unknown json

primrec invalid_tx_error_display :: "crypto_ops \<Rightarrow> fmt_ops \<Rightarrow> invalid_tx_error \<Rightarrow> string" where
  "invalid_tx_error_display cr fm (InvalidTx_InvalidAccessKeyError e) =
     invalid_access_key_error_display cr fm e"
| "invalid_tx_error_display cr fm (InvalidTx_InvalidSignerId signer_id) =
     ''signer ID '' @ signer_id @ '' is not a valid account ID''"
| "invalid_tx_error_display cr fm (InvalidTx_SignerDoesNotExist signer_id) =
     ''signer account '' @ signer_id @ '' does not exist''"
| "invalid_tx_error_display cr fm (InvalidTx_InvalidNonce ak_nonce tx_nonce) =
     ''transaction nonce '' @ show_word tx_nonce @ '' must be larger than access key nonce '' @ show_word ak_nonce"
| "invalid_tx_error_display cr fm (InvalidTx_NonceTooLarge tx_nonce upper_bound) =
     ''transaction nonce '' @ show_word tx_nonce @ '' is larger than the upper bound '' @ show_word upper_bound"
| "invalid_tx_error_display cr fm (InvalidTx_InvalidReceiverId receiver_id) =
     ''receiver ID '' @ receiver_id @ '' is not a valid account ID''"
| "invalid_tx_error_display cr fm InvalidTx_InvalidSignature =
     ''transaction signature is not valid''"
| "invalid_tx_error_display cr fm (InvalidTx_NotEnoughBalance balance cost signer_id) =
     ''account '' @ signer_id @ '' does not have enough balance ('' @ near_exact fm balance @ '') to cover transaction cost ('' @ near_exact fm cost @ '')''"
| "invalid_tx_error_display cr fm (InvalidTx_LackBalanceForState amount signer_id) =
     ''account '' @ signer_id @ '' doesn't have enough balance ('' @ near_exact fm amount @ '') after transaction''"
| "invalid_tx_error_display cr fm InvalidTx_CostOverflow =
     ''integer overflow during transaction cost estimation''"
| "invalid_tx_error_display cr fm InvalidTx_InvalidChain =
     ''transaction parent block hash doesn't belong to the current chain''"
| "invalid_tx_error_display cr fm InvalidTx_Expired = ''transaction has expired''"
| "invalid_tx_error_display cr fm (InvalidTx_ActionsValidation e) =
     actions_validation_error_display cr fm e"
| "invalid_tx_error_display cr fm (InvalidTx_TransactionSizeExceeded limit sz) =
     ''serialized transaction size ('' @ show_word sz @ '') exceeded the limit ('' @ show_word limit @ '')''"
| "invalid_tx_error_display cr fm InvalidTx_InvalidTransactionVersion =
     ''invalid transaction version''"
| "invalid_tx_error_display cr fm (InvalidTx_StorageError e) =
     ''storage error: '' @ storage_error_display cr fm e"
| "invalid_tx_error_display cr fm (InvalidTx_ShardCongested congestion_level shard_id) =
     ''shard '' @ show_word shard_id @ '' is too congested ('' @ f64_2 fm congestion_level @ ''/1.00) to accept new transactions''"
| "invalid_tx_error_display cr fm (InvalidTx_ShardStuck missed_chunks shard_id) =
     ''shard '' @ show_word shard_id @ '' is '' @ show_word missed_chunks @ '' blocks behind and can't accept transactions''"
| "invalid_tx_error_display cr fm (InvalidTx_InvalidNonceIndex num_nonces tx_nonce_index) =
     (case tx_nonce_index of
        Some idx \<Rightarrow> ''invalid nonce index '' @ show_word idx @ '' for key with '' @ show_word num_nonces @ '' nonces''
      | None \<Rightarrow> ''missing nonce index for key with '' @ show_word num_nonces @ '' nonces'')"
| "invalid_tx_error_display cr fm (InvalidTx_NotEnoughGasKeyBalance balance cost signer_id) =
     ''gas key for '' @ signer_id @ '' does not have enough balance ('' @ near_exact fm balance @ '') for gas cost ('' @ near_exact fm cost @ '')''"
| "invalid_tx_error_display cr fm (InvalidTx_NotEnoughBalanceForDeposit balance cost reason signer_id) =
     ''signer '' @ signer_id @ '' does not have enough balance ('' @ near_exact fm balance @ '') to cover deposit cost ('' @ near_exact fm cost @ ''): '' @ deposit_cost_failure_reason_display cr fm reason"
| "invalid_tx_error_display cr fm (InvalidTx_Unknown value) =
     ''unknown transaction error: '' @ json_show fm value"

text \<open>\<open>InvalidTxError::is_retryable\<close>: the rejections that are transient.\<close>

primrec invalid_tx_is_retryable :: "invalid_tx_error \<Rightarrow> bool" where
  "invalid_tx_is_retryable (InvalidTx_InvalidAccessKeyError _) = False"
| "invalid_tx_is_retryable (InvalidTx_InvalidSignerId _) = False"
| "invalid_tx_is_retryable (InvalidTx_SignerDoesNotExist _) = False"
| "invalid_tx_is_retryable (InvalidTx_InvalidNonce _ _) = True"
| "invalid_tx_is_retryable (InvalidTx_NonceTooLarge _ _) = False"
| "invalid_tx_is_retryable (InvalidTx_InvalidReceiverId _) = False"
| "invalid_tx_is_retryable InvalidTx_InvalidSignature = False"
| "invalid_tx_is_retryable (InvalidTx_NotEnoughBalance _ _ _) = False"
| "invalid_tx_is_retryable (InvalidTx_LackBalanceForState _ _) = False"
| "invalid_tx_is_retryable InvalidTx_CostOverflow = False"
| "invalid_tx_is_retryable InvalidTx_InvalidChain = False"
| "invalid_tx_is_retryable InvalidTx_Expired = False"
| "invalid_tx_is_retryable (InvalidTx_ActionsValidation _) = False"
| "invalid_tx_is_retryable (InvalidTx_TransactionSizeExceeded _ _) = False"
| "invalid_tx_is_retryable InvalidTx_InvalidTransactionVersion = False"
| "invalid_tx_is_retryable (InvalidTx_StorageError _) = False"
| "invalid_tx_is_retryable (InvalidTx_ShardCongested _ _) = True"
| "invalid_tx_is_retryable (InvalidTx_ShardStuck _ _) = True"
| "invalid_tx_is_retryable (InvalidTx_InvalidNonceIndex _ _) = False"
| "invalid_tx_is_retryable (InvalidTx_NotEnoughGasKeyBalance _ _ _) = False"
| "invalid_tx_is_retryable (InvalidTx_NotEnoughBalanceForDeposit _ _ _ _) = False"
| "invalid_tx_is_retryable (InvalidTx_Unknown _) = False"

section \<open>Failures of actions and transactions\<close>

record action_error =
  ae_index :: "u64 option"
  ae_kind :: action_error_kind

definition action_error_display :: "crypto_ops \<Rightarrow> fmt_ops \<Rightarrow> action_error \<Rightarrow> string" where
  "action_error_display cr fm e =
     (case ae_index e of
        Some i \<Rightarrow> ''action #'' @ show_word i @ '': '' @ action_error_kind_display cr fm (ae_kind e)
      | None \<Rightarrow> action_error_kind_display cr fm (ae_kind e))"

datatype tx_execution_error = TxExec_ActionError action_error | TxExec_InvalidTxError invalid_tx_error

fun tx_execution_error_display :: "crypto_ops \<Rightarrow> fmt_ops \<Rightarrow> tx_execution_error \<Rightarrow> string" where
  "tx_execution_error_display cr fm (TxExec_ActionError e) = ''ActionError: '' @ action_error_display cr fm e"
| "tx_execution_error_display cr fm (TxExec_InvalidTxError e) =
     ''InvalidTxError: '' @ invalid_tx_error_display cr fm e"

end
