(* ===== verification/Actions.thy ===== *)
theory Actions
  imports Keys Units
begin

text \<open>
  Actions (\<open>types/action.rs\<close>) and the nonce types of \<open>types/transaction.rs\<close>: the data types,
  the constructors, the wire codec, and meta-transactions. A \<open>NonDelegateAction\<close> wraps an
  action as in the source; that it never wraps a delegate action is an invariant that
  \<open>from_action\<close> and the deserializer establish, not a consequence of its type.

  \<open>Action\<close> and \<open>NonDelegateAction\<close> deserialize each other in the source; the deserializer
  of the variants other than the two delegate ones is a function of its own here, since
  a \<open>NonDelegateAction\<close> only ever reads those.
\<close>

section \<open>Types\<close>

datatype publish_mode = Updatable | Immutable

record gas_key_info =
  gki_balance :: near_token
  gki_num_nonces :: u16

record function_call_permission =
  fcp_allowance :: "near_token option"
  fcp_receiver_id :: account_id
  fcp_method_names :: "string list"

datatype access_key_permission =
    PermFunctionCall function_call_permission
  | PermFullAccess
  | PermGasKeyFunctionCall gas_key_info function_call_permission
  | PermGasKeyFullAccess gas_key_info

record access_key =
  ak_nonce :: u64
  ak_permission :: access_key_permission

record function_call_action =
  fc_method_name :: string
  fc_args :: bytes
  fc_gas :: gas
  fc_deposit :: near_token

record stake_action =
  st_stake :: near_token
  st_public_key :: public_key

record add_key_action =
  adk_public_key :: public_key
  adk_access_key :: access_key

datatype global_contract_deploy_mode = DeployMode_CodeHash | DeployMode_AccountId

record deploy_global_contract_action =
  dg_code :: bytes
  dg_deploy_mode :: global_contract_deploy_mode

record deterministic_state_init_action =
  ds_state_init :: state_init
  ds_deposit :: near_token

record gas_key_transfer_action =
  gk_public_key :: public_key
  gk_amount :: near_token

datatype transaction_nonce = Nonce u64 | GasKeyNonce u64 u16

datatype action =
    CreateAccount
  | DeployContract bytes
  | FunctionCall function_call_action
  | Transfer near_token
  | Stake stake_action
  | AddKey add_key_action
  | DeleteKey public_key
  | DeleteAccount account_id
  | Delegate signed_delegate_action
  | DeployGlobalContract deploy_global_contract_action
  | UseGlobalContract global_contract_id
  | DeterministicStateInit deterministic_state_init_action
  | TransferToGasKey gas_key_transfer_action
  | WithdrawFromGasKey gas_key_transfer_action
  | DelegateV2 versioned_signed_delegate_action
and non_delegate_action = NonDelegateAction (inner: action)
and delegate_action =
    DelegateAction (da_sender_id: account_id) (da_receiver_id: account_id)
      (da_actions: "non_delegate_action list") (da_nonce: u64) (da_max_block_height: u64)
      (da_public_key: public_key)
and signed_delegate_action =
    SignedDelegateAction (sd_delegate_action: delegate_action) (sd_signature: signature)
and delegate_action_v2 =
    DelegateActionV2 (d2_sender_id: account_id) (d2_receiver_id: account_id)
      (d2_actions: "non_delegate_action list") (d2_nonce: transaction_nonce)
      (d2_max_block_height: u64) (d2_public_key: public_key)
and versioned_delegate_action_payload = PayloadV2 delegate_action_v2
and versioned_signed_delegate_action =
    VersionedSignedDelegateAction (vd_delegate_action: versioned_delegate_action_payload)
      (vd_signature: signature)

definition DELEGATE_ACTION_PREFIX :: u32 where "DELEGATE_ACTION_PREFIX = 1073742190"
definition DELEGATE_V2_ACTION_PREFIX :: u32 where "DELEGATE_V2_ACTION_PREFIX = 1073742435"
definition MAX_NONCES_FOR_GAS_KEY :: u16 where "MAX_NONCES_FOR_GAS_KEY = 1024"
definition DELEGATE_VARIANT_DISCRIMINANTS :: "u8 list" where "DELEGATE_VARIANT_DISCRIMINANTS = [8, 14]"

section \<open>Constructors and accessors\<close>

definition access_key_full_access :: access_key where
  "access_key_full_access = \<lparr>ak_nonce = 0, ak_permission = PermFullAccess\<rparr>"

definition permission_function_call ::
  "account_id \<Rightarrow> string list \<Rightarrow> near_token option \<Rightarrow> access_key_permission" where
  "permission_function_call rcv ms allowance =
     PermFunctionCall \<lparr>fcp_allowance = allowance, fcp_receiver_id = rcv, fcp_method_names = ms\<rparr>"

definition access_key_function_call ::
  "account_id \<Rightarrow> string list \<Rightarrow> near_token option \<Rightarrow> access_key" where
  "access_key_function_call rcv ms allowance =
     \<lparr>ak_nonce = 0, ak_permission = permission_function_call rcv ms allowance\<rparr>"

fun is_delegate :: "action \<Rightarrow> bool" where
  "is_delegate (Delegate _) = True"
| "is_delegate (DelegateV2 _) = True"
| "is_delegate _ = False"

definition action_function_call :: "string \<Rightarrow> bytes \<Rightarrow> gas \<Rightarrow> near_token \<Rightarrow> action" where
  "action_function_call m args g d =
     FunctionCall \<lparr>fc_method_name = m, fc_args = args, fc_gas = g, fc_deposit = d\<rparr>"

definition action_create_account :: action where
  [simp]: "action_create_account = CreateAccount"

definition action_deploy_contract :: "bytes \<Rightarrow> action" where
  [simp]: "action_deploy_contract code = DeployContract code"

definition action_transfer :: "near_token \<Rightarrow> action" where
  [simp]: "action_transfer deposit = Transfer deposit"

definition action_delete_key :: "public_key \<Rightarrow> action" where
  [simp]: "action_delete_key pk = DeleteKey pk"

definition action_delete_account :: "account_id \<Rightarrow> action" where
  [simp]: "action_delete_account beneficiary_id = DeleteAccount beneficiary_id"

definition action_delegate :: "signed_delegate_action \<Rightarrow> action" where
  [simp]: "action_delegate signed_delegate = Delegate signed_delegate"

definition action_delegate_v2 :: "versioned_signed_delegate_action \<Rightarrow> action" where
  [simp]: "action_delegate_v2 signed_delegate = DelegateV2 signed_delegate"

definition action_stake :: "near_token \<Rightarrow> public_key \<Rightarrow> action" where
  "action_stake s pk = Stake \<lparr>st_stake = s, st_public_key = pk\<rparr>"

definition action_add_full_access_key :: "public_key \<Rightarrow> action" where
  "action_add_full_access_key pk = AddKey \<lparr>adk_public_key = pk, adk_access_key = access_key_full_access\<rparr>"

definition action_add_function_call_key ::
  "public_key \<Rightarrow> account_id \<Rightarrow> string list \<Rightarrow> near_token option \<Rightarrow> action" where
  "action_add_function_call_key pk rcv ms allowance =
     AddKey \<lparr>adk_public_key = pk, adk_access_key = access_key_function_call rcv ms allowance\<rparr>"

definition action_publish :: "bytes \<Rightarrow> publish_mode \<Rightarrow> action" where
  "action_publish code mode =
     DeployGlobalContract \<lparr>dg_code = code,
       dg_deploy_mode = (case mode of Updatable \<Rightarrow> DeployMode_AccountId | Immutable \<Rightarrow> DeployMode_CodeHash)\<rparr>"

definition action_deploy_from_hash :: "crypto_hash \<Rightarrow> action" where
  "action_deploy_from_hash h = UseGlobalContract (CodeHash h)"

definition action_deploy_from_account :: "account_id \<Rightarrow> action" where
  "action_deploy_from_account a = UseGlobalContract (AccountId a)"

definition action_state_init :: "state_init \<Rightarrow> near_token \<Rightarrow> action" where
  "action_state_init si d = DeterministicStateInit \<lparr>ds_state_init = si, ds_deposit = d\<rparr>"

definition action_transfer_to_gas_key :: "public_key \<Rightarrow> near_token \<Rightarrow> action" where
  "action_transfer_to_gas_key pk d = TransferToGasKey \<lparr>gk_public_key = pk, gk_amount = d\<rparr>"

definition action_withdraw_from_gas_key :: "public_key \<Rightarrow> near_token \<Rightarrow> action" where
  "action_withdraw_from_gas_key pk a = WithdrawFromGasKey \<lparr>gk_public_key = pk, gk_amount = a\<rparr>"

definition state_init_by_hash :: "crypto_hash \<Rightarrow> (bytes \<times> bytes) list \<Rightarrow> state_init" where
  "state_init_by_hash h m = V1 \<lparr>si_code = CodeHash h, si_data = m\<rparr>"

definition state_init_by_publisher :: "account_id \<Rightarrow> (bytes \<times> bytes) list \<Rightarrow> state_init" where
  "state_init_by_publisher a m = V1 \<lparr>si_code = AccountId a, si_data = m\<rparr>"

text \<open>The conversions into a global contract identifier; a string that is not an account id
  panics. \<open>parse_acct\<close> is the parser of the crate.\<close>

datatype global_contract_arg = GcaId global_contract_id | GcaHash crypto_hash | GcaAccount account_id | GcaStr string

fun into_identifier :: "(string \<Rightarrow> string + account_id) \<Rightarrow> global_contract_arg \<Rightarrow> global_contract_id run" where
  "into_identifier parse_acct (GcaId g) = Done g"
| "into_identifier parse_acct (GcaHash h) = Done (CodeHash h)"
| "into_identifier parse_acct (GcaAccount a) = Done (AccountId a)"
| "into_identifier parse_acct (GcaStr s) =
     (case parse_acct s of Inl _ \<Rightarrow> Panic | Inr a \<Rightarrow> Done (AccountId a))"

definition non_delegate_from_action :: "action \<Rightarrow> non_delegate_action option" where
  "non_delegate_from_action a = (if is_delegate a then None else Some (NonDelegateAction a))"

definition non_delegate_try_from_action :: "action \<Rightarrow> unit + non_delegate_action" where
  "non_delegate_try_from_action a = ok_or () (non_delegate_from_action a)"

definition signed_delegate_sender_id :: "signed_delegate_action \<Rightarrow> account_id" where
  [simp]: "signed_delegate_sender_id s = da_sender_id (sd_delegate_action s)"

definition signed_delegate_receiver_id :: "signed_delegate_action \<Rightarrow> account_id" where
  [simp]: "signed_delegate_receiver_id s = da_receiver_id (sd_delegate_action s)"

fun transaction_nonce_nonce :: "transaction_nonce \<Rightarrow> u64" where
  "transaction_nonce_nonce (Nonce n) = n"
| "transaction_nonce_nonce (GasKeyNonce n _) = n"

fun transaction_nonce_index :: "transaction_nonce \<Rightarrow> u16 option" where
  "transaction_nonce_index (Nonce _) = None"
| "transaction_nonce_index (GasKeyNonce _ i) = Some i"

fun payload_public_key :: "versioned_delegate_action_payload \<Rightarrow> public_key" where
  "payload_public_key (PayloadV2 d) = d2_public_key d"

fun payload_get_actions :: "versioned_delegate_action_payload \<Rightarrow> action list" where
  "payload_get_actions (PayloadV2 d) = map inner (d2_actions d)"

section \<open>Serialization\<close>

definition ser_gas_key_info :: "borsh_ops \<Rightarrow> gas_key_info \<Rightarrow> bytes option" where
  "ser_gas_key_info bo g = cat [Some (enc_u128 bo (gki_balance g)), Some (enc_u16 bo (gki_num_nonces g))]"

definition ser_function_call_permission :: "borsh_ops \<Rightarrow> function_call_permission \<Rightarrow> bytes option" where
  "ser_function_call_permission bo p =
     cat [enc_option (\<lambda>t. Some (enc_u128 bo t)) (fcp_allowance p), enc_acct bo (fcp_receiver_id p),
          enc_list bo (enc_str bo) (fcp_method_names p)]"

fun ser_access_key_permission :: "borsh_ops \<Rightarrow> access_key_permission \<Rightarrow> bytes option" where
  "ser_access_key_permission bo (PermFunctionCall p) = cat [Some [0], ser_function_call_permission bo p]"
| "ser_access_key_permission bo PermFullAccess = Some [1]"
| "ser_access_key_permission bo (PermGasKeyFunctionCall g p) =
     cat [Some [2], ser_gas_key_info bo g, ser_function_call_permission bo p]"
| "ser_access_key_permission bo (PermGasKeyFullAccess g) = cat [Some [3], ser_gas_key_info bo g]"

definition ser_access_key :: "borsh_ops \<Rightarrow> access_key \<Rightarrow> bytes option" where
  "ser_access_key bo k =
     cat [Some (enc_u64 bo (ak_nonce k)), ser_access_key_permission bo (ak_permission k)]"

definition ser_function_call_action :: "borsh_ops \<Rightarrow> function_call_action \<Rightarrow> bytes option" where
  "ser_function_call_action bo c =
     cat [enc_str bo (fc_method_name c), enc_vec bo (fc_args c), Some (enc_u64 bo (fc_gas c)),
          Some (enc_u128 bo (fc_deposit c))]"

fun ser_deploy_mode :: "global_contract_deploy_mode \<Rightarrow> bytes option" where
  "ser_deploy_mode DeployMode_CodeHash = Some [0]"
| "ser_deploy_mode DeployMode_AccountId = Some [1]"

definition ser_gas_key_transfer :: "borsh_ops \<Rightarrow> gas_key_transfer_action \<Rightarrow> bytes option" where
  "ser_gas_key_transfer bo g = cat [ser_public_key (gk_public_key g), Some (enc_u128 bo (gk_amount g))]"

fun ser_transaction_nonce :: "borsh_ops \<Rightarrow> transaction_nonce \<Rightarrow> bytes option" where
  "ser_transaction_nonce bo (Nonce n) = cat [Some [0], Some (enc_u64 bo n)]"
| "ser_transaction_nonce bo (GasKeyNonce n i) = cat [Some [1], Some (enc_u64 bo n), Some (enc_u16 bo i)]"

fun ser_action :: "borsh_ops \<Rightarrow> action \<Rightarrow> bytes option"
  and ser_non_delegate :: "borsh_ops \<Rightarrow> non_delegate_action \<Rightarrow> bytes option"
  and ser_non_delegates :: "borsh_ops \<Rightarrow> non_delegate_action list \<Rightarrow> bytes option"
  and ser_delegate_action :: "borsh_ops \<Rightarrow> delegate_action \<Rightarrow> bytes option"
  and ser_signed_delegate :: "borsh_ops \<Rightarrow> signed_delegate_action \<Rightarrow> bytes option"
  and ser_delegate_action_v2 :: "borsh_ops \<Rightarrow> delegate_action_v2 \<Rightarrow> bytes option"
  and ser_payload :: "borsh_ops \<Rightarrow> versioned_delegate_action_payload \<Rightarrow> bytes option"
  and ser_versioned_signed :: "borsh_ops \<Rightarrow> versioned_signed_delegate_action \<Rightarrow> bytes option" where
  "ser_action bo CreateAccount = Some [0]"
| "ser_action bo (DeployContract code) = cat [Some [1], enc_vec bo code]"
| "ser_action bo (FunctionCall c) = cat [Some [2], ser_function_call_action bo c]"
| "ser_action bo (Transfer d) = cat [Some [3], Some (enc_u128 bo d)]"
| "ser_action bo (Stake s) = cat [Some [4], Some (enc_u128 bo (st_stake s)), ser_public_key (st_public_key s)]"
| "ser_action bo (AddKey k) =
     cat [Some [5], ser_public_key (adk_public_key k), ser_access_key bo (adk_access_key k)]"
| "ser_action bo (DeleteKey pk) = cat [Some [6], ser_public_key pk]"
| "ser_action bo (DeleteAccount a) = cat [Some [7], enc_acct bo a]"
| "ser_action bo (Delegate sd) = cat [Some [8], ser_signed_delegate bo sd]"
| "ser_action bo (DeployGlobalContract g) =
     cat [Some [9], enc_vec bo (dg_code g), ser_deploy_mode (dg_deploy_mode g)]"
| "ser_action bo (UseGlobalContract g) = cat [Some [10], enc_gcid bo g]"
| "ser_action bo (DeterministicStateInit s) =
     cat [Some [11], enc_state_init bo (ds_state_init s), Some (enc_u128 bo (ds_deposit s))]"
| "ser_action bo (TransferToGasKey g) = cat [Some [12], ser_gas_key_transfer bo g]"
| "ser_action bo (WithdrawFromGasKey g) = cat [Some [13], ser_gas_key_transfer bo g]"
| "ser_action bo (DelegateV2 v) = cat [Some [14], ser_versioned_signed bo v]"
| "ser_non_delegate bo (NonDelegateAction a) = ser_action bo a"
| "ser_non_delegates bo [] = Some []"
| "ser_non_delegates bo (a # as) = cat [ser_non_delegate bo a, ser_non_delegates bo as]"
| "ser_delegate_action bo (DelegateAction s r as n h pk) =
     cat [enc_acct bo s, enc_acct bo r, cat [enc_len bo (length as), ser_non_delegates bo as],
          Some (enc_u64 bo n), Some (enc_u64 bo h), ser_public_key pk]"
| "ser_signed_delegate bo (SignedDelegateAction d sig) = cat [ser_delegate_action bo d, ser_signature sig]"
| "ser_delegate_action_v2 bo (DelegateActionV2 s r as n h pk) =
     cat [enc_acct bo s, enc_acct bo r, cat [enc_len bo (length as), ser_non_delegates bo as],
          ser_transaction_nonce bo n, Some (enc_u64 bo h), ser_public_key pk]"
| "ser_payload bo (PayloadV2 d) = cat [Some [0], ser_delegate_action_v2 bo d]"
| "ser_versioned_signed bo (VersionedSignedDelegateAction p sig) = cat [ser_payload bo p, ser_signature sig]"

section \<open>Deserialization\<close>

definition de_gas_key_info :: "borsh_ops \<Rightarrow> gas_key_info dec" where
  "de_gas_key_info bo bs =
     dbind (dec_u128 bo bs) (\<lambda>b bs. dbind (dec_u16 bo bs) (\<lambda>n bs.
       Inr (\<lparr>gki_balance = b, gki_num_nonces = n\<rparr>, bs)))"

definition de_function_call_permission :: "borsh_ops \<Rightarrow> function_call_permission dec" where
  "de_function_call_permission bo bs =
     dbind (dec_option bo (dec_u128 bo) bs) (\<lambda>a bs. dbind (dec_acct bo bs) (\<lambda>r bs.
     dbind (dec_list bo (dec_str bo) bs) (\<lambda>ms bs.
       Inr (\<lparr>fcp_allowance = a, fcp_receiver_id = r, fcp_method_names = ms\<rparr>, bs))))"

definition de_access_key_permission :: "borsh_ops \<Rightarrow> access_key_permission dec" where
  "de_access_key_permission bo bs =
     dbind (read_u8 bo bs) (\<lambda>t bs.
       if t = 0 then dmap PermFunctionCall (de_function_call_permission bo bs)
       else if t = 1 then Inr (PermFullAccess, bs)
       else if t = 2 then
         dbind (de_gas_key_info bo bs) (\<lambda>g bs. dmap (PermGasKeyFunctionCall g) (de_function_call_permission bo bs))
       else if t = 3 then dmap PermGasKeyFullAccess (de_gas_key_info bo bs)
       else Inl (bad_tag_error bo t))"

definition de_access_key :: "borsh_ops \<Rightarrow> access_key dec" where
  "de_access_key bo bs =
     dbind (dec_u64 bo bs) (\<lambda>n bs. dbind (de_access_key_permission bo bs) (\<lambda>p bs.
       Inr (\<lparr>ak_nonce = n, ak_permission = p\<rparr>, bs)))"

definition de_function_call_action :: "borsh_ops \<Rightarrow> function_call_action dec" where
  "de_function_call_action bo bs =
     dbind (dec_str bo bs) (\<lambda>m bs. dbind (dec_vec bo bs) (\<lambda>a bs.
     dbind (dec_u64 bo bs) (\<lambda>g bs. dbind (dec_u128 bo bs) (\<lambda>d bs.
       Inr (\<lparr>fc_method_name = m, fc_args = a, fc_gas = g, fc_deposit = d\<rparr>, bs)))))"

definition de_deploy_mode :: "borsh_ops \<Rightarrow> global_contract_deploy_mode dec" where
  "de_deploy_mode bo bs =
     dbind (read_u8 bo bs) (\<lambda>t bs.
       if t = 0 then Inr (DeployMode_CodeHash, bs)
       else if t = 1 then Inr (DeployMode_AccountId, bs) else Inl (bad_tag_error bo t))"

definition de_gas_key_transfer :: "borsh_ops \<Rightarrow> crypto_ops \<Rightarrow> gas_key_transfer_action dec" where
  "de_gas_key_transfer bo cr bs =
     dbind (de_public_key bo cr bs) (\<lambda>pk bs. dbind (dec_u128 bo bs) (\<lambda>a bs.
       Inr (\<lparr>gk_public_key = pk, gk_amount = a\<rparr>, bs)))"

definition de_transaction_nonce :: "borsh_ops \<Rightarrow> transaction_nonce dec" where
  "de_transaction_nonce bo bs =
     dbind (read_u8 bo bs) (\<lambda>t bs.
       if t = 0 then dmap Nonce (dec_u64 bo bs)
       else if t = 1 then dbind (dec_u64 bo bs) (\<lambda>n bs. dmap (GasKeyNonce n) (dec_u16 bo bs))
       else Inl (bad_tag_error bo t))"

text \<open>The variants of \<open>Action::deserialize_variant\<close> that are not delegate actions.\<close>

definition de_plain_variant :: "borsh_ops \<Rightarrow> crypto_ops \<Rightarrow> u8 \<Rightarrow> action dec" where
  "de_plain_variant bo cr t bs =
     (if t = 0 then Inr (CreateAccount, bs)
      else if t = 1 then dmap DeployContract (dec_vec bo bs)
      else if t = 2 then dmap FunctionCall (de_function_call_action bo bs)
      else if t = 3 then dmap Transfer (dec_u128 bo bs)
      else if t = 4 then
        dbind (dec_u128 bo bs) (\<lambda>s bs. dbind (de_public_key bo cr bs) (\<lambda>pk bs.
          Inr (Stake \<lparr>st_stake = s, st_public_key = pk\<rparr>, bs)))
      else if t = 5 then
        dbind (de_public_key bo cr bs) (\<lambda>pk bs. dbind (de_access_key bo bs) (\<lambda>k bs.
          Inr (AddKey \<lparr>adk_public_key = pk, adk_access_key = k\<rparr>, bs)))
      else if t = 6 then dmap DeleteKey (de_public_key bo cr bs)
      else if t = 7 then dmap DeleteAccount (dec_acct bo bs)
      else if t = 9 then
        dbind (dec_vec bo bs) (\<lambda>c bs. dbind (de_deploy_mode bo bs) (\<lambda>m bs.
          Inr (DeployGlobalContract \<lparr>dg_code = c, dg_deploy_mode = m\<rparr>, bs)))
      else if t = 10 then dmap UseGlobalContract (dec_gcid bo bs)
      else if t = 11 then
        dbind (dec_state_init bo bs) (\<lambda>s bs. dbind (dec_u128 bo bs) (\<lambda>d bs.
          Inr (DeterministicStateInit \<lparr>ds_state_init = s, ds_deposit = d\<rparr>, bs)))
      else if t = 12 then dmap TransferToGasKey (de_gas_key_transfer bo cr bs)
      else if t = 13 then dmap WithdrawFromGasKey (de_gas_key_transfer bo cr bs)
      else Inl (bad_tag_error bo t))"

text \<open>The deserializer of a non-delegate action, over that of the variants of \<open>Action\<close>.\<close>

definition de_non_delegate_with :: "(u8 \<Rightarrow> action dec) \<Rightarrow> borsh_ops \<Rightarrow> non_delegate_action dec" where
  "de_non_delegate_with variant bo bs =
     dbind (read_u8 bo bs) (\<lambda>discriminant bs.
       if discriminant \<in> set DELEGATE_VARIANT_DISCRIMINANTS
       then Inl (InvalidInput ''a delegate action must not contain a nested delegate action'')
       else dmap NonDelegateAction (variant discriminant bs))"

text \<open>The derived deserializers of the delegate actions, over that of their actions.\<close>

definition de_delegate_action_with :: "non_delegate_action dec \<Rightarrow> borsh_ops \<Rightarrow> crypto_ops \<Rightarrow> delegate_action dec" where
  "de_delegate_action_with nd bo cr bs =
     dbind (dec_acct bo bs) (\<lambda>s bs. dbind (dec_acct bo bs) (\<lambda>r bs.
     dbind (dec_list bo nd bs) (\<lambda>as bs.
     dbind (dec_u64 bo bs) (\<lambda>n bs. dbind (dec_u64 bo bs) (\<lambda>h bs.
     dbind (de_public_key bo cr bs) (\<lambda>pk bs. Inr (DelegateAction s r as n h pk, bs)))))))"

definition de_signed_delegate_with ::
  "non_delegate_action dec \<Rightarrow> borsh_ops \<Rightarrow> crypto_ops \<Rightarrow> signed_delegate_action dec" where
  "de_signed_delegate_with nd bo cr bs =
     dbind (de_delegate_action_with nd bo cr bs) (\<lambda>d bs. dmap (SignedDelegateAction d) (de_signature bo bs))"

definition de_delegate_action_v2_with ::
  "non_delegate_action dec \<Rightarrow> borsh_ops \<Rightarrow> crypto_ops \<Rightarrow> delegate_action_v2 dec" where
  "de_delegate_action_v2_with nd bo cr bs =
     dbind (dec_acct bo bs) (\<lambda>s bs. dbind (dec_acct bo bs) (\<lambda>r bs.
     dbind (dec_list bo nd bs) (\<lambda>as bs.
     dbind (de_transaction_nonce bo bs) (\<lambda>n bs. dbind (dec_u64 bo bs) (\<lambda>h bs.
     dbind (de_public_key bo cr bs) (\<lambda>pk bs. Inr (DelegateActionV2 s r as n h pk, bs)))))))"

definition de_payload_with ::
  "non_delegate_action dec \<Rightarrow> borsh_ops \<Rightarrow> crypto_ops \<Rightarrow> versioned_delegate_action_payload dec" where
  "de_payload_with nd bo cr bs =
     dbind (read_u8 bo bs) (\<lambda>t bs.
       if t = 0 then dmap PayloadV2 (de_delegate_action_v2_with nd bo cr bs) else Inl (bad_tag_error bo t))"

definition de_versioned_signed_with ::
  "non_delegate_action dec \<Rightarrow> borsh_ops \<Rightarrow> crypto_ops \<Rightarrow> versioned_signed_delegate_action dec" where
  "de_versioned_signed_with nd bo cr bs =
     dbind (de_payload_with nd bo cr bs) (\<lambda>p bs. dmap (VersionedSignedDelegateAction p) (de_signature bo bs))"

text \<open>The variants of \<open>Action\<close> and their actions are deserialized by mutual recursion. The first
  argument bounds its depth; a level reads at least one byte, so the number of bytes is enough,
  and the bound is never met (\<open>deserialize_variant_eq\<close>).\<close>

primrec de_variant_fuel :: "nat \<Rightarrow> borsh_ops \<Rightarrow> crypto_ops \<Rightarrow> u8 \<Rightarrow> action dec" where
  "de_variant_fuel 0 bo cr t bs = Inl (InvalidInput ''nested too deeply'')"
| "de_variant_fuel (Suc depth) bo cr t bs =
     (if t = 8 then
        dmap Delegate (de_signed_delegate_with (de_non_delegate_with (de_variant_fuel depth bo cr) bo) bo cr bs)
      else if t = 14 then
        dmap DelegateV2 (de_versioned_signed_with (de_non_delegate_with (de_variant_fuel depth bo cr) bo) bo cr bs)
      else de_plain_variant bo cr t bs)"

definition deserialize_variant :: "borsh_ops \<Rightarrow> crypto_ops \<Rightarrow> u8 \<Rightarrow> action dec" where
  "deserialize_variant bo cr t bs = de_variant_fuel (length bs + 2) bo cr t bs"

definition de_non_delegate :: "borsh_ops \<Rightarrow> crypto_ops \<Rightarrow> non_delegate_action dec" where
  "de_non_delegate bo cr = de_non_delegate_with (deserialize_variant bo cr) bo"

definition de_delegate_action :: "borsh_ops \<Rightarrow> crypto_ops \<Rightarrow> delegate_action dec" where
  "de_delegate_action bo cr = de_delegate_action_with (de_non_delegate bo cr) bo cr"

definition de_signed_delegate :: "borsh_ops \<Rightarrow> crypto_ops \<Rightarrow> signed_delegate_action dec" where
  "de_signed_delegate bo cr = de_signed_delegate_with (de_non_delegate bo cr) bo cr"

definition de_delegate_action_v2 :: "borsh_ops \<Rightarrow> crypto_ops \<Rightarrow> delegate_action_v2 dec" where
  "de_delegate_action_v2 bo cr = de_delegate_action_v2_with (de_non_delegate bo cr) bo cr"

definition de_payload :: "borsh_ops \<Rightarrow> crypto_ops \<Rightarrow> versioned_delegate_action_payload dec" where
  "de_payload bo cr = de_payload_with (de_non_delegate bo cr) bo cr"

definition de_versioned_signed :: "borsh_ops \<Rightarrow> crypto_ops \<Rightarrow> versioned_signed_delegate_action dec" where
  "de_versioned_signed bo cr = de_versioned_signed_with (de_non_delegate bo cr) bo cr"

definition de_action :: "borsh_ops \<Rightarrow> crypto_ops \<Rightarrow> action dec" where
  "de_action bo cr bs = dbind (read_u8 bo bs) (deserialize_variant bo cr)"

section \<open>Meta-transactions\<close>

text \<open>The bytes that are hashed and signed; \<open>None\<close> is the panic of \<open>expect\<close>.\<close>

definition delegate_serialize_for_signing :: "borsh_ops \<Rightarrow> delegate_action \<Rightarrow> bytes option" where
  "delegate_serialize_for_signing bo d =
     cat [Some (to_le_bytes DELEGATE_ACTION_PREFIX), ser_delegate_action bo d]"

definition payload_serialize_for_signing ::
  "borsh_ops \<Rightarrow> versioned_delegate_action_payload \<Rightarrow> bytes option" where
  "payload_serialize_for_signing bo p =
     cat [Some (to_le_bytes DELEGATE_V2_ACTION_PREFIX), ser_payload bo p]"

definition delegate_get_hash :: "borsh_ops \<Rightarrow> crypto_ops \<Rightarrow> delegate_action \<Rightarrow> crypto_hash option" where
  "delegate_get_hash bo cr d = map_option (crypto_hash_hash cr) (delegate_serialize_for_signing bo d)"

definition payload_get_hash ::
  "borsh_ops \<Rightarrow> crypto_ops \<Rightarrow> versioned_delegate_action_payload \<Rightarrow> crypto_hash option" where
  "payload_get_hash bo cr p = map_option (crypto_hash_hash cr) (payload_serialize_for_signing bo p)"

definition delegate_sign :: "delegate_action \<Rightarrow> signature \<Rightarrow> signed_delegate_action" where
  "delegate_sign d sig = SignedDelegateAction d sig"

definition payload_sign :: "versioned_delegate_action_payload \<Rightarrow> signature \<Rightarrow> versioned_signed_delegate_action" where
  "payload_sign p sig = VersionedSignedDelegateAction p sig"

definition versioned_verify :: "borsh_ops \<Rightarrow> crypto_ops \<Rightarrow> versioned_signed_delegate_action \<Rightarrow> bool run" where
  "versioned_verify bo cr v =
     (case payload_get_hash bo cr (vd_delegate_action v) of None \<Rightarrow> Panic
      | Some h \<Rightarrow> Done (signature_verify cr (vd_signature v) h (payload_public_key (vd_delegate_action v))))"

datatype decode_error = DecodeBase64 string | DecodeBorsh io_error

definition signed_delegate_to_bytes :: "borsh_ops \<Rightarrow> signed_delegate_action \<Rightarrow> bytes option" where
  "signed_delegate_to_bytes bo s = ser_signed_delegate bo s"

definition signed_delegate_to_base64 :: "borsh_ops \<Rightarrow> crypto_ops \<Rightarrow> signed_delegate_action \<Rightarrow> string option" where
  "signed_delegate_to_base64 bo cr s = map_option (b64_encode cr) (signed_delegate_to_bytes bo s)"

definition signed_delegate_from_bytes ::
  "borsh_ops \<Rightarrow> crypto_ops \<Rightarrow> bytes \<Rightarrow> io_error + signed_delegate_action" where
  "signed_delegate_from_bytes bo cr bs = from_slice bo (de_signed_delegate bo cr) bs"

definition signed_delegate_from_base64 ::
  "borsh_ops \<Rightarrow> crypto_ops \<Rightarrow> string \<Rightarrow> decode_error + signed_delegate_action" where
  "signed_delegate_from_base64 bo cr s =
     rbind (map_err DecodeBase64 (b64_decode cr s)) (\<lambda>bs.
       map_err DecodeBorsh (signed_delegate_from_bytes bo cr bs))"

definition versioned_signed_to_bytes :: "borsh_ops \<Rightarrow> versioned_signed_delegate_action \<Rightarrow> bytes option" where
  "versioned_signed_to_bytes bo v = ser_versioned_signed bo v"

definition versioned_signed_to_base64 ::
  "borsh_ops \<Rightarrow> crypto_ops \<Rightarrow> versioned_signed_delegate_action \<Rightarrow> string option" where
  "versioned_signed_to_base64 bo cr v = map_option (b64_encode cr) (versioned_signed_to_bytes bo v)"

definition versioned_signed_from_bytes ::
  "borsh_ops \<Rightarrow> crypto_ops \<Rightarrow> bytes \<Rightarrow> io_error + versioned_signed_delegate_action" where
  "versioned_signed_from_bytes bo cr bs = from_slice bo (de_versioned_signed bo cr) bs"

definition versioned_signed_from_base64 ::
  "borsh_ops \<Rightarrow> crypto_ops \<Rightarrow> string \<Rightarrow> decode_error + versioned_signed_delegate_action" where
  "versioned_signed_from_base64 bo cr s =
     rbind (map_err DecodeBase64 (b64_decode cr s)) (\<lambda>bs.
       map_err DecodeBorsh (versioned_signed_from_bytes bo cr bs))"

section \<open>Well-formed actions\<close>

definition function_call_permission_ok :: "borsh_ops \<Rightarrow> function_call_permission \<Rightarrow> bool" where
  "function_call_permission_ok bo p \<longleftrightarrow>
     acct_ok bo (fcp_receiver_id p) \<and> list_all (str_ok bo) (fcp_method_names p)"

fun access_key_permission_ok :: "borsh_ops \<Rightarrow> access_key_permission \<Rightarrow> bool" where
  "access_key_permission_ok bo (PermFunctionCall p) = function_call_permission_ok bo p"
| "access_key_permission_ok bo (PermGasKeyFunctionCall g p) = function_call_permission_ok bo p"
| "access_key_permission_ok bo _ = True"

text \<open>The fields of the action itself, without what a delegate action contains.\<close>

fun plain_ok :: "borsh_ops \<Rightarrow> crypto_ops \<Rightarrow> action \<Rightarrow> bool" where
  "plain_ok bo cr (FunctionCall c) = str_ok bo (fc_method_name c)"
| "plain_ok bo cr (Stake s) = public_key_ok cr (st_public_key s)"
| "plain_ok bo cr (AddKey k) =
     (public_key_ok cr (adk_public_key k) \<and> access_key_permission_ok bo (ak_permission (adk_access_key k)))"
| "plain_ok bo cr (DeleteKey pk) = public_key_ok cr pk"
| "plain_ok bo cr (DeleteAccount a) = acct_ok bo a"
| "plain_ok bo cr (UseGlobalContract g) = gcid_ok bo g"
| "plain_ok bo cr (DeterministicStateInit s) = state_init_ok bo (ds_state_init s)"
| "plain_ok bo cr (TransferToGasKey g) = public_key_ok cr (gk_public_key g)"
| "plain_ok bo cr (WithdrawFromGasKey g) = public_key_ok cr (gk_public_key g)"
| "plain_ok bo cr _ = True"

definition non_delegate_ok :: "borsh_ops \<Rightarrow> crypto_ops \<Rightarrow> non_delegate_action \<Rightarrow> bool" where
  "non_delegate_ok bo cr a \<longleftrightarrow> \<not> is_delegate (inner a) \<and> plain_ok bo cr (inner a)"

definition delegate_action_ok :: "borsh_ops \<Rightarrow> crypto_ops \<Rightarrow> delegate_action \<Rightarrow> bool" where
  "delegate_action_ok bo cr d \<longleftrightarrow> acct_ok bo (da_sender_id d) \<and> acct_ok bo (da_receiver_id d) \<and>
     list_all (non_delegate_ok bo cr) (da_actions d) \<and> public_key_ok cr (da_public_key d)"

definition signed_delegate_ok :: "borsh_ops \<Rightarrow> crypto_ops \<Rightarrow> signed_delegate_action \<Rightarrow> bool" where
  "signed_delegate_ok bo cr s \<longleftrightarrow> delegate_action_ok bo cr (sd_delegate_action s) \<and> signature_ok (sd_signature s)"

fun payload_ok :: "borsh_ops \<Rightarrow> crypto_ops \<Rightarrow> versioned_delegate_action_payload \<Rightarrow> bool" where
  "payload_ok bo cr (PayloadV2 d) = (acct_ok bo (d2_sender_id d) \<and> acct_ok bo (d2_receiver_id d) \<and>
     list_all (non_delegate_ok bo cr) (d2_actions d) \<and> public_key_ok cr (d2_public_key d))"

definition versioned_signed_ok :: "borsh_ops \<Rightarrow> crypto_ops \<Rightarrow> versioned_signed_delegate_action \<Rightarrow> bool" where
  "versioned_signed_ok bo cr v \<longleftrightarrow> payload_ok bo cr (vd_delegate_action v) \<and> signature_ok (vd_signature v)"

fun action_ok :: "borsh_ops \<Rightarrow> crypto_ops \<Rightarrow> action \<Rightarrow> bool" where
  "action_ok bo cr (Delegate s) = signed_delegate_ok bo cr s"
| "action_ok bo cr (DelegateV2 v) = versioned_signed_ok bo cr v"
| "action_ok bo cr a = plain_ok bo cr a"

text \<open>No delegate action inside a delegate action.\<close>

fun nest_free :: "action \<Rightarrow> bool" where
  "nest_free (Delegate s) = list_all (\<lambda>a. \<not> is_delegate (inner a)) (da_actions (sd_delegate_action s))"
| "nest_free (DelegateV2 v) = list_all (\<lambda>a. \<not> is_delegate a) (payload_get_actions (vd_delegate_action v))"
| "nest_free _ = True"

section \<open>The recursion of the deserializer\<close>

lemma delegate_tag [simp]: "t \<in> set DELEGATE_VARIANT_DISCRIMINANTS \<longleftrightarrow> t = 8 \<or> t = 14"
  by (simp add: DELEGATE_VARIANT_DISCRIMINANTS_def)

text \<open>Behind the guard no delegate variant is read, so any depth but zero gives the same.\<close>

lemma de_non_delegate_fuel:
  assumes "\<And>t bs. t \<noteq> 8 \<Longrightarrow> t \<noteq> 14 \<Longrightarrow> variant t bs = de_plain_variant bo cr t bs"
  shows "de_non_delegate_with variant bo bs = dbind (read_u8 bo bs) (\<lambda>t bs.
    if t = 8 \<or> t = 14 then Inl (InvalidInput ''a delegate action must not contain a nested delegate action'')
    else dmap NonDelegateAction (de_plain_variant bo cr t bs))"
  unfolding de_non_delegate_with_def
  by (intro arg_cong2 [where f = dbind] refl ext) (simp add: assms)

lemma de_non_delegate_eq:
  "de_non_delegate bo cr bs = dbind (read_u8 bo bs) (\<lambda>t bs.
    if t = 8 \<or> t = 14 then Inl (InvalidInput ''a delegate action must not contain a nested delegate action'')
    else dmap NonDelegateAction (de_plain_variant bo cr t bs))"
  unfolding de_non_delegate_def by (rule de_non_delegate_fuel) (simp add: deserialize_variant_def)

lemma de_non_delegate_depth:
  "de_non_delegate_with (de_variant_fuel (Suc depth) bo cr) bo = de_non_delegate bo cr"
  by (rule ext) (simp add: de_non_delegate_eq de_non_delegate_fuel)

text \<open>The equation of the source: the bound on the depth is never met.\<close>

lemma deserialize_variant_eq:
  "deserialize_variant bo cr t bs =
     (if t = 8 then dmap Delegate (de_signed_delegate bo cr bs)
      else if t = 14 then dmap DelegateV2 (de_versioned_signed bo cr bs)
      else de_plain_variant bo cr t bs)"
  unfolding deserialize_variant_def add_2_eq_Suc' de_variant_fuel.simps(2) [of "Suc _"] de_non_delegate_depth
    de_signed_delegate_def de_versioned_signed_def by (rule refl)

lemma de_action_eq:
  "de_action bo cr bs = dbind (read_u8 bo bs) (\<lambda>t bs.
     if t = 8 then dmap Delegate (de_signed_delegate bo cr bs)
     else if t = 14 then dmap DelegateV2 (de_versioned_signed bo cr bs)
     else de_plain_variant bo cr t bs)"
  unfolding de_action_def by (intro arg_cong2 [where f = dbind] refl ext) (rule deserialize_variant_eq)

lemma de_delegate_eqs:
  "de_delegate_action bo cr bs =
     dbind (dec_acct bo bs) (\<lambda>s bs. dbind (dec_acct bo bs) (\<lambda>r bs.
     dbind (dec_list bo (de_non_delegate bo cr) bs) (\<lambda>as bs.
     dbind (dec_u64 bo bs) (\<lambda>n bs. dbind (dec_u64 bo bs) (\<lambda>h bs.
     dbind (de_public_key bo cr bs) (\<lambda>pk bs. Inr (DelegateAction s r as n h pk, bs)))))))"
  "de_signed_delegate bo cr bs =
     dbind (de_delegate_action bo cr bs) (\<lambda>d bs. dmap (SignedDelegateAction d) (de_signature bo bs))"
  "de_delegate_action_v2 bo cr bs =
     dbind (dec_acct bo bs) (\<lambda>s bs. dbind (dec_acct bo bs) (\<lambda>r bs.
     dbind (dec_list bo (de_non_delegate bo cr) bs) (\<lambda>as bs.
     dbind (de_transaction_nonce bo bs) (\<lambda>n bs. dbind (dec_u64 bo bs) (\<lambda>h bs.
     dbind (de_public_key bo cr bs) (\<lambda>pk bs. Inr (DelegateActionV2 s r as n h pk, bs)))))))"
  "de_payload bo cr bs =
     dbind (read_u8 bo bs) (\<lambda>t bs.
       if t = 0 then dmap PayloadV2 (de_delegate_action_v2 bo cr bs) else Inl (bad_tag_error bo t))"
  "de_versioned_signed bo cr bs =
     dbind (de_payload bo cr bs) (\<lambda>p bs. dmap (VersionedSignedDelegateAction p) (de_signature bo bs))"
  unfolding de_delegate_action_def de_delegate_action_with_def de_signed_delegate_def de_signed_delegate_with_def
      de_delegate_action_v2_def de_delegate_action_v2_with_def de_payload_def de_payload_with_def
      de_versioned_signed_def de_versioned_signed_with_def
  by (rule refl)+

lemmas de_delegate_action_eq = de_delegate_eqs(1)
lemmas de_signed_delegate_eq = de_delegate_eqs(2)
lemmas de_delegate_action_v2_eq = de_delegate_eqs(3)
lemmas de_payload_eq = de_delegate_eqs(4)
lemmas de_versioned_signed_eq = de_delegate_eqs(5)

section \<open>Round trips\<close>

lemma ser_non_delegates_items: "ser_non_delegates bo as = enc_items (ser_non_delegate bo) as"
  by (induction as) simp_all

lemma ser_non_delegates_list [simp]:
  "cat [enc_len bo (length as), ser_non_delegates bo as] = enc_list bo (ser_non_delegate bo) as"
  by (simp add: ser_non_delegates_items enc_list_def)

context wire_env
begin

lemma u128_codec: "wire_codec (\<lambda>t. Some (enc_u128 bo t)) (dec_u128 bo) (\<lambda>_. True)"
  by unfold_locales auto

lemma str_codec: "wire_codec (enc_str bo) (dec_str bo) (str_ok bo)"
  by unfold_locales auto

lemmas option_rt = wire_codec.option_round_trip[OF u128_codec]
lemmas strings_rt = list_rt[OF str_codec]

lemma fcp_rt:
  "function_call_permission_ok bo p \<Longrightarrow> ser_function_call_permission bo p = Some bs \<Longrightarrow>
   de_function_call_permission bo (bs @ rest) = Inr (p, rest)"
  by (auto simp: ser_function_call_permission_def de_function_call_permission_def
      function_call_permission_ok_def option_rt strings_rt option.pred_True)

lemma gki_rt: "ser_gas_key_info bo g = Some bs \<Longrightarrow> de_gas_key_info bo (bs @ rest) = Inr (g, rest)"
  by (auto simp: ser_gas_key_info_def de_gas_key_info_def)

lemma akp_rt:
  "access_key_permission_ok bo p \<Longrightarrow> ser_access_key_permission bo p = Some bs \<Longrightarrow>
   de_access_key_permission bo (bs @ rest) = Inr (p, rest)"
  by (cases p) (auto simp: de_access_key_permission_def fcp_rt gki_rt)

lemma ak_rt:
  "access_key_permission_ok bo (ak_permission k) \<Longrightarrow> ser_access_key bo k = Some bs \<Longrightarrow>
   de_access_key bo (bs @ rest) = Inr (k, rest)"
  by (auto simp: ser_access_key_def de_access_key_def akp_rt)

lemma fca_rt:
  "str_ok bo (fc_method_name c) \<Longrightarrow> ser_function_call_action bo c = Some bs \<Longrightarrow>
   de_function_call_action bo (bs @ rest) = Inr (c, rest)"
  by (auto simp: ser_function_call_action_def de_function_call_action_def)

lemma mode_rt: "ser_deploy_mode m = Some bs \<Longrightarrow> de_deploy_mode bo (bs @ rest) = Inr (m, rest)"
  by (cases m) (auto simp: de_deploy_mode_def)

lemma gkt_rt:
  "public_key_ok cr (gk_public_key g) \<Longrightarrow> ser_gas_key_transfer bo g = Some bs \<Longrightarrow>
   de_gas_key_transfer bo cr (bs @ rest) = Inr (g, rest)"
  by (auto simp: ser_gas_key_transfer_def de_gas_key_transfer_def public_key_rt)

lemma nonce_rt: "ser_transaction_nonce bo n = Some bs \<Longrightarrow> de_transaction_nonce bo (bs @ rest) = Inr (n, rest)"
  by (cases n) (auto simp: de_transaction_nonce_def)

lemma plain_rt:
  assumes "plain_ok bo cr a" "\<not> is_delegate a" "ser_action bo a = Some bs"
  shows "bs \<noteq> [] \<and> hd bs \<noteq> 8 \<and> hd bs \<noteq> 14 \<and>
     de_plain_variant bo cr (hd bs) (tl bs @ rest) = Inr (a, rest)"
  using assms
  by (cases a)
    (auto simp: de_plain_variant_def fca_rt ak_rt mode_rt gkt_rt public_key_rt)

end

sublocale wire_env < nda: wire_codec "ser_non_delegate bo" "de_non_delegate bo cr" "non_delegate_ok bo cr"
proof unfold_locales
  fix x bs rest
  assume "non_delegate_ok bo cr x" "ser_non_delegate bo x = Some bs"
  then obtain t b where "bs = t # b" "t \<noteq> 8" "t \<noteq> 14"
    "de_plain_variant bo cr t (b @ rest) = Inr (inner x, rest)"
    using plain_rt[of "inner x" bs rest] by (cases x; cases bs) (auto simp: non_delegate_ok_def)
  then show "de_non_delegate bo cr (bs @ rest) = Inr (x, rest)"
    by (cases x) (simp add: de_non_delegate_eq DELEGATE_VARIANT_DISCRIMINANTS_def)
qed

context wire_env
begin

lemmas ndas_rt = list_rt[OF nda.wire_codec_axioms]
lemmas field_rt = ndas_rt public_key_rt signature_rt nonce_rt

end

sublocale wire_env < da: wire_codec "ser_delegate_action bo" "de_delegate_action bo cr" "delegate_action_ok bo cr"
proof unfold_locales
  fix x bs rest
  assume "delegate_action_ok bo cr x" "ser_delegate_action bo x = Some bs"
  then show "de_delegate_action bo cr (bs @ rest) = Inr (x, rest)"
    by (cases x) (auto simp: delegate_action_ok_def de_delegate_action_eq field_rt)
qed

sublocale wire_env < sda: wire_codec "ser_signed_delegate bo" "de_signed_delegate bo cr" "signed_delegate_ok bo cr"
proof unfold_locales
  fix x bs rest
  assume "signed_delegate_ok bo cr x" "ser_signed_delegate bo x = Some bs"
  then show "de_signed_delegate bo cr (bs @ rest) = Inr (x, rest)"
    by (cases x) (auto simp: signed_delegate_ok_def de_signed_delegate_eq field_rt da.round_trip)
qed

sublocale wire_env < pld: wire_codec "ser_payload bo" "de_payload bo cr" "payload_ok bo cr"
proof unfold_locales
  fix x bs rest
  assume h: "payload_ok bo cr x" "ser_payload bo x = Some bs"
  obtain s r as n k pk where x: "x = PayloadV2 (DelegateActionV2 s r as n k pk)"
    by (metis delegate_action_v2.exhaust versioned_delegate_action_payload.exhaust)
  show "de_payload bo cr (bs @ rest) = Inr (x, rest)"
    using h unfolding x by (auto simp: de_payload_eq de_delegate_action_v2_eq field_rt)
qed

sublocale wire_env < vsd: wire_codec "ser_versioned_signed bo" "de_versioned_signed bo cr" "versioned_signed_ok bo cr"
proof unfold_locales
  fix x bs rest
  assume "versioned_signed_ok bo cr x" "ser_versioned_signed bo x = Some bs"
  then show "de_versioned_signed bo cr (bs @ rest) = Inr (x, rest)"
    by (cases x) (auto simp: versioned_signed_ok_def de_versioned_signed_eq field_rt pld.round_trip)
qed

sublocale wire_env < act: wire_codec "ser_action bo" "de_action bo cr" "action_ok bo cr"
proof unfold_locales
  fix x bs rest
  assume h: "action_ok bo cr x" "ser_action bo x = Some bs"
  show "de_action bo cr (bs @ rest) = Inr (x, rest)"
  proof (cases "is_delegate x")
    case True
    then show ?thesis using h
      by (cases x) (auto simp: de_action_eq sda.round_trip vsd.round_trip)
  next
    case False
    then have "plain_ok bo cr x" using h(1) by (cases x) simp_all
    from plain_rt[OF this False h(2), of rest] show ?thesis
      by (cases bs) (simp_all add: de_action_eq)
  qed
qed

context wire_env
begin

lemmas signed_delegate_rt = sda.from_slice_round_trip
lemmas versioned_signed_rt = vsd.from_slice_round_trip
lemmas action_rt = act.round_trip
lemmas actions_rt = list_rt[OF act.wire_codec_axioms]
lemmas delegate_action_inj = da.enc_inj
lemmas payload_inj = pld.enc_inj

end

section \<open>What the deserializer accepts\<close>

lemma de_plain_not_delegate: "de_plain_variant bo cr t bs = Inr (a, rest) \<Longrightarrow> \<not> is_delegate a"
  by (auto simp: de_plain_variant_def dbind_eq_Inr dmap_eq_Inr split: if_splits)

lemma de_non_delegate_inner: "de_non_delegate bo cr bs = Inr (x, rest) \<Longrightarrow> \<not> is_delegate (inner x)"
  by (auto simp: de_non_delegate_eq dbind_eq_Inr dmap_eq_Inr split: if_splits
      dest: de_plain_not_delegate)

lemma dec_items_all:
  "(\<And>b x r. dec b = Inr (x, r) \<Longrightarrow> P x) \<Longrightarrow> dec_items dec n bs = Inr (xs, rest) \<Longrightarrow> list_all P xs"
  by (induction n arbitrary: bs xs) (auto simp: dbind_eq_Inr)

lemma dec_list_all:
  "(\<And>b x r. dec b = Inr (x, r) \<Longrightarrow> P x) \<Longrightarrow> dec_list bo dec bs = Inr (xs, rest) \<Longrightarrow> list_all P xs"
  by (auto simp: dec_list_def dbind_eq_Inr intro: dec_items_all)

lemma de_delegate_nest_free:
  "de_delegate_action bo cr bs = Inr (d, rest) \<Longrightarrow> list_all (\<lambda>a. \<not> is_delegate (inner a)) (da_actions d)"
  by (auto simp: de_delegate_action_eq dbind_eq_Inr intro: dec_list_all[OF de_non_delegate_inner])

lemma de_payload_nest_free:
  "de_payload bo cr bs = Inr (p, rest) \<Longrightarrow> list_all (\<lambda>a. \<not> is_delegate a) (payload_get_actions p)"
proof -
  assume "de_payload bo cr bs = Inr (p, rest)"
  then obtain d r where d: "de_delegate_action_v2 bo cr r = Inr (d, rest)" "p = PayloadV2 d"
    by (auto simp: de_payload_eq dbind_eq_Inr dmap_eq_Inr split: if_splits)
  then have "list_all (\<lambda>a. \<not> is_delegate (inner a)) (d2_actions d)"
    by (auto simp: de_delegate_action_v2_eq dbind_eq_Inr intro: dec_list_all[OF de_non_delegate_inner])
  then show ?thesis using d(2) by (simp add: list.pred_map comp_def)
qed

section \<open>Properties\<close>

text \<open>Every well-formed action, delegate actions included, deserializes from its
  serialization, whatever follows it on the wire.\<close>

theorem action_wire_round_trip:
  assumes "borsh_laws bo" "action_ok bo cr a" "ser_action bo a = Some bs"
  shows "de_action bo cr (bs @ rest) = Inr (a, rest)"
  using wire_env.action_rt[OF wire_env.intro[OF assms(1)]] assms(2,3) by blast

theorem action_wire_round_trip_witness:
  "\<exists>bs. ser_action borsh_le (Transfer 7) = Some bs \<and>
     de_action borsh_le crypto_ref (bs @ [1, 2]) = Inr (Transfer 7, [1, 2])"
proof -
  have "ser_action borsh_le (Transfer 7) = Some (3 # enc_u128 borsh_le 7)" by (simp add: cat.simps)
  moreover have "action_ok borsh_le crypto_ref (Transfer 7)" by simp
  ultimately show ?thesis using action_wire_round_trip[OF le.borsh_laws_axioms] by blast
qed

text \<open>C10: No sequence of bytes deserializes into a delegate action that contains a delegate
  action; the tags of the two delegate variants are refused inside one, and \<open>from_action\<close>
  refuses exactly the delegate actions.\<close>

theorem no_nested_delegate:
  "(de_action bo cr bs = Inr (a, rest) \<longrightarrow> nest_free a) \<and>
   (t \<in> {8, 14} \<longrightarrow> de_non_delegate bo cr (t # bs) =
      Inl (InvalidInput ''a delegate action must not contain a nested delegate action'')) \<and>
   (non_delegate_from_action b = None \<longleftrightarrow> is_delegate b)"
proof -
  have "nest_free a" if h: "de_action bo cr bs = Inr (a, rest)"
  proof -
    obtain t r where "de_plain_variant bo cr t r = Inr (a, rest) \<or>
        (\<exists>s. a = Delegate s \<and> de_signed_delegate bo cr r = Inr (s, rest)) \<or>
        (\<exists>v. a = DelegateV2 v \<and> de_versioned_signed bo cr r = Inr (v, rest))"
      using h by (auto simp: de_action_eq dbind_eq_Inr dmap_eq_Inr split: if_splits)
    moreover have "nest_free a" if "\<not> is_delegate a" using that by (cases a) simp_all
    ultimately show ?thesis
      by (auto simp: de_signed_delegate_eq de_versioned_signed_eq dbind_eq_Inr dmap_eq_Inr
          dest: de_plain_not_delegate de_delegate_nest_free de_payload_nest_free)
  qed
  then show ?thesis
    by (auto simp: de_non_delegate_eq DELEGATE_VARIANT_DISCRIMINANTS_def non_delegate_from_action_def)
qed

theorem no_nested_delegate_witness:
  "de_non_delegate borsh_le crypto_ref [8, 0] =
     Inl (InvalidInput ''a delegate action must not contain a nested delegate action'')"
proof -
  have "(8 :: u8) \<in> {8, 14}" by simp
  then show ?thesis using no_nested_delegate[of borsh_le crypto_ref "[0]" _ _ 8] by blast
qed

text \<open>A signed delegate action of either version that is well-formed survives the trip
  through base64: decoding gives exactly the value that was encoded.\<close>

theorem signed_delegate_base64_round_trip:
  assumes "borsh_laws bo" "b64_laws cr"
  shows "(signed_delegate_ok bo cr s \<and> signed_delegate_to_base64 bo cr s = Some t \<longrightarrow>
            signed_delegate_from_base64 bo cr t = Inr s) \<and>
         (versioned_signed_ok bo cr v \<and> versioned_signed_to_base64 bo cr v = Some u \<longrightarrow>
            versioned_signed_from_base64 bo cr u = Inr v)"
  using wire_env.signed_delegate_rt[OF wire_env.intro[OF assms(1)]]
    wire_env.versioned_signed_rt[OF wire_env.intro[OF assms(1)]] b64_laws.b64_rt[OF assms(2)]
  by (auto simp: signed_delegate_to_base64_def signed_delegate_from_base64_def signed_delegate_to_bytes_def
      signed_delegate_from_bytes_def versioned_signed_to_base64_def versioned_signed_from_base64_def
      versioned_signed_to_bytes_def versioned_signed_from_bytes_def)

definition sample_delegate :: signed_delegate_action where
  "sample_delegate = SignedDelegateAction
     (DelegateAction ''alice.near'' ''bob.near'' [NonDelegateAction (Transfer 5)] 1 2
        (PublicKey_Ed25519 (replicate 32 3)))
     (Signature_Ed25519 (replicate 64 4))"

theorem signed_delegate_base64_round_trip_witness:
  "\<exists>t. signed_delegate_to_base64 borsh_le crypto_ref sample_delegate = Some t \<and>
     signed_delegate_from_base64 borsh_le crypto_ref t = Inr sample_delegate"
proof -
  have acct: "le_acct_ok ''alice.near''" "le_acct_ok ''bob.near''" by code_simp+
  then have "signed_delegate_ok borsh_le crypto_ref sample_delegate"
    by (simp add: sample_delegate_def signed_delegate_ok_def delegate_action_ok_def non_delegate_ok_def
        signature_ok_def borsh_le_def crypto_ref_def)
  moreover have "signed_delegate_to_bytes borsh_le sample_delegate \<noteq> None"
    by (simp add: signed_delegate_to_bytes_def sample_delegate_def enc_list_def borsh_le_def cat.simps
        le_enc_str_def le_enc_bytes_def le_enc_len_def ser_public_key_def ser_signature_def)
  ultimately show ?thesis
    using signed_delegate_base64_round_trip[OF le.borsh_laws_axioms ref64.b64_laws_axioms, of sample_delegate]
    by (auto simp: signed_delegate_to_base64_def)
qed

end
