(* ===== verification/Rpc_Errors.thy ===== *)
theory Rpc_Errors
  imports Error_Types Actions
begin

text \<open>
  The errors of the client (\<open>error.rs\<close>): what an RPC call can fail with, which failures
  are worth sending the same request again for, how a rejected transaction is recognised
  in the data of an error, and the error type of the public interface. An error of
  \<open>reqwest\<close> is represented by the two observers that the code calls and its text; errors of
  \<open>serde_json\<close>, of the file system and of \<open>near-account-id\<close> by their text. The model is
  that of a native build with the \<open>rpc\<close> feature.
\<close>

record reqwest_error =
  reqwest_is_timeout :: bool
  reqwest_is_connect :: bool
  reqwest_text :: string

text \<open>The fields of a variant are in the order of the source.\<close>

datatype rpc_error =
    Rpc_Http reqwest_error
  | Rpc_Network string "u16 option" bool
  | Rpc_Timeout u32
  | Rpc_Json string
  | Rpc_InvalidResponse string
  | Rpc_Rpc "int" string "json option"
  | Rpc_AccountNotFound account_id "u64 option" "crypto_hash option"
  | Rpc_InvalidAccount string "u64 option" "crypto_hash option"
  | Rpc_AccessKeyNotFound account_id public_key "u64 option" "crypto_hash option"
  | Rpc_GasKeyNotFound account_id public_key "u64 option" "crypto_hash option"
  | Rpc_ContractNotDeployed account_id "u64 option" "crypto_hash option"
  | Rpc_ContractStateTooLarge account_id "u64 option" "crypto_hash option"
  | Rpc_GlobalContractNotFound global_contract_identifier_view "u64 option" "crypto_hash option"
  | Rpc_ContractExecution account_id "string option" string "u64 option" "crypto_hash option"
  | Rpc_MethodNotFound account_id string "u64 option" "crypto_hash option"
  | Rpc_ContractPanic string "u64 option" "crypto_hash option"
  | Rpc_UnknownBlock string
  | Rpc_UnknownChunk string
  | Rpc_UnknownEpoch string
  | Rpc_InvalidShardId string
  | Rpc_UnknownReceipt string
  | Rpc_InvalidTx invalid_tx_error
  | Rpc_InvalidTransaction string "json option"
  | Rpc_ShardUnavailable string
  | Rpc_NodeNotSynced string
  | Rpc_InternalError string
  | Rpc_ParseError string
  | Rpc_RequestTimeout string "string option"
  | Rpc_TooManyAccessKeys account_id u32 "u64 option" "crypto_hash option"

text \<open>\<open>RpcError::is_retryable\<close>: whether sending the same request again may succeed.\<close>

primrec rpc_is_retryable :: "rpc_error \<Rightarrow> bool" where
  "rpc_is_retryable (Rpc_Http e) = (reqwest_is_timeout e \<or> reqwest_is_connect e)"
| "rpc_is_retryable (Rpc_Network _ _ retryable) = retryable"
| "rpc_is_retryable (Rpc_Timeout _) = True"
| "rpc_is_retryable (Rpc_Json _) = False"
| "rpc_is_retryable (Rpc_InvalidResponse _) = False"
| "rpc_is_retryable (Rpc_Rpc code _ _) = (code = - 32000 \<or> code = - 32603)"
| "rpc_is_retryable (Rpc_AccountNotFound _ _ _) = False"
| "rpc_is_retryable (Rpc_InvalidAccount _ _ _) = False"
| "rpc_is_retryable (Rpc_AccessKeyNotFound _ _ _ _) = False"
| "rpc_is_retryable (Rpc_GasKeyNotFound _ _ _ _) = False"
| "rpc_is_retryable (Rpc_ContractNotDeployed _ _ _) = False"
| "rpc_is_retryable (Rpc_ContractStateTooLarge _ _ _) = False"
| "rpc_is_retryable (Rpc_GlobalContractNotFound _ _ _) = False"
| "rpc_is_retryable (Rpc_ContractExecution _ _ _ _ _) = False"
| "rpc_is_retryable (Rpc_MethodNotFound _ _ _ _) = False"
| "rpc_is_retryable (Rpc_ContractPanic _ _ _) = False"
| "rpc_is_retryable (Rpc_UnknownBlock _) = False"
| "rpc_is_retryable (Rpc_UnknownChunk _) = False"
| "rpc_is_retryable (Rpc_UnknownEpoch _) = False"
| "rpc_is_retryable (Rpc_InvalidShardId _) = False"
| "rpc_is_retryable (Rpc_UnknownReceipt _) = False"
| "rpc_is_retryable (Rpc_InvalidTx e) = (case e of InvalidTx_InvalidNonce _ _ \<Rightarrow> False | _ \<Rightarrow> invalid_tx_is_retryable e)"
| "rpc_is_retryable (Rpc_InvalidTransaction _ _) = False"
| "rpc_is_retryable (Rpc_ShardUnavailable _) = True"
| "rpc_is_retryable (Rpc_NodeNotSynced _) = True"
| "rpc_is_retryable (Rpc_InternalError _) = True"
| "rpc_is_retryable (Rpc_ParseError _) = False"
| "rpc_is_retryable (Rpc_RequestTimeout _ _) = True"
| "rpc_is_retryable (Rpc_TooManyAccessKeys _ _ _ _) = False"

definition rpc_network :: "string \<Rightarrow> u16 option \<Rightarrow> bool \<Rightarrow> rpc_error" where
  "rpc_network message status_code retryable = Rpc_Network message status_code retryable"

text \<open>\<open>de\<close> is the deserializer of \<open>InvalidTxError\<close>.\<close>

definition try_parse_invalid_tx :: "(json \<Rightarrow> string + invalid_tx_error) \<Rightarrow> json \<Rightarrow> invalid_tx_error option" where
  "try_parse_invalid_tx de data =
     (let parse = (\<lambda>v. case de v of Inr e \<Rightarrow> Some e | Inl _ \<Rightarrow> None) in
      case Option.bind (json_get ''TxExecutionError'' data)
             (\<lambda>tx_err. Option.bind (json_get ''InvalidTxError'' tx_err) parse) of
        Some e \<Rightarrow> Some e
      | None \<Rightarrow> Option.bind (json_get ''InvalidTxError'' data) parse)"

definition rpc_invalid_transaction ::
  "(json \<Rightarrow> string + invalid_tx_error) \<Rightarrow> string \<Rightarrow> json option \<Rightarrow> rpc_error" where
  "rpc_invalid_transaction de message details =
     (case Option.bind details (try_parse_invalid_tx de) of
        Some e \<Rightarrow> Rpc_InvalidTx e
      | None \<Rightarrow> Rpc_InvalidTransaction message details)"

definition is_account_not_found :: "rpc_error \<Rightarrow> bool" where
  "is_account_not_found e = (case e of Rpc_AccountNotFound _ _ _ \<Rightarrow> True | _ \<Rightarrow> False)"

definition is_contract_not_deployed :: "rpc_error \<Rightarrow> bool" where
  "is_contract_not_deployed e = (case e of Rpc_ContractNotDeployed _ _ _ \<Rightarrow> True | _ \<Rightarrow> False)"

definition is_method_not_found :: "rpc_error \<Rightarrow> bool" where
  "is_method_not_found e = (case e of Rpc_MethodNotFound _ _ _ _ \<Rightarrow> True | _ \<Rightarrow> False)"

definition is_contract_panic :: "rpc_error \<Rightarrow> bool" where
  "is_contract_panic e = (case e of Rpc_ContractPanic _ _ _ \<Rightarrow> True | _ \<Rightarrow> False)"

definition is_global_contract_not_found :: "rpc_error \<Rightarrow> bool" where
  "is_global_contract_not_found e = (case e of Rpc_GlobalContractNotFound _ _ _ \<Rightarrow> True | _ \<Rightarrow> False)"

primrec rpc_block_height :: "rpc_error \<Rightarrow> u64 option" where
  "rpc_block_height (Rpc_Http _) = None"
| "rpc_block_height (Rpc_Network _ _ _) = None"
| "rpc_block_height (Rpc_Timeout _) = None"
| "rpc_block_height (Rpc_Json _) = None"
| "rpc_block_height (Rpc_InvalidResponse _) = None"
| "rpc_block_height (Rpc_Rpc _ _ _) = None"
| "rpc_block_height (Rpc_AccountNotFound _ h _) = h"
| "rpc_block_height (Rpc_InvalidAccount _ h _) = h"
| "rpc_block_height (Rpc_AccessKeyNotFound _ _ h _) = h"
| "rpc_block_height (Rpc_GasKeyNotFound _ _ h _) = h"
| "rpc_block_height (Rpc_ContractNotDeployed _ h _) = h"
| "rpc_block_height (Rpc_ContractStateTooLarge _ h _) = h"
| "rpc_block_height (Rpc_GlobalContractNotFound _ h _) = h"
| "rpc_block_height (Rpc_ContractExecution _ _ _ h _) = h"
| "rpc_block_height (Rpc_MethodNotFound _ _ h _) = h"
| "rpc_block_height (Rpc_ContractPanic _ h _) = h"
| "rpc_block_height (Rpc_UnknownBlock _) = None"
| "rpc_block_height (Rpc_UnknownChunk _) = None"
| "rpc_block_height (Rpc_UnknownEpoch _) = None"
| "rpc_block_height (Rpc_InvalidShardId _) = None"
| "rpc_block_height (Rpc_UnknownReceipt _) = None"
| "rpc_block_height (Rpc_InvalidTx _) = None"
| "rpc_block_height (Rpc_InvalidTransaction _ _) = None"
| "rpc_block_height (Rpc_ShardUnavailable _) = None"
| "rpc_block_height (Rpc_NodeNotSynced _) = None"
| "rpc_block_height (Rpc_InternalError _) = None"
| "rpc_block_height (Rpc_ParseError _) = None"
| "rpc_block_height (Rpc_RequestTimeout _ _) = None"
| "rpc_block_height (Rpc_TooManyAccessKeys _ _ h _) = h"

primrec rpc_block_hash :: "rpc_error \<Rightarrow> crypto_hash option" where
  "rpc_block_hash (Rpc_Http _) = None"
| "rpc_block_hash (Rpc_Network _ _ _) = None"
| "rpc_block_hash (Rpc_Timeout _) = None"
| "rpc_block_hash (Rpc_Json _) = None"
| "rpc_block_hash (Rpc_InvalidResponse _) = None"
| "rpc_block_hash (Rpc_Rpc _ _ _) = None"
| "rpc_block_hash (Rpc_AccountNotFound _ _ h) = h"
| "rpc_block_hash (Rpc_InvalidAccount _ _ h) = h"
| "rpc_block_hash (Rpc_AccessKeyNotFound _ _ _ h) = h"
| "rpc_block_hash (Rpc_GasKeyNotFound _ _ _ h) = h"
| "rpc_block_hash (Rpc_ContractNotDeployed _ _ h) = h"
| "rpc_block_hash (Rpc_ContractStateTooLarge _ _ h) = h"
| "rpc_block_hash (Rpc_GlobalContractNotFound _ _ h) = h"
| "rpc_block_hash (Rpc_ContractExecution _ _ _ _ h) = h"
| "rpc_block_hash (Rpc_MethodNotFound _ _ _ h) = h"
| "rpc_block_hash (Rpc_ContractPanic _ _ h) = h"
| "rpc_block_hash (Rpc_UnknownBlock _) = None"
| "rpc_block_hash (Rpc_UnknownChunk _) = None"
| "rpc_block_hash (Rpc_UnknownEpoch _) = None"
| "rpc_block_hash (Rpc_InvalidShardId _) = None"
| "rpc_block_hash (Rpc_UnknownReceipt _) = None"
| "rpc_block_hash (Rpc_InvalidTx _) = None"
| "rpc_block_hash (Rpc_InvalidTransaction _ _) = None"
| "rpc_block_hash (Rpc_ShardUnavailable _) = None"
| "rpc_block_hash (Rpc_NodeNotSynced _) = None"
| "rpc_block_hash (Rpc_InternalError _) = None"
| "rpc_block_hash (Rpc_ParseError _) = None"
| "rpc_block_hash (Rpc_RequestTimeout _ _) = None"
| "rpc_block_hash (Rpc_TooManyAccessKeys _ _ _ h) = h"

section \<open>The error type of the public interface\<close>

datatype key_store_error =
    KeyStore_KeyNotFound account_id | KeyStore_Io string | KeyStore_Json string
  | KeyStore_InvalidFormat string | KeyStore_InvalidKey parse_key_error | KeyStore_PathError string
  | KeyStore_Platform string

datatype near_error =
    Err_NoSigner | Err_NoSignerAccount | Err_Config string | Err_ParseAccountId string
  | Err_ParseAmount parse_amount_error | Err_ParseGas parse_gas_error | Err_ParseKey parse_key_error
  | Err_Rpc rpc_error | Err_InvalidTx invalid_tx_error | Err_InvalidTransaction string
  | Err_Signing signer_error | Err_KeyStore key_store_error | Err_Json string | Err_Borsh string
  | Err_DelegateDecode decode_error | Err_TokenNotAvailable string string

text \<open>\<open>From<RpcError> for Error\<close>.\<close>

definition error_from_rpc :: "rpc_error \<Rightarrow> near_error" where
  "error_from_rpc e = (case e of Rpc_InvalidTx t \<Rightarrow> Err_InvalidTx t | other \<Rightarrow> Err_Rpc other)"

lemma rpc_invalid_tx_retryable:
  "rpc_is_retryable (Rpc_InvalidTx e) \<longleftrightarrow> invalid_tx_is_retryable e \<and> (\<forall>a t. e \<noteq> InvalidTx_InvalidNonce a t)"
  by (cases e) simp_all

lemma error_from_rpc_cases [simp]:
  "error_from_rpc e = Err_InvalidTx t \<longleftrightarrow> e = Rpc_InvalidTx t"
  "error_from_rpc e = Err_Rpc e' \<longleftrightarrow> e = e' \<and> (\<forall>t. e \<noteq> Rpc_InvalidTx t)"
  by (cases e; auto simp: error_from_rpc_def)+

lemma try_parse_invalid_tx_nested:
  "json_get ''TxExecutionError'' data = Some t \<Longrightarrow> json_get ''InvalidTxError'' t = Some v \<Longrightarrow>
     de v = Inr e \<Longrightarrow> try_parse_invalid_tx de data = Some e"
  by (simp add: try_parse_invalid_tx_def)

end
