(* ===== verification/Block_Refs.thy ===== *)
theory Block_Refs
  imports Keys Json
begin

text \<open>
  Block references and transaction statuses (\<open>types/block_reference.rs\<close>): which block a
  query reads, its JSON parameters, and the statuses of a transaction with the partial
  order of \<open>PartialOrd for TxExecutionStatus\<close>, which is made the order of the type.
\<close>

section \<open>Block references\<close>

datatype sync_checkpoint = Genesis | EarliestAvailable

datatype finality = Optimistic | NearFinal | FinalityFinal

datatype block_reference =
  RefFinality finality | RefHeight u64 | RefHash crypto_hash | RefSyncCheckpoint sync_checkpoint

definition block_reference_default :: block_reference where
  "block_reference_default = RefFinality FinalityFinal"

definition block_final :: block_reference where "block_final = RefFinality FinalityFinal"
definition block_optimistic :: block_reference where "block_optimistic = RefFinality Optimistic"
definition block_near_final :: block_reference where "block_near_final = RefFinality NearFinal"
definition at_height :: "u64 \<Rightarrow> block_reference" where "at_height h = RefHeight h"
definition at_hash :: "crypto_hash \<Rightarrow> block_reference" where "at_hash h = RefHash h"
definition block_genesis :: block_reference where "block_genesis = RefSyncCheckpoint Genesis"
definition earliest_available :: block_reference where
  "earliest_available = RefSyncCheckpoint EarliestAvailable"

fun finality_as_str :: "finality \<Rightarrow> string" where
  "finality_as_str Optimistic = ''optimistic''"
| "finality_as_str NearFinal = ''near-final''"
| "finality_as_str FinalityFinal = ''final''"

fun to_rpc_params :: "crypto_ops \<Rightarrow> block_reference \<Rightarrow> json" where
  "to_rpc_params cr (RefFinality f) = JObj [(''finality'', JStr (finality_as_str f))]"
| "to_rpc_params cr (RefHeight h) = JObj [(''block_id'', JInt (uint h))]"
| "to_rpc_params cr (RefHash h) = JObj [(''block_id'', JStr (crypto_hash_display cr h))]"
| "to_rpc_params cr (RefSyncCheckpoint cp) =
     JObj [(''sync_checkpoint'', JStr (case cp of Genesis \<Rightarrow> ''genesis'' | EarliestAvailable \<Rightarrow> ''earliest_available''))]"

section \<open>Transaction statuses\<close>

datatype tx_execution_status =
  StNone | StIncluded | StExecutedOptimistic | StIncludedFinal | StExecuted | StFinal

definition tx_execution_status_default :: tx_execution_status where
  "tx_execution_status_default = StExecutedOptimistic"

fun status_as_str :: "tx_execution_status \<Rightarrow> string" where
  "status_as_str StNone = ''NONE''"
| "status_as_str StIncluded = ''INCLUDED''"
| "status_as_str StExecutedOptimistic = ''EXECUTED_OPTIMISTIC''"
| "status_as_str StIncludedFinal = ''INCLUDED_FINAL''"
| "status_as_str StExecuted = ''EXECUTED''"
| "status_as_str StFinal = ''FINAL''"

definition is_executed :: "tx_execution_status \<Rightarrow> bool" where
  "is_executed s \<longleftrightarrow> s \<in> {StExecutedOptimistic, StExecuted, StFinal}"

definition is_block_final :: "tx_execution_status \<Rightarrow> bool" where
  "is_block_final s \<longleftrightarrow> s \<in> {StIncludedFinal, StExecuted, StFinal}"

definition is_final :: "tx_execution_status \<Rightarrow> bool" where
  "is_final s \<longleftrightarrow> s = StFinal"

datatype ordering = Less | Equal | Greater

definition cmp :: "'a::linorder \<Rightarrow> 'a \<Rightarrow> ordering" where
  "cmp a b = (if a < b then Less else if a = b then Equal else Greater)"

text \<open>The execution level and the finality level of a status.\<close>

fun axes :: "tx_execution_status \<Rightarrow> u8 \<times> u8" where
  "axes StNone = (0, 0)"
| "axes StIncluded = (1, 1)"
| "axes StExecutedOptimistic = (2, 1)"
| "axes StIncludedFinal = (1, 2)"
| "axes StExecuted = (2, 2)"
| "axes StFinal = (3, 3)"

definition status_partial_cmp :: "tx_execution_status \<Rightarrow> tx_execution_status \<Rightarrow> ordering option" where
  "status_partial_cmp a b =
     (if a = b then Some Equal
      else let (ex_a, fin_a) = axes a; (ex_b, fin_b) = axes b in
        case (cmp ex_a ex_b, cmp fin_a fin_b) of
          (Equal, Equal) \<Rightarrow> Some Equal
        | (Less, Less) \<Rightarrow> Some Less | (Less, Equal) \<Rightarrow> Some Less | (Equal, Less) \<Rightarrow> Some Less
        | (Greater, Greater) \<Rightarrow> Some Greater | (Greater, Equal) \<Rightarrow> Some Greater
        | (Equal, Greater) \<Rightarrow> Some Greater
        | _ \<Rightarrow> None)"

text \<open>The operators \<open><=\<close> and \<open><\<close> that Rust derives from \<open>partial_cmp\<close>.\<close>

instantiation tx_execution_status :: ord
begin

definition less_eq_tx_execution_status :: "tx_execution_status \<Rightarrow> tx_execution_status \<Rightarrow> bool" where
  "less_eq_tx_execution_status a b \<longleftrightarrow> status_partial_cmp a b \<in> {Some Less, Some Equal}"

definition less_tx_execution_status :: "tx_execution_status \<Rightarrow> tx_execution_status \<Rightarrow> bool" where
  "less_tx_execution_status a b \<longleftrightarrow> status_partial_cmp a b = Some Less"

instance ..

end

lemma axes_le_iff:
  "a \<le> b \<longleftrightarrow> fst (axes a) \<le> fst (axes b) \<and> snd (axes a) \<le> snd (axes b)"
  by (cases a; cases b)
    (simp_all add: less_eq_tx_execution_status_def status_partial_cmp_def cmp_def word_le_nat_alt)

lemma axes_inj: "axes a = axes b \<longleftrightarrow> a = b"
  by (cases a; cases b) simp_all

lemma status_less_iff: "(a::tx_execution_status) < b \<longleftrightarrow> a \<le> b \<and> a \<noteq> b"
  by (cases a; cases b)
    (simp_all add: less_eq_tx_execution_status_def less_tx_execution_status_def status_partial_cmp_def cmp_def)

instance tx_execution_status :: order
proof
  fix x y z :: tx_execution_status
  show "x \<le> x" by (simp add: axes_le_iff)
  show "x \<le> y \<Longrightarrow> y \<le> z \<Longrightarrow> x \<le> z" by (auto simp: axes_le_iff)
  show antisym: "x \<le> y \<Longrightarrow> y \<le> x \<Longrightarrow> x = y"
    by (auto simp: axes_le_iff prod_eq_iff simp flip: axes_inj)
  show "x < y \<longleftrightarrow> x \<le> y \<and> \<not> y \<le> x"
    using antisym status_less_iff [of x y] by auto
qed

lemma status_cmp_cases:
  "status_partial_cmp a b =
     (if a = b then Some Equal else if a < b then Some Less else if b < a then Some Greater else None)"
  by (cases a; cases b) (simp_all add: less_tx_execution_status_def status_partial_cmp_def cmp_def)

text \<open>The statuses form a bounded lattice under the order of the code: \<open>partial_cmp\<close> is
  consistent with equality and with itself read backwards, \<open>None\<close> and \<open>Final\<close> are the bounds,
  \<open>ExecutedOptimistic\<close> and \<open>IncludedFinal\<close> are the only incomparable statuses, and each of
  \<open>is_executed\<close>, \<open>is_block_final\<close> and \<open>is_final\<close> holds exactly from one status upwards, so
  that progress never makes one of them false.\<close>

theorem status_order:
  fixes a b :: tx_execution_status
  shows "status_partial_cmp a b =
           (if a = b then Some Equal else if a < b then Some Less else if b < a then Some Greater else None)
    \<and> StNone \<le> a \<and> a \<le> StFinal
    \<and> (status_partial_cmp a b = None \<longleftrightarrow> {a, b} = {StExecutedOptimistic, StIncludedFinal})
    \<and> (is_executed a \<longleftrightarrow> StExecutedOptimistic \<le> a)
    \<and> (is_block_final a \<longleftrightarrow> StIncludedFinal \<le> a)
    \<and> (is_final a \<longleftrightarrow> StFinal \<le> a)
    \<and> (is_executed a \<and> is_block_final a \<longleftrightarrow> StExecuted \<le> a)"
proof (intro conjI)
  show "status_partial_cmp a b =
      (if a = b then Some Equal else if a < b then Some Less else if b < a then Some Greater else None)"
    by (rule status_cmp_cases)
  show "StNone \<le> a" by (cases a) (simp_all add: axes_le_iff)
  show "a \<le> StFinal" by (cases a) (simp_all add: axes_le_iff word_le_nat_alt)
  show "status_partial_cmp a b = None \<longleftrightarrow> {a, b} = {StExecutedOptimistic, StIncludedFinal}"
    by (cases a; cases b) (simp_all add: status_partial_cmp_def cmp_def doubleton_eq_iff)
  show "is_executed a \<longleftrightarrow> StExecutedOptimistic \<le> a"
    by (cases a) (simp_all add: is_executed_def axes_le_iff word_le_nat_alt)
  show "is_block_final a \<longleftrightarrow> StIncludedFinal \<le> a"
    by (cases a) (simp_all add: is_block_final_def axes_le_iff word_le_nat_alt)
  show "is_final a \<longleftrightarrow> StFinal \<le> a"
    by (cases a) (simp_all add: is_final_def axes_le_iff word_le_nat_alt)
  show "is_executed a \<and> is_block_final a \<longleftrightarrow> StExecuted \<le> a"
    by (cases a) (simp_all add: is_executed_def is_block_final_def axes_le_iff word_le_nat_alt)
qed

end
