(* ===== verification/Rpc_Parse.thy ===== *)
theory Rpc_Parse
  imports Rpc_Errors Block_Refs Crypto_Ref
begin

text \<open>
  How the RPC client reads the errors of a node (\<open>client/rpc.rs\<close>): the structured and the
  legacy textual form of a failed contract call, the \<open>Debug\<close> string literals inside the
  latter, and \<open>parse_rpc_error\<close>, which maps the name and the payload of a JSON-RPC error to
  an \<open>RpcError\<close>. The deserializers that \<open>serde\<close> derives and the account id parser of
  \<open>near-account-id\<close> are the fields of \<open>serde_ops\<close>.
\<close>

section \<open>Text\<close>

text \<open>\<open>split_once\<close> with a string pattern, and \<open>eq_ignore_ascii_case\<close>.\<close>

fun split_once_str :: "str \<Rightarrow> str \<Rightarrow> (str \<times> str) option" where
  "split_once_str p [] = (if p = [] then Some ([], []) else None)"
| "split_once_str p (c # cs) =
     (case strip_prefix p (c # cs) of
        Some rest \<Rightarrow> Some ([], rest)
      | None \<Rightarrow> map_option (\<lambda>(a, b). (c # a, b)) (split_once_str p cs))"

definition eq_ignore_ascii_case :: "str \<Rightarrow> str \<Rightarrow> bool" where
  "eq_ignore_ascii_case a b \<longleftrightarrow> to_ascii_lowercase a = to_ascii_lowercase b"

text \<open>The UTF-8 encoding of a code point, \<open>char::from_u32\<close> and \<open>u32::from_str_radix(_, 16)\<close>.\<close>

definition utf8_encode :: "nat \<Rightarrow> str" where
  "utf8_encode n = map char_of
     (if n < 128 then [n]
      else if n < 2048 then [192 + n div 64, 128 + n mod 64]
      else if n < 65536 then [224 + n div 4096, 128 + n div 64 mod 64, 128 + n mod 64]
      else [240 + n div 262144, 128 + n div 4096 mod 64, 128 + n div 64 mod 64, 128 + n mod 64])"

definition char_from_u32 :: "nat \<Rightarrow> str option" where
  "char_from_u32 n =
     (if n < 55296 \<or> (57344 \<le> n \<and> n < 1114112) then Some (utf8_encode n) else None)"

definition hex_digit :: "char \<Rightarrow> nat option" where
  "hex_digit c =
     (let n = char_code c in
      if 48 \<le> n \<and> n \<le> 57 then Some (n - 48)
      else if 97 \<le> n \<and> n \<le> 102 then Some (n - 87)
      else if 65 \<le> n \<and> n \<le> 70 then Some (n - 55) else None)"

fun hex_from :: "nat \<Rightarrow> str \<Rightarrow> nat option" where
  "hex_from acc [] = Some acc"
| "hex_from acc (c # cs) =
     (case hex_digit c of None \<Rightarrow> None
      | Some d \<Rightarrow> if acc * 16 + d < 2 ^ 32 then hex_from (acc * 16 + d) cs else None)"

definition from_str_radix16 :: "str \<Rightarrow> nat option" where
  "from_str_radix16 s =
     (case s of [] \<Rightarrow> None
      | c # cs \<Rightarrow> if c = CHR ''+'' then (if cs = [] then None else hex_from 0 cs) else hex_from 0 s)"

text \<open>\<open>String::from_utf8_lossy\<close>: an ill-formed sequence becomes U+FFFD.\<close>

fun utf8_step :: "nat list \<Rightarrow> nat \<times> bool" where
  "utf8_step [] = (1, False)"
| "utf8_step (a # r) =
     (let cont = (\<lambda>i. i < length r \<and> is_cont_code (r ! i));
          second = (cont 0 \<and> (a = 224 \<longrightarrow> 160 \<le> r ! 0) \<and> (a = 237 \<longrightarrow> r ! 0 < 160) \<and>
            (a = 240 \<longrightarrow> 144 \<le> r ! 0) \<and> (a = 244 \<longrightarrow> r ! 0 < 144))
      in if a < 128 then (1, True)
         else if a < 194 \<or> 245 \<le> a \<or> \<not> second then (1, False)
         else if a < 224 then (2, True)
         else if \<not> cont 1 then (2, False)
         else if a < 240 then (3, True)
         else if \<not> cont 2 then (3, False)
         else (4, True))"

lemma utf8_step_pos: "0 < fst (utf8_step cs)"
  by (cases cs) (simp_all add: Let_def)

function utf8_lossy_codes :: "nat list \<Rightarrow> nat list" where
  "utf8_lossy_codes cs =
     (if cs = [] then []
      else case utf8_step cs of (n, ok) \<Rightarrow>
        (if ok then take n cs else [239, 191, 189]) @ utf8_lossy_codes (drop n cs))"
  by pat_completeness auto
termination
proof (relation "measure length")
  fix cs :: "nat list" and n ok
  assume "cs \<noteq> []" and step: "(n, ok) = utf8_step cs"
  have "0 < n" using utf8_step_pos [of cs] step by (metis fst_conv)
  with \<open>cs \<noteq> []\<close> show "(drop n cs, cs) \<in> measure length" by simp
qed simp

declare utf8_lossy_codes.simps [simp del]

definition from_utf8_lossy :: "bytes \<Rightarrow> str" where
  "from_utf8_lossy bs = map char_of (utf8_lossy_codes (map unat bs))"

section \<open>Failed contract calls\<close>

record serde_ops =
  parse_account :: "string \<Rightarrow> string + account_id"
  de_invalid_tx :: "json \<Rightarrow> string + invalid_tx_error"
  de_function_call_error :: "json \<Rightarrow> string + function_call_error"
  de_gciv :: "json \<Rightarrow> string + global_contract_identifier_view"

abbreviation ok_opt :: "'e + 'a \<Rightarrow> 'a option" where
  "ok_opt r \<equiv> (case r of Inr x \<Rightarrow> Some x | Inl _ \<Rightarrow> None)"

abbreviation or_else :: "'a option \<Rightarrow> 'a option \<Rightarrow> 'a option" where
  "or_else a b \<equiv> (case a of Some x \<Rightarrow> Some x | None \<Rightarrow> b)"

definition parse_error_block_context ::
  "crypto_ops \<Rightarrow> json option \<Rightarrow> u64 option \<times> crypto_hash option" where
  "parse_error_block_context cr info =
     (Option.bind (Option.bind info (json_get ''block_height'')) json_as_u64,
      Option.bind (Option.bind (Option.bind info (json_get ''block_hash'')) json_as_str)
        (\<lambda>s. ok_opt (crypto_hash_from_str cr s)))"

definition structured_error :: "serde_ops \<Rightarrow> json \<Rightarrow> string \<Rightarrow> function_call_error option" where
  "structured_error sd info key =
     Option.bind (json_get key info) (\<lambda>value.
       if \<not> json_is_object value then None
       else let value = (case json_get ''FunctionCallError'' value of Some v \<Rightarrow> v | None \<Rightarrow> value) in
         case de_function_call_error sd value of
           Inl _ \<Rightarrow> None
         | Inr (Fce_Unknown _) \<Rightarrow> None
         | Inr error \<Rightarrow> Some error)"

definition parse_function_call_error :: "serde_ops \<Rightarrow> json option \<Rightarrow> function_call_error option" where
  "parse_function_call_error sd info =
     Option.bind info (\<lambda>info. or_else (structured_error sd info ''vm_error'') (structured_error sd info ''error''))"

text \<open>A panic of a contract, from the text that nearcore gives it.\<close>

definition PANIC_PREFIX :: str where "PANIC_PREFIX = ''Smart contract panicked''"

definition extract_contract_panic_message :: "str \<Rightarrow> str option" where
  "extract_contract_panic_message message =
     (let n = length PANIC_PREFIX in
      if \<not> is_char_boundary message n \<or> \<not> eq_ignore_ascii_case (take n message) PANIC_PREFIX then None
      else (case drop n message of
              [] \<Rightarrow> Some message
            | c # rest \<Rightarrow>
                if c = CHR '':'' then
                  (let panic_message = trim_start rest in
                   Some (if panic_message = [] then message else panic_message))
                else None))"

definition classify_function_call_error ::
  "function_call_error \<Rightarrow> account_id \<Rightarrow> string option \<Rightarrow> u64 option \<Rightarrow> crypto_hash option \<Rightarrow> rpc_error option" where
  "classify_function_call_error error contract_id method_name block_height block_hash =
     (case error of
        Fce_CompilationError (Comp_CodeDoesNotExist account_id) \<Rightarrow>
          Some (Rpc_ContractNotDeployed account_id block_height block_hash)
      | Fce_MethodResolveError Mre_MethodNotFound \<Rightarrow>
          Some (Rpc_MethodNotFound contract_id (case method_name of Some m \<Rightarrow> m | None \<Rightarrow> ''unknown'')
                  block_height block_hash)
      | Fce_HostError (Host_GuestPanic panic_msg) \<Rightarrow> Some (Rpc_ContractPanic panic_msg block_height block_hash)
      | Fce_ExecutionError message \<Rightarrow>
          map_option (\<lambda>m. Rpc_ContractPanic m block_height block_hash) (extract_contract_panic_message message)
      | _ \<Rightarrow> None)"

text \<open>A string literal of \<open>Debug\<close>. A character of the source is the run of its bytes; the
  bytes of a multi-byte character are all above 127 and pass through one by one.\<close>

function debug_chars :: "str \<Rightarrow> str \<Rightarrow> str option" where
  "debug_chars out [] = None"
| "debug_chars out (c # cs) =
     (if c = CHR 0x22 then Some out
      else if c = CHR 0x5C then
        (case cs of [] \<Rightarrow> None
         | e # cs' \<Rightarrow>
             if e = CHR ''n'' then debug_chars (out @ [CHR 0x0A]) cs'
             else if e = CHR ''r'' then debug_chars (out @ [CHR 0x0D]) cs'
             else if e = CHR ''t'' then debug_chars (out @ [CHR 0x09]) cs'
             else if e = CHR ''0'' then debug_chars (out @ [CHR 0x00]) cs'
             else if e = CHR ''u'' then
               (case cs' of [] \<Rightarrow> None
                | b # cs'' \<Rightarrow>
                    if b \<noteq> CHR ''{'' then None
                    else (case Option.bind (from_str_radix16 (takeWhile (\<lambda>x. x \<noteq> CHR ''}'') cs'')) char_from_u32 of
                            None \<Rightarrow> None
                          | Some ch \<Rightarrow> debug_chars (out @ ch) (drop 1 (dropWhile (\<lambda>x. x \<noteq> CHR ''}'') cs''))))
             else debug_chars (out @ [e]) cs')
      else debug_chars (out @ [c]) cs)"
  by pat_completeness auto
termination
proof (relation "measure (\<lambda>(out, cs). length cs)", goal_cases)
  case (6 out c cs e cs' b cs'' ch)
  have "length (dropWhile (\<lambda>x. x \<noteq> CHR ''}'') cs'') \<le> length cs''" by (rule length_dropWhile_le)
  with 6 show ?case by simp
qed simp_all

definition parse_debug_str :: "str \<Rightarrow> str option" where
  "parse_debug_str input = Option.bind (strip_prefix [CHR 0x22] input) (debug_chars [])"

definition ENVELOPES :: "str list" where
  "ENVELOPES = [''Function call returned an error:'', ''wasm execution failed with error:'']"

text \<open>The message without its envelopes.\<close>

definition strip_envelopes :: "str \<Rightarrow> str" where
  "strip_envelopes message =
     fold (\<lambda>prefix rest. case strip_prefix prefix rest of Some r \<Rightarrow> trim_start r | None \<Rightarrow> rest)
       ENVELOPES (trim message)"

definition classify_legacy_function_call_error ::
  "serde_ops \<Rightarrow> str \<Rightarrow> account_id \<Rightarrow> string option \<Rightarrow> u64 option \<Rightarrow> crypto_hash option \<Rightarrow> rpc_error option" where
  "classify_legacy_function_call_error sd message contract_id method_name block_height block_hash =
     (let error = strip_envelopes message;
          panic = (\<lambda>m. Rpc_ContractPanic m block_height block_hash) in
      case strip_prefix ''ExecutionError('' error of
        Some rest \<Rightarrow>
          (let inner = (case parse_debug_str rest of Some x \<Rightarrow> x
                        | None \<Rightarrow> trim_end_matches CHR '')'' (trim_end rest))
           in map_option panic (extract_contract_panic_message inner))
      | None \<Rightarrow>
      case strip_prefix ''HostError(GuestPanic'' error of
        Some rest \<Rightarrow>
          Some (panic (case Option.bind (split_once_str ''panic_msg:'' rest)
                              (\<lambda>(_, r). parse_debug_str (trim_start r)) of
                         Some x \<Rightarrow> x | None \<Rightarrow> error))
      | None \<Rightarrow>
      case strip_prefix ''CompilationError(CodeDoesNotExist'' error of
        Some rest \<Rightarrow>
          Some (Rpc_ContractNotDeployed
            (case Option.bind (Option.bind (Option.bind (split_once_str ''account_id:'' rest)
                     (\<lambda>(_, r). map_option (\<lambda>i. drop i r) (find_char CHR 0x22 r)))
                     parse_debug_str) (\<lambda>a. ok_opt (parse_account sd a)) of
               Some a \<Rightarrow> a | None \<Rightarrow> contract_id)
            block_height block_hash)
      | None \<Rightarrow>
        if starts_with error ''MethodResolveError(MethodNotFound)'' then
          Some (Rpc_MethodNotFound contract_id (case method_name of Some m \<Rightarrow> m | None \<Rightarrow> ''unknown'')
                  block_height block_hash)
        else map_option panic (extract_contract_panic_message error))"

section \<open>JSON-RPC errors\<close>

record error_cause =
  ec_name :: string
  ec_info :: "json option"

record json_rpc_error =
  je_code :: int
  je_message :: string
  je_data :: "json option"
  je_cause :: "error_cause option"
  je_name :: "string option"

record json_rpc_response =
  jr_jsonrpc :: string
  jr_id :: u64
  jr_result :: "json option"
  jr_error :: "json_rpc_error option"

record rpc_env =
  env_cr :: crypto_ops
  env_fm :: fmt_ops
  env_sd :: serde_ops

text \<open>\<open>"unknown".parse().unwrap()\<close>\<close>

definition unknown_account :: "serde_ops \<Rightarrow> account_id run" where
  "unknown_account sd = (case parse_account sd ''unknown'' of Inr a \<Rightarrow> Done a | Inl _ \<Rightarrow> Panic)"

text \<open>\<open>info.and_then(|i| i.get(k)).and_then(|v| v.as_str())\<close>\<close>

definition info_str :: "json option \<Rightarrow> string \<Rightarrow> string option" where
  "info_str info k = Option.bind (Option.bind info (json_get k)) json_as_str"

definition str_or :: "string option \<Rightarrow> string \<Rightarrow> string" where
  "str_or x d = (case x of Some s \<Rightarrow> s | None \<Rightarrow> d)"

text \<open>The account under \<open>contract_account_id\<close>, \<open>account_id\<close> or \<open>contract_id\<close>.\<close>

definition info_contract :: "json option \<Rightarrow> string option" where
  "info_contract info =
     Option.bind (Option.bind info (\<lambda>i. or_else (json_get ''contract_account_id'' i)
       (or_else (json_get ''account_id'' i) (json_get ''contract_id'' i)))) json_as_str"

text \<open>The cause \<open>CONTRACT_EXECUTION_ERROR\<close>.\<close>

definition contract_execution_error ::
  "rpc_env \<Rightarrow> json_rpc_error \<Rightarrow> json option \<Rightarrow> u64 option \<Rightarrow> crypto_hash option \<Rightarrow> rpc_error run" where
  "contract_execution_error env error info block_height block_hash =
     run_bind (case parse_account (env_sd env) (str_or (info_str info ''contract_id'') ''unknown'') of
                 Inr a \<Rightarrow> Done a | Inl _ \<Rightarrow> unknown_account (env_sd env)) (\<lambda>contract_id.
     let method_name = info_str info ''method_name'';
         function_call_error = parse_function_call_error (env_sd env) info;
         data_str = Option.bind (je_data error) json_as_str in
     Done (case Option.bind function_call_error
                  (\<lambda>e. classify_function_call_error e contract_id method_name block_height block_hash) of
        Some specific_error \<Rightarrow> specific_error
      | None \<Rightarrow>
        let legacy = (\<lambda>m. Option.bind m (\<lambda>m.
              classify_legacy_function_call_error (env_sd env) m contract_id method_name block_height block_hash)) in
        case or_else (legacy data_str) (legacy (info_str info ''vm_error'')) of
          Some specific_error \<Rightarrow> specific_error
        | None \<Rightarrow>
          Rpc_ContractExecution contract_id method_name
            (case data_str of Some s \<Rightarrow> s
             | None \<Rightarrow> case function_call_error of
                 Some e \<Rightarrow> function_call_error_display (env_cr env) (env_fm env) e
               | None \<Rightarrow> case Option.bind info (json_get ''vm_error'') of
                   Some v \<Rightarrow> json_show (env_fm env) v
                 | None \<Rightarrow> je_message error)
            block_height block_hash))"

text \<open>The causes from \<open>UNAVAILABLE_SHARD\<close> on: \<open>Some\<close> is an early return, \<open>None\<close> falls through.\<close>

definition node_cause_error ::
  "rpc_env \<Rightarrow> json_rpc_error \<Rightarrow> string \<Rightarrow> json option \<Rightarrow> u64 option \<Rightarrow> crypto_hash option \<Rightarrow> rpc_error option run" where
  "node_cause_error env error name info block_height block_hash =
     (let sd = env_sd env in
      if name = ''UNAVAILABLE_SHARD'' then Done (Some (Rpc_ShardUnavailable (je_message error)))
      else if name = ''NO_SYNCED_BLOCKS'' \<or> name = ''NOT_SYNCED_YET'' then
        Done (Some (Rpc_NodeNotSynced (je_message error)))
      else if name = ''INVALID_SHARD_ID'' then
        Done (Some (Rpc_InvalidShardId (case Option.bind info (json_get ''shard_id'') of
          Some s \<Rightarrow> json_show (env_fm env) s | None \<Rightarrow> ''unknown'')))
      else if name = ''INVALID_TRANSACTION'' then
        Done (Some (rpc_invalid_transaction (de_invalid_tx sd) (je_message error) (je_data error)))
      else if name = ''TIMEOUT_ERROR'' then
        Done (Some (Rpc_RequestTimeout (je_message error) (info_str info ''transaction_hash'')))
      else if name = ''PARSE_ERROR'' then Done (Some (Rpc_ParseError (je_message error)))
      else if name = ''INTERNAL_ERROR'' then Done (Some (Rpc_InternalError (je_message error)))
      else if name = ''TOO_MANY_ACCESS_KEYS'' then
        Done (case (Option.bind (info_str info ''requested_account_id'') (\<lambda>a. ok_opt (parse_account sd a)),
                    Option.bind (Option.bind info (json_get ''limit'')) json_as_u64) of
          (Some a, Some l) \<Rightarrow>
            if unat l < 2 ^ 32 then Some (Rpc_TooManyAccessKeys a (of_nat (unat l)) block_height block_hash) else None
        | _ \<Rightarrow> None)
      else Done None)"

text \<open>The causes up to \<open>CONTRACT_EXECUTION_ERROR\<close>, and the rest.\<close>

definition cause_error :: "rpc_env \<Rightarrow> json_rpc_error \<Rightarrow> error_cause \<Rightarrow> rpc_error option run" where
  "cause_error env error cause =
     (let info = ec_info cause; sd = env_sd env; name = ec_name cause;
          data_or_message = str_or (Option.bind (je_data error) json_as_str) (je_message error) in
      case parse_error_block_context (env_cr env) info of (block_height, block_hash) \<Rightarrow>
      if name = ''UNKNOWN_ACCOUNT'' then
        Done (map_option (\<lambda>a. Rpc_AccountNotFound a block_height block_hash)
          (Option.bind (info_str info ''requested_account_id'') (\<lambda>a. ok_opt (parse_account sd a))))
      else if name = ''INVALID_ACCOUNT'' then
        Done (Some (Rpc_InvalidAccount (str_or (info_str info ''requested_account_id'') ''unknown'')
          block_height block_hash))
      else if name = ''UNKNOWN_ACCESS_KEY'' \<or> name = ''UNKNOWN_GAS_KEY'' then
        (case Option.bind (info_str info ''public_key'') (\<lambda>k. ok_opt (public_key_from_str (env_cr env) k)) of
           None \<Rightarrow> Done None
         | Some public_key \<Rightarrow>
             run_bind (case Option.bind (info_str info ''requested_account_id'') (\<lambda>a. ok_opt (parse_account sd a)) of
                         Some a \<Rightarrow> Done a | None \<Rightarrow> unknown_account sd) (\<lambda>account_id.
             Done (Some (if name = ''UNKNOWN_GAS_KEY''
               then Rpc_GasKeyNotFound account_id public_key block_height block_hash
               else Rpc_AccessKeyNotFound account_id public_key block_height block_hash))))
      else if name = ''UNKNOWN_BLOCK'' then Done (Some (Rpc_UnknownBlock data_or_message))
      else if name = ''GARBAGE_COLLECTED_BLOCK'' then
        Done (Some (Rpc_UnknownBlock (case block_height of
            None \<Rightarrow> data_or_message
          | Some height \<Rightarrow>
             (case block_hash of
                Some hash \<Rightarrow>
                  if \<not> crypto_hash_is_zero hash
                  then ''#'' @ show_word height @ '' ('' @ crypto_hash_display (env_cr env) hash @ '')''
                  else ''#'' @ show_word height
              | None \<Rightarrow> ''#'' @ show_word height))))
      else if name = ''UNKNOWN_CHUNK'' then
        Done (Some (Rpc_UnknownChunk (str_or (info_str info ''chunk_hash'') (je_message error))))
      else if name = ''UNKNOWN_EPOCH'' then Done (Some (Rpc_UnknownEpoch data_or_message))
      else if name = ''UNKNOWN_RECEIPT'' then
        Done (Some (Rpc_UnknownReceipt (str_or (info_str info ''receipt_id'') ''unknown'')))
      else if name = ''NO_CONTRACT_CODE'' then
        Done (case parse_account sd (str_or (info_contract info) ''unknown'') of
          Inr a \<Rightarrow> Some (Rpc_ContractNotDeployed a block_height block_hash) | Inl _ \<Rightarrow> None)
      else if name = ''NO_GLOBAL_CONTRACT_CODE'' then
        run_bind (case Option.bind (Option.bind info (json_get ''identifier'')) (\<lambda>v. ok_opt (de_gciv sd v)) of
                    Some i \<Rightarrow> Done i
                  | None \<Rightarrow> run_bind (unknown_account sd) (\<lambda>a. Done (Gciv_AccountId a))) (\<lambda>identifier.
        Done (Some (Rpc_GlobalContractNotFound identifier block_height block_hash)))
      else if name = ''TOO_LARGE_CONTRACT_STATE'' then
        Done (map_option (\<lambda>a. Rpc_ContractStateTooLarge a block_height block_hash)
          (Option.bind (info_contract info) (\<lambda>a. ok_opt (parse_account sd a))))
      else if name = ''CONTRACT_EXECUTION_ERROR'' then
        run_bind (contract_execution_error env error info block_height block_hash) (\<lambda>e. Done (Some e))
      else node_cause_error env error name info block_height block_hash)"

text \<open>The fallback on the text in \<open>data\<close>.\<close>

definition data_error :: "serde_ops \<Rightarrow> json_rpc_error \<Rightarrow> rpc_error" where
  "data_error sd error =
     (case Option.bind (Option.bind (je_data error) json_as_str) (\<lambda>error_str.
             if \<not> str_contains error_str ''does not exist'' then None
             else Option.bind (strip_prefix ''account '' error_str) (\<lambda>start.
               case split_whitespace start of
                 [] \<Rightarrow> None
               | account_str # _ \<Rightarrow> ok_opt (parse_account sd account_str))) of
        Some a \<Rightarrow> Rpc_AccountNotFound a None None
      | None \<Rightarrow> Rpc_Rpc (je_code error) (je_message error) (je_data error))"

definition parse_rpc_error :: "rpc_env \<Rightarrow> json_rpc_error \<Rightarrow> rpc_error run" where
  "parse_rpc_error env error =
     run_bind (case je_cause error of None \<Rightarrow> Done None | Some cause \<Rightarrow> cause_error env error cause) (\<lambda>r.
       Done (case r of Some e \<Rightarrow> e | None \<Rightarrow> data_error (env_sd env) error))"

section \<open>A reference environment\<close>

text \<open>Account ids as \<open>near-account-id\<close> documents them: 2 to 64 characters, lower-case letters
  and digits in runs that are separated by single \<open>-\<close>, \<open>_\<close> or \<open>.\<close>. The deserializers keep
  the JSON in the \<open>Unknown\<close> variant, which \<open>serde\<close> falls back to.\<close>

definition acct_alnum :: "char \<Rightarrow> bool" where
  "acct_alnum c \<longleftrightarrow> is_ascii_digit c \<or> (97 \<le> char_code c \<and> char_code c \<le> 122)"

definition acct_sep :: "char \<Rightarrow> bool" where
  "acct_sep c \<longleftrightarrow> c \<in> {CHR ''-'', CHR ''_'', CHR ''.''}"

fun acct_shape :: "bool \<Rightarrow> string \<Rightarrow> bool" where
  "acct_shape sep [] = (\<not> sep)"
| "acct_shape sep (c # cs) = (if acct_alnum c then acct_shape False cs else acct_sep c \<and> \<not> sep \<and> acct_shape True cs)"

definition parse_account_ref :: "string \<Rightarrow> string + account_id" where
  "parse_account_ref s =
     (if 2 \<le> length s \<and> length s \<le> 64 \<and> acct_shape True s then Inr s else Inl ''invalid account id'')"

definition serde_ref :: serde_ops where
  "serde_ref = \<lparr>parse_account = parse_account_ref, de_invalid_tx = (\<lambda>v. Inr (InvalidTx_Unknown v)),
     de_function_call_error = (\<lambda>v. Inr (Fce_Unknown v)),
     de_gciv = (\<lambda>v. case v of JStr s \<Rightarrow> Inr (Gciv_AccountId s) | _ \<Rightarrow> Inl ''unexpected'')\<rparr>"

definition fmt_ref :: fmt_ops where
  "fmt_ref = \<lparr>json_show = (\<lambda>v. case v of JStr s \<Rightarrow> s | _ \<Rightarrow> ''json''), near_exact = show_word,
     gas_display = show_word, f64_2 = (\<lambda>_. ''0.00'')\<rparr>"

definition rpc_env_ref :: rpc_env where
  "rpc_env_ref = \<lparr>env_cr = crypto_ref, env_fm = fmt_ref, env_sd = serde_ref\<rparr>"

lemma parse_account_ref_unknown: "is_ok (parse_account (env_sd rpc_env_ref) ''unknown'')"
  by (simp add: rpc_env_ref_def serde_ref_def parse_account_ref_def acct_alnum_def char_code_def)

section \<open>Which node errors are retried\<close>

definition retryable_causes :: "string list" where
  "retryable_causes =
     [''UNAVAILABLE_SHARD'', ''NO_SYNCED_BLOCKS'', ''NOT_SYNCED_YET'', ''TIMEOUT_ERROR'', ''INTERNAL_ERROR'']"

lemma unknown_account_Done: "is_ok (parse_account sd ''unknown'') \<Longrightarrow> \<exists>a. unknown_account sd = Done a"
  by (cases "parse_account sd ''unknown''") (simp_all add: unknown_account_def)

lemma run_bind_ex:
  "(\<exists>x. m = Done x) \<Longrightarrow> (\<And>x. m = Done x \<Longrightarrow> \<exists>y. f x = Done y) \<Longrightarrow> \<exists>y. run_bind m f = Done y"
  by auto

lemma contract_execution_error_Done:
  assumes "is_ok (parse_account (env_sd env) ''unknown'')"
  shows "\<exists>e. contract_execution_error env error info h x = Done e"
  unfolding contract_execution_error_def
  by (rule run_bind_ex) (use unknown_account_Done [OF assms] in \<open>auto simp: Let_def split: sum.splits\<close>)

lemma classify_not_retryable:
  "classify_function_call_error e c m h x = Some r \<Longrightarrow> \<not> rpc_is_retryable r"
  by (auto simp: classify_function_call_error_def
      split: function_call_error.splits compilation_error.splits method_resolve_error.splits host_error.splits)

lemma classify_legacy_not_retryable:
  "classify_legacy_function_call_error sd msg c m h x = Some r \<Longrightarrow> \<not> rpc_is_retryable r"
  by (auto simp: classify_legacy_function_call_error_def Let_def split: option.splits if_splits)

lemma contract_execution_not_retryable:
  assumes "contract_execution_error env error info h x = Done e"
  shows "\<not> rpc_is_retryable e"
  using assms unfolding contract_execution_error_def
  by (auto simp: Let_def bind_eq_Some_conv dest: classify_not_retryable classify_legacy_not_retryable
      split: option.splits)

lemma cause_error_Done:
  assumes "is_ok (parse_account (env_sd env) ''unknown'')"
  shows "\<exists>r. cause_error env error cause = Done r"
proof -
  obtain a where [simp]: "unknown_account (env_sd env) = Done a"
    using unknown_account_Done [OF assms] by blast
  note ce = contract_execution_error_Done [OF assms]
  show ?thesis
    unfolding cause_error_def node_cause_error_def Let_def
    by (simp split: prod.split if_splits option.split) (use ce in force)
qed

lemma cause_error_retryable:
  assumes "cause_error env error cause = Done (Some e)" and "rpc_is_retryable e"
  shows "ec_name cause \<in> set retryable_causes \<or>
    (ec_name cause = ''INVALID_TRANSACTION'' \<and>
      (\<exists>t. e = Rpc_InvalidTx t \<and> invalid_tx_is_retryable t \<and> (\<forall>a n. t \<noteq> InvalidTx_InvalidNonce a n)))"
proof -
  have inv: "\<exists>t. e = Rpc_InvalidTx t \<and> invalid_tx_is_retryable t \<and> (\<forall>a n. t \<noteq> InvalidTx_InvalidNonce a n)"
    if "e = rpc_invalid_transaction de m d" for de m d
    using that assms(2) rpc_invalid_tx_retryable
    by (auto simp: rpc_invalid_transaction_def simp del: rpc_is_retryable.simps(22) split: option.splits)
  show ?thesis
    using assms(1) assms(2) contract_execution_not_retryable [of env error "ec_info cause" _ _ e] inv
    unfolding cause_error_def node_cause_error_def Let_def retryable_causes_def
    by (auto split: prod.splits if_splits option.splits sum.splits)
qed

lemma retryable_cause_error:
  assumes "ec_name cause \<in> set retryable_causes" and "cause_error env error cause = Done r"
  shows "\<exists>e. r = Some e \<and> rpc_is_retryable e"
  using assms unfolding cause_error_def node_cause_error_def Let_def retryable_causes_def
  by (auto split: prod.splits)

lemma data_error_retryable:
  "rpc_is_retryable (data_error sd error) \<Longrightarrow>
     data_error sd error = Rpc_Rpc (je_code error) (je_message error) (je_data error) \<and>
     (je_code error = - 32000 \<or> je_code error = - 32603)"
  by (auto simp: data_error_def split: option.splits)

lemma parse_rpc_error_cases:
  assumes "is_ok (parse_account (env_sd env) ''unknown'')"
  shows "\<exists>e. parse_rpc_error env error = Done e \<and>
    (rpc_is_retryable e \<longrightarrow>
      (\<exists>c. je_cause error = Some c \<and>
        (ec_name c \<in> set retryable_causes \<or>
         ec_name c = ''INVALID_TRANSACTION'' \<and>
           (\<exists>t. e = Rpc_InvalidTx t \<and> invalid_tx_is_retryable t \<and> (\<forall>a n. t \<noteq> InvalidTx_InvalidNonce a n)))) \<or>
      (e = Rpc_Rpc (je_code error) (je_message error) (je_data error) \<and>
         (je_code error = - 32000 \<or> je_code error = - 32603))) \<and>
    (\<forall>c. je_cause error = Some c \<and> ec_name c \<in> set retryable_causes \<longrightarrow> rpc_is_retryable e)"
proof (cases "je_cause error")
  case None
  then show ?thesis using data_error_retryable by (auto simp: parse_rpc_error_def)
next
  case (Some c)
  obtain r where r: "cause_error env error c = Done r" using cause_error_Done [OF assms] by blast
  show ?thesis
  proof (cases r)
    case None
    then show ?thesis
      using Some r data_error_retryable retryable_cause_error [OF _ r] by (auto simp: parse_rpc_error_def)
  next
    case (Some e)
    then show ?thesis
      using \<open>je_cause error = Some c\<close> r cause_error_retryable [of env error c e] retryable_cause_error [OF _ r]
      by (auto simp: parse_rpc_error_def)
  qed
qed

lemma parse_rpc_error_retryable:
  assumes "is_ok (parse_account (env_sd env) ''unknown'')"
  shows "\<exists>e. parse_rpc_error env error = Done e \<and>
    (rpc_is_retryable e \<longrightarrow> (\<exists>c. je_cause error = Some c \<and>
        (ec_name c \<in> set retryable_causes \<or> ec_name c = ''INVALID_TRANSACTION'')) \<or> (\<exists>c m d. e = Rpc_Rpc c m d))"
  using parse_rpc_error_cases [OF assms, of error] by blast

text \<open>C28: Every JSON-RPC error of a node is mapped to an \<open>RpcError\<close> without a panic. The mapped
  error is retryable only for one of five transient causes, for a rejected transaction whose
  rejection can clear by itself (never \<open>InvalidNonce\<close>), or for an unclassified error with the
  code of a server error; and each of the five transient causes is retryable. The account id
  parser has to accept the placeholder \<open>unknown\<close>.\<close>

theorem node_error_classification:
  assumes "is_ok (parse_account (env_sd env) ''unknown'')"
  shows "\<exists>e. parse_rpc_error env error = Done e \<and>
    (rpc_is_retryable e \<longrightarrow>
      (\<exists>c. je_cause error = Some c \<and>
        (ec_name c \<in> set retryable_causes \<or>
         ec_name c = ''INVALID_TRANSACTION'' \<and>
           (\<exists>t. e = Rpc_InvalidTx t \<and> invalid_tx_is_retryable t \<and> (\<forall>a n. t \<noteq> InvalidTx_InvalidNonce a n)))) \<or>
      (e = Rpc_Rpc (je_code error) (je_message error) (je_data error) \<and>
         (je_code error = - 32000 \<or> je_code error = - 32603))) \<and>
    (\<forall>c. je_cause error = Some c \<and> ec_name c \<in> set retryable_causes \<longrightarrow> rpc_is_retryable e)"
  by (rule parse_rpc_error_cases [OF assms])

theorem node_error_classification_witness:
  "\<exists>e. parse_rpc_error rpc_env_ref
      \<lparr>je_code = - 32000, je_message = ''Timeout'', je_data = None,
       je_cause = Some \<lparr>ec_name = ''TIMEOUT_ERROR'', ec_info = None\<rparr>, je_name = None\<rparr> = Done e
    \<and> rpc_is_retryable e"
  using node_error_classification [OF parse_account_ref_unknown, of "\<lparr>je_code = - 32000,
      je_message = ''Timeout'', je_data = None,
      je_cause = Some \<lparr>ec_name = ''TIMEOUT_ERROR'', ec_info = None\<rparr>, je_name = None\<rparr>"]
  by (auto simp: retryable_causes_def)

section \<open>Debug literals\<close>

text \<open>The \<open>Debug\<close> rendering of an ASCII string, and of the failures that the legacy parser
  recognises.\<close>

definition hex_char :: "nat \<Rightarrow> char" where
  "hex_char n = char_of (if n < 10 then 48 + n else 87 + n)"

definition debug_char :: "char \<Rightarrow> str" where
  "debug_char c =
     (let n = char_code c in
      if n = 0 then [CHR 0x5C, CHR ''0''] else if n = 9 then [CHR 0x5C, CHR ''t'']
      else if n = 10 then [CHR 0x5C, CHR ''n''] else if n = 13 then [CHR 0x5C, CHR ''r'']
      else if n = 34 then [CHR 0x5C, CHR 0x22] else if n = 92 then [CHR 0x5C, CHR 0x5C]
      else if n < 16 then [CHR 0x5C, CHR ''u'', CHR ''{'', hex_char n, CHR ''}'']
      else if n < 32 \<or> n = 127 then [CHR 0x5C, CHR ''u'', CHR ''{'', hex_char (n div 16), hex_char (n mod 16), CHR ''}'']
      else [c])"

definition debug_str :: "str \<Rightarrow> str" where
  "debug_str s = [CHR 0x22] @ concat (map debug_char s) @ [CHR 0x22]"

lemma char_code_eq_iff: "k < 256 \<Longrightarrow> char_code c = k \<longleftrightarrow> c = char_of k"
  by (auto simp: char_code_def)

lemma char_code_char_of: "k < 256 \<Longrightarrow> char_code (char_of k) = k"
  by (simp add: char_code_def)

lemma hex_char_code: "d < 16 \<Longrightarrow> char_code (hex_char d) = (if d < 10 then 48 + d else 87 + d)"
  by (simp add: hex_char_def char_code_char_of)

lemma hex_digit_hex_char [simp]: "d < 16 \<Longrightarrow> hex_digit (hex_char d) = Some d"
  by (simp add: hex_digit_def hex_char_code Let_def)

lemma hex_char_neq [simp]:
  assumes "d < 16"
  shows "hex_char d \<noteq> CHR ''+''" "hex_char d \<noteq> CHR ''}''"
proof -
  have "char_code (hex_char d) \<noteq> 43 \<and> char_code (hex_char d) \<noteq> 125"
    using hex_char_code [OF assms] assms by (simp split: if_splits)
  then show "hex_char d \<noteq> CHR ''+''" "hex_char d \<noteq> CHR ''}''" by (auto simp: char_code_def)
qed

lemma char_from_u32_ascii [simp]: "n < 128 \<Longrightarrow> char_from_u32 n = Some [char_of n]"
  by (simp add: char_from_u32_def utf8_encode_def)

lemma debug_chars_hex:
  assumes "hs \<noteq> []" and "list_all (\<lambda>x. x \<noteq> CHR ''}'') hs" and "from_str_radix16 hs = Some n" and "n < 128"
  shows "debug_chars out (CHR 0x5C # CHR ''u'' # CHR ''{'' # hs @ CHR ''}'' # rest) =
    debug_chars (out @ [char_of n]) rest"
proof -
  have "takeWhile (\<lambda>x. x \<noteq> CHR ''}'') (hs @ CHR ''}'' # rest) = hs"
    and "dropWhile (\<lambda>x. x \<noteq> CHR ''}'') (hs @ CHR ''}'' # rest) = CHR ''}'' # rest"
    using assms(2) by (simp_all add: list_all_iff takeWhile_append dropWhile_append)
  then show ?thesis using assms(3,4) by simp
qed

lemma debug_chars_char:
  assumes "char_code c < 128"
  shows "debug_chars out (debug_char c @ rest) = debug_chars (out @ [c]) rest"
proof -
  define n where "n = char_code c"
  have n: "n < 128" using assms by (simp add: n_def)
  have c: "char_of n = c" by (simp add: n_def char_code_def)
  have sp: "(n = 0 \<longrightarrow> c = CHR 0x00) \<and> (n = 9 \<longrightarrow> c = CHR 0x09) \<and> (n = 10 \<longrightarrow> c = CHR 0x0A) \<and>
      (n = 13 \<longrightarrow> c = CHR 0x0D) \<and> (n = 34 \<longleftrightarrow> c = CHR 0x22) \<and> (n = 92 \<longleftrightarrow> c = CHR 0x5C)"
    unfolding n_def by (simp add: char_code_eq_iff char_of_def bit_0)
  have h1: "from_str_radix16 [hex_char n] = Some n" if "n < 16"
    using that by (simp add: from_str_radix16_def)
  have h2: "from_str_radix16 [hex_char (n div 16), hex_char (n mod 16)] = Some n"
    using n by (simp add: from_str_radix16_def)
  show ?thesis
    using sp debug_chars_hex [OF _ _ h1 n, where rest = rest and out = out]
      debug_chars_hex [OF _ _ h2 n, where rest = rest and out = out] n c
    by (simp add: debug_char_def Let_def flip: n_def)
qed

lemma parse_debug_str_debug_str:
  assumes "list_all (\<lambda>c. char_code c < 128) s"
  shows "parse_debug_str (debug_str s @ rest) = Some s"
proof -
  have "debug_chars out (concat (map debug_char s) @ [CHR 0x22] @ rest) = Some (out @ s)" for out
    using assms
  proof (induction s arbitrary: out)
    case (Cons c s)
    have "debug_chars out (debug_char c @ concat (map debug_char s) @ [CHR 0x22] @ rest) =
        debug_chars (out @ [c]) (concat (map debug_char s) @ [CHR 0x22] @ rest)"
      by (rule debug_chars_char) (use Cons.prems in simp)
    then show ?case using Cons by simp
  qed simp
  then show ?thesis by (simp add: parse_debug_str_def debug_str_def strip_prefix_def)
qed

section \<open>The legacy form of a failed call\<close>

text \<open>The \<open>Debug\<close> rendering of the failures that have a variant of their own.\<close>

definition fce_debug :: "function_call_error \<Rightarrow> str option" where
  "fce_debug e =
     (case e of
        Fce_HostError (Host_GuestPanic m) \<Rightarrow> Some (''HostError(GuestPanic { panic_msg: '' @ debug_str m @ '' })'')
      | Fce_MethodResolveError Mre_MethodNotFound \<Rightarrow> Some ''MethodResolveError(MethodNotFound)''
      | Fce_CompilationError (Comp_CodeDoesNotExist a) \<Rightarrow>
          Some (''CompilationError(CodeDoesNotExist { account_id: AccountId('' @ debug_str a @ '') })'')
      | Fce_ExecutionError m \<Rightarrow> Some (''ExecutionError('' @ debug_str m @ '')'')
      | _ \<Rightarrow> None)"

definition fce_ok :: "serde_ops \<Rightarrow> function_call_error \<Rightarrow> bool" where
  "fce_ok sd e =
     (case e of
        Fce_HostError (Host_GuestPanic m) \<Rightarrow> list_all (\<lambda>c. char_code c < 128) m
      | Fce_CompilationError (Comp_CodeDoesNotExist a) \<Rightarrow>
          list_all (\<lambda>c. char_code c < 128) a \<and> parse_account sd a = Inr a
      | Fce_ExecutionError m \<Rightarrow> list_all (\<lambda>c. char_code c < 128) m
      | _ \<Rightarrow> True)"

lemma trim_start_space [simp]: "trim_start (CHR '' '' # s) = trim_start s"
  by (simp add: trim_start_def ws_codes_def char_code_def)

lemma fce_debug_shape:
  assumes "fce_debug e = Some t"
  shows "t \<noteq> []" "plain_byte (hd t)" "plain_byte (last t)" "hd t \<notin> {CHR ''F'', CHR ''w''}"
  using assms
  by (auto simp: fce_debug_def plain_byte_def char_code_def debug_str_def
      split: function_call_error.splits host_error.splits method_resolve_error.splits compilation_error.splits)

lemma strip_prefix_head: "p \<noteq> [] \<Longrightarrow> t \<noteq> [] \<Longrightarrow> hd t \<noteq> hd p \<Longrightarrow> strip_prefix p t = None"
  by (cases p; cases t) (auto simp: strip_prefix_def)

lemma strip_envelopes_bare:
  assumes "t \<noteq> []" "plain_byte (hd t)" "plain_byte (last t)" "hd t \<notin> {CHR ''F'', CHR ''w''}"
  shows "strip_envelopes t = t"
  using assms by (simp add: strip_envelopes_def trim_plain ENVELOPES_def strip_prefix_head)

lemma strip_envelopes_wrapped:
  assumes "t \<noteq> []" "plain_byte (hd t)" "plain_byte (last t)" "hd t \<notin> {CHR ''F'', CHR ''w''}" "p \<in> set ENVELOPES"
  shows "strip_envelopes (p @ '' '' @ t) = t"
proof -
  obtain p1 p2 where E: "ENVELOPES = [p1, p2]" and hd: "hd p1 = CHR ''F''" "hd p2 = CHR ''w''" "p1 \<noteq> []" "p2 \<noteq> []"
    by (simp add: ENVELOPES_def)
  have p: "p = p1 \<or> p = p2" using assms(5) unfolding E by simp
  then have "plain_byte (hd (p @ '' '' @ t))" using hd by (auto simp: plain_byte_def char_code_def)
  then have trim: "trim (p @ '' '' @ t) = p @ '' '' @ t" using assms(1,3) by (intro trim_plain) simp_all
  have t: "trim_start ('' '' @ t) = t" using trim_start_plain [OF assms(2)] by simp
  have "strip_prefix p2 t = None" and "strip_prefix p1 (p2 @ '' '' @ t) = None"
    using assms(1,4) hd by (auto intro!: strip_prefix_head)
  then show ?thesis
    using p trim t strip_prefix_append [of p1 "'' '' @ t"] strip_prefix_append [of p2 "'' '' @ t"]
    by (auto simp: strip_envelopes_def E simp del: strip_prefix_append)
qed

lemma classify_legacy_text:
  assumes "fce_debug e = Some t" and "fce_ok sd e" and "strip_envelopes msg = t"
  shows "classify_legacy_function_call_error sd msg c m h x = classify_function_call_error e c m h x"
proof -
  have pd: "parse_debug_str (CHR 0x22 # concat (map debug_char a) @ CHR 0x22 # r) = Some a"
    if "list_all (\<lambda>c. char_code c < 128) a" for a r
    using parse_debug_str_debug_str [OF that, of r] by (simp add: debug_str_def)
  have ts: "trim_start (CHR 0x22 # r) = CHR 0x22 # r" for r
    by (rule trim_start_plain) (simp add: plain_byte_def char_code_def)
  consider (panic) a where "e = Fce_HostError (Host_GuestPanic a)" | (meth) "e = Fce_MethodResolveError Mre_MethodNotFound"
    | (code) a where "e = Fce_CompilationError (Comp_CodeDoesNotExist a)" | (exec) a where "e = Fce_ExecutionError a"
    using assms(1) by (auto simp: fce_debug_def
      split: function_call_error.splits host_error.splits method_resolve_error.splits compilation_error.splits)
  then show ?thesis
  proof cases
    case (panic a)
    have msg: "strip_envelopes msg = ''HostError(GuestPanic { panic_msg: '' @ debug_str a @ '' })''"
      using assms(1,3) panic by (simp add: fce_debug_def)
    show ?thesis using assms(2) unfolding panic fce_ok_def
      by (simp add: classify_legacy_function_call_error_def classify_function_call_error_def debug_str_def
          strip_prefix_def starts_with_def msg pd ts Let_def)
  next
    case meth
    have msg: "strip_envelopes msg = ''MethodResolveError(MethodNotFound)''"
      using assms(1,3) meth by (simp add: fce_debug_def)
    show ?thesis using assms(2) unfolding meth fce_ok_def
      by (simp add: classify_legacy_function_call_error_def classify_function_call_error_def debug_str_def
          strip_prefix_def starts_with_def msg pd ts Let_def)
  next
    case (code a)
    have msg: "strip_envelopes msg = ''CompilationError(CodeDoesNotExist { account_id: AccountId('' @ debug_str a @ '') })''"
      using assms(1,3) code by (simp add: fce_debug_def)
    show ?thesis using assms(2) unfolding code fce_ok_def
      by (simp add: classify_legacy_function_call_error_def classify_function_call_error_def debug_str_def
          strip_prefix_def starts_with_def msg pd ts Let_def)
  next
    case (exec a)
    have msg: "strip_envelopes msg = ''ExecutionError('' @ debug_str a @ '')''"
      using assms(1,3) exec by (simp add: fce_debug_def)
    show ?thesis using assms(2) unfolding exec fce_ok_def
      by (simp add: classify_legacy_function_call_error_def classify_function_call_error_def debug_str_def
          strip_prefix_def starts_with_def msg pd ts Let_def)
  qed
qed

text \<open>C30: A failed contract call that a provider reports as text, in either envelope or bare, is
  classified exactly as the structured error it renders: missing code, missing method, guest
  panic and execution error, with the panic message and the account id recovered from their
  \<open>Debug\<close> literals.\<close>

theorem legacy_same_as_structured:
  assumes "fce_debug e = Some t" and "fce_ok sd e" and "p \<in> set ENVELOPES"
  shows "classify_legacy_function_call_error sd (p @ '' '' @ t) c m h x = classify_function_call_error e c m h x
    \<and> classify_legacy_function_call_error sd t c m h x = classify_function_call_error e c m h x"
  using strip_envelopes_wrapped [OF fce_debug_shape [OF assms(1)] assms(3)]
    strip_envelopes_bare [OF fce_debug_shape [OF assms(1)]] classify_legacy_text [OF assms(1,2)] by blast

theorem legacy_same_as_structured_witness:
  "classify_legacy_function_call_error serde_ref
      (''Function call returned an error: '' @ ''HostError(GuestPanic { panic_msg: '' @ debug_str ''no'' @ '' })'')
      ''a.near'' None None None = Some (Rpc_ContractPanic ''no'' None None)"
  using legacy_same_as_structured [of "Fce_HostError (Host_GuestPanic ''no'')" _ serde_ref
      "''Function call returned an error:''" "''a.near''" None None None]
  by (simp add: fce_debug_def fce_ok_def ENVELOPES_def classify_function_call_error_def char_code_def)

end
