(* ===== verification/Rpc_Client.thy ===== *)
theory Rpc_Client
  imports Rpc_Parse
begin

text \<open>
  The JSON-RPC client (\<open>client/rpc.rs\<close>): one attempt of a call, which posts a request and
  reads the response, and the retry loop around it with its exponential back-off. The HTTP
  transport is a function from the state of the outside world to a result and the next
  state; the request counter (an atomic), the world and the delays slept so far form the
  state that the operations pass on. The deserializer of the result type is an argument.
\<close>

section \<open>Configuration\<close>

record retry_config =
  rc_max_retries :: u32
  rc_initial_delay_ms :: u64
  rc_max_delay_ms :: u64

definition retry_config_default :: retry_config where
  "retry_config_default = \<lparr>rc_max_retries = 3, rc_initial_delay_ms = 500, rc_max_delay_ms = 5000\<rparr>"

definition retry_config_none :: retry_config where
  "retry_config_none = retry_config_default\<lparr>rc_max_retries := 0\<rparr>"

record rpc_client =
  cl_url :: string
  cl_retry :: retry_config

record transport_response =
  tr_status :: u16
  tr_body :: bytes

text \<open>The crates and the transport that a call goes through.\<close>

record 'w rpc_io =
  io_env :: rpc_env
  io_to_vec :: "json \<Rightarrow> string + bytes"
  io_de_response :: "string \<Rightarrow> string + json_rpc_response"
  io_post :: "string \<Rightarrow> bytes \<Rightarrow> 'w \<Rightarrow> (rpc_error + transport_response) \<times> 'w"

record 'w net =
  net_id :: u64
  net_world :: 'w
  net_slept :: "u64 list"

section \<open>One attempt\<close>

definition is_retryable_status :: "u16 \<Rightarrow> bool" where
  "is_retryable_status status \<longleftrightarrow>
     status = 408 \<or> status = 429 \<or> status = 503 \<or> (500 \<le> unat status \<and> unat status < 600)"

definition http_message :: "u16 \<Rightarrow> string \<Rightarrow> string" where
  "http_message status body = ''HTTP '' @ show_word status @ '': '' @ body"

definition preserve_http_retry_classification :: "rpc_error \<Rightarrow> u16 \<Rightarrow> string \<Rightarrow> rpc_error" where
  "preserve_http_retry_classification err status body =
     (case err of
        Rpc_Rpc _ _ _ \<Rightarrow>
          if 400 \<le> unat status \<and> unat status < 500
          then rpc_network (http_message status body) (Some status) False else err
      | other \<Rightarrow> other)"

definition json_rpc_request :: "u64 \<Rightarrow> string \<Rightarrow> json \<Rightarrow> json" where
  "json_rpc_request i method_name params =
     JObj [(''jsonrpc'', JStr ''2.0''), (''id'', JInt (uint i)), (''method'', JStr method_name), (''params'', params)]"

text \<open>The error that a \<open>query\<close> carries in its result.\<close>

definition synthetic_error :: "string \<Rightarrow> json_rpc_error" where
  "synthetic_error s =
     \<lparr>je_code = - 32600, je_message = s, je_data = Some (JStr s), je_cause = None, je_name = None\<rparr>"

definition read_response ::
  "'w rpc_io \<Rightarrow> (json \<Rightarrow> string + 'r) \<Rightarrow> string \<Rightarrow> transport_response \<Rightarrow> (rpc_error + 'r) run" where
  "read_response io de method_name response =
     (let status = tr_status response; body = from_utf8_lossy (tr_body response);
          fail = (\<lambda>error. run_bind (parse_rpc_error (io_env io) error) (\<lambda>e. Done (Inl e))) in
      if \<not> (200 \<le> unat status \<and> unat status < 300) then
        (case Option.bind (ok_opt (io_de_response io body)) jr_error of
           Some error \<Rightarrow>
             run_bind (parse_rpc_error (io_env io) error) (\<lambda>e.
               Done (Inl (preserve_http_retry_classification e status body)))
         | None \<Rightarrow>
             Done (Inl (rpc_network (http_message status body) (Some status) (is_retryable_status status))))
      else (case io_de_response io body of
              Inl e \<Rightarrow> Done (Inl (Rpc_Json e))
            | Inr rpc_response \<Rightarrow>
        case jr_error rpc_response of
          Some error \<Rightarrow> fail error
        | None \<Rightarrow>
        case jr_result rpc_response of
          None \<Rightarrow> Done (Inl (Rpc_InvalidResponse ''Missing result in response''))
        | Some v \<Rightarrow>
        case (if method_name = ''query'' then Option.bind (json_get ''error'' v) json_as_str else None) of
          Some error_str \<Rightarrow> fail (synthetic_error error_str)
        | None \<Rightarrow> Done (map_err Rpc_Json (de v))))"

definition try_call ::
  "'w rpc_io \<Rightarrow> string \<Rightarrow> (json \<Rightarrow> string + 'r) \<Rightarrow> string \<Rightarrow> json \<Rightarrow> u64 \<Rightarrow> 'w \<Rightarrow> ((rpc_error + 'r) \<times> 'w) run" where
  "try_call io url de method_name params i w =
     (case io_to_vec io (json_rpc_request i method_name params) of
        Inl e \<Rightarrow> Done (Inl (Rpc_Json e), w)
      | Inr body \<Rightarrow>
        (case io_post io url body w of
           (Inl e, w') \<Rightarrow> Done (Inl e, w')
         | (Inr response, w') \<Rightarrow>
             run_bind (read_response io de method_name response) (\<lambda>r. Done (r, w'))))"

section \<open>The retry loop\<close>

text \<open>\<open>min(initial_delay_ms * 2u64.pow(attempt), max_delay_ms)\<close>\<close>

definition retry_delay :: "bool \<Rightarrow> retry_config \<Rightarrow> nat \<Rightarrow> u64 run" where
  "retry_delay oc cfg attempt =
     run_bind (arith_pow oc 2 attempt) (\<lambda>p.
     run_bind (arith_mul oc (rc_initial_delay_ms cfg) p) (\<lambda>d. Done (min d (rc_max_delay_ms cfg))))"

text \<open>The iterations from \<open>attempt\<close> on, of which \<open>n\<close> are left; after the last one the code
  is \<open>unreachable!\<close>.\<close>

fun call_loop ::
  "bool \<Rightarrow> 'w rpc_io \<Rightarrow> rpc_client \<Rightarrow> (json \<Rightarrow> string + 'r) \<Rightarrow> string \<Rightarrow> json \<Rightarrow> nat \<Rightarrow> nat \<Rightarrow> nat \<Rightarrow> 'w net
     \<Rightarrow> ((rpc_error + 'r) \<times> 'w net) run" where
  "call_loop oc io cl de m ps tot attempt 0 st = Panic"
| "call_loop oc io cl de m ps tot attempt (Suc n) st =
     run_bind (try_call io (cl_url cl) de m ps (net_id st) (net_world st)) (\<lambda>(r, w).
       let st1 = st\<lparr>net_id := net_id st + 1, net_world := w\<rparr> in
       case r of
         Inr x \<Rightarrow> Done (Inr x, st1)
       | Inl e \<Rightarrow>
           if rpc_is_retryable e \<and> attempt < tot - 1 then
             run_bind (retry_delay oc (cl_retry cl) attempt) (\<lambda>delay.
               call_loop oc io cl de m ps tot (Suc attempt) n (st1\<lparr>net_slept := net_slept st1 @ [delay]\<rparr>))
           else Done (Inl e, st1))"

definition rpc_call ::
  "bool \<Rightarrow> 'w rpc_io \<Rightarrow> rpc_client \<Rightarrow> (json \<Rightarrow> string + 'r) \<Rightarrow> string \<Rightarrow> json \<Rightarrow> 'w net
     \<Rightarrow> ((rpc_error + 'r) \<times> 'w net) run" where
  "rpc_call oc io cl de m ps st =
     run_bind (arith_add oc (rc_max_retries (cl_retry cl)) 1) (\<lambda>total_attempts.
       call_loop oc io cl de m ps (unat total_attempts) 0 (unat total_attempts) st)"

section \<open>What a call does\<close>

text \<open>A run of consecutive attempts, with the results they gave.\<close>

inductive attempts ::
  "'w rpc_io \<Rightarrow> string \<Rightarrow> (json \<Rightarrow> string + 'r) \<Rightarrow> string \<Rightarrow> json \<Rightarrow> u64 \<Rightarrow> 'w \<Rightarrow> (rpc_error + 'r) list \<Rightarrow> 'w \<Rightarrow> bool"
  for io url de m ps where
  attempts_Nil: "attempts io url de m ps i w [] w"
| attempts_Cons: "try_call io url de m ps i w = Done (r, w1) \<Longrightarrow> attempts io url de m ps (i + 1) w1 rs w2
     \<Longrightarrow> attempts io url de m ps i w (r # rs) w2"

inductive_simps attempts_simps [simp]:
  "attempts io url de m ps i w [] w'"
  "attempts io url de m ps i w (r # rs) w'"

definition backoff :: "retry_config \<Rightarrow> nat \<Rightarrow> u64" where
  "backoff cfg k = of_nat (min (unat (rc_initial_delay_ms cfg) * 2 ^ k) (unat (rc_max_delay_ms cfg)))"

text \<open>The results of a call: retryable failures, then the result that is returned, which is
  final unless the attempts are used up.\<close>

fun retry_trace :: "nat \<Rightarrow> (rpc_error + 'r) list \<Rightarrow> bool" where
  "retry_trace n [] = False"
| "retry_trace n [r] = (n = 1 \<or> (1 < n \<and> (\<forall>e. r = Inl e \<longrightarrow> \<not> rpc_is_retryable e)))"
| "retry_trace n (r # r' # rs) = (1 < n \<and> (\<exists>e. r = Inl e \<and> rpc_is_retryable e) \<and> retry_trace (n - 1) (r' # rs))"

lemma retry_trace_length: "retry_trace n rs \<Longrightarrow> rs \<noteq> [] \<and> length rs \<le> n"
  by (induction n rs rule: retry_trace.induct) auto

lemma retry_trace_butlast:
  "retry_trace n rs \<Longrightarrow> r \<in> set (butlast rs) \<Longrightarrow> \<exists>e. r = Inl e \<and> rpc_is_retryable e"
  by (induction n rs rule: retry_trace.induct) auto

lemma retry_trace_last:
  "retry_trace n rs \<Longrightarrow> last rs = Inl e \<Longrightarrow> rpc_is_retryable e \<Longrightarrow> length rs = n"
  by (induction n rs rule: retry_trace.induct) auto

lemma retry_delay_backoff:
  assumes "unat (rc_initial_delay_ms cfg) * 2 ^ k < 2 ^ 64" and "k < 64"
  shows "retry_delay oc cfg k = Done (backoff cfg k)"
proof -
  have pow: "(2::nat) ^ k < 2 ^ 64" using assms(2) by (rule power_strict_increasing) simp
  have p: "unat ((2::u64) ^ k) = 2 ^ k"
    using pow by (subst unat_pow_nowrap) simp_all
  have m: "unat (rc_initial_delay_ms cfg * 2 ^ k) = unat (rc_initial_delay_ms cfg) * 2 ^ k"
    using assms(1) p by (subst unat_mul_nowrap) simp_all
  have "min (rc_initial_delay_ms cfg * 2 ^ k) (rc_max_delay_ms cfg) = backoff cfg k"
    unfolding backoff_def m [symmetric] by (simp add: min_def word_le_nat_alt)
  then show ?thesis
    using assms p pow by (simp add: retry_delay_def arith_pow_def arith_mul_def)
qed

text \<open>The interface to the outside: all that the client relies on is that the account id parser
  accepts the placeholder \<open>unknown\<close>.\<close>

locale rpc_node =
  fixes io :: "'w rpc_io"
  assumes placeholder: "is_ok (parse_account (env_sd (io_env io)) ''unknown'')"
begin

lemma parse_rpc_error_Done: "\<exists>e. parse_rpc_error (io_env io) error = Done e"
  using cause_error_Done [OF placeholder]
  by (cases "je_cause error") (auto simp: parse_rpc_error_def intro!: run_bind_ex)

lemma read_response_Done: "\<exists>r. read_response io de m response = Done r"
proof -
  obtain p where p: "\<And>error. parse_rpc_error (io_env io) error = Done (p error)"
    using parse_rpc_error_Done by metis
  show ?thesis by (auto simp: read_response_def Let_def p split: option.split sum.split)
qed

lemma try_call_Done: "\<exists>r w'. try_call io url de m ps i w = Done (r, w')"
  using read_response_Done
  by (auto simp: try_call_def split: sum.split prod.split intro!: run_bind_ex)

lemma call_loop_trace:
  assumes "n = tot - attempt" and "0 < n"
    and delay: "\<And>k. k < tot - 1 \<Longrightarrow> retry_delay oc (cl_retry cl) k = Done (backoff (cl_retry cl) k)"
  shows "\<exists>rs w'. attempts io (cl_url cl) de m ps (net_id st) (net_world st) rs w' \<and> retry_trace n rs \<and>
    call_loop oc io cl de m ps tot attempt n st =
      Done (last rs, st\<lparr>net_id := net_id st + of_nat (length rs), net_world := w',
        net_slept := net_slept st @ map (backoff (cl_retry cl)) [attempt..<attempt + length rs - 1]\<rparr>)"
  using assms(1,2)
proof (induction n arbitrary: attempt st)
  case (Suc n)
  obtain r w where t: "try_call io (cl_url cl) de m ps (net_id st) (net_world st) = Done (r, w)"
    using try_call_Done by blast
  show ?case
  proof (cases "\<exists>e. r = Inl e \<and> rpc_is_retryable e \<and> attempt < tot - 1")
    case False
    then have "retry_trace (Suc n) [r]" using Suc.prems by auto
    moreover have "call_loop oc io cl de m ps tot attempt (Suc n) st =
        Done (r, st\<lparr>net_id := net_id st + 1, net_world := w\<rparr>)"
      using t False by (cases r) auto
    ultimately show ?thesis using t by (intro exI [of _ "[r]"] exI [of _ w]) simp
  next
    case True
    then obtain e where e: "r = Inl e" "rpc_is_retryable e" and lt: "attempt < tot - 1" by blast
    define st1 where "st1 = st\<lparr>net_id := net_id st + 1, net_world := w,
      net_slept := net_slept st @ [backoff (cl_retry cl) attempt]\<rparr>"
    have "n = tot - Suc attempt" "0 < n" using Suc.prems lt by auto
    from Suc.IH [OF this, of st1] obtain rs w' where
      rs: "attempts io (cl_url cl) de m ps (net_id st1) (net_world st1) rs w'" "retry_trace n rs" and
      loop: "call_loop oc io cl de m ps tot (Suc attempt) n st1 =
        Done (last rs, st1\<lparr>net_id := net_id st1 + of_nat (length rs), net_world := w',
          net_slept := net_slept st1 @ map (backoff (cl_retry cl)) [Suc attempt..<Suc attempt + length rs - 1]\<rparr>)"
      by blast
    have ne: "rs \<noteq> []" using retry_trace_length [OF rs(2)] by simp
    then have "retry_trace (Suc n) (r # rs)" using e rs(2) \<open>0 < n\<close> by (cases rs) auto
    moreover have "attempts io (cl_url cl) de m ps (net_id st) (net_world st) (r # rs) w'"
      using t rs(1) by (auto simp: st1_def)
    moreover have "[attempt..<attempt + length (r # rs) - 1] = attempt # [Suc attempt..<Suc attempt + length rs - 1]"
      using ne by (simp add: upt_conv_Cons)
    moreover have "call_loop oc io cl de m ps tot attempt (Suc n) st = call_loop oc io cl de m ps tot (Suc attempt) n st1"
      using t e lt delay [OF lt] by (simp add: st1_def)
    ultimately show ?thesis using loop ne
      by (intro exI [of _ "r # rs"] exI [of _ w']) (simp add: st1_def add.assoc)
  qed
qed simp

lemma rpc_call_trace:
  assumes "unat (rc_max_retries (cl_retry cl)) + 1 < 2 ^ 32"
    and delay: "\<And>k. k < unat (rc_max_retries (cl_retry cl)) \<Longrightarrow>
      retry_delay oc (cl_retry cl) k = Done (backoff (cl_retry cl) k)"
  shows "\<exists>rs w'. attempts io (cl_url cl) de m ps (net_id st) (net_world st) rs w' \<and>
    retry_trace (unat (rc_max_retries (cl_retry cl)) + 1) rs \<and>
    rpc_call oc io cl de m ps st =
      Done (last rs, st\<lparr>net_id := net_id st + of_nat (length rs), net_world := w',
        net_slept := net_slept st @ map (backoff (cl_retry cl)) [0..<length rs - 1]\<rparr>)"
proof -
  have "unat (rc_max_retries (cl_retry cl) + 1) = unat (rc_max_retries (cl_retry cl)) + 1"
    using assms(1) by (subst unat_add_nowrap) simp_all
  then show ?thesis
    using assms(1) call_loop_trace [of "unat (rc_max_retries (cl_retry cl)) + 1" _ 0 oc cl de m ps st] delay
    by (simp add: rpc_call_def arith_add_def)
qed

end

section \<open>A scripted node\<close>

text \<open>A world that answers with the entries of a list, in turn; the text \<open>ok\<close> stands for a
  successful response.\<close>

definition rpc_io_ref :: "(rpc_error + transport_response) list rpc_io" where
  "rpc_io_ref = \<lparr>io_env = rpc_env_ref, io_to_vec = (\<lambda>v. Inr []),
     io_de_response = (\<lambda>s. if s = ''ok'' then Inr \<lparr>jr_jsonrpc = ''2.0'', jr_id = 0, jr_result = Some JNull, jr_error = None\<rparr>
       else Inl ''expected value''),
     io_post = (\<lambda>url body w. case w of [] \<Rightarrow> (Inl (Rpc_Network ''closed'' None False), []) | r # rs \<Rightarrow> (r, rs))\<rparr>"

interpretation ref_node: rpc_node rpc_io_ref
  by unfold_locales (use parse_account_ref_unknown in \<open>simp add: rpc_io_ref_def\<close>)

definition sample_client :: rpc_client where
  "sample_client = \<lparr>cl_url = ''http://node'', cl_retry = retry_config_default\<rparr>"

section \<open>Properties\<close>

abbreviation cl_retries :: "rpc_client \<Rightarrow> nat" where
  "cl_retries cl \<equiv> unat (rc_max_retries (cl_retry cl))"

lemma retry_delay_range:
  assumes "unat (rc_initial_delay_ms cfg) * 2 ^ (n - 1) < 2 ^ 64" and "n \<le> 64" and "k < n"
  shows "retry_delay oc cfg k = Done (backoff cfg k)"
proof (rule retry_delay_backoff)
  have "unat (rc_initial_delay_ms cfg) * 2 ^ k \<le> unat (rc_initial_delay_ms cfg) * 2 ^ (n - 1)"
    using assms(3) by (intro mult_left_mono power_increasing) simp_all
  then show "unat (rc_initial_delay_ms cfg) * 2 ^ k < 2 ^ 64" using assms(1) by linarith
  show "k < 64" using assms(2,3) by simp
qed

text \<open>C8: A call returns after at least one and at most \<open>max_retries + 1\<close> attempts. Every attempt
  but the last failed with a retryable error, the result of the last one is returned, and it is
  a success or a final error unless the attempts are used up. Each attempt uses a request id of
  its own, and before the attempt \<open>k + 1\<close> the client sleeps the initial delay times \<open>2 ^ k\<close>,
  capped at the maximal delay. The configuration must keep the delays within 64 bits.\<close>

theorem call_retries:
  fixes io :: "'w rpc_io" and de :: "json \<Rightarrow> string + 'r"
  assumes "is_ok (parse_account (env_sd (io_env io)) ''unknown'')"
    and "cl_retries cl \<le> 64" and "unat (rc_initial_delay_ms (cl_retry cl)) * 2 ^ (cl_retries cl - 1) < 2 ^ 64"
  shows "\<exists>rs w'. attempts io (cl_url cl) de m ps (net_id st) (net_world st) rs w' \<and>
    rs \<noteq> [] \<and> length rs \<le> cl_retries cl + 1 \<and>
    (\<forall>r \<in> set (butlast rs). \<exists>e. r = Inl e \<and> rpc_is_retryable e) \<and>
    (\<forall>e. last rs = Inl e \<and> rpc_is_retryable e \<longrightarrow> length rs = cl_retries cl + 1) \<and>
    rpc_call oc io cl de m ps st =
      Done (last rs, st\<lparr>net_id := net_id st + of_nat (length rs), net_world := w',
        net_slept := net_slept st @ map (backoff (cl_retry cl)) [0..<length rs - 1]\<rparr>)"
proof -
  have "rpc_node io" using assms(1) by unfold_locales
  then obtain rs w' where *: "attempts io (cl_url cl) de m ps (net_id st) (net_world st) rs w'"
      "retry_trace (cl_retries cl + 1) rs"
      "rpc_call oc io cl de m ps st = Done (last rs, st\<lparr>net_id := net_id st + of_nat (length rs), net_world := w',
        net_slept := net_slept st @ map (backoff (cl_retry cl)) [0..<length rs - 1]\<rparr>)"
    using rpc_node.rpc_call_trace [of io cl oc de m ps st] assms(2) retry_delay_range [OF assms(3,2)]
    by auto
  then show ?thesis
    using retry_trace_length [OF *(2)] retry_trace_butlast [OF *(2)] retry_trace_last [OF *(2)] by blast
qed

theorem call_retries_witness:
  "\<exists>rs w'. attempts rpc_io_ref ''http://node'' Inr ''status'' JNull 7 [Inr \<lparr>tr_status = 503, tr_body = []\<rparr>] rs w' \<and>
    rs \<noteq> [] \<and> length rs \<le> 4 \<and>
    rpc_call True rpc_io_ref sample_client Inr ''status'' JNull
      \<lparr>net_id = 7, net_world = [Inr \<lparr>tr_status = 503, tr_body = []\<rparr>], net_slept = []\<rparr> =
      Done (last rs, \<lparr>net_id = 7 + of_nat (length rs), net_world = w',
        net_slept = map (backoff retry_config_default) [0..<length rs - 1]\<rparr>)"
  using call_retries [OF ref_node.placeholder, of sample_client Inr "''status''" JNull
      "\<lparr>net_id = 7, net_world = [Inr \<lparr>tr_status = 503, tr_body = []\<rparr>], net_slept = []\<rparr>" True]
  by (auto simp: sample_client_def retry_config_default_def)

text \<open>Every attempt of the request fails with an error that is worth retrying.\<close>

definition always_retryable :: "'w rpc_io \<Rightarrow> string \<Rightarrow> (json \<Rightarrow> string + 'r) \<Rightarrow> string \<Rightarrow> json \<Rightarrow> bool" where
  "always_retryable io url de m ps \<longleftrightarrow>
     (\<forall>i w. \<exists>e w'. try_call io url de m ps i w = Done (Inl e, w') \<and> rpc_is_retryable e)"

lemma call_loop_panics:
  assumes "always_retryable io (cl_url cl) de m ps"
    and "retry_delay oc (cl_retry cl) k = Panic" and "attempt \<le> k" and "k < tot - 1" and "n = tot - attempt"
  shows "call_loop oc io cl de m ps tot attempt n st = Panic"
  using assms(3-5)
proof (induction n arbitrary: attempt st)
  case (Suc n)
  obtain e w where "try_call io (cl_url cl) de m ps (net_id st) (net_world st) = Done (Inl e, w)" "rpc_is_retryable e"
    using assms(1) unfolding always_retryable_def by blast
  moreover have "attempt < tot - 1" using Suc.prems by linarith
  moreover have "call_loop oc io cl de m ps tot (Suc attempt) n st' = Panic" if "k \<noteq> attempt" for st'
    using that Suc.prems by (intro Suc.IH) simp_all
  ultimately show ?case
    using assms(2) by (cases "k = attempt"; cases "retry_delay oc (cl_retry cl) attempt") simp_all
qed simp

text \<open>C35: The arithmetic of the retry loop is not guarded: \<open>max_retries = u32::MAX\<close> makes every
  call panic, by the overflow of \<open>max_retries + 1\<close> with overflow checks and by the empty loop
  without them; and with overflow checks a call whose attempts keep failing panics as soon as
  the uncapped delay \<open>initial_delay_ms * 2 ^ k\<close> leaves 64 bits, although the delay is capped.\<close>

theorem retry_overflow:
  "(rc_max_retries (cl_retry cl) = - 1 \<longrightarrow> rpc_call oc io cl de m ps st = Panic) \<and>
   (always_retryable io (cl_url cl) de m ps \<and> k < cl_retries cl \<and>
     2 ^ 64 \<le> unat (rc_initial_delay_ms (cl_retry cl)) * 2 ^ k \<longrightarrow> rpc_call True io cl de m ps st = Panic)"
proof (intro conjI impI)
  assume *: "rc_max_retries (cl_retry cl) = - 1"
  have "unat (- 1 :: u32) = 2 ^ 32 - 1" by (simp add: unsigned_minus_1_eq_mask mask_eq_exp_minus_1)
  with * show "rpc_call oc io cl de m ps st = Panic" by (simp add: rpc_call_def arith_add_def)
next
  assume *: "always_retryable io (cl_url cl) de m ps \<and> k < cl_retries cl \<and>
     2 ^ 64 \<le> unat (rc_initial_delay_ms (cl_retry cl)) * 2 ^ k"
  have delay: "retry_delay True (cl_retry cl) k = Panic"
  proof (cases "(2::nat) ^ k < 2 ^ 64")
    case True
    then have "unat ((2::u64) ^ k) = 2 ^ k" by (subst unat_pow_nowrap) simp_all
    then show ?thesis using * by (simp add: retry_delay_def arith_pow_def arith_mul_def)
  qed (simp add: retry_delay_def arith_pow_def)
  show "rpc_call True io cl de m ps st = Panic"
  proof (cases "cl_retries cl + 1 < 2 ^ 32")
    case True
    then have "unat (rc_max_retries (cl_retry cl) + 1) = cl_retries cl + 1" by (subst unat_add_nowrap) simp_all
    moreover have "call_loop True io cl de m ps (cl_retries cl + 1) 0 (cl_retries cl + 1) st = Panic"
      by (rule call_loop_panics [OF _ delay]) (use * in simp_all)
    ultimately show ?thesis
      using True by (simp add: rpc_call_def arith_add_def del: call_loop.simps)
  qed (simp add: rpc_call_def arith_add_def)
qed

definition rpc_io_down :: "unit rpc_io" where
  "rpc_io_down = \<lparr>io_env = rpc_env_ref, io_to_vec = (\<lambda>v. Inr []), io_de_response = (\<lambda>s. Inl ''eof''),
     io_post = (\<lambda>url body w. (Inl (Rpc_Network ''connection refused'' None True), w))\<rparr>"

theorem retry_overflow_witness:
  "rpc_call True rpc_io_down
     \<lparr>cl_url = ''http://node'', cl_retry = retry_config_default\<lparr>rc_max_retries := 100\<rparr>\<rparr>
     (Inr :: json \<Rightarrow> string + json) ''status'' JNull \<lparr>net_id = 0, net_world = (), net_slept = []\<rparr> = Panic"
proof -
  let ?cl = "\<lparr>cl_url = ''http://node'', cl_retry = retry_config_default\<lparr>rc_max_retries := 100\<rparr>\<rparr>"
  have "always_retryable rpc_io_down (cl_url ?cl) (Inr :: json \<Rightarrow> string + json) ''status'' JNull"
    by (simp add: always_retryable_def try_call_def rpc_io_down_def)
  then show ?thesis
    using retry_overflow [of ?cl True rpc_io_down Inr "''status''" JNull _ 60] by (simp add: retry_config_default_def)
qed

lemma preserved_retryable:
  "rpc_is_retryable (preserve_http_retry_classification e status body) \<Longrightarrow> 400 \<le> unat status \<Longrightarrow>
     unat status < 500 \<Longrightarrow> rpc_is_retryable e \<and> (\<nexists>c m d. e = Rpc_Rpc c m d)"
  by (cases e) (simp_all add: preserve_http_retry_classification_def rpc_network_def)

text \<open>C29: Failures that the same request would meet again are not retried. A response with an
  HTTP error status is always an error; without a JSON-RPC error in its body it is retryable
  exactly for 408, 429 and the 5xx statuses; with one, and a 4xx status, it is retryable only if
  the node names a transient cause or a transaction rejection that can clear. An error in the
  result of a \<open>query\<close> is never retryable.\<close>

theorem response_retry_classification:
  assumes "is_ok (parse_account (env_sd (io_env io)) ''unknown'')"
  shows "(\<not> (200 \<le> unat (tr_status resp) \<and> unat (tr_status resp) < 300) \<longrightarrow>
      (\<exists>e. read_response io de m resp = Done (Inl e) \<and>
        (Option.bind (ok_opt (io_de_response io (from_utf8_lossy (tr_body resp)))) jr_error = None \<longrightarrow>
          (rpc_is_retryable e \<longleftrightarrow> tr_status resp \<in> {408, 429} \<or> (500 \<le> unat (tr_status resp) \<and> unat (tr_status resp) < 600))) \<and>
        (\<forall>error. Option.bind (ok_opt (io_de_response io (from_utf8_lossy (tr_body resp)))) jr_error = Some error \<and>
          400 \<le> unat (tr_status resp) \<and> unat (tr_status resp) < 500 \<and> rpc_is_retryable e \<longrightarrow>
          (\<exists>c. je_cause error = Some c \<and> (ec_name c \<in> set retryable_causes \<or> ec_name c = ''INVALID_TRANSACTION''))))) \<and>
    (200 \<le> unat (tr_status resp) \<and> unat (tr_status resp) < 300 \<and> m = ''query'' \<and>
      io_de_response io (from_utf8_lossy (tr_body resp)) = Inr r \<and> jr_error r = None \<and>
      jr_result r = Some v \<and> json_get ''error'' v = Some (JStr s) \<longrightarrow>
      (\<exists>e. read_response io de m resp = Done (Inl e) \<and> \<not> rpc_is_retryable e))"
proof (intro conjI impI)
  let ?error = "Option.bind (ok_opt (io_de_response io (from_utf8_lossy (tr_body resp)))) jr_error"
  assume bad: "\<not> (200 \<le> unat (tr_status resp) \<and> unat (tr_status resp) < 300)"
  show "\<exists>e. read_response io de m resp = Done (Inl e) \<and>
        (?error = None \<longrightarrow>
          (rpc_is_retryable e \<longleftrightarrow> tr_status resp \<in> {408, 429} \<or> (500 \<le> unat (tr_status resp) \<and> unat (tr_status resp) < 600))) \<and>
        (\<forall>error. ?error = Some error \<and>
          400 \<le> unat (tr_status resp) \<and> unat (tr_status resp) < 500 \<and> rpc_is_retryable e \<longrightarrow>
          (\<exists>c. je_cause error = Some c \<and> (ec_name c \<in> set retryable_causes \<or> ec_name c = ''INVALID_TRANSACTION'')))"
  proof (cases ?error)
    case None
    then show ?thesis using bad
      by (auto simp: read_response_def Let_def rpc_network_def is_retryable_status_def)
  next
    case (Some error)
    obtain e where e: "parse_rpc_error (io_env io) error = Done e" and
      retry: "rpc_is_retryable e \<longrightarrow> (\<exists>c. je_cause error = Some c \<and>
          (ec_name c \<in> set retryable_causes \<or> ec_name c = ''INVALID_TRANSACTION'')) \<or>
        (\<exists>c m d. e = Rpc_Rpc c m d)"
      using parse_rpc_error_retryable [OF assms] by blast
    let ?e = "preserve_http_retry_classification e (tr_status resp) (from_utf8_lossy (tr_body resp))"
    have "read_response io de m resp = Done (Inl ?e)"
      using bad Some e by (simp add: read_response_def Let_def)
    moreover have "\<exists>c. je_cause error = Some c \<and> (ec_name c \<in> set retryable_causes \<or> ec_name c = ''INVALID_TRANSACTION'')"
      if "400 \<le> unat (tr_status resp)" "unat (tr_status resp) < 500" "rpc_is_retryable ?e"
      using preserved_retryable [OF that(3,1,2)] retry by blast
    ultimately show ?thesis using Some by (intro exI [of _ ?e]) simp
  qed
next
  assume "200 \<le> unat (tr_status resp) \<and> unat (tr_status resp) < 300 \<and> m = ''query'' \<and>
      io_de_response io (from_utf8_lossy (tr_body resp)) = Inr r \<and> jr_error r = None \<and>
      jr_result r = Some v \<and> json_get ''error'' v = Some (JStr s)"
  then show "\<exists>e. read_response io de m resp = Done (Inl e) \<and> \<not> rpc_is_retryable e"
    using data_error_retryable [of _ "synthetic_error s"]
    by (auto simp: read_response_def Let_def parse_rpc_error_def synthetic_error_def)
qed

theorem response_retry_classification_witness:
  "\<exists>e. read_response rpc_io_ref (Inr :: json \<Rightarrow> string + json) ''query'' \<lparr>tr_status = 429, tr_body = []\<rparr> = Done (Inl e)
    \<and> rpc_is_retryable e"
  using response_retry_classification [OF ref_node.placeholder,
      of "\<lparr>tr_status = 429, tr_body = []\<rparr>" "Inr :: json \<Rightarrow> string + json" "''query''" _ JNull "[]"]
  by (simp add: rpc_io_ref_def from_utf8_lossy_def utf8_lossy_codes.simps)

end
