(* ===== verification/Action_Views.thy ===== *)
theory Action_Views
  imports Error_Types Actions Crypto_Ref "HOL-Library.Multiset"
begin

text \<open>
  Actions as a node reports them (\<open>ActionView\<close> in \<open>types/rpc.rs\<close>) and their conversion back to
  actions: byte fields are base64 text, the code of a deployment is replaced by its hash, and a
  delegate action inside a delegate action is refused. A \<open>BTreeMap\<close> is the list of its entries
  in ascending order of the keys.
\<close>

section \<open>Views\<close>

datatype access_key_permission_view =
    AkvFullAccess
  | AkvFunctionCall "near_token option" account_id "string list"
  | AkvGasKeyFunctionCall near_token u16 "near_token option" account_id "string list"
  | AkvGasKeyFullAccess near_token u16

record access_key_details =
  akd_nonce :: u64
  akd_permission :: access_key_permission_view

record access_key_view =
  akv_nonce :: u64
  akv_permission :: access_key_permission_view
  akv_block_height :: u64
  akv_block_hash :: crypto_hash

datatype transaction_nonce_view = TnvNonce u64 | TnvGasKeyNonce u64 u16

datatype action_view =
    AvCreateAccount
  | AvDeployContract string
  | AvFunctionCall string string gas near_token
  | AvTransfer near_token
  | AvStake near_token public_key
  | AvAddKey public_key access_key_details
  | AvDeleteKey public_key
  | AvDeleteAccount account_id
  | AvDelegate delegate_action_view signature
  | AvDelegateV2 versioned_delegate_action_payload_view signature
  | AvDeployGlobalContract string
  | AvDeployGlobalContractByAccountId string
  | AvUseGlobalContract crypto_hash
  | AvUseGlobalContractByAccountId account_id
  | AvDeterministicStateInit global_contract_identifier_view "(string \<times> string) list" near_token
  | AvTransferToGasKey public_key near_token
  | AvWithdrawFromGasKey public_key near_token
and delegate_action_view = DelegateActionView account_id account_id "action_view list" u64 u64 public_key
and delegate_action_v2_view =
    DelegateActionV2View account_id account_id "action_view list" transaction_nonce_view u64 public_key
and versioned_delegate_action_payload_view = PayloadViewV2 delegate_action_v2_view

datatype action_view_conversion_error =
    InvalidBase64 string string | InvalidCodeHash nat | NestedDelegate

section \<open>Conversions\<close>

fun permission_from_view :: "access_key_permission_view \<Rightarrow> access_key_permission" where
  "permission_from_view AkvFullAccess = PermFullAccess"
| "permission_from_view (AkvFunctionCall a r ms) =
     PermFunctionCall \<lparr>fcp_allowance = a, fcp_receiver_id = r, fcp_method_names = ms\<rparr>"
| "permission_from_view (AkvGasKeyFunctionCall b n a r ms) =
     PermGasKeyFunctionCall \<lparr>gki_balance = b, gki_num_nonces = n\<rparr>
       \<lparr>fcp_allowance = a, fcp_receiver_id = r, fcp_method_names = ms\<rparr>"
| "permission_from_view (AkvGasKeyFullAccess b n) = PermGasKeyFullAccess \<lparr>gki_balance = b, gki_num_nonces = n\<rparr>"

definition access_key_from_details :: "access_key_details \<Rightarrow> access_key" where
  "access_key_from_details v = \<lparr>ak_nonce = akd_nonce v, ak_permission = permission_from_view (akd_permission v)\<rparr>"

definition access_key_from_view :: "access_key_view \<Rightarrow> access_key" where
  "access_key_from_view v = \<lparr>ak_nonce = akv_nonce v, ak_permission = permission_from_view (akv_permission v)\<rparr>"

fun gcid_from_view :: "global_contract_identifier_view \<Rightarrow> global_contract_id" where
  "gcid_from_view (Gciv_CodeHash h) = CodeHash h"
| "gcid_from_view (Gciv_AccountId a) = AccountId a"

fun nonce_from_view :: "transaction_nonce_view \<Rightarrow> transaction_nonce" where
  "nonce_from_view (TnvNonce n) = Nonce n"
| "nonce_from_view (TnvGasKeyNonce n i) = GasKeyNonce n i"

definition decode_view_base64 :: "crypto_ops \<Rightarrow> string \<Rightarrow> string \<Rightarrow> action_view_conversion_error + bytes" where
  "decode_view_base64 cr field s = map_err (InvalidBase64 field) (b64_decode cr s)"

definition decode_code_hash :: "crypto_ops \<Rightarrow> string \<Rightarrow> action_view_conversion_error + crypto_hash" where
  "decode_code_hash cr code =
     rbind (decode_view_base64 cr ''code'' code) (\<lambda>bs.
       map_err (\<lambda>_. InvalidCodeHash (length bs)) (crypto_hash_try_from bs))"

fun deploy_code_hash :: "crypto_ops \<Rightarrow> action_view \<Rightarrow> (action_view_conversion_error + crypto_hash) option" where
  "deploy_code_hash cr (AvDeployContract code) = Some (decode_code_hash cr code)"
| "deploy_code_hash cr (AvDeployGlobalContract code) = Some (decode_code_hash cr code)"
| "deploy_code_hash cr (AvDeployGlobalContractByAccountId code) = Some (decode_code_hash cr code)"
| "deploy_code_hash cr _ = None"

text \<open>Insertion into a \<open>BTreeMap\<close>, and the map collected from decoded entries.\<close>

fun btree_insert :: "bytes \<times> bytes \<Rightarrow> (bytes \<times> bytes) list \<Rightarrow> (bytes \<times> bytes) list" where
  "btree_insert p [] = [p]"
| "btree_insert p (q # m) =
     (if fst p = fst q then p # m else if bytes_less (fst p) (fst q) then p # q # m else q # btree_insert p m)"

fun decode_data ::
  "crypto_ops \<Rightarrow> (string \<times> string) list \<Rightarrow> (bytes \<times> bytes) list
     \<Rightarrow> action_view_conversion_error + (bytes \<times> bytes) list" where
  "decode_data cr [] m = Inr m"
| "decode_data cr (e # es) m =
     rbind (decode_view_base64 cr ''data'' (fst e)) (\<lambda>k.
     rbind (decode_view_base64 cr ''data'' (snd e)) (\<lambda>v. decode_data cr es (btree_insert (k, v) m)))"

definition deploy_global ::
  "crypto_ops \<Rightarrow> string \<Rightarrow> global_contract_deploy_mode \<Rightarrow> action_view_conversion_error + action" where
  "deploy_global cr code mode =
     rmap (\<lambda>h. DeployGlobalContract \<lparr>dg_code = h, dg_deploy_mode = mode\<rparr>) (decode_code_hash cr code)"

fun action_try_from :: "crypto_ops \<Rightarrow> action_view \<Rightarrow> action_view_conversion_error + action"
  and delegate_try_from :: "crypto_ops \<Rightarrow> delegate_action_view \<Rightarrow> action_view_conversion_error + delegate_action"
  and delegate_v2_try_from :: "crypto_ops \<Rightarrow> delegate_action_v2_view \<Rightarrow> action_view_conversion_error + delegate_action_v2"
  and payload_try_from ::
    "crypto_ops \<Rightarrow> versioned_delegate_action_payload_view \<Rightarrow> action_view_conversion_error + versioned_delegate_action_payload"
  and non_delegate_try_from :: "crypto_ops \<Rightarrow> action_view \<Rightarrow> action_view_conversion_error + non_delegate_action"
  and non_delegate_actions :: "crypto_ops \<Rightarrow> action_view list \<Rightarrow> action_view_conversion_error + non_delegate_action list" where
  "action_try_from cr AvCreateAccount = Inr CreateAccount"
| "action_try_from cr (AvDeployContract code) = rmap DeployContract (decode_code_hash cr code)"
| "action_try_from cr (AvFunctionCall m args g d) =
     rmap (\<lambda>a. FunctionCall \<lparr>fc_method_name = m, fc_args = a, fc_gas = g, fc_deposit = d\<rparr>)
       (decode_view_base64 cr ''args'' args)"
| "action_try_from cr (AvTransfer d) = Inr (Transfer d)"
| "action_try_from cr (AvStake s pk) = Inr (Stake \<lparr>st_stake = s, st_public_key = pk\<rparr>)"
| "action_try_from cr (AvAddKey pk k) =
     Inr (AddKey \<lparr>adk_public_key = pk, adk_access_key = access_key_from_details k\<rparr>)"
| "action_try_from cr (AvDeleteKey pk) = Inr (DeleteKey pk)"
| "action_try_from cr (AvDeleteAccount a) = Inr (DeleteAccount a)"
| "action_try_from cr (AvDelegate d s) = rmap (\<lambda>d. Delegate (SignedDelegateAction d s)) (delegate_try_from cr d)"
| "action_try_from cr (AvDelegateV2 p s) =
     rmap (\<lambda>p. DelegateV2 (VersionedSignedDelegateAction p s)) (payload_try_from cr p)"
| "action_try_from cr (AvDeployGlobalContract code) = deploy_global cr code DeployMode_CodeHash"
| "action_try_from cr (AvDeployGlobalContractByAccountId code) = deploy_global cr code DeployMode_AccountId"
| "action_try_from cr (AvUseGlobalContract h) = Inr (UseGlobalContract (CodeHash h))"
| "action_try_from cr (AvUseGlobalContractByAccountId a) = Inr (UseGlobalContract (AccountId a))"
| "action_try_from cr (AvDeterministicStateInit code data d) =
     rmap (\<lambda>m. DeterministicStateInit \<lparr>ds_state_init = V1 \<lparr>si_code = gcid_from_view code, si_data = m\<rparr>, ds_deposit = d\<rparr>)
       (decode_data cr data [])"
| "action_try_from cr (AvTransferToGasKey pk d) = Inr (TransferToGasKey \<lparr>gk_public_key = pk, gk_amount = d\<rparr>)"
| "action_try_from cr (AvWithdrawFromGasKey pk a) = Inr (WithdrawFromGasKey \<lparr>gk_public_key = pk, gk_amount = a\<rparr>)"
| "delegate_try_from cr (DelegateActionView s r vs n h pk) =
     rmap (\<lambda>as. DelegateAction s r as n h pk) (non_delegate_actions cr vs)"
| "delegate_v2_try_from cr (DelegateActionV2View s r vs n h pk) =
     rmap (\<lambda>as. DelegateActionV2 s r as (nonce_from_view n) h pk) (non_delegate_actions cr vs)"
| "payload_try_from cr (PayloadViewV2 d) = rmap PayloadV2 (delegate_v2_try_from cr d)"
| "non_delegate_try_from cr v =
     rbind (action_try_from cr v) (\<lambda>a. ok_or NestedDelegate (non_delegate_from_action a))"
| "non_delegate_actions cr [] = Inr []"
| "non_delegate_actions cr (v # vs) =
     rbind (non_delegate_try_from cr v) (\<lambda>a. rmap (Cons a) (non_delegate_actions cr vs))"

section \<open>The maps\<close>

lemma bytes_less_irrefl [simp]: "\<not> bytes_less x x"
  by (induction x) auto

lemma bytes_less_Nil [simp]: "\<not> bytes_less x []"
  by (cases x) auto

lemma bytes_less_trans: "bytes_less x y \<Longrightarrow> bytes_less y z \<Longrightarrow> bytes_less x z"
proof (induction x y arbitrary: z rule: bytes_less.induct)
  case (1 ys)
  then show ?case by (cases z) auto
next
  case (3 x xs y ys)
  then show ?case by (cases z) auto
qed simp

lemma bytes_less_total: "x \<noteq> y \<Longrightarrow> bytes_less x y \<or> bytes_less y x"
  by (induction x y rule: bytes_less.induct) (auto simp: neq_Nil_conv)

lemma keys_ascending_Cons:
  "keys_ascending (p # m) \<longleftrightarrow> keys_ascending m \<and> (\<forall>q \<in> set m. bytes_less (fst p) (fst q))"
proof (induction m arbitrary: p)
  case (Cons q m)
  show ?case using Cons.IH [of q] bytes_less_trans by auto
qed simp

lemma keys_ascending_unique:
  "keys_ascending xs \<Longrightarrow> keys_ascending ys \<Longrightarrow> set xs = set ys \<Longrightarrow> xs = ys"
proof (induction xs arbitrary: ys)
  case (Cons x xs)
  then obtain y zs where ys: "ys = y # zs" by (cases ys) auto
  have "x = y"
  proof (rule ccontr)
    assume "x \<noteq> y"
    then have "y \<in> set xs" "x \<in> set zs" using Cons.prems(3) ys by auto
    then have "bytes_less (fst x) (fst y)" "bytes_less (fst y) (fst x)"
      using Cons.prems(1,2) ys by (auto simp: keys_ascending_Cons)
    then show False using bytes_less_trans bytes_less_irrefl by blast
  qed
  moreover have "x \<notin> set xs" "y \<notin> set zs"
    using Cons.prems(1,2) ys by (auto simp: keys_ascending_Cons)
  ultimately have "set xs = set zs" using Cons.prems(3) ys by auto
  then show ?case using Cons ys \<open>x = y\<close> by (simp add: keys_ascending_Cons)
qed simp

lemma btree_insert_new:
  assumes "keys_ascending m" and "fst p \<notin> fst ` set m"
  shows "keys_ascending (btree_insert p m) \<and> set (btree_insert p m) = insert p (set m)"
  using assms
proof (induction p m rule: btree_insert.induct)
  case (2 p q m)
  have ne: "fst p \<noteq> fst q" using "2.prems" by auto
  show ?case
  proof (cases "bytes_less (fst p) (fst q)")
    case True
    then show ?thesis using "2.prems" ne bytes_less_trans by (auto simp: keys_ascending_Cons)
  next
    case False
    then have "bytes_less (fst q) (fst p)" using ne bytes_less_total by blast
    then show ?thesis using 2 False ne by (auto simp: keys_ascending_Cons)
  qed
qed simp

lemma fold_btree_insert:
  assumes "keys_ascending m" and "distinct (map fst ps)" and "fst ` set ps \<inter> fst ` set m = {}"
  shows "keys_ascending (fold btree_insert ps m) \<and> set (fold btree_insert ps m) = set ps \<union> set m"
  using assms
proof (induction ps arbitrary: m)
  case (Cons p ps)
  have "fst p \<notin> fst ` set m" using Cons.prems(3) by auto
  note ins = btree_insert_new [OF Cons.prems(1) this]
  have "fst ` set ps \<inter> fst ` set (btree_insert p m) = {}" using Cons.prems(2,3) ins by auto
  then show ?case using Cons.IH [of "btree_insert p m"] Cons.prems(2) ins by auto
qed simp

lemma keys_ascending_distinct: "keys_ascending m \<Longrightarrow> distinct (map fst m)"
  by (induction m) (force simp: keys_ascending_Cons)+

lemma decode_data_fold:
  assumes "b64_laws cr"
  shows "decode_data cr (map (\<lambda>(k, v). (b64_encode cr k, b64_encode cr v)) ps) m = Inr (fold btree_insert ps m)"
  using b64_laws.b64_rt [OF assms]
  by (induction ps arbitrary: m) (auto simp: decode_view_base64_def)

lemma mset_map_ex: "mset es = mset (map f m) \<Longrightarrow> \<exists>ps. es = map f ps \<and> mset ps = mset m"
proof (induction es arbitrary: m)
  case (Cons e es)
  have "e \<in> set (map f m)" using Cons.prems by (metis list.set_intros(1) set_mset_mset)
  then obtain x where x: "x \<in> set m" "e = f x" by auto
  then have m: "mset m = add_mset x (mset (remove1 x m))" by simp
  have "image_mset f (mset m) = add_mset (f x) (image_mset f (mset (remove1 x m)))" by (subst m) simp
  then have "mset es = mset (map f (remove1 x m))" using Cons.prems x(2) by simp
  then obtain ps where ps: "es = map f ps" "mset ps = mset (remove1 x m)" using Cons.IH by blast
  then have "mset (x # ps) = mset m" by (metis m mset.simps(2))
  then show ?case using x(2) ps(1) by (metis list.simps(9))
qed simp

lemma decode_data_view:
  assumes "b64_laws cr" and "keys_ascending m"
    and "mset es = mset (map (\<lambda>(k, v). (b64_encode cr k, b64_encode cr v)) m)"
  shows "decode_data cr es [] = Inr m"
proof -
  let ?enc = "\<lambda>(k, v). (b64_encode cr k, b64_encode cr v)"
  obtain ps where ps: "es = map ?enc ps" "mset ps = mset m"
    using mset_map_ex [OF assms(3)] by blast
  have "distinct (map fst ps)" using ps(2) keys_ascending_distinct [OF assms(2)]
    by (metis mset_map mset_eq_imp_distinct_iff)
  then have "keys_ascending (fold btree_insert ps [])" "set (fold btree_insert ps []) = set ps"
    using fold_btree_insert [of "[]" ps] by simp_all
  then have "fold btree_insert ps [] = m"
    using keys_ascending_unique [OF _ assms(2)] ps(2) by (metis set_mset_mset)
  then show ?thesis using decode_data_fold [OF assms(1)] ps(1) by simp
qed

section \<open>What a node reports\<close>

text \<open>The view of an action as nearcore builds it: bytes in base64, the code of a deployment
  replaced by its hash. \<open>ord\<close> is the order in which the entries of a map arrive.\<close>

fun permission_view :: "access_key_permission \<Rightarrow> access_key_permission_view" where
  "permission_view PermFullAccess = AkvFullAccess"
| "permission_view (PermFunctionCall p) = AkvFunctionCall (fcp_allowance p) (fcp_receiver_id p) (fcp_method_names p)"
| "permission_view (PermGasKeyFunctionCall g p) =
     AkvGasKeyFunctionCall (gki_balance g) (gki_num_nonces g) (fcp_allowance p) (fcp_receiver_id p) (fcp_method_names p)"
| "permission_view (PermGasKeyFullAccess g) = AkvGasKeyFullAccess (gki_balance g) (gki_num_nonces g)"

fun nonce_view :: "transaction_nonce \<Rightarrow> transaction_nonce_view" where
  "nonce_view (Nonce n) = TnvNonce n"
| "nonce_view (GasKeyNonce n i) = TnvGasKeyNonce n i"

fun gcid_view :: "global_contract_id \<Rightarrow> global_contract_identifier_view" where
  "gcid_view (CodeHash h) = Gciv_CodeHash h"
| "gcid_view (AccountId a) = Gciv_AccountId a"

fun init_view :: "crypto_ops \<Rightarrow> ((string \<times> string) list \<Rightarrow> (string \<times> string) list) \<Rightarrow> state_init \<Rightarrow> near_token \<Rightarrow> action_view" where
  "init_view cr ord (V1 v) d = AvDeterministicStateInit (gcid_view (si_code v))
     (ord (map (\<lambda>(k, v). (b64_encode cr k, b64_encode cr v)) (si_data v))) d"

fun view_of_action :: "crypto_ops \<Rightarrow> ((string \<times> string) list \<Rightarrow> (string \<times> string) list) \<Rightarrow> action \<Rightarrow> action_view"
  and view_of_actions :: "crypto_ops \<Rightarrow> ((string \<times> string) list \<Rightarrow> (string \<times> string) list) \<Rightarrow> non_delegate_action list \<Rightarrow> action_view list" where
  "view_of_action cr ord CreateAccount = AvCreateAccount"
| "view_of_action cr ord (DeployContract code) = AvDeployContract (b64_encode cr (sha256 cr code))"
| "view_of_action cr ord (FunctionCall c) =
     AvFunctionCall (fc_method_name c) (b64_encode cr (fc_args c)) (fc_gas c) (fc_deposit c)"
| "view_of_action cr ord (Transfer d) = AvTransfer d"
| "view_of_action cr ord (Stake s) = AvStake (st_stake s) (st_public_key s)"
| "view_of_action cr ord (AddKey k) = AvAddKey (adk_public_key k)
     \<lparr>akd_nonce = ak_nonce (adk_access_key k), akd_permission = permission_view (ak_permission (adk_access_key k))\<rparr>"
| "view_of_action cr ord (DeleteKey pk) = AvDeleteKey pk"
| "view_of_action cr ord (DeleteAccount a) = AvDeleteAccount a"
| "view_of_action cr ord (Delegate (SignedDelegateAction (DelegateAction s r as n h pk) sig)) =
     AvDelegate (DelegateActionView s r (view_of_actions cr ord as) n h pk) sig"
| "view_of_action cr ord (DelegateV2 (VersionedSignedDelegateAction (PayloadV2 (DelegateActionV2 s r as n h pk)) sig)) =
     AvDelegateV2 (PayloadViewV2 (DelegateActionV2View s r (view_of_actions cr ord as) (nonce_view n) h pk)) sig"
| "view_of_action cr ord (DeployGlobalContract g) =
     (case dg_deploy_mode g of
        DeployMode_CodeHash \<Rightarrow> AvDeployGlobalContract (b64_encode cr (sha256 cr (dg_code g)))
      | DeployMode_AccountId \<Rightarrow> AvDeployGlobalContractByAccountId (b64_encode cr (sha256 cr (dg_code g))))"
| "view_of_action cr ord (UseGlobalContract g) =
     (case g of CodeHash h \<Rightarrow> AvUseGlobalContract h | AccountId a \<Rightarrow> AvUseGlobalContractByAccountId a)"
| "view_of_action cr ord (DeterministicStateInit s) = init_view cr ord (ds_state_init s) (ds_deposit s)"
| "view_of_action cr ord (TransferToGasKey g) = AvTransferToGasKey (gk_public_key g) (gk_amount g)"
| "view_of_action cr ord (WithdrawFromGasKey g) = AvWithdrawFromGasKey (gk_public_key g) (gk_amount g)"
| "view_of_actions cr ord [] = []"
| "view_of_actions cr ord (NonDelegateAction a # as) = view_of_action cr ord a # view_of_actions cr ord as"

text \<open>What the view still says about an action: the code of a deployment is its hash.\<close>

fun reported :: "crypto_ops \<Rightarrow> action \<Rightarrow> action" where
  "reported cr (DeployContract code) = DeployContract (sha256 cr code)"
| "reported cr (DeployGlobalContract g) = DeployGlobalContract (g\<lparr>dg_code := sha256 cr (dg_code g)\<rparr>)"
| "reported cr a = a"

definition reported_inner :: "crypto_ops \<Rightarrow> non_delegate_action list \<Rightarrow> non_delegate_action list" where
  "reported_inner cr as = map (\<lambda>a. NonDelegateAction (reported cr (inner a))) as"

fun reported_action :: "crypto_ops \<Rightarrow> action \<Rightarrow> action" where
  "reported_action cr (Delegate (SignedDelegateAction (DelegateAction s r as n h pk) sig)) =
     Delegate (SignedDelegateAction (DelegateAction s r (reported_inner cr as) n h pk) sig)"
| "reported_action cr (DelegateV2 (VersionedSignedDelegateAction (PayloadV2 (DelegateActionV2 s r as n h pk)) sig)) =
     DelegateV2 (VersionedSignedDelegateAction (PayloadV2 (DelegateActionV2 s r (reported_inner cr as) n h pk)) sig)"
| "reported_action cr a = reported cr a"

text \<open>The maps of state initializations are \<open>BTreeMap\<close>s.\<close>

fun plain_maps_ok :: "action \<Rightarrow> bool" where
  "plain_maps_ok (DeterministicStateInit s) = (case ds_state_init s of V1 v \<Rightarrow> keys_ascending (si_data v))"
| "plain_maps_ok _ = True"

fun maps_ok :: "action \<Rightarrow> bool" where
  "maps_ok (Delegate s) = list_all (\<lambda>a. plain_maps_ok (inner a)) (da_actions (sd_delegate_action s))"
| "maps_ok (DelegateV2 v) = list_all plain_maps_ok (payload_get_actions (vd_delegate_action v))"
| "maps_ok a = plain_maps_ok a"

section \<open>Properties\<close>

lemma permission_view_inverse [simp]: "permission_from_view (permission_view p) = p"
  by (cases p) simp_all

lemma nonce_view_inverse [simp]: "nonce_from_view (nonce_view n) = n"
  by (cases n) simp_all

lemma gcid_view_inverse [simp]: "gcid_from_view (gcid_view g) = g"
  by (cases g) simp_all

lemma decode_code_hash_view:
  assumes "b64_laws cr" and "length (sha256 cr code) = 32"
  shows "decode_code_hash cr (b64_encode cr (sha256 cr code)) = Inr (sha256 cr code)"
  using assms b64_laws.b64_rt [OF assms(1)]
  by (simp add: decode_code_hash_def decode_view_base64_def crypto_hash_try_from_def)

lemma plain_view_round_trip:
  assumes "b64_laws cr" and sha: "\<And>b. length (sha256 cr b) = 32" and ord: "\<And>d. mset (ord d) = mset d"
    and "\<not> is_delegate a" and "plain_maps_ok a"
  shows "action_try_from cr (view_of_action cr ord a) = Inr (reported cr a)"
proof (cases a)
  case (DeterministicStateInit s)
  obtain v where v: "ds_state_init s = V1 v" by (cases "ds_state_init s")
  have "decode_data cr (ord (map (\<lambda>(k, v). (b64_encode cr k, b64_encode cr v)) (si_data v))) [] = Inr (si_data v)"
    using assms(5) DeterministicStateInit v by (intro decode_data_view [OF assms(1)]) (simp_all add: ord)
  then show ?thesis using DeterministicStateInit v by (cases s) simp
next
  case (DeployGlobalContract g)
  then show ?thesis using decode_code_hash_view [OF assms(1) sha]
    by (cases "dg_deploy_mode g"; cases g) (simp_all add: deploy_global_def)
next
  case (UseGlobalContract g)
  then show ?thesis by (cases g) simp_all
next
  case (FunctionCall c)
  then show ?thesis using b64_laws.b64_rt [OF assms(1)] by (cases c) (simp add: decode_view_base64_def)
qed (use assms(4) decode_code_hash_view [OF assms(1) sha] in \<open>simp_all add: access_key_from_details_def\<close>)

lemma reported_not_delegate: "\<not> is_delegate a \<Longrightarrow> \<not> is_delegate (reported cr a)"
  by (cases a) simp_all

lemma inner_views_round_trip:
  assumes "b64_laws cr" and "\<And>b. length (sha256 cr b) = 32" and "\<And>d. mset (ord d) = mset d"
    and "list_all (\<lambda>a. \<not> is_delegate (inner a) \<and> plain_maps_ok (inner a)) as"
  shows "non_delegate_actions cr (view_of_actions cr ord as) = Inr (reported_inner cr as)"
  using assms(4)
proof (induction as)
  case (Cons a as)
  obtain b where a: "a = NonDelegateAction b" by (cases a)
  then have "action_try_from cr (view_of_action cr ord b) = Inr (reported cr b)"
    using plain_view_round_trip [OF assms(1-3)] Cons.prems by simp
  then show ?case using Cons a reported_not_delegate
    by (simp add: reported_inner_def non_delegate_from_action_def)
qed (simp add: reported_inner_def)

lemma non_delegate_actions_plain:
  "non_delegate_actions cr vs = Inr as \<Longrightarrow> list_all (\<lambda>a. \<not> is_delegate (inner a)) as"
  by (induction vs arbitrary: as) (auto simp: non_delegate_from_action_def split: if_splits)

text \<open>C31: An action that a node reports converts back to the action that was sent, whatever the
  order in which the entries of its maps arrive, except that the code of a deployment is its
  hash; the same holds inside delegate actions of both versions. No view converts to an action
  with a delegate action inside a delegate action.\<close>

theorem action_view_round_trip:
  assumes "b64_laws cr" and "\<And>b. length (sha256 cr b) = 32" and "\<And>d. mset (ord d) = mset d"
  shows "(nest_free a \<and> maps_ok a \<longrightarrow> action_try_from cr (view_of_action cr ord a) = Inr (reported_action cr a)) \<and>
    (action_try_from cr v = Inr b \<longrightarrow> nest_free b)"
proof (intro conjI impI)
  assume ok: "nest_free a \<and> maps_ok a"
  show "action_try_from cr (view_of_action cr ord a) = Inr (reported_action cr a)"
  proof (cases "is_delegate a")
    case False
    then have "plain_maps_ok a" "reported_action cr a = reported cr a" using ok by (cases a; simp)+
    then show ?thesis using plain_view_round_trip [OF assms False] by simp
  next
    case True
    then consider s r as n h pk sig where "a = Delegate (SignedDelegateAction (DelegateAction s r as n h pk) sig)"
      | s r as n h pk sig where
        "a = DelegateV2 (VersionedSignedDelegateAction (PayloadV2 (DelegateActionV2 s r as n h pk)) sig)"
      by (cases a; (simp; fail)?) (metis delegate_action.exhaust signed_delegate_action.exhaust,
          metis delegate_action_v2.exhaust versioned_delegate_action_payload.exhaust
            versioned_signed_delegate_action.exhaust)
    then show ?thesis
      using ok inner_views_round_trip [OF assms] by cases (auto simp: list_all_iff)
  qed
next
  assume "action_try_from cr v = Inr b"
  then show "nest_free b"
  proof (cases v)
    case (AvDelegate d s)
    with \<open>action_try_from cr v = Inr b\<close> show ?thesis
      by (cases d) (auto dest: non_delegate_actions_plain)
  next
    case (AvDelegateV2 p s)
    obtain d where "p = PayloadViewV2 d" by (cases p)
    with AvDelegateV2 \<open>action_try_from cr v = Inr b\<close> show ?thesis
      by (cases d) (auto dest!: non_delegate_actions_plain simp: list_all_iff)
  qed (auto simp: deploy_global_def)
qed

theorem action_view_round_trip_witness:
  "action_try_from crypto_ref (view_of_action crypto_ref rev (DeterministicStateInit
      \<lparr>ds_state_init = V1 \<lparr>si_code = AccountId ''lib.near'', si_data = [([1], [2]), ([3], [])]\<rparr>, ds_deposit = 5\<rparr>)) =
    Inr (DeterministicStateInit
      \<lparr>ds_state_init = V1 \<lparr>si_code = AccountId ''lib.near'', si_data = [([1], [2]), ([3], [])]\<rparr>, ds_deposit = 5\<rparr>)"
proof -
  let ?a = "DeterministicStateInit
      \<lparr>ds_state_init = V1 \<lparr>si_code = AccountId ''lib.near'', si_data = [([1], [2]), ([3], [])]\<rparr>, ds_deposit = 5\<rparr>"
  have "length (sha256 crypto_ref b) = 32" for b by (simp add: crypto_ref_def)
  from action_view_round_trip [OF ref64.b64_laws_axioms this, where ord = rev and a = ?a]
  have "nest_free ?a \<and> maps_ok ?a \<longrightarrow>
      action_try_from crypto_ref (view_of_action crypto_ref rev ?a) = Inr (reported_action crypto_ref ?a)"
    by (metis mset_rev)
  moreover have "nest_free ?a" "maps_ok ?a" "reported_action crypto_ref ?a = ?a" by simp_all
  ultimately show ?thesis by (simp only:)
qed

end
