(* ===== verification/Views.thy ===== *)
theory Views
  imports Action_Views Rpc_Errors Block_Refs
begin

text \<open>
  What the RPC methods return (\<open>types/rpc.rs\<close>) and how a transaction response becomes the value
  of a wait level (\<open>types/wait_level.rs\<close>): the balance that an account can spend beside its
  storage stake, execution outcomes with the gas they burnt and the value they returned, and
  the check that a response at an executed level carries a valid outcome.
\<close>

section \<open>Accounts\<close>

definition STORAGE_AMOUNT_PER_BYTE :: u128 where "STORAGE_AMOUNT_PER_BYTE = 10000000000000000000"

record account_view =
  av_amount :: near_token
  av_locked :: near_token
  av_code_hash :: crypto_hash
  av_storage_usage :: u64
  av_storage_paid_at :: u64
  av_global_contract_hash :: "crypto_hash option"
  av_global_contract_account_id :: "account_id option"
  av_block_height :: u64
  av_block_hash :: crypto_hash

definition storage_required :: "account_view \<Rightarrow> near_token" where
  "storage_required v = saturating_mul STORAGE_AMOUNT_PER_BYTE (ucast (av_storage_usage v))"

definition available :: "account_view \<Rightarrow> near_token" where
  "available v =
     (let required = storage_required v in
      if required \<le> av_locked v then av_amount v
      else saturating_sub (av_amount v) (saturating_sub required (av_locked v)))"

definition storage_cost :: "account_view \<Rightarrow> near_token" where
  "storage_cost v =
     (let required = storage_required v in
      if required \<le> av_locked v then 0 else saturating_sub required (av_locked v))"

definition has_contract :: "account_view \<Rightarrow> bool" where
  "has_contract v \<longleftrightarrow> \<not> crypto_hash_is_zero (av_code_hash v)"

record account_balance =
  ab_total :: near_token
  ab_available :: near_token
  ab_locked :: near_token
  ab_storage_cost :: near_token
  ab_storage_usage :: u64

definition account_balance_from :: "account_view \<Rightarrow> account_balance" where
  "account_balance_from v = \<lparr>ab_total = av_amount v, ab_available = available v, ab_locked = av_locked v,
     ab_storage_cost = storage_cost v, ab_storage_usage = av_storage_usage v\<rparr>"

section \<open>Pages\<close>

record access_key_info_view =
  aki_public_key :: public_key_handle
  aki_access_key :: access_key_details

record access_key_list_view =
  akl_keys :: "access_key_info_view list"
  akl_last_key :: "public_key_handle option"
  akl_block_height :: u64
  akl_block_hash :: crypto_hash

record gas_key_nonces_view =
  gkn_nonces :: "u64 list"
  gkn_block_height :: u64
  gkn_block_hash :: crypto_hash

record state_item =
  si_key :: bytes
  si_value :: bytes

record view_state_result =
  vs_values :: "state_item list"
  vs_last_key :: "bytes option"
  vs_block_height :: u64
  vs_block_hash :: crypto_hash

record view_state_all_result =
  vsa_values :: "state_item list"
  vsa_block_height :: u64
  vsa_block_hash :: crypto_hash

record view_function_result =
  vf_result :: bytes
  vf_logs :: "string list"
  vf_block_height :: u64
  vf_block_hash :: crypto_hash

text \<open>The bytes that are parsed as JSON: an empty result is read as \<open>null\<close>.\<close>

definition json_bytes :: "bytes \<Rightarrow> bytes" where
  "json_bytes bs = (if bs = [] then as_bytes ''null'' else bs)"

definition view_function_json :: "(bytes \<Rightarrow> string + 'a) \<Rightarrow> view_function_result \<Rightarrow> string + 'a" where
  "view_function_json from_json v = from_json (json_bytes (vf_result v))"

section \<open>Outcomes\<close>

datatype execution_status = ExUnknown | ExFailure action_error | ExSuccessValue bytes | ExSuccessReceiptId crypto_hash

datatype raw_execution_status =
  RawUnknown | RawFailure tx_execution_error | RawSuccessValue bytes | RawSuccessReceiptId crypto_hash

definition execution_status_from_raw ::
  "crypto_ops \<Rightarrow> fmt_ops \<Rightarrow> raw_execution_status \<Rightarrow> string + execution_status" where
  "execution_status_from_raw cr fm r =
     (case r of
        RawUnknown \<Rightarrow> Inr ExUnknown
      | RawFailure (TxExec_ActionError e) \<Rightarrow> Inr (ExFailure e)
      | RawFailure (TxExec_InvalidTxError e) \<Rightarrow>
          Inl (''unexpected InvalidTxError in receipt execution status: '' @ invalid_tx_error_display cr fm e)
      | RawSuccessValue v \<Rightarrow> Inr (ExSuccessValue v)
      | RawSuccessReceiptId h \<Rightarrow> Inr (ExSuccessReceiptId h))"

datatype merkle_direction = MLeft | MRight

record merkle_path_item =
  mp_hash :: crypto_hash
  mp_direction :: merkle_direction

datatype account_contract_view = AcLocal crypto_hash | AcGlobalHash crypto_hash | AcGlobalAccountId account_id

record gas_profile_entry =
  gp_cost_category :: string
  gp_cost :: string
  gp_gas_used :: gas

record execution_metadata =
  em_version :: u32
  em_gas_profile :: "gas_profile_entry list option"
  em_contracts :: "account_contract_view option list option"

record execution_outcome =
  eo_executor_id :: account_id
  eo_gas_burnt :: gas
  eo_tokens_burnt :: near_token
  eo_logs :: "string list"
  eo_receipt_ids :: "crypto_hash list"
  eo_status :: execution_status
  eo_metadata :: "execution_metadata option"

record execution_outcome_with_id =
  eoi_id :: crypto_hash
  eoi_outcome :: execution_outcome
  eoi_proof :: "merkle_path_item list"
  eoi_block_hash :: crypto_hash

datatype final_execution_status = FxNotStarted | FxStarted | FxFailure tx_execution_error | FxSuccessValue string

datatype nonce_mode_view = NmMonotonic | NmStrict

record transaction_view =
  tv_signer_id :: account_id
  tv_public_key :: public_key
  tv_nonce :: u64
  tv_receiver_id :: account_id
  tv_hash :: crypto_hash
  tv_actions :: "action_view list"
  tv_signature :: signature
  tv_priority_fee :: "u64 option"
  tv_nonce_index :: "u16 option"
  tv_nonce_mode :: "nonce_mode_view option"

record data_receiver_view =
  drv_data_id :: crypto_hash
  drv_receiver_id :: account_id

record action_receipt_data =
  ard_signer_id :: account_id
  ard_signer_public_key :: public_key
  ard_gas_price :: near_token
  ard_output_data_receivers :: "data_receiver_view list"
  ard_input_data_ids :: "crypto_hash list"
  ard_actions :: "action_view list"
  ard_is_promise_yield :: "bool option"

record data_receipt_data =
  drd_data_id :: crypto_hash
  drd_data :: "string option"

datatype receipt_content =
    RcAction action_receipt_data
  | RcData data_receipt_data
  | RcGlobalContractDistribution global_contract_identifier_view u64 "u64 list" string "u64 option"

record receipt =
  rc_predecessor_id :: account_id
  rc_receiver_id :: account_id
  rc_receipt_id :: crypto_hash
  rc_receipt :: receipt_content
  rc_priority :: "u64 option"

record final_execution_outcome =
  fo_status :: final_execution_status
  fo_transaction :: transaction_view
  fo_transaction_outcome :: execution_outcome_with_id
  fo_receipts_outcome :: "execution_outcome_with_id list"
  fo_receipts :: "receipt list"

definition is_success :: "final_execution_outcome \<Rightarrow> bool" where
  "is_success out = (case fo_status out of FxSuccessValue _ \<Rightarrow> True | _ \<Rightarrow> False)"

definition is_failure :: "final_execution_outcome \<Rightarrow> bool" where
  "is_failure out = (case fo_status out of FxFailure _ \<Rightarrow> True | _ \<Rightarrow> False)"

definition failure_error :: "final_execution_outcome \<Rightarrow> tx_execution_error option" where
  "failure_error out = (case fo_status out of FxFailure e \<Rightarrow> Some e | _ \<Rightarrow> None)"

definition failure_message :: "crypto_ops \<Rightarrow> fmt_ops \<Rightarrow> final_execution_outcome \<Rightarrow> string option" where
  "failure_message cr fm out =
     (case fo_status out of FxFailure e \<Rightarrow> Some (tx_execution_error_display cr fm e) | _ \<Rightarrow> None)"

definition outcome_transaction_hash :: "final_execution_outcome \<Rightarrow> crypto_hash" where
  "outcome_transaction_hash out = eoi_id (fo_transaction_outcome out)"

text \<open>\<open>Iterator::sum\<close> and \<open>+\<close> on \<open>u64\<close>.\<close>

fun sum_u64 :: "bool \<Rightarrow> u64 \<Rightarrow> u64 list \<Rightarrow> u64 run" where
  "sum_u64 oc acc [] = Done acc"
| "sum_u64 oc acc (x # xs) = run_bind (arith_add oc acc x) (\<lambda>s. sum_u64 oc s xs)"

definition total_gas_used :: "bool \<Rightarrow> final_execution_outcome \<Rightarrow> gas run" where
  "total_gas_used oc out =
     run_bind (sum_u64 oc 0 (map (\<lambda>r. eo_gas_burnt (eoi_outcome r)) (fo_receipts_outcome out))) (\<lambda>receipt_gas.
       arith_add oc (eo_gas_burnt (eoi_outcome (fo_transaction_outcome out))) receipt_gas)"

text \<open>\<open>dbg\<close> is the \<open>Debug\<close> rendering of a status, \<open>b64_err\<close> the text of a base64 error.\<close>

definition outcome_result ::
  "crypto_ops \<Rightarrow> fmt_ops \<Rightarrow> (final_execution_status \<Rightarrow> string) \<Rightarrow> final_execution_outcome \<Rightarrow> near_error + bytes" where
  "outcome_result cr fm dbg out =
     (case fo_status out of
        FxFailure (TxExec_InvalidTxError e) \<Rightarrow> Inl (Err_InvalidTx e)
      | FxFailure (TxExec_ActionError e) \<Rightarrow>
          Inl (Err_InvalidTransaction (''Action error: '' @ action_error_display cr fm e))
      | FxSuccessValue s \<Rightarrow>
          map_err (\<lambda>e. Err_InvalidTransaction (''Failed to decode base64 SuccessValue: '' @ e)) (b64_decode cr s)
      | other \<Rightarrow> Inl (Err_InvalidTransaction (''Transaction status is '' @ dbg other @ '', expected SuccessValue'')))"

definition outcome_json ::
  "crypto_ops \<Rightarrow> fmt_ops \<Rightarrow> (final_execution_status \<Rightarrow> string) \<Rightarrow> (bytes \<Rightarrow> string + 'a) \<Rightarrow> final_execution_outcome
     \<Rightarrow> near_error + 'a" where
  "outcome_json cr fm dbg from_json out =
     rbind (outcome_result cr fm dbg out) (\<lambda>bs. map_err Err_Json (from_json (json_bytes bs)))"

record send_tx_response =
  str_transaction_hash :: crypto_hash
  str_sender_id :: account_id
  str_outcome :: "final_execution_outcome option"

record raw_transaction_response =
  rt_transaction_hash :: crypto_hash
  rt_final_execution_status :: tx_execution_status
  rt_outcome :: "final_execution_outcome option"

section \<open>Wait levels\<close>

datatype wait_level = Submitted | Included | IncludedFinal | ExecutedOptimistic | Executed | Final

fun level_status :: "wait_level \<Rightarrow> tx_execution_status" where
  "level_status Submitted = StNone"
| "level_status Included = StIncluded"
| "level_status IncludedFinal = StIncludedFinal"
| "level_status ExecutedOptimistic = StExecutedOptimistic"
| "level_status Executed = StExecuted"
| "level_status Final = StFinal"

definition make_send_tx_response :: "raw_transaction_response \<Rightarrow> account_id \<Rightarrow> send_tx_response" where
  "make_send_tx_response r sender =
     \<lparr>str_transaction_hash = rt_transaction_hash r, str_sender_id = sender, str_outcome = rt_outcome r\<rparr>"

definition extract_outcome ::
  "crypto_ops \<Rightarrow> raw_transaction_response \<Rightarrow> string \<Rightarrow> near_error + final_execution_outcome" where
  "extract_outcome cr r level =
     rbind (ok_or (Err_InvalidTransaction (''RPC returned no execution outcome for transaction '' @
              crypto_hash_display cr (rt_transaction_hash r) @ '' at wait level '' @ level)) (rt_outcome r)) (\<lambda>out.
       case fo_status out of
         FxFailure (TxExec_InvalidTxError e) \<Rightarrow> Inl (Err_InvalidTx e)
       | _ \<Rightarrow> Inr out)"

datatype level_response = EarlyResponse send_tx_response | ExecutedResponse final_execution_outcome

fun level_convert ::
  "crypto_ops \<Rightarrow> wait_level \<Rightarrow> raw_transaction_response \<Rightarrow> account_id \<Rightarrow> near_error + level_response" where
  "level_convert cr Submitted r sender = Inr (EarlyResponse (make_send_tx_response r sender))"
| "level_convert cr Included r sender = Inr (EarlyResponse (make_send_tx_response r sender))"
| "level_convert cr IncludedFinal r sender = Inr (EarlyResponse (make_send_tx_response r sender))"
| "level_convert cr ExecutedOptimistic r sender = rmap ExecutedResponse (extract_outcome cr r ''ExecutedOptimistic'')"
| "level_convert cr Executed r sender = rmap ExecutedResponse (extract_outcome cr r ''Executed'')"
| "level_convert cr Final r sender = rmap ExecutedResponse (extract_outcome cr r ''Final'')"

section \<open>Properties\<close>

lemma unat_storage_required: "unat (storage_required v) = 10 ^ 19 * unat (av_storage_usage v)"
proof -
  have lt: "unat (av_storage_usage v) < 2 ^ 64" using unat_lt_size [of "av_storage_usage v"] by simp
  have c: "unat STORAGE_AMOUNT_PER_BYTE = 10 ^ 19" by (simp add: STORAGE_AMOUNT_PER_BYTE_def)
  have u: "unat (ucast (av_storage_usage v) :: u128) = unat (av_storage_usage v)"
    using lt by (simp add: unsigned_ucast_eq take_bit_nat_eq_self)
  from lt have "10 ^ 19 * unat (av_storage_usage v) < (2 :: nat) ^ 128" by simp
  then show ?thesis using c u by (simp add: storage_required_def saturating_mul_def unat_mul_nowrap)
qed

text \<open>C25: The storage stake of an account is exact, no saturation can occur in it; the spendable
  balance is the liquid balance less the part of the stake that the locked balance does not
  cover, and zero when the liquid balance is smaller. The total that \<open>AccountBalance\<close> reports is the
  liquid balance: it is the available balance and the storage cost together when the account
  has the stake, and the available and the locked balance together, as the documentation of the
  field has it, only when the storage cost happens to equal the locked balance.\<close>

theorem account_balance_exact:
  "unat (ab_available (account_balance_from v)) =
     unat (av_amount v) - (10 ^ 19 * unat (av_storage_usage v) - unat (av_locked v)) \<and>
   unat (ab_storage_cost (account_balance_from v)) = 10 ^ 19 * unat (av_storage_usage v) - unat (av_locked v) \<and>
   ab_total (account_balance_from v) = av_amount v \<and> ab_locked (account_balance_from v) = av_locked v \<and>
   ab_storage_usage (account_balance_from v) = av_storage_usage v \<and>
   (ab_storage_cost (account_balance_from v) \<le> av_amount v \<longrightarrow>
     unat (ab_total (account_balance_from v)) =
       unat (ab_available (account_balance_from v)) + unat (ab_storage_cost (account_balance_from v)) \<and>
     (unat (ab_total (account_balance_from v)) =
        unat (ab_available (account_balance_from v)) + unat (ab_locked (account_balance_from v)) \<longleftrightarrow>
      ab_storage_cost (account_balance_from v) = ab_locked (account_balance_from v)))"
proof -
  have s: "unat (storage_required v) \<le> unat (av_locked v) \<longleftrightarrow> storage_required v \<le> av_locked v"
    by (simp add: word_le_nat_alt)
  have cost: "unat (storage_cost v) = 10 ^ 19 * unat (av_storage_usage v) - unat (av_locked v)"
    using s by (simp add: storage_cost_def Let_def saturating_sub_unat unat_storage_required)
  have avail: "unat (available v) = unat (av_amount v) - (10 ^ 19 * unat (av_storage_usage v) - unat (av_locked v))"
    using s by (simp add: available_def Let_def saturating_sub_unat unat_storage_required)
  have total: "unat (av_amount v) = unat (available v) + unat (storage_cost v)" if "storage_cost v \<le> av_amount v"
    using that cost avail by (simp add: word_le_nat_alt)
  have locked: "unat (av_amount v) = unat (available v) + unat (av_locked v) \<longleftrightarrow> storage_cost v = av_locked v"
    if "storage_cost v \<le> av_amount v"
    unfolding total [OF that] by (simp add: word_unat_eq_iff)
  have f: "ab_available (account_balance_from v) = available v" "ab_storage_cost (account_balance_from v) = storage_cost v"
    "ab_total (account_balance_from v) = av_amount v" "ab_locked (account_balance_from v) = av_locked v"
    "ab_storage_usage (account_balance_from v) = av_storage_usage v"
    by (simp_all add: account_balance_from_def)
  show ?thesis unfolding f using cost avail total locked by blast
qed

lemma sum_u64_exact:
  "unat acc + sum_list (map unat xs) < 2 ^ 64 \<Longrightarrow>
     \<exists>s. sum_u64 oc acc xs = Done s \<and> unat s = unat acc + sum_list (map unat xs)"
proof (induction xs arbitrary: acc)
  case (Cons x xs)
  then have "unat (acc + x) = unat acc + unat x" by (subst unat_add_nowrap) simp_all
  then show ?case using Cons.IH [of "acc + x"] Cons.prems by (simp add: arith_add_def add.assoc)
qed simp

text \<open>A response at an executed wait level becomes a value only with an outcome whose status is
  not a rejection of the transaction: a missing outcome and a rejection are errors, the
  rejection with its reason. The levels before execution always convert and pass the outcome
  on unchecked. The predicate \<open>is_executed\<close> tells the two kinds of levels apart.\<close>

theorem wait_level_conversion:
  "(\<not> is_executed (level_status l) \<longrightarrow>
      level_convert cr l r sender = Inr (EarlyResponse \<lparr>str_transaction_hash = rt_transaction_hash r,
        str_sender_id = sender, str_outcome = rt_outcome r\<rparr>)) \<and>
   (is_executed (level_status l) \<longrightarrow>
      (rt_outcome r = None \<longrightarrow> (\<exists>s. level_convert cr l r sender = Inl (Err_InvalidTransaction s))) \<and>
      (\<forall>out. rt_outcome r = Some out \<longrightarrow>
        level_convert cr l r sender =
          (case failure_error out of Some (TxExec_InvalidTxError e) \<Rightarrow> Inl (Err_InvalidTx e)
           | _ \<Rightarrow> Inr (ExecutedResponse out))))"
  by (cases l)
    (auto simp: is_executed_def make_send_tx_response_def extract_outcome_def failure_error_def
      split: final_execution_status.splits tx_execution_error.splits)

text \<open>The gas of an outcome is the exact sum over the transaction and its receipts as long as
  that fits 64 bits.\<close>

theorem total_gas_exact:
  assumes "unat (eo_gas_burnt (eoi_outcome (fo_transaction_outcome out))) +
      sum_list (map (\<lambda>r. unat (eo_gas_burnt (eoi_outcome r))) (fo_receipts_outcome out)) < 2 ^ 64"
  shows "\<exists>g. total_gas_used oc out = Done g \<and>
    unat g = unat (eo_gas_burnt (eoi_outcome (fo_transaction_outcome out))) +
      sum_list (map (\<lambda>r. unat (eo_gas_burnt (eoi_outcome r))) (fo_receipts_outcome out))"
proof -
  let ?tx = "eo_gas_burnt (eoi_outcome (fo_transaction_outcome out))"
  let ?gs = "map (\<lambda>r. eo_gas_burnt (eoi_outcome r)) (fo_receipts_outcome out)"
  have m: "sum_list (map unat ?gs) = sum_list (map (\<lambda>r. unat (eo_gas_burnt (eoi_outcome r))) (fo_receipts_outcome out))"
    by (simp add: comp_def)
  have "unat (0::u64) + sum_list (map unat ?gs) < 2 ^ 64" using assms unfolding m by simp
  then obtain s where s: "sum_u64 oc 0 ?gs = Done s" "unat s = sum_list (map unat ?gs)"
    using sum_u64_exact [of 0 ?gs oc] by auto
  then have lt: "unat ?tx + unat s < 2 ^ 64" using assms unfolding m by simp
  then have "unat (?tx + s) = unat ?tx + unat s" by (intro unat_add_nowrap) simp
  then show ?thesis using s lt unfolding m by (simp add: total_gas_used_def arith_add_def)
qed

definition sample_outcome :: final_execution_outcome where
  "sample_outcome = (let out = \<lparr>eo_executor_id = ''a.near'', eo_gas_burnt = 7, eo_tokens_burnt = 0, eo_logs = [],
       eo_receipt_ids = [], eo_status = ExUnknown, eo_metadata = None\<rparr>;
       oi = \<lparr>eoi_id = [], eoi_outcome = out, eoi_proof = [], eoi_block_hash = []\<rparr>;
       tx = \<lparr>tv_signer_id = ''a.near'', tv_public_key = PublicKey_Ed25519 [], tv_nonce = 1, tv_receiver_id = ''b.near'',
         tv_hash = [], tv_actions = [], tv_signature = Signature_Ed25519 [], tv_priority_fee = None, tv_nonce_index = None,
         tv_nonce_mode = None\<rparr> in
     \<lparr>fo_status = FxSuccessValue [], fo_transaction = tx, fo_transaction_outcome = oi, fo_receipts_outcome = [oi, oi],
       fo_receipts = []\<rparr>)"

theorem total_gas_exact_witness: "\<exists>g. total_gas_used True sample_outcome = Done g \<and> unat g = 21"
  using total_gas_exact [of sample_outcome True] by (simp add: sample_outcome_def Let_def)

definition sample_account :: account_view where
  "sample_account = \<lparr>av_amount = 5 * 10 ^ 24, av_locked = 0, av_code_hash = [], av_storage_usage = 100,
      av_storage_paid_at = 0, av_global_contract_hash = None, av_global_contract_account_id = None,
      av_block_height = 1, av_block_hash = []\<rparr>"

theorem account_balance_exact_witness:
  "unat (ab_total (account_balance_from sample_account)) = unat (ab_available (account_balance_from sample_account)) + 10 ^ 21 \<and>
   unat (ab_total (account_balance_from sample_account)) \<noteq>
     unat (ab_available (account_balance_from sample_account)) + unat (ab_locked (account_balance_from sample_account))"
proof -
  have v: "unat (av_amount sample_account) = 5 * 10 ^ 24" "unat (av_locked sample_account) = 0" "unat (av_storage_usage sample_account) = 100"
    by (simp_all add: sample_account_def)
  note b = account_balance_exact [of sample_account]
  then have c: "unat (ab_storage_cost (account_balance_from sample_account)) = 10 ^ 21"
    unfolding v by (simp add: v)
  then have "ab_storage_cost (account_balance_from sample_account) \<le> av_amount sample_account"
    "ab_storage_cost (account_balance_from sample_account) \<noteq> ab_locked (account_balance_from sample_account)"
    using b v by (auto simp: word_le_nat_alt)
  then show ?thesis using b c v by simp
qed

theorem wait_level_conversion_witness:
  "level_convert crypto_ref Executed \<lparr>rt_transaction_hash = [1], rt_final_execution_status = StExecuted,
      rt_outcome = Some sample_outcome\<rparr> ''a.near'' = Inr (ExecutedResponse sample_outcome)"
  using wait_level_conversion [of Executed crypto_ref "\<lparr>rt_transaction_hash = [1], rt_final_execution_status = StExecuted,
      rt_outcome = Some sample_outcome\<rparr>" "''a.near''"]
  by (simp add: is_executed_def failure_error_def sample_outcome_def Let_def)

end
