(* ===== verification/Transactions.thy ===== *)
theory Transactions
  imports Actions
begin

text \<open>
  Transactions (\<open>types/transaction.rs\<close>): the legacy V0 form, which is serialized without a
  tag, the V1 form with its tag byte, the codec that tells the two apart by the first two
  bytes, hashing and signing.
\<close>

section \<open>Types\<close>

record transaction =
  tx_signer_id :: account_id
  tx_public_key :: public_key
  tx_nonce :: u64
  tx_receiver_id :: account_id
  tx_block_hash :: crypto_hash
  tx_actions :: "action list"

record signed_transaction =
  st_transaction :: transaction
  st_signature :: signature

datatype nonce_mode = Monotonic | Strict

record transaction_v1 =
  t1_signer_id :: account_id
  t1_public_key :: public_key
  t1_nonce :: transaction_nonce
  t1_receiver_id :: account_id
  t1_block_hash :: crypto_hash
  t1_actions :: "action list"
  t1_nonce_mode :: nonce_mode

datatype versioned_transaction = TxV0 transaction | TxV1 transaction_v1

record signed_transaction_v1 =
  sv_transaction :: versioned_transaction
  sv_signature :: signature

datatype tx_error = InvalidTransaction string

definition V1_TAG :: u8 where "V1_TAG = 1"

section \<open>Codecs\<close>

definition ser_transaction :: "borsh_ops \<Rightarrow> transaction \<Rightarrow> bytes option" where
  "ser_transaction bo tx =
     cat [enc_acct bo (tx_signer_id tx), ser_public_key (tx_public_key tx), Some (enc_u64 bo (tx_nonce tx)),
          enc_acct bo (tx_receiver_id tx), ser_crypto_hash (tx_block_hash tx),
          enc_list bo (ser_action bo) (tx_actions tx)]"

definition de_transaction :: "borsh_ops \<Rightarrow> crypto_ops \<Rightarrow> transaction dec" where
  "de_transaction bo cr bs =
     dbind (dec_acct bo bs) (\<lambda>s bs. dbind (de_public_key bo cr bs) (\<lambda>pk bs.
     dbind (dec_u64 bo bs) (\<lambda>n bs. dbind (dec_acct bo bs) (\<lambda>r bs.
     dbind (de_crypto_hash bs) (\<lambda>h bs. dbind (dec_list bo (de_action bo cr) bs) (\<lambda>as bs.
       Inr (\<lparr>tx_signer_id = s, tx_public_key = pk, tx_nonce = n, tx_receiver_id = r,
              tx_block_hash = h, tx_actions = as\<rparr>, bs)))))))"

definition ser_signed_transaction :: "borsh_ops \<Rightarrow> signed_transaction \<Rightarrow> bytes option" where
  "ser_signed_transaction bo s = cat [ser_transaction bo (st_transaction s), ser_signature (st_signature s)]"

definition de_signed_transaction :: "borsh_ops \<Rightarrow> crypto_ops \<Rightarrow> signed_transaction dec" where
  "de_signed_transaction bo cr bs =
     dbind (de_transaction bo cr bs) (\<lambda>t bs. dbind (de_signature bo bs) (\<lambda>s bs.
       Inr (\<lparr>st_transaction = t, st_signature = s\<rparr>, bs)))"

fun ser_nonce_mode :: "nonce_mode \<Rightarrow> bytes option" where
  "ser_nonce_mode Monotonic = Some [0]"
| "ser_nonce_mode Strict = Some [1]"

definition de_nonce_mode :: "borsh_ops \<Rightarrow> nonce_mode dec" where
  "de_nonce_mode bo bs =
     dbind (read_u8 bo bs) (\<lambda>t bs.
       if t = 0 then Inr (Monotonic, bs) else if t = 1 then Inr (Strict, bs) else Inl (bad_tag_error bo t))"

definition ser_transaction_v1 :: "borsh_ops \<Rightarrow> transaction_v1 \<Rightarrow> bytes option" where
  "ser_transaction_v1 bo tx =
     cat [enc_acct bo (t1_signer_id tx), ser_public_key (t1_public_key tx), ser_transaction_nonce bo (t1_nonce tx),
          enc_acct bo (t1_receiver_id tx), ser_crypto_hash (t1_block_hash tx),
          enc_list bo (ser_action bo) (t1_actions tx), ser_nonce_mode (t1_nonce_mode tx)]"

definition de_transaction_v1 :: "borsh_ops \<Rightarrow> crypto_ops \<Rightarrow> transaction_v1 dec" where
  "de_transaction_v1 bo cr bs =
     dbind (dec_acct bo bs) (\<lambda>s bs. dbind (de_public_key bo cr bs) (\<lambda>pk bs.
     dbind (de_transaction_nonce bo bs) (\<lambda>n bs. dbind (dec_acct bo bs) (\<lambda>r bs.
     dbind (de_crypto_hash bs) (\<lambda>h bs. dbind (dec_list bo (de_action bo cr) bs) (\<lambda>as bs.
     dbind (de_nonce_mode bo bs) (\<lambda>m bs.
       Inr (\<lparr>t1_signer_id = s, t1_public_key = pk, t1_nonce = n, t1_receiver_id = r,
              t1_block_hash = h, t1_actions = as, t1_nonce_mode = m\<rparr>, bs))))))))"

fun ser_versioned_transaction :: "borsh_ops \<Rightarrow> versioned_transaction \<Rightarrow> bytes option" where
  "ser_versioned_transaction bo (TxV0 tx) = ser_transaction bo tx"
| "ser_versioned_transaction bo (TxV1 tx) = cat [Some [V1_TAG], ser_transaction_v1 bo tx]"

definition de_versioned_transaction :: "borsh_ops \<Rightarrow> crypto_ops \<Rightarrow> versioned_transaction dec" where
  "de_versioned_transaction bo cr bs =
     dbind (read_u8 bo bs) (\<lambda>u1 bs. dbind (read_u8 bo bs) (\<lambda>u2 bs.
       if u2 = 0 then dmap TxV0 (de_transaction bo cr (u1 # u2 # bs))
       else if u1 = V1_TAG then dmap TxV1 (de_transaction_v1 bo cr (u2 # bs))
       else Inl (InvalidData (''invalid transaction version tag: '' @ show_word u1))))"

definition ser_signed_transaction_v1 :: "borsh_ops \<Rightarrow> signed_transaction_v1 \<Rightarrow> bytes option" where
  "ser_signed_transaction_v1 bo s =
     cat [ser_versioned_transaction bo (sv_transaction s), ser_signature (sv_signature s)]"

definition de_signed_transaction_v1 :: "borsh_ops \<Rightarrow> crypto_ops \<Rightarrow> signed_transaction_v1 dec" where
  "de_signed_transaction_v1 bo cr bs =
     dbind (de_versioned_transaction bo cr bs) (\<lambda>t bs. dbind (de_signature bo bs) (\<lambda>s bs.
       Inr (\<lparr>sv_transaction = t, sv_signature = s\<rparr>, bs)))"

section \<open>Operations\<close>

definition tx_get_hash :: "borsh_ops \<Rightarrow> crypto_ops \<Rightarrow> transaction \<Rightarrow> crypto_hash run" where
  "tx_get_hash bo cr tx =
     run_bind (expect (ser_transaction bo tx)) (\<lambda>bs. Done (crypto_hash_hash cr bs))"

definition tx_get_hash_and_size :: "borsh_ops \<Rightarrow> crypto_ops \<Rightarrow> transaction \<Rightarrow> (crypto_hash \<times> nat) run" where
  "tx_get_hash_and_size bo cr tx =
     run_bind (expect (ser_transaction bo tx)) (\<lambda>bs. Done (crypto_hash_hash cr bs, length bs))"

definition tx_complete :: "transaction \<Rightarrow> signature \<Rightarrow> signed_transaction" where
  "tx_complete tx sig = \<lparr>st_transaction = tx, st_signature = sig\<rparr>"

definition tx_sign :: "borsh_ops \<Rightarrow> crypto_ops \<Rightarrow> transaction \<Rightarrow> secret_key \<Rightarrow> signed_transaction run" where
  "tx_sign bo cr tx sk =
     run_bind (tx_get_hash bo cr tx) (\<lambda>h.
     run_bind (secret_sign cr sk h) (\<lambda>sig. Done \<lparr>st_transaction = tx, st_signature = sig\<rparr>))"

definition signed_get_hash :: "borsh_ops \<Rightarrow> crypto_ops \<Rightarrow> signed_transaction \<Rightarrow> crypto_hash run" where
  "signed_get_hash bo cr s = tx_get_hash bo cr (st_transaction s)"

definition signed_to_bytes :: "borsh_ops \<Rightarrow> signed_transaction \<Rightarrow> bytes run" where
  "signed_to_bytes bo s = expect (ser_signed_transaction bo s)"

definition signed_to_base64 :: "borsh_ops \<Rightarrow> crypto_ops \<Rightarrow> signed_transaction \<Rightarrow> string run" where
  "signed_to_base64 bo cr s = run_bind (signed_to_bytes bo s) (\<lambda>bs. Done (b64_encode cr bs))"

definition deserialize_error :: "io_error \<Rightarrow> tx_error" where
  "deserialize_error e =
     InvalidTransaction (''Failed to deserialize signed transaction: '' @ io_error_display e)"

definition signed_from_bytes :: "borsh_ops \<Rightarrow> crypto_ops \<Rightarrow> bytes \<Rightarrow> tx_error + signed_transaction" where
  "signed_from_bytes bo cr bs = map_err deserialize_error (from_slice bo (de_signed_transaction bo cr) bs)"

definition signed_from_base64 :: "borsh_ops \<Rightarrow> crypto_ops \<Rightarrow> string \<Rightarrow> tx_error + signed_transaction" where
  "signed_from_base64 bo cr s =
     rbind (map_err (\<lambda>e. InvalidTransaction (''Invalid base64: '' @ e)) (b64_decode cr s))
       (signed_from_bytes bo cr)"

definition into_v1 :: "transaction \<Rightarrow> nonce_mode \<Rightarrow> transaction_v1" where
  "into_v1 tx m =
     \<lparr>t1_signer_id = tx_signer_id tx, t1_public_key = tx_public_key tx, t1_nonce = Nonce (tx_nonce tx),
      t1_receiver_id = tx_receiver_id tx, t1_block_hash = tx_block_hash tx, t1_actions = tx_actions tx,
      t1_nonce_mode = m\<rparr>"

definition into_gas_key_v1 :: "transaction \<Rightarrow> u16 \<Rightarrow> nonce_mode \<Rightarrow> transaction_v1" where
  "into_gas_key_v1 tx i m = (into_v1 tx m)\<lparr>t1_nonce := GasKeyNonce (tx_nonce tx) i\<rparr>"

fun vt_signer_id :: "versioned_transaction \<Rightarrow> account_id" where
  "vt_signer_id (TxV0 tx) = tx_signer_id tx"
| "vt_signer_id (TxV1 tx) = t1_signer_id tx"

fun vt_receiver_id :: "versioned_transaction \<Rightarrow> account_id" where
  "vt_receiver_id (TxV0 tx) = tx_receiver_id tx"
| "vt_receiver_id (TxV1 tx) = t1_receiver_id tx"

fun vt_public_key :: "versioned_transaction \<Rightarrow> public_key" where
  "vt_public_key (TxV0 tx) = tx_public_key tx"
| "vt_public_key (TxV1 tx) = t1_public_key tx"

fun vt_nonce :: "versioned_transaction \<Rightarrow> transaction_nonce" where
  "vt_nonce (TxV0 tx) = Nonce (tx_nonce tx)"
| "vt_nonce (TxV1 tx) = t1_nonce tx"

fun vt_nonce_mode :: "versioned_transaction \<Rightarrow> nonce_mode" where
  "vt_nonce_mode (TxV0 _) = Monotonic"
| "vt_nonce_mode (TxV1 tx) = t1_nonce_mode tx"

fun vt_actions :: "versioned_transaction \<Rightarrow> action list" where
  "vt_actions (TxV0 tx) = tx_actions tx"
| "vt_actions (TxV1 tx) = t1_actions tx"

fun vt_block_hash :: "versioned_transaction \<Rightarrow> crypto_hash" where
  "vt_block_hash (TxV0 tx) = tx_block_hash tx"
| "vt_block_hash (TxV1 tx) = t1_block_hash tx"

fun gas_keys_required :: "versioned_transaction \<Rightarrow> bool" where
  "gas_keys_required (TxV0 _) = False"
| "gas_keys_required (TxV1 _) = True"

definition vt_get_hash :: "borsh_ops \<Rightarrow> crypto_ops \<Rightarrow> versioned_transaction \<Rightarrow> crypto_hash run" where
  "vt_get_hash bo cr t =
     run_bind (expect (ser_versioned_transaction bo t)) (\<lambda>bs. Done (crypto_hash_hash cr bs))"

definition v1_get_hash :: "borsh_ops \<Rightarrow> crypto_ops \<Rightarrow> transaction_v1 \<Rightarrow> crypto_hash run" where
  "v1_get_hash bo cr tx =
     run_bind (expect (ser_versioned_transaction bo (TxV1 tx))) (\<lambda>bs. Done (crypto_hash_hash cr bs))"

definition v1_complete :: "transaction_v1 \<Rightarrow> signature \<Rightarrow> signed_transaction_v1" where
  "v1_complete tx sig = \<lparr>sv_transaction = TxV1 tx, sv_signature = sig\<rparr>"

definition v1_sign :: "borsh_ops \<Rightarrow> crypto_ops \<Rightarrow> transaction_v1 \<Rightarrow> secret_key \<Rightarrow> signed_transaction_v1 run" where
  "v1_sign bo cr tx sk =
     run_bind (v1_get_hash bo cr tx) (\<lambda>h.
     run_bind (secret_sign cr sk h) (\<lambda>sig. Done \<lparr>sv_transaction = TxV1 tx, sv_signature = sig\<rparr>))"

definition signed_v1_get_hash :: "borsh_ops \<Rightarrow> crypto_ops \<Rightarrow> signed_transaction_v1 \<Rightarrow> crypto_hash run" where
  "signed_v1_get_hash bo cr s = vt_get_hash bo cr (sv_transaction s)"

definition signed_v1_to_bytes :: "borsh_ops \<Rightarrow> signed_transaction_v1 \<Rightarrow> bytes run" where
  "signed_v1_to_bytes bo s = expect (ser_signed_transaction_v1 bo s)"

definition signed_v1_to_base64 :: "borsh_ops \<Rightarrow> crypto_ops \<Rightarrow> signed_transaction_v1 \<Rightarrow> string run" where
  "signed_v1_to_base64 bo cr s = run_bind (signed_v1_to_bytes bo s) (\<lambda>bs. Done (b64_encode cr bs))"

definition signed_v1_from_bytes :: "borsh_ops \<Rightarrow> crypto_ops \<Rightarrow> bytes \<Rightarrow> tx_error + signed_transaction_v1" where
  "signed_v1_from_bytes bo cr bs = map_err deserialize_error (from_slice bo (de_signed_transaction_v1 bo cr) bs)"

definition signed_v1_from_base64 :: "borsh_ops \<Rightarrow> crypto_ops \<Rightarrow> string \<Rightarrow> tx_error + signed_transaction_v1" where
  "signed_v1_from_base64 bo cr s =
     rbind (map_err (\<lambda>e. InvalidTransaction (''Invalid base64: '' @ e)) (b64_decode cr s))
       (signed_v1_from_bytes bo cr)"

definition signed_v1_from_signed :: "signed_transaction \<Rightarrow> signed_transaction_v1" where
  "signed_v1_from_signed s = \<lparr>sv_transaction = TxV0 (st_transaction s), sv_signature = st_signature s\<rparr>"

section \<open>Well-formed transactions\<close>

definition transaction_ok :: "borsh_ops \<Rightarrow> crypto_ops \<Rightarrow> transaction \<Rightarrow> bool" where
  "transaction_ok bo cr tx \<longleftrightarrow> acct_ok bo (tx_signer_id tx) \<and> public_key_ok cr (tx_public_key tx) \<and>
     acct_ok bo (tx_receiver_id tx) \<and> crypto_hash_ok (tx_block_hash tx) \<and>
     list_all (action_ok bo cr) (tx_actions tx)"

definition transaction_v1_ok :: "borsh_ops \<Rightarrow> crypto_ops \<Rightarrow> transaction_v1 \<Rightarrow> bool" where
  "transaction_v1_ok bo cr tx \<longleftrightarrow> acct_ok bo (t1_signer_id tx) \<and> public_key_ok cr (t1_public_key tx) \<and>
     acct_ok bo (t1_receiver_id tx) \<and> crypto_hash_ok (t1_block_hash tx) \<and>
     list_all (action_ok bo cr) (t1_actions tx)"

fun versioned_transaction_ok :: "borsh_ops \<Rightarrow> crypto_ops \<Rightarrow> versioned_transaction \<Rightarrow> bool" where
  "versioned_transaction_ok bo cr (TxV0 tx) = transaction_ok bo cr tx"
| "versioned_transaction_ok bo cr (TxV1 tx) = transaction_v1_ok bo cr tx"

definition signed_transaction_ok :: "borsh_ops \<Rightarrow> crypto_ops \<Rightarrow> signed_transaction \<Rightarrow> bool" where
  "signed_transaction_ok bo cr s \<longleftrightarrow> transaction_ok bo cr (st_transaction s) \<and> signature_ok (st_signature s)"

definition signed_transaction_v1_ok :: "borsh_ops \<Rightarrow> crypto_ops \<Rightarrow> signed_transaction_v1 \<Rightarrow> bool" where
  "signed_transaction_v1_ok bo cr s \<longleftrightarrow>
     versioned_transaction_ok bo cr (sv_transaction s) \<and> signature_ok (sv_signature s)"

section \<open>Round trips\<close>

lemma mode_round_trip: "ser_nonce_mode m = Some bs \<Longrightarrow> de_nonce_mode bo (bs @ rest) = Inr (m, rest)"
  by (cases m) (auto simp: de_nonce_mode_def)

lemmas hash_rt = hash.round_trip

sublocale wire_env < tx0: wire_codec "ser_transaction bo" "de_transaction bo cr" "transaction_ok bo cr"
  by unfold_locales
    (auto simp: ser_transaction_def de_transaction_def transaction_ok_def public_key_rt hash_rt actions_rt)

sublocale wire_env < tx1: wire_codec "ser_transaction_v1 bo" "de_transaction_v1 bo cr" "transaction_v1_ok bo cr"
  by unfold_locales
    (auto simp: ser_transaction_v1_def de_transaction_v1_def transaction_v1_ok_def public_key_rt hash_rt
      actions_rt nonce_rt mode_round_trip)

sublocale wire_env < stx: wire_codec "ser_signed_transaction bo" "de_signed_transaction bo cr"
  "signed_transaction_ok bo cr"
  by unfold_locales
    (auto simp: ser_signed_transaction_def de_signed_transaction_def signed_transaction_ok_def
      tx0.round_trip signature_rt)

text \<open>The first bytes of the two forms.\<close>

context wire_env
begin

lemma v0_head:
  "transaction_ok bo cr tx \<Longrightarrow> ser_transaction bo tx = Some bs \<Longrightarrow> \<exists>n m. bs = n # 0 # m \<and> 2 \<le> n"
proof -
  assume ok: "transaction_ok bo cr tx" and ser: "ser_transaction bo tx = Some bs"
  obtain a b where ab: "enc_acct bo (tx_signer_id tx) = Some a" "bs = a @ b"
    using ser by (auto simp: ser_transaction_def)
  moreover obtain n m where "a = n # 0 # m" "2 \<le> n"
    using acct_wire[OF _ ab(1)] ok by (auto simp: transaction_ok_def)
  ultimately show ?thesis by simp
qed

lemma v1_head:
  "transaction_v1_ok bo cr tx \<Longrightarrow> ser_transaction_v1 bo tx = Some bs \<Longrightarrow> \<exists>n m. bs = n # 0 # m \<and> 2 \<le> n"
proof -
  assume ok: "transaction_v1_ok bo cr tx" and ser: "ser_transaction_v1 bo tx = Some bs"
  obtain a b where ab: "enc_acct bo (t1_signer_id tx) = Some a" "bs = a @ b"
    using ser by (auto simp: ser_transaction_v1_def)
  moreover obtain n m where "a = n # 0 # m" "2 \<le> n"
    using acct_wire[OF _ ab(1)] ok by (auto simp: transaction_v1_ok_def)
  ultimately show ?thesis by simp
qed

end

sublocale wire_env < vtx: wire_codec "ser_versioned_transaction bo" "de_versioned_transaction bo cr"
  "versioned_transaction_ok bo cr"
proof unfold_locales
  fix x bs rest
  assume h: "versioned_transaction_ok bo cr x" "ser_versioned_transaction bo x = Some bs"
  show "de_versioned_transaction bo cr (bs @ rest) = Inr (x, rest)"
  proof (cases x)
    case (TxV0 tx)
    then obtain n m where b: "bs = n # 0 # m" using v0_head[of tx bs] h by auto
    have "de_transaction bo cr (bs @ rest) = Inr (tx, rest)" using h TxV0 by (simp add: tx0.round_trip)
    then show ?thesis using b TxV0 by (simp add: de_versioned_transaction_def)
  next
    case (TxV1 tx)
    then obtain c where c: "bs = V1_TAG # c" "ser_transaction_v1 bo tx = Some c" using h by auto
    obtain n m where n: "c = n # 0 # m" "2 \<le> n"
      using v1_head[OF _ c(2)] h(1) TxV1 by auto
    then have "n \<noteq> 0" by auto
    have "de_transaction_v1 bo cr (c @ rest) = Inr (tx, rest)" using h TxV1 c by (simp add: tx1.round_trip)
    then show ?thesis using c n \<open>n \<noteq> 0\<close> TxV1 by (simp add: de_versioned_transaction_def)
  qed
qed

sublocale wire_env < svtx: wire_codec "ser_signed_transaction_v1 bo" "de_signed_transaction_v1 bo cr"
  "signed_transaction_v1_ok bo cr"
  by unfold_locales
    (auto simp: ser_signed_transaction_v1_def de_signed_transaction_v1_def signed_transaction_v1_ok_def
      vtx.round_trip signature_rt)

context wire_env
begin

lemmas versioned_transaction_rt = vtx.round_trip
lemmas versioned_transaction_inj = vtx.enc_inj
lemmas signed_transaction_rt = stx.from_slice_round_trip
lemmas signed_transaction_v1_rt = svtx.from_slice_round_trip

end

section \<open>Properties\<close>

text \<open>C7: The codec that tells the transaction versions apart by their first two bytes
  round-trips: every well-formed V0 or V1 transaction deserializes from its serialization
  into the same version with the same contents, and different transactions, of the same
  or of different versions, have different bytes.\<close>

theorem versioned_transaction_round_trip:
  assumes "borsh_laws bo" "versioned_transaction_ok bo cr t" "ser_versioned_transaction bo t = Some bs"
  shows "de_versioned_transaction bo cr (bs @ rest) = Inr (t, rest) \<and>
         (\<forall>u. versioned_transaction_ok bo cr u \<and> ser_versioned_transaction bo u = Some bs \<longrightarrow> u = t)"
  using wire_env.versioned_transaction_rt[OF wire_env.intro[OF assms(1)] assms(2,3)]
    wire_env.versioned_transaction_inj[OF wire_env.intro[OF assms(1)] _ assms(2) _ assms(3)]
  by blast

definition sample_tx :: transaction where
  "sample_tx = \<lparr>tx_signer_id = ''alice.near'', tx_public_key = PublicKey_Ed25519 (replicate 32 3),
     tx_nonce = 7, tx_receiver_id = ''bob.near'', tx_block_hash = replicate 32 1,
     tx_actions = [Transfer 5]\<rparr>"

lemma sample_accounts: "le_acct_ok ''alice.near''" "le_acct_ok ''bob.near''"
  by code_simp+

lemma sample_tx_ok: "transaction_ok borsh_le crypto_ref sample_tx"
  using sample_accounts
  by (simp add: transaction_ok_def sample_tx_def borsh_le_def crypto_ref_def crypto_hash_ok_def)

lemma sample_tx_ser: "ser_transaction borsh_le sample_tx \<noteq> None"
  by (simp add: ser_transaction_def sample_tx_def borsh_le_def enc_list_def cat.simps le_enc_str_def
      le_enc_bytes_def le_enc_len_def ser_public_key_def ser_crypto_hash_def)

theorem versioned_transaction_round_trip_witness:
  "\<exists>bs. ser_versioned_transaction borsh_le (TxV0 sample_tx) = Some bs \<and>
     de_versioned_transaction borsh_le crypto_ref bs = Inr (TxV0 sample_tx, [])"
proof -
  obtain bs where "ser_versioned_transaction borsh_le (TxV0 sample_tx) = Some bs"
    using sample_tx_ser by auto
  moreover from versioned_transaction_round_trip[OF le.borsh_laws_axioms _ this, of crypto_ref "[]"]
  have "de_versioned_transaction borsh_le crypto_ref bs = Inr (TxV0 sample_tx, [])"
    using sample_tx_ok by simp
  ultimately show ?thesis by blast
qed

text \<open>A signed transaction of either kind survives the trip through base64, and a signed V0
  transaction is read by the versioned codec as the same V0 transaction.\<close>

theorem signed_transaction_round_trip:
  assumes "borsh_laws bo" "b64_laws cr"
  shows "(signed_transaction_ok bo cr s \<and> signed_to_base64 bo cr s = Done t \<longrightarrow>
            signed_from_base64 bo cr t = Inr s \<and>
            signed_v1_from_base64 bo cr t = Inr (signed_v1_from_signed s)) \<and>
         (signed_transaction_v1_ok bo cr v \<and> signed_v1_to_base64 bo cr v = Done u \<longrightarrow>
            signed_v1_from_base64 bo cr u = Inr v)"
proof -
  note env = wire_env.intro[OF assms(1)]
  note rts = wire_env.signed_transaction_rt[OF env] wire_env.signed_transaction_v1_rt[OF env]
    b64_laws.b64_rt[OF assms(2)]
  have "signed_from_base64 bo cr t = Inr s"
    if "signed_transaction_ok bo cr s" "signed_to_base64 bo cr s = Done t"
    using that rts by (auto simp: signed_to_base64_def signed_to_bytes_def signed_from_base64_def signed_from_bytes_def)
  moreover have "signed_v1_from_base64 bo cr u = Inr v"
    if "signed_transaction_v1_ok bo cr v" "signed_v1_to_base64 bo cr v = Done u" for u v
    using that rts
    by (auto simp: signed_v1_to_base64_def signed_v1_to_bytes_def signed_v1_from_base64_def signed_v1_from_bytes_def)
  moreover have "signed_v1_to_base64 bo cr (signed_v1_from_signed s) = signed_to_base64 bo cr s"
    by (simp add: signed_v1_to_base64_def signed_v1_to_bytes_def signed_to_base64_def signed_to_bytes_def
        signed_v1_from_signed_def ser_signed_transaction_v1_def ser_signed_transaction_def)
  moreover have "signed_transaction_v1_ok bo cr (signed_v1_from_signed s) = signed_transaction_ok bo cr s"
    by (simp add: signed_transaction_v1_ok_def signed_v1_from_signed_def signed_transaction_ok_def)
  ultimately show ?thesis by metis
qed

theorem signed_transaction_round_trip_witness:
  "\<exists>t. signed_to_base64 borsh_le crypto_ref (tx_complete sample_tx (Signature_Ed25519 (replicate 64 4))) = Done t
     \<and> signed_from_base64 borsh_le crypto_ref t = Inr (tx_complete sample_tx (Signature_Ed25519 (replicate 64 4)))"
proof -
  let ?s = "tx_complete sample_tx (Signature_Ed25519 (replicate 64 4))"
  obtain bs where "ser_transaction borsh_le sample_tx = Some bs" using sample_tx_ser by auto
  then have "\<exists>t. signed_to_base64 borsh_le crypto_ref ?s = Done t"
    by (simp add: signed_to_base64_def signed_to_bytes_def ser_signed_transaction_def tx_complete_def
        ser_signature_def cat.simps)
  moreover have "signed_transaction_ok borsh_le crypto_ref ?s"
    using sample_tx_ok by (simp add: signed_transaction_ok_def tx_complete_def signature_ok_def)
  ultimately show ?thesis
    using signed_transaction_round_trip[OF le.borsh_laws_axioms ref64.b64_laws_axioms] by blast
qed

text \<open>Signing a transaction of either version with a well-formed secret key produces a
  signature that verifies against the hash of the transaction under the public key of that
  secret key; the hash of a V0 transaction is the same in its plain and its versioned form.\<close>

theorem transaction_sign_verifies:
  assumes "signature_laws cr" "secret_key_ok cr sk" "secret_public_key cr sk = Done pk"
  shows "(tx_get_hash bo cr tx = Done h \<longrightarrow>
            (\<exists>sig. tx_sign bo cr tx sk = Done (tx_complete tx sig) \<and> signature_verify cr sig h pk) \<and>
            vt_get_hash bo cr (TxV0 tx) = Done h) \<and>
         (v1_get_hash bo cr t1 = Done h1 \<longrightarrow>
            (\<exists>sig. v1_sign bo cr t1 sk = Done (v1_complete t1 sig) \<and> signature_verify cr sig h1 pk))"
proof -
  have sv: "\<exists>sig. secret_sign cr sk m = Done sig \<and> signature_verify cr sig m pk" for m
    using signing_verifies[OF assms(1,2), of m] assms(3) by auto
  show ?thesis using sv[of h] sv[of h1]
    by (auto simp: tx_sign_def v1_sign_def tx_complete_def v1_complete_def tx_get_hash_def vt_get_hash_def)
qed

theorem transaction_sign_verifies_witness:
  "\<exists>sig h. tx_get_hash borsh_le crypto_ref sample_tx = Done h \<and>
     tx_sign borsh_le crypto_ref sample_tx (SecretKey_Ed25519 (replicate 32 5)) = Done (tx_complete sample_tx sig) \<and>
     signature_verify crypto_ref sig h (PublicKey_Ed25519 (replicate 32 5))"
proof -
  have "secret_key_ok crypto_ref (SecretKey_Ed25519 (replicate 32 5))"
    "secret_public_key crypto_ref (SecretKey_Ed25519 (replicate 32 5)) = Done (PublicKey_Ed25519 (replicate 32 5))"
    by (simp_all add: crypto_ref_def)
  note w = transaction_sign_verifies[OF signature_laws_ref this]
  obtain h where "tx_get_hash borsh_le crypto_ref sample_tx = Done h"
    using sample_tx_ser by (auto simp: tx_get_hash_def)
  then show ?thesis using w by blast
qed

end
