(* ===== verification/Rpc_Methods.thy ===== *)
theory Rpc_Methods
  imports Rpc_Client Views Transactions
begin

text \<open>
  The typed methods of the RPC client (\<open>client/rpc.rs\<close>, from \<open>view_account\<close> on): the parameters
  they send, the errors they complete with what the caller knows, and the two paginated
  methods, which read the first page at the caller's block and all later ones at the block
  hash that the first one reported. A page loop may run forever against a node that keeps
  returning cursors; not returning is \<open>None\<close>.
\<close>

type_synonym ('w, 'r) rpc_result = "((rpc_error + 'r) \<times> 'w net) run"

text \<open>\<open>?\<close> and \<open>map_err\<close> on the result of a call.\<close>

definition rpc_bind :: "('w, 'a) rpc_result \<Rightarrow> ('a \<Rightarrow> 'w net \<Rightarrow> ('w, 'b) rpc_result) \<Rightarrow> ('w, 'b) rpc_result" where
  "rpc_bind m f = run_bind m (\<lambda>(r, st). case r of Inl e \<Rightarrow> Done (Inl e, st) | Inr x \<Rightarrow> f x st)"

definition rpc_map_err :: "(rpc_error \<Rightarrow> rpc_error) \<Rightarrow> ('w, 'a) rpc_result \<Rightarrow> ('w, 'a) rpc_result" where
  "rpc_map_err f m = run_bind m (\<lambda>(r, st). Done (map_err f r, st))"

text \<open>The deserializers of the result types.\<close>

record view_de =
  de_account :: "json \<Rightarrow> string + account_view"
  de_key :: "json \<Rightarrow> string + access_key_view"
  de_key_list :: "json \<Rightarrow> string + access_key_list_view"
  de_gas_nonces :: "json \<Rightarrow> string + gas_key_nonces_view"
  de_call_function :: "json \<Rightarrow> string + view_function_result"
  de_state :: "json \<Rightarrow> string + view_state_result"
  de_raw_tx :: "json \<Rightarrow> string + raw_transaction_response"

section \<open>Parameters\<close>

definition merge_block_reference :: "crypto_ops \<Rightarrow> json \<Rightarrow> block_reference \<Rightarrow> json" where
  "merge_block_reference cr params block =
     (case (to_rpc_params cr block, params) of
        (JObj block_params, JObj m) \<Rightarrow> JObj (json_extend m block_params)
      | _ \<Rightarrow> params)"

fun block_id_or_null :: "crypto_ops \<Rightarrow> block_reference option \<Rightarrow> json" where
  "block_id_or_null cr (Some (RefHeight h)) = JInt (uint h)"
| "block_id_or_null cr (Some (RefHash h)) = JStr (crypto_hash_display cr h)"
| "block_id_or_null cr _ = JNull"

definition sanitize_url :: "string \<Rightarrow> string" where
  "sanitize_url url =
     take (case find_char CHR ''?'' url of Some i \<Rightarrow> i
           | None \<Rightarrow> (case find_char CHR ''#'' url of Some i \<Rightarrow> i | None \<Rightarrow> length url)) url"

abbreviation io_cr :: "'w rpc_io \<Rightarrow> crypto_ops" where "io_cr io \<equiv> env_cr (io_env io)"

section \<open>Accounts and access keys\<close>

definition view_account ::
  "bool \<Rightarrow> 'w rpc_io \<Rightarrow> rpc_client \<Rightarrow> view_de \<Rightarrow> account_id \<Rightarrow> block_reference \<Rightarrow> 'w net \<Rightarrow> ('w, account_view) rpc_result" where
  "view_account oc io cl dv account_id block st =
     rpc_call oc io cl (de_account dv) ''EXPERIMENTAL_view_account''
       (merge_block_reference (io_cr io) (JObj [(''account_id'', JStr account_id)]) block) st"

definition patch_access_key_account :: "account_id \<Rightarrow> rpc_error \<Rightarrow> rpc_error" where
  "patch_access_key_account account_id e =
     (case e of Rpc_AccessKeyNotFound _ pk h x \<Rightarrow> Rpc_AccessKeyNotFound account_id pk h x | other \<Rightarrow> other)"

definition view_access_key ::
  "bool \<Rightarrow> 'w rpc_io \<Rightarrow> rpc_client \<Rightarrow> view_de \<Rightarrow> account_id \<Rightarrow> public_key \<Rightarrow> block_reference \<Rightarrow> 'w net
     \<Rightarrow> ('w, access_key_view) rpc_result" where
  "view_access_key oc io cl dv account_id pk block st =
     rpc_map_err (patch_access_key_account account_id)
       (rpc_call oc io cl (de_key dv) ''EXPERIMENTAL_view_access_key''
         (merge_block_reference (io_cr io) (JObj [(''account_id'', JStr account_id),
            (''public_key'', JStr (public_key_display (io_cr io) pk))]) block) st)"

definition opt_entry :: "string \<Rightarrow> json option \<Rightarrow> (string \<times> json) list \<Rightarrow> (string \<times> json) list" where
  "opt_entry k v m = (case v of None \<Rightarrow> m | Some x \<Rightarrow> json_insert k x m)"

definition view_access_key_list_page ::
  "bool \<Rightarrow> 'w rpc_io \<Rightarrow> rpc_client \<Rightarrow> view_de \<Rightarrow> account_id \<Rightarrow> public_key_handle option \<Rightarrow> u32 option \<Rightarrow> block_reference
     \<Rightarrow> 'w net \<Rightarrow> ('w, access_key_list_view) rpc_result" where
  "view_access_key_list_page oc io cl dv account_id after_key limit block st =
     (let params = opt_entry ''limit'' (map_option (\<lambda>l. JInt (uint l)) limit)
            (opt_entry ''after_key'' (map_option (\<lambda>k. JStr (handle_display (io_cr io) k)) after_key)
               [(''request_type'', JStr ''view_access_key_list''), (''account_id'', JStr account_id)]) in
      rpc_call oc io cl (de_key_list dv) ''query'' (merge_block_reference (io_cr io) (JObj params) block) st)"

definition DEFAULT_VIEW_ACCESS_KEYS_PAGE_SIZE :: u32 where "DEFAULT_VIEW_ACCESS_KEYS_PAGE_SIZE = 100"
definition DEFAULT_VIEW_STATE_PAGE_SIZE :: u32 where "DEFAULT_VIEW_STATE_PAGE_SIZE = 10000"

text \<open>\<open>while let Some(cursor) = ...\<close>: the entries of the pages are appended until a page has no
  cursor.\<close>

partial_function (option) page_loop ::
  "('c \<Rightarrow> 's \<Rightarrow> ((rpc_error + 'v list \<times> 'c option) \<times> 's) run) \<Rightarrow> 'c option \<Rightarrow> 'v list \<Rightarrow> 's
     \<Rightarrow> ((rpc_error + 'v list) \<times> 's) run option" where
  "page_loop fetch cursor acc st =
     (case cursor of
        None \<Rightarrow> Some (Done (Inr acc, st))
      | Some c \<Rightarrow>
          (case fetch c st of
             Panic \<Rightarrow> Some Panic
           | Done p \<Rightarrow>
               (case fst p of
                  Inl e \<Rightarrow> Some (Done (Inl e, snd p))
                | Inr q \<Rightarrow> page_loop fetch (snd q) (acc @ fst q) (snd p))))"

definition key_page ::
  "bool \<Rightarrow> 'w rpc_io \<Rightarrow> rpc_client \<Rightarrow> view_de \<Rightarrow> account_id \<Rightarrow> block_reference \<Rightarrow> public_key_handle \<Rightarrow> 'w net
     \<Rightarrow> ('w, access_key_info_view list \<times> public_key_handle option) rpc_result" where
  "key_page oc io cl dv account_id pinned cursor st =
     rpc_bind (view_access_key_list_page oc io cl dv account_id (Some cursor)
                 (Some DEFAULT_VIEW_ACCESS_KEYS_PAGE_SIZE) pinned st)
       (\<lambda>page st. Done (Inr (akl_keys page, akl_last_key page), st))"

definition view_access_key_list ::
  "bool \<Rightarrow> 'w rpc_io \<Rightarrow> rpc_client \<Rightarrow> view_de \<Rightarrow> account_id \<Rightarrow> block_reference \<Rightarrow> 'w net
     \<Rightarrow> ('w, access_key_list_view) rpc_result option" where
  "view_access_key_list oc io cl dv account_id block st =
     (case view_access_key_list_page oc io cl dv account_id None (Some DEFAULT_VIEW_ACCESS_KEYS_PAGE_SIZE) block st of
        Panic \<Rightarrow> Some Panic
      | Done (Inl e, st1) \<Rightarrow> Some (Done (Inl e, st1))
      | Done (Inr list, st1) \<Rightarrow>
          (let pinned = at_hash (akl_block_hash list) in
           map_option (\<lambda>r. rpc_bind r (\<lambda>keys st. Done (Inr (list\<lparr>akl_keys := keys, akl_last_key := None\<rparr>), st)))
             (page_loop (key_page oc io cl dv account_id pinned) (akl_last_key list) (akl_keys list) st1)))"

definition patch_gas_key_account :: "account_id \<Rightarrow> rpc_error \<Rightarrow> rpc_error" where
  "patch_gas_key_account account_id e =
     (case e of Rpc_GasKeyNotFound _ pk h x \<Rightarrow> Rpc_GasKeyNotFound account_id pk h x | other \<Rightarrow> other)"

definition view_gas_key_nonces ::
  "bool \<Rightarrow> 'w rpc_io \<Rightarrow> rpc_client \<Rightarrow> view_de \<Rightarrow> account_id \<Rightarrow> public_key \<Rightarrow> block_reference \<Rightarrow> 'w net
     \<Rightarrow> ('w, gas_key_nonces_view) rpc_result" where
  "view_gas_key_nonces oc io cl dv account_id pk block st =
     rpc_map_err (patch_gas_key_account account_id)
       (rpc_call oc io cl (de_gas_nonces dv) ''query''
         (merge_block_reference (io_cr io) (JObj [(''request_type'', JStr ''view_gas_key_nonces''),
            (''account_id'', JStr account_id), (''public_key'', JStr (public_key_display (io_cr io) pk))]) block) st)"

section \<open>Contracts\<close>

definition patch_view_function :: "account_id \<Rightarrow> string \<Rightarrow> rpc_error \<Rightarrow> rpc_error" where
  "patch_view_function account_id method_name e =
     (case e of
        Rpc_ContractExecution _ _ message h x \<Rightarrow> Rpc_ContractExecution account_id (Some method_name) message h x
      | Rpc_MethodNotFound _ _ h x \<Rightarrow> Rpc_MethodNotFound account_id method_name h x
      | other \<Rightarrow> other)"

definition view_function ::
  "bool \<Rightarrow> 'w rpc_io \<Rightarrow> rpc_client \<Rightarrow> view_de \<Rightarrow> account_id \<Rightarrow> string \<Rightarrow> bytes \<Rightarrow> block_reference \<Rightarrow> 'w net
     \<Rightarrow> ('w, view_function_result) rpc_result" where
  "view_function oc io cl dv account_id method_name args block st =
     rpc_map_err (patch_view_function account_id method_name)
       (rpc_call oc io cl (de_call_function dv) ''EXPERIMENTAL_call_function''
         (merge_block_reference (io_cr io) (JObj [(''account_id'', JStr account_id),
            (''method_name'', JStr method_name), (''args_base64'', JStr (b64_encode (io_cr io) args))]) block) st)"

definition view_code ::
  "bool \<Rightarrow> 'w rpc_io \<Rightarrow> rpc_client \<Rightarrow> (json \<Rightarrow> string + 'r) \<Rightarrow> account_id \<Rightarrow> block_reference \<Rightarrow> 'w net \<Rightarrow> ('w, 'r) rpc_result" where
  "view_code oc io cl de account_id block st =
     rpc_call oc io cl de ''query''
       (merge_block_reference (io_cr io) (JObj [(''request_type'', JStr ''view_code''), (''account_id'', JStr account_id)]) block) st"

definition patch_global_contract :: "global_contract_id \<Rightarrow> rpc_error \<Rightarrow> rpc_error" where
  "patch_global_contract i e =
     (case e of
        Rpc_GlobalContractNotFound _ h x \<Rightarrow>
          Rpc_GlobalContractNotFound (case i of CodeHash c \<Rightarrow> Gciv_CodeHash c | AccountId a \<Rightarrow> Gciv_AccountId a) h x
      | other \<Rightarrow> other)"

definition view_global_contract_code ::
  "bool \<Rightarrow> 'w rpc_io \<Rightarrow> rpc_client \<Rightarrow> (json \<Rightarrow> string + 'r) \<Rightarrow> global_contract_id \<Rightarrow> block_reference \<Rightarrow> 'w net
     \<Rightarrow> ('w, 'r) rpc_result" where
  "view_global_contract_code oc io cl de i block st =
     rpc_map_err (patch_global_contract i)
       (rpc_call oc io cl de ''query''
         (merge_block_reference (io_cr io)
           (case i of
              CodeHash h \<Rightarrow> JObj [(''request_type'', JStr ''view_global_contract_code''),
                (''code_hash'', JStr (crypto_hash_display (io_cr io) h))]
            | AccountId a \<Rightarrow> JObj [(''request_type'', JStr ''view_global_contract_code_by_account_id''),
                (''account_id'', JStr a)]) block) st)"

definition view_state ::
  "bool \<Rightarrow> 'w rpc_io \<Rightarrow> rpc_client \<Rightarrow> view_de \<Rightarrow> account_id \<Rightarrow> bytes \<Rightarrow> bytes option \<Rightarrow> u32 option \<Rightarrow> block_reference
     \<Rightarrow> 'w net \<Rightarrow> ('w, view_state_result) rpc_result" where
  "view_state oc io cl dv account_id prefix after_key limit block st =
     (let params = opt_entry ''limit''
            (case limit of Some l \<Rightarrow> if 0 < l then Some (JInt (uint l)) else None | None \<Rightarrow> None)
            (opt_entry ''after_key_base64'' (map_option (\<lambda>k. JStr (b64_encode (io_cr io) k)) after_key)
               [(''request_type'', JStr ''view_state''), (''account_id'', JStr account_id),
                (''prefix_base64'', JStr (b64_encode (io_cr io) prefix))]) in
      rpc_call oc io cl (de_state dv) ''query'' (merge_block_reference (io_cr io) (JObj params) block) st)"

definition state_page ::
  "bool \<Rightarrow> 'w rpc_io \<Rightarrow> rpc_client \<Rightarrow> view_de \<Rightarrow> account_id \<Rightarrow> bytes \<Rightarrow> u32 \<Rightarrow> block_reference \<Rightarrow> bytes \<Rightarrow> 'w net
     \<Rightarrow> ('w, state_item list \<times> bytes option) rpc_result" where
  "state_page oc io cl dv account_id prefix limit pinned cursor st =
     rpc_bind (view_state oc io cl dv account_id prefix (Some cursor) (Some limit) pinned st)
       (\<lambda>page st. Done (Inr (vs_values page, vs_last_key page), st))"

definition state_page_limit :: "u32 \<Rightarrow> u32" where
  "state_page_limit page_size = (if 0 < page_size then page_size else DEFAULT_VIEW_STATE_PAGE_SIZE)"

definition view_state_all ::
  "bool \<Rightarrow> 'w rpc_io \<Rightarrow> rpc_client \<Rightarrow> view_de \<Rightarrow> account_id \<Rightarrow> bytes \<Rightarrow> u32 \<Rightarrow> block_reference \<Rightarrow> 'w net
     \<Rightarrow> ('w, view_state_all_result) rpc_result option" where
  "view_state_all oc io cl dv account_id prefix page_size block st =
     (let limit = state_page_limit page_size in
      case view_state oc io cl dv account_id prefix None (Some limit) block st of
        Panic \<Rightarrow> Some Panic
      | Done (Inl e, st1) \<Rightarrow> Some (Done (Inl e, st1))
      | Done (Inr first, st1) \<Rightarrow>
          (let pinned = at_hash (vs_block_hash first) in
           map_option (\<lambda>r. rpc_bind r (\<lambda>values st. Done (Inr \<lparr>vsa_values = values,
               vsa_block_height = vs_block_height first, vsa_block_hash = vs_block_hash first\<rparr>, st)))
             (page_loop (state_page oc io cl dv account_id prefix limit pinned) (vs_last_key first) (vs_values first) st1)))"

section \<open>Blocks and the network\<close>

definition rpc_block ::
  "bool \<Rightarrow> 'w rpc_io \<Rightarrow> rpc_client \<Rightarrow> (json \<Rightarrow> string + 'r) \<Rightarrow> block_reference \<Rightarrow> 'w net \<Rightarrow> ('w, 'r) rpc_result" where
  "rpc_block oc io cl de block st = rpc_call oc io cl de ''block'' (to_rpc_params (io_cr io) block) st"

definition block_effects ::
  "bool \<Rightarrow> 'w rpc_io \<Rightarrow> rpc_client \<Rightarrow> (json \<Rightarrow> string + 'r) \<Rightarrow> block_reference \<Rightarrow> 'w net \<Rightarrow> ('w, 'r) rpc_result" where
  "block_effects oc io cl de block st = rpc_call oc io cl de ''block_effects'' (to_rpc_params (io_cr io) block) st"

definition genesis_config ::
  "bool \<Rightarrow> 'w rpc_io \<Rightarrow> rpc_client \<Rightarrow> 'w net \<Rightarrow> ('w, json) rpc_result" where
  "genesis_config oc io cl st = rpc_call oc io cl Inr ''genesis_config'' (JArr []) st"

definition maintenance_windows ::
  "bool \<Rightarrow> 'w rpc_io \<Rightarrow> rpc_client \<Rightarrow> (json \<Rightarrow> string + 'r) \<Rightarrow> account_id \<Rightarrow> 'w net \<Rightarrow> ('w, 'r) rpc_result" where
  "maintenance_windows oc io cl de account_id st =
     rpc_call oc io cl de ''maintenance_windows'' (JObj [(''account_id'', JStr account_id)]) st"

definition rpc_status :: "bool \<Rightarrow> 'w rpc_io \<Rightarrow> rpc_client \<Rightarrow> (json \<Rightarrow> string + 'r) \<Rightarrow> 'w net \<Rightarrow> ('w, 'r) rpc_result" where
  "rpc_status oc io cl de st = rpc_call oc io cl de ''status'' (JArr []) st"

definition gas_price ::
  "bool \<Rightarrow> 'w rpc_io \<Rightarrow> rpc_client \<Rightarrow> (json \<Rightarrow> string + 'r) \<Rightarrow> crypto_hash option \<Rightarrow> 'w net \<Rightarrow> ('w, 'r) rpc_result" where
  "gas_price oc io cl de block_hash st =
     rpc_call oc io cl de ''gas_price''
       (JArr [case block_hash of Some h \<Rightarrow> JStr (crypto_hash_display (io_cr io) h) | None \<Rightarrow> JNull]) st"

definition validators ::
  "bool \<Rightarrow> 'w rpc_io \<Rightarrow> rpc_client \<Rightarrow> (json \<Rightarrow> string + 'r) \<Rightarrow> block_reference option \<Rightarrow> 'w net \<Rightarrow> ('w, 'r) rpc_result" where
  "validators oc io cl de block st =
     rpc_call oc io cl de ''validators'' (JArr [block_id_or_null (io_cr io) block]) st"

section \<open>Transactions\<close>

text \<open>The hash of a response of \<open>send_tx\<close> is the one computed from the transaction.\<close>

definition send_tx ::
  "bool \<Rightarrow> borsh_ops \<Rightarrow> 'w rpc_io \<Rightarrow> rpc_client \<Rightarrow> view_de \<Rightarrow> signed_transaction \<Rightarrow> tx_execution_status \<Rightarrow> 'w net
     \<Rightarrow> ('w, raw_transaction_response) rpc_result" where
  "send_tx oc bo io cl dv signed_tx wait_until st =
     run_bind (signed_get_hash bo (io_cr io) signed_tx) (\<lambda>tx_hash.
     run_bind (signed_to_base64 bo (io_cr io) signed_tx) (\<lambda>tx64.
       rpc_bind (rpc_call oc io cl (de_raw_tx dv) ''send_tx''
           (JObj [(''signed_tx_base64'', JStr tx64), (''wait_until'', JStr (status_as_str wait_until))]) st)
         (\<lambda>response st. Done (Inr (response\<lparr>rt_transaction_hash := tx_hash\<rparr>), st))))"

definition tx_status ::
  "bool \<Rightarrow> 'w rpc_io \<Rightarrow> rpc_client \<Rightarrow> view_de \<Rightarrow> crypto_hash \<Rightarrow> account_id \<Rightarrow> tx_execution_status \<Rightarrow> 'w net
     \<Rightarrow> ('w, raw_transaction_response) rpc_result" where
  "tx_status oc io cl dv tx_hash sender_id wait_until st =
     rpc_bind (rpc_call oc io cl (de_raw_tx dv) ''EXPERIMENTAL_tx_status''
         (JObj [(''tx_hash'', JStr (crypto_hash_display (io_cr io) tx_hash)),
            (''sender_account_id'', JStr sender_id), (''wait_until'', JStr (status_as_str wait_until))]) st)
       (\<lambda>response st. Done (Inr (response\<lparr>rt_transaction_hash :=
          (case rt_outcome response of Some out \<Rightarrow> outcome_transaction_hash out | None \<Rightarrow> tx_hash)\<rparr>), st))"

definition receipt_to_tx ::
  "bool \<Rightarrow> 'w rpc_io \<Rightarrow> rpc_client \<Rightarrow> (json \<Rightarrow> string + 'r) \<Rightarrow> crypto_hash \<Rightarrow> 'w net \<Rightarrow> ('w, 'r) rpc_result" where
  "receipt_to_tx oc io cl de receipt_id st =
     rpc_call oc io cl de ''EXPERIMENTAL_receipt_to_tx''
       (JObj [(''receipt_id'', JStr (crypto_hash_display (io_cr io) receipt_id))]) st"

section \<open>Sandbox\<close>

definition sandbox_fast_forward :: "bool \<Rightarrow> 'w rpc_io \<Rightarrow> rpc_client \<Rightarrow> u64 \<Rightarrow> 'w net \<Rightarrow> ('w, unit) rpc_result" where
  "sandbox_fast_forward oc io cl delta_height st =
     rpc_bind (rpc_call oc io cl Inr ''sandbox_fast_forward'' (JObj [(''delta_height'', JInt (uint delta_height))]) st)
       (\<lambda>_ st. Done (Inr (), st))"

definition sandbox_patch_state :: "bool \<Rightarrow> 'w rpc_io \<Rightarrow> rpc_client \<Rightarrow> json \<Rightarrow> 'w net \<Rightarrow> ('w, unit) rpc_result" where
  "sandbox_patch_state oc io cl records st =
     (let patch = (\<lambda>st. rpc_call oc io cl Inr ''sandbox_patch_state'' (JObj [(''records'', records)]) st) in
      rpc_bind (patch st) (\<lambda>_ st. rpc_bind (patch st) (\<lambda>_ st.
        Done (Inr (), st\<lparr>net_slept := net_slept st @ [100]\<rparr>))))"

section \<open>Pages\<close>

text \<open>A node that serves the pages of a fixed list: the page after a cursor \<open>c\<close> is a non-empty
  piece of what follows \<open>c\<close>, and its own cursor stands for the rest.\<close>

locale pager =
  fixes fetch :: "'c \<Rightarrow> 's \<Rightarrow> ((rpc_error + 'v list \<times> 'c option) \<times> 's) run"
    and after :: "'c \<Rightarrow> 'v list"
    and cursors :: "'c set"
  assumes page: "c \<in> cursors \<Longrightarrow> \<exists>vs nxt st'. fetch c st = Done (Inr (vs, nxt), st') \<and>
      (case nxt of None \<Rightarrow> after c = vs | Some d \<Rightarrow> d \<in> cursors \<and> vs \<noteq> [] \<and> after c = vs @ after d)"
begin

lemma page_loop_complete:
  assumes "cursor \<in> insert None (Some ` cursors)"
  shows "\<exists>st'. page_loop fetch cursor acc st = Some (Done (Inr (acc @ (case cursor of None \<Rightarrow> [] | Some c \<Rightarrow> after c)), st'))"
  using assms
proof (induction "case cursor of None \<Rightarrow> 0 | Some c \<Rightarrow> Suc (length (after c))" arbitrary: cursor acc st rule: less_induct)
  case less
  show ?case
  proof (cases cursor)
    case None
    then show ?thesis by (simp add: page_loop.simps)
  next
    case (Some c)
    then have "c \<in> cursors" using less.prems by auto
    then obtain vs nxt st1 where f: "fetch c st = Done (Inr (vs, nxt), st1)" and
      n: "case nxt of None \<Rightarrow> after c = vs | Some d \<Rightarrow> d \<in> cursors \<and> vs \<noteq> [] \<and> after c = vs @ after d"
      using page by blast
    have "\<exists>st'. page_loop fetch nxt (acc @ vs) st1 =
        Some (Done (Inr ((acc @ vs) @ (case nxt of None \<Rightarrow> [] | Some c \<Rightarrow> after c)), st'))"
      using n Some by (intro less.hyps) (auto split: option.splits)
    moreover have "page_loop fetch cursor acc st = page_loop fetch nxt (acc @ vs) st1"
      using Some f by (subst page_loop.simps) simp
    ultimately show ?thesis using n Some by (auto split: option.splits)
  qed
qed

end

lemma page_loop_error:
  "fetch c st = Done (Inl e, st') \<Longrightarrow> page_loop fetch (Some c) acc st = Some (Done (Inl e, st'))"
  by (simp add: page_loop.simps)

lemma rpc_bind_simps [simp]:
  "rpc_bind (Done (Inr x, st)) f = f x st"
  "rpc_bind (Done (Inl e, st)) f = Done (Inl e, st)"
  "rpc_bind Panic f = Panic"
  by (simp_all add: rpc_bind_def)

section \<open>A node with a snapshot\<close>

text \<open>A node that holds three entries and serves them one at a time; it reads the cursor from the
  request, and the body of its response is that cursor.\<close>

definition snapshot_store :: "state_item list" where
  "snapshot_store = map (\<lambda>k. \<lparr>si_key = [k], si_value = [k, 0]\<rparr>) [65, 66, 67]"

definition snapshot_after :: "bytes \<Rightarrow> state_item list" where
  "snapshot_after c = (case c of [] \<Rightarrow> snapshot_store | k # _ \<Rightarrow> filter (\<lambda>i. k < hd (si_key i)) snapshot_store)"

definition snapshot_page :: "bytes \<Rightarrow> view_state_result" where
  "snapshot_page c = (let rest = snapshot_after c in
     \<lparr>vs_values = take 1 rest, vs_last_key = (if 1 < length rest then Some (si_key (hd rest)) else None),
      vs_block_height = 9, vs_block_hash = []\<rparr>)"

definition cursor_param :: "json \<Rightarrow> string + bytes" where
  "cursor_param params = (case Option.bind (json_get ''after_key_base64'' params) json_as_str of
     None \<Rightarrow> Inr [] | Some s \<Rightarrow> base64_decode s)"

definition io_snapshot :: "unit rpc_io" where
  "io_snapshot = \<lparr>io_env = rpc_env_ref,
     io_to_vec = (\<lambda>v. case json_get ''params'' v of None \<Rightarrow> Inr [] | Some p \<Rightarrow> cursor_param p),
     io_de_response = (\<lambda>s. Inr \<lparr>jr_jsonrpc = ''2.0'', jr_id = 0, jr_result = Some (JStr s), jr_error = None\<rparr>),
     io_post = (\<lambda>url body w. (Inr \<lparr>tr_status = 200, tr_body = body\<rparr>, w))\<rparr>"

definition view_de_snapshot :: view_de where
  "view_de_snapshot = \<lparr>de_account = (\<lambda>_. Inl []), de_key = (\<lambda>_. Inl []), de_key_list = (\<lambda>_. Inl []),
     de_gas_nonces = (\<lambda>_. Inl []), de_call_function = (\<lambda>_. Inl []),
     de_state = (\<lambda>v. case json_as_str v of Some s \<Rightarrow> Inr (snapshot_page (as_bytes s)) | None \<Rightarrow> Inl ''not a string''),
     de_raw_tx = (\<lambda>_. Inl [])\<rparr>"

lemma snapshot_call:
  assumes "cursor_param ps = Inr c" and "c \<in> {[], [65], [66]}"
  shows "rpc_call True io_snapshot sample_client de ''query'' ps st =
    Done (map_err Rpc_Json (de (JStr (of_bytes c))), st\<lparr>net_id := net_id st + 1\<rparr>)"
proof -
  have "from_utf8_lossy c = of_bytes c"
    using assms(2) by (auto simp: from_utf8_lossy_def utf8_lossy_codes.simps of_bytes_def)
  moreover have "map_of [(''jsonrpc'', j), (''id'', i), (''method'', m), (''params'', ps)] ''params'' = Some ps" for j i m
    by simp
  ultimately have "try_call io_snapshot url de ''query'' ps i w = Done (map_err Rpc_Json (de (JStr (of_bytes c))), w)" for url i w
    using assms(1) by (simp add: try_call_def io_snapshot_def json_rpc_request_def read_response_def json_get_def Let_def)
  then have loop: "call_loop True io_snapshot sample_client de ''query'' ps t k (Suc n) st =
      Done (map_err Rpc_Json (de (JStr (of_bytes c))), st\<lparr>net_id := net_id st + 1\<rparr>)" for t k n
    by (cases "de (JStr (of_bytes c))") simp_all
  have "arith_add True (rc_max_retries (cl_retry sample_client)) 1 = Done 4"
    by (simp add: sample_client_def retry_config_default_def arith_add_def)
  then show ?thesis using loop [of 4 0 3] by (simp add: rpc_call_def del: call_loop.simps)
qed

lemma snapshot_view_state:
  assumes "c \<in> {None, Some [65], Some [66]}"
  shows "view_state True io_snapshot sample_client view_de_snapshot a prefix c (Some limit) block st =
    Done (Inr (snapshot_page (case c of None \<Rightarrow> [] | Some k \<Rightarrow> k)), st\<lparr>net_id := net_id st + 1\<rparr>)"
proof -
  have cr: "io_cr io_snapshot = crypto_ref" by (simp add: io_snapshot_def rpc_env_ref_def)
  have b: "b64_encode crypto_ref = base64_encode" by (simp add: crypto_ref_def)
  have p: "\<exists>bp. to_rpc_params crypto_ref block = JObj bp \<and> map_of (rev bp) ''after_key_base64'' = None"
    by (cases block) auto
  then obtain bp where bp: "to_rpc_params crypto_ref block = JObj bp" "map_of (rev bp) ''after_key_base64'' = None" by blast
  then have "cursor_param (merge_block_reference crypto_ref (JObj m) block) =
      (case Option.bind (map_of m ''after_key_base64'') json_as_str of None \<Rightarrow> Inr [] | Some s \<Rightarrow> base64_decode s)" for m
    by (simp add: cursor_param_def merge_block_reference_def map_of_json_extend map_add_def)
  then show ?thesis
    using assms unfolding view_state_def Let_def cr
    by (subst snapshot_call [where c = "case c of None \<Rightarrow> [] | Some k \<Rightarrow> k"])
       (auto simp: opt_entry_def b base64_decode_encode view_de_snapshot_def split: option.splits)
qed

interpretation snapshot: pager "state_page True io_snapshot sample_client view_de_snapshot a prefix limit block"
    snapshot_after "{[65], [66]}"
proof
  fix c :: bytes and st :: "unit net"
  assume "c \<in> {[65], [66]}"
  then show "\<exists>vs nxt st'. state_page True io_snapshot sample_client view_de_snapshot a prefix limit block c st =
      Done (Inr (vs, nxt), st') \<and> (case nxt of None \<Rightarrow> snapshot_after c = vs
        | Some d \<Rightarrow> d \<in> {[65], [66]} \<and> vs \<noteq> [] \<and> snapshot_after c = vs @ snapshot_after d)"
    by (auto simp: state_page_def snapshot_view_state snapshot_page_def snapshot_after_def snapshot_store_def)
qed

text \<open>C11: When the node answers the requests that are pinned to the block of the first page from one
  snapshot, \<open>view_state_all\<close> returns, with exactly the entries of the snapshot in order and with
  the block that the first page named: pagination neither drops nor duplicates an entry. An
  error on a later page is the error of the call.\<close>

theorem view_state_all_complete:
  assumes first: "view_state oc io cl dv a prefix None (Some (state_page_limit n)) block st = Done (Inr p, st1)"
    and pages: "pager (state_page oc io cl dv a prefix (state_page_limit n) (at_hash (vs_block_hash p))) after cursors"
  shows "(vs_last_key p \<in> insert None (Some ` cursors) \<longrightarrow>
      (\<exists>st'. view_state_all oc io cl dv a prefix n block st =
        Some (Done (Inr \<lparr>vsa_values = vs_values p @ (case vs_last_key p of None \<Rightarrow> [] | Some c \<Rightarrow> after c),
          vsa_block_height = vs_block_height p, vsa_block_hash = vs_block_hash p\<rparr>, st')))) \<and>
    (vs_last_key p = Some c \<and>
      view_state oc io cl dv a prefix (Some c) (Some (state_page_limit n)) (at_hash (vs_block_hash p)) st1 = Done (Inl e, st2) \<longrightarrow>
      view_state_all oc io cl dv a prefix n block st = Some (Done (Inl e, st2)))"
proof (intro conjI impI)
  assume "vs_last_key p \<in> insert None (Some ` cursors)"
  then show "\<exists>st'. view_state_all oc io cl dv a prefix n block st =
        Some (Done (Inr \<lparr>vsa_values = vs_values p @ (case vs_last_key p of None \<Rightarrow> [] | Some c \<Rightarrow> after c),
          vsa_block_height = vs_block_height p, vsa_block_hash = vs_block_hash p\<rparr>, st'))"
    using pager.page_loop_complete [OF pages, of "vs_last_key p" "vs_values p" st1] first
    by (auto simp: view_state_all_def Let_def)
next
  assume *: "vs_last_key p = Some c \<and>
      view_state oc io cl dv a prefix (Some c) (Some (state_page_limit n)) (at_hash (vs_block_hash p)) st1 = Done (Inl e, st2)"
  have "page_loop (state_page oc io cl dv a prefix (state_page_limit n) (at_hash (vs_block_hash p))) (Some c) (vs_values p) st1 =
      Some (Done (Inl e, st2))"
    using * by (intro page_loop_error) (simp add: state_page_def)
  then show "view_state_all oc io cl dv a prefix n block st = Some (Done (Inl e, st2))"
    using * first by (simp add: view_state_all_def Let_def)
qed

theorem view_state_all_complete_witness:
  "\<exists>st'. view_state_all True io_snapshot sample_client view_de_snapshot ''a.near'' [] 0 block_final
       \<lparr>net_id = 0, net_world = (), net_slept = []\<rparr> =
     Some (Done (Inr \<lparr>vsa_values = snapshot_store, vsa_block_height = 9, vsa_block_hash = []\<rparr>, st'))"
proof -
  let ?p = "snapshot_page []"
  have "vs_last_key ?p \<in> insert None (Some ` {[65], [66]}) \<and>
      vs_values ?p @ (case vs_last_key ?p of None \<Rightarrow> [] | Some c \<Rightarrow> snapshot_after c) = snapshot_store \<and>
      vs_block_height ?p = 9 \<and> vs_block_hash ?p = []"
    by (simp add: snapshot_page_def snapshot_after_def snapshot_store_def)
  then show ?thesis
    using view_state_all_complete [where n = 0, OF snapshot_view_state [of None] snapshot.pager_axioms] by simp
qed

end
