(* ===== verification/Nep413.thy ===== *)
theory Nep413
  imports Rpc_Methods
begin

text \<open>
  Off-chain messages (\<open>types/nep413.rs\<close>): the bytes that are hashed and signed, nonces with an
  embedded time, the two verifications and the formats of a signature in JSON. The clock and the
  random bytes are arguments of the functions that read them.

  The main result compares everything that a key of an account signs: transactions of both
  versions, delegate actions of both versions and messages. Equal bytes mean the same kind and
  the same content, so that no signature can be moved from one to another.
\<close>

section \<open>Durations\<close>

text \<open>\<open>std::time::Duration\<close>: seconds and nanoseconds below one second.\<close>

record duration =
  dur_secs :: u64
  dur_nanos :: u32

definition from_secs :: "u64 \<Rightarrow> duration" where
  "from_secs s = \<lparr>dur_secs = s, dur_nanos = 0\<rparr>"

definition duration_max :: duration where
  "duration_max = \<lparr>dur_secs = - 1, dur_nanos = 999999999\<rparr>"

definition as_millis :: "duration \<Rightarrow> u128" where
  "as_millis d = ucast (dur_secs d) * 1000 + ucast (dur_nanos d div 1000000)"

section \<open>Messages\<close>

definition NEP413_TAG :: u32 where "NEP413_TAG = push_bit 31 1 + 413"
definition DEFAULT_MAX_AGE :: duration where "DEFAULT_MAX_AGE = from_secs (5 * 60)"

record sign_message_params =
  smp_message :: string
  smp_recipient :: string
  smp_nonce :: bytes
  smp_callback_url :: "string option"
  smp_state :: "string option"

record signed_message =
  sm_account_id :: account_id
  sm_public_key :: public_key
  sm_signature :: signature
  sm_state :: "string option"

record auth_payload =
  ap_signed_message :: signed_message
  ap_nonce :: bytes
  ap_message :: string
  ap_recipient :: string
  ap_callback_url :: "string option"

definition to_params :: "auth_payload \<Rightarrow> sign_message_params" where
  "to_params p = \<lparr>smp_message = ap_message p, smp_recipient = ap_recipient p, smp_nonce = ap_nonce p,
     smp_callback_url = ap_callback_url p, smp_state = sm_state (ap_signed_message p)\<rparr>"

definition from_signed :: "signed_message \<Rightarrow> sign_message_params \<Rightarrow> auth_payload" where
  "from_signed s p = \<lparr>ap_signed_message = s, ap_nonce = smp_nonce p, ap_message = smp_message p,
     ap_recipient = smp_recipient p, ap_callback_url = smp_callback_url p\<rparr>"

record nep413_payload =
  np_message :: string
  np_nonce :: bytes
  np_recipient :: string
  np_callback_url :: "string option"

definition ser_nep413_payload :: "borsh_ops \<Rightarrow> nep413_payload \<Rightarrow> bytes option" where
  "ser_nep413_payload bo p =
     cat [enc_str bo (np_message p), Some (np_nonce p), enc_str bo (np_recipient p),
          enc_option (enc_str bo) (np_callback_url p)]"

definition message_bytes :: "borsh_ops \<Rightarrow> sign_message_params \<Rightarrow> bytes option" where
  "message_bytes bo params =
     map_option (\<lambda>payload_bytes. to_le_bytes NEP413_TAG @ payload_bytes)
       (ser_nep413_payload bo \<lparr>np_message = smp_message params, np_nonce = smp_nonce params,
          np_recipient = smp_recipient params, np_callback_url = smp_callback_url params\<rparr>)"

definition serialize_message :: "borsh_ops \<Rightarrow> crypto_ops \<Rightarrow> sign_message_params \<Rightarrow> crypto_hash run" where
  "serialize_message bo cr params =
     run_bind (expect (message_bytes bo params)) (\<lambda>combined. Done (crypto_hash_hash cr combined))"

section \<open>Nonces\<close>

definition generate_nonce :: "u64 \<Rightarrow> bytes \<Rightarrow> bytes" where
  "generate_nonce now_ms random = to_be_bytes now_ms @ random"

definition extract_timestamp_from_nonce :: "bytes \<Rightarrow> u64" where
  "extract_timestamp_from_nonce nonce = from_be_bytes (take 8 nonce)"

datatype nonce_validation = NvTimestamp duration | NvNone

definition nonce_validation_default :: nonce_validation where
  "nonce_validation_default = NvTimestamp DEFAULT_MAX_AGE"

definition nonce_validation_from :: "duration \<Rightarrow> nonce_validation" where
  "nonce_validation_from max_age = (if max_age = duration_max then NvNone else NvTimestamp max_age)"

record verify_options =
  vo_nonce_validation :: nonce_validation
  vo_require_full_access :: bool

definition verify_options_default :: verify_options where
  "verify_options_default = \<lparr>vo_nonce_validation = nonce_validation_default, vo_require_full_access = True\<rparr>"

section \<open>Verification\<close>

definition nonce_expired :: "nonce_validation \<Rightarrow> bytes \<Rightarrow> u64 \<Rightarrow> bool" where
  "nonce_expired nv nonce now_ms =
     (case nv of
        NvNone \<Rightarrow> False
      | NvTimestamp max_age \<Rightarrow>
          let timestamp_ms = extract_timestamp_from_nonce nonce;
              age_ms = saturating_sub now_ms timestamp_ms in
          as_millis max_age < ucast age_ms \<or> now_ms < timestamp_ms)"

definition verify_signature ::
  "borsh_ops \<Rightarrow> crypto_ops \<Rightarrow> u64 \<Rightarrow> signed_message \<Rightarrow> sign_message_params \<Rightarrow> nonce_validation \<Rightarrow> bool run" where
  "verify_signature bo cr now_ms smsg params nv =
     (if nonce_expired nv (smp_nonce params) now_ms then Done False
      else run_bind (serialize_message bo cr params) (\<lambda>h.
        Done (signature_verify cr (sm_signature smsg) h (sm_public_key smsg))))"

definition verify ::
  "bool \<Rightarrow> borsh_ops \<Rightarrow> 'w rpc_io \<Rightarrow> rpc_client \<Rightarrow> view_de \<Rightarrow> u64 \<Rightarrow> signed_message \<Rightarrow> sign_message_params
     \<Rightarrow> verify_options \<Rightarrow> 'w net \<Rightarrow> ((near_error + bool) \<times> 'w net) run" where
  "verify oc bo io cl dv now_ms smsg params options st =
     run_bind (verify_signature bo (io_cr io) now_ms smsg params (vo_nonce_validation options)) (\<lambda>valid.
       if \<not> valid then Done (Inr False, st)
       else if vo_require_full_access options then
         run_bind (view_access_key oc io cl dv (sm_account_id smsg) (sm_public_key smsg) block_optimistic st)
           (\<lambda>(r, st). Done (Inr (case r of
              Inr access_key \<Rightarrow> (case akv_permission access_key of AkvFullAccess \<Rightarrow> True | _ \<Rightarrow> False)
            | Inl _ \<Rightarrow> False), st))
       else Done (Inr True, st))"

section \<open>Signatures in JSON\<close>

definition serialize_signature_base64 :: "crypto_ops \<Rightarrow> signature \<Rightarrow> string" where
  "serialize_signature_base64 cr signature = b64_encode cr (signature_as_bytes signature)"

definition plain_base58_signature :: "crypto_ops \<Rightarrow> string \<Rightarrow> string + signature" where
  "plain_base58_signature cr s =
     (case bs58_decode cr s of
        Inr bs \<Rightarrow> if length bs = 64 then Inr (Signature_Ed25519 bs)
                  else Inl ''Invalid signature format. Expected base64, ed25519:base58, or plain base58''
      | Inl _ \<Rightarrow> Inl ''Invalid signature format. Expected base64, ed25519:base58, or plain base58'')"

definition prefixed_signature :: "crypto_ops \<Rightarrow> string \<Rightarrow> string + signature" where
  "prefixed_signature cr s =
     (case strip_prefix ''ed25519:'' s of
        Some data \<Rightarrow>
          rbind (map_err (\<lambda>e. ''Invalid base58: '' @ e) (bs58_decode cr data)) (\<lambda>bs.
            if length bs = 64 then Inr (Signature_Ed25519 bs) else plain_base58_signature cr s)
      | None \<Rightarrow> plain_base58_signature cr s)"

definition deserialize_signature_flexible :: "crypto_ops \<Rightarrow> string \<Rightarrow> string + signature" where
  "deserialize_signature_flexible cr s =
     (case b64_decode cr s of
        Inr bs \<Rightarrow> if length bs = 64 then Inr (Signature_Ed25519 bs) else prefixed_signature cr s
      | Inl _ \<Rightarrow> prefixed_signature cr s)"


section \<open>What a message commits to\<close>

definition params_ok :: "borsh_ops \<Rightarrow> sign_message_params \<Rightarrow> bool" where
  "params_ok bo p \<longleftrightarrow> str_ok bo (smp_message p) \<and> str_ok bo (smp_recipient p) \<and> length (smp_nonce p) = 32 \<and>
     (case smp_callback_url p of None \<Rightarrow> True | Some u \<Rightarrow> str_ok bo u)"

definition dec_nep413_payload :: "borsh_ops \<Rightarrow> nep413_payload dec" where
  "dec_nep413_payload bo bs =
     dbind (dec_str bo bs) (\<lambda>m bs. dbind (dec_array bo 32 bs) (\<lambda>n bs. dbind (dec_str bo bs) (\<lambda>r bs.
     dbind (dec_option bo (dec_str bo) bs) (\<lambda>u bs.
       Inr (\<lparr>np_message = m, np_nonce = n, np_recipient = r, np_callback_url = u\<rparr>, bs)))))"

definition nep413_payload_ok :: "borsh_ops \<Rightarrow> nep413_payload \<Rightarrow> bool" where
  "nep413_payload_ok bo p \<longleftrightarrow> str_ok bo (np_message p) \<and> str_ok bo (np_recipient p) \<and> length (np_nonce p) = 32 \<and>
     (case np_callback_url p of None \<Rightarrow> True | Some u \<Rightarrow> str_ok bo u)"

sublocale borsh_laws < nep: wire_codec "ser_nep413_payload bo" "dec_nep413_payload bo" "nep413_payload_ok bo"
proof unfold_locales
  fix p bs rest
  assume ok: "nep413_payload_ok bo p" and ser: "ser_nep413_payload bo p = Some bs"
  obtain a b c where abc: "enc_str bo (np_message p) = Some a" "enc_str bo (np_recipient p) = Some b"
    "enc_option (enc_str bo) (np_callback_url p) = Some c" "bs = a @ np_nonce p @ b @ c"
    using ser by (auto simp: ser_nep413_payload_def)
  have "dec_option bo (dec_str bo) (c @ rest) = Inr (np_callback_url p, rest)"
    using abc(3) ok by (cases "np_callback_url p") (auto simp: dec_option_def nep413_payload_ok_def)
  moreover have "dec_str bo (a @ x) = Inr (np_message p, x)" "dec_str bo (b @ x) = Inr (np_recipient p, x)" for x
    using abc(1,2) ok str_rt by (auto simp: nep413_payload_ok_def)
  ultimately show "dec_nep413_payload bo (bs @ rest) = Inr (p, rest)"
    using abc(4) ok by (simp add: dec_nep413_payload_def nep413_payload_ok_def)
qed

datatype signing_content =
    SignTransaction versioned_transaction
  | SignDelegate delegate_action
  | SignDelegateV2 versioned_delegate_action_payload
  | SignMessage sign_message_params

fun signing_bytes :: "borsh_ops \<Rightarrow> signing_content \<Rightarrow> bytes option" where
  "signing_bytes bo (SignTransaction tx) = ser_versioned_transaction bo tx"
| "signing_bytes bo (SignDelegate d) = delegate_serialize_for_signing bo d"
| "signing_bytes bo (SignDelegateV2 d) = payload_serialize_for_signing bo d"
| "signing_bytes bo (SignMessage p) = message_bytes bo p"

fun content_ok :: "borsh_ops \<Rightarrow> crypto_ops \<Rightarrow> signing_content \<Rightarrow> bool" where
  "content_ok bo cr (SignTransaction tx) = versioned_transaction_ok bo cr tx"
| "content_ok bo cr (SignDelegate d) = delegate_action_ok bo cr d"
| "content_ok bo cr (SignDelegateV2 d) = payload_ok bo cr d"
| "content_ok bo cr (SignMessage p) = params_ok bo p"

text \<open>The state of a message is returned to the caller and not signed.\<close>

fun signed_part :: "signing_content \<Rightarrow> signing_content" where
  "signed_part (SignMessage p) = SignMessage (p\<lparr>smp_state := None\<rparr>)"
| "signed_part x = x"

fun content_kind :: "signing_content \<Rightarrow> nat" where
  "content_kind (SignTransaction _) = 0"
| "content_kind (SignDelegate _) = 1"
| "content_kind (SignDelegateV2 _) = 2"
| "content_kind (SignMessage _) = 3"

lemma tag_bytes:
  "to_le_bytes DELEGATE_ACTION_PREFIX = [110, 1, 0, 64]"
  "to_le_bytes DELEGATE_V2_ACTION_PREFIX = [99, 2, 0, 64]"
  "to_le_bytes NEP413_TAG = [157, 1, 0, 128]"
  by code_simp+

context wire_env
begin

lemma transaction_head:
  assumes "versioned_transaction_ok bo cr tx" "ser_versioned_transaction bo tx = Some bs"
  shows "\<exists>a b m. bs = a # b # m \<and> (a = V1_TAG \<or> b = 0)"
proof (cases tx)
  case (TxV0 t)
  then show ?thesis using assms v0_head [of t bs] by auto
next
  case (TxV1 t)
  then obtain c where c: "bs = V1_TAG # c" "ser_transaction_v1 bo t = Some c" using assms by auto
  then obtain n m where "c = n # 0 # m" using v1_head [OF _ c(2)] assms(1) TxV1 by auto
  then show ?thesis using c by simp
qed

lemma message_bytes_inj:
  assumes "params_ok bo p" "params_ok bo q" "message_bytes bo p = Some b" "message_bytes bo q = Some b"
  shows "p\<lparr>smp_state := None\<rparr> = q\<lparr>smp_state := None\<rparr>"
proof -
  let ?f = "\<lambda>p. \<lparr>np_message = smp_message p, np_nonce = smp_nonce p, np_recipient = smp_recipient p,
     np_callback_url = smp_callback_url p\<rparr>"
  obtain a where "ser_nep413_payload bo (?f p) = Some a" "ser_nep413_payload bo (?f q) = Some a"
    using assms(3,4) by (auto simp: message_bytes_def)
  then have "?f p = ?f q"
    using nep.enc_inj [of "?f p" "?f q" a] assms(1,2) by (simp add: params_ok_def nep413_payload_ok_def)
  then show ?thesis by simp
qed

lemma signing_bytes_domain:
  assumes "content_ok bo cr x" "signing_bytes bo x = Some bs"
  shows "\<exists>a b m. bs = a # b # m \<and>
    (case x of SignTransaction _ \<Rightarrow> a = V1_TAG \<or> b = 0 | SignDelegate _ \<Rightarrow> a = 110 \<and> b = 1
     | SignDelegateV2 _ \<Rightarrow> a = 99 \<and> b = 2 | SignMessage _ \<Rightarrow> a = 157 \<and> b = 1)"
  using assms transaction_head
  by (cases x) (auto simp: delegate_serialize_for_signing_def payload_serialize_for_signing_def message_bytes_def tag_bytes)

lemma signing_bytes_kind:
  assumes "content_ok bo cr x" "content_ok bo cr y" "signing_bytes bo x = Some b" "signing_bytes bo y = Some b"
  shows "content_kind x = content_kind y"
  using signing_bytes_domain [OF assms(1,3)] signing_bytes_domain [OF assms(2,4)]
  by (cases x; cases y; clarsimp simp: V1_TAG_def)

lemma signing_bytes_inj:
  assumes "content_ok bo cr x" "content_ok bo cr y" "signing_bytes bo x = Some b" "signing_bytes bo y = Some b"
  shows "signed_part x = signed_part y"
proof (cases x)
  case (SignTransaction t)
  then obtain u where "y = SignTransaction u" using signing_bytes_kind [OF assms] by (cases y) simp_all
  then show ?thesis using SignTransaction assms vtx.enc_inj [of t u b] by simp
next
  case (SignDelegate d)
  then obtain u where u: "y = SignDelegate u" using signing_bytes_kind [OF assms] by (cases y) simp_all
  then obtain a where "ser_delegate_action bo d = Some a" "ser_delegate_action bo u = Some a"
    using SignDelegate assms(3,4) by (auto simp: delegate_serialize_for_signing_def)
  then show ?thesis using SignDelegate u assms(1,2) da.enc_inj [of d u a] by simp
next
  case (SignDelegateV2 d)
  then obtain u where u: "y = SignDelegateV2 u" using signing_bytes_kind [OF assms] by (cases y) simp_all
  then obtain a where "ser_payload bo d = Some a" "ser_payload bo u = Some a"
    using SignDelegateV2 assms(3,4) by (auto simp: payload_serialize_for_signing_def)
  then show ?thesis using SignDelegateV2 u assms(1,2) pld.enc_inj [of d u a] by simp
next
  case (SignMessage p)
  then obtain u where "y = SignMessage u" using signing_bytes_kind [OF assms] by (cases y) simp_all
  then show ?thesis using SignMessage assms message_bytes_inj [of p u b] by simp
qed

end

lemma b64_groups_last:
  "length ns mod 3 \<noteq> 0 \<Longrightarrow> length ns div 3 * 4 < length (b64_groups ns) \<and> last (b64_groups ns) = CHR ''=''"
proof (induction ns rule: b64_groups.induct)
  case (4 a b c r)
  have n: "length (a # b # c # r) = length r + 3" by simp
  then have "length r mod 3 \<noteq> 0" and d: "length (a # b # c # r) div 3 = Suc (length r div 3)"
    using 4 by (simp_all only: mod_add_self2 div_add_self2) simp_all
  then show ?case using 4 d by (auto simp del: One_nat_def)
qed simp_all

lemma b58_decode_padding: "CHR ''='' \<in> set s \<Longrightarrow> b58_decode s = Inl ''invalid character''"
proof -
  have "index_of CHR ''='' b58_alphabet = None" by code_simp
  then have "CHR ''='' \<in> set s \<Longrightarrow> indices_of b58_alphabet s = None"
    by (induction s) (auto split: option.splits)
  then show "CHR ''='' \<in> set s \<Longrightarrow> b58_decode s = Inl ''invalid character''" by (simp add: b58_decode_def)
qed

section \<open>Properties\<close>

text \<open>C6: Domain separation. Whatever a key signs - a transaction of version 0 or 1, a delegate
  action of version 1 or 2, or an off-chain message - the signed bytes determine which of them it
  is and what it says, up to the state of a message, which is not signed. A signature on one of
  them is therefore not a signature on any other content.\<close>

theorem signing_domains_separate:
  assumes "borsh_laws bo" "content_ok bo cr x" "content_ok bo cr y"
    and "signing_bytes bo x = Some b" "signing_bytes bo y = Some b"
  shows "signed_part x = signed_part y"
  using wire_env.signing_bytes_inj [OF wire_env.intro [OF assms(1)] assms(2-5)] .

definition sample_params :: sign_message_params where
  "sample_params = \<lparr>smp_message = ''Sign in'', smp_recipient = ''app.com'',
     smp_nonce = generate_nonce 1700000000000 (replicate 24 7), smp_callback_url = None, smp_state = Some ''s''\<rparr>"

lemma sample_params_ok: "params_ok borsh_le sample_params"
proof -
  have "utf8_valid ''Sign in'' \<and> utf8_valid ''app.com''" by code_simp
  then show ?thesis by (simp add: params_ok_def sample_params_def borsh_le_def generate_nonce_def)
qed

lemma sample_message_bytes: "\<exists>b. message_bytes borsh_le sample_params = Some b"
  by (simp add: message_bytes_def sample_params_def ser_nep413_payload_def borsh_le_def cat.simps le_enc_str_def
      le_enc_bytes_def le_enc_len_def)

theorem signing_domains_separate_witness:
  "signing_bytes borsh_le (SignMessage sample_params) \<noteq> signing_bytes borsh_le (SignTransaction (TxV0 sample_tx))"
proof
  assume e: "signing_bytes borsh_le (SignMessage sample_params) = signing_bytes borsh_le (SignTransaction (TxV0 sample_tx))"
  obtain b where b: "signing_bytes borsh_le (SignMessage sample_params) = Some b" using sample_message_bytes by auto
  have "signed_part (SignMessage sample_params) = signed_part (SignTransaction (TxV0 sample_tx))"
    by (rule signing_domains_separate [OF le.borsh_laws_axioms _ _ b, of crypto_ref])
       (use b e sample_params_ok sample_tx_ok in simp_all)
  then show False by simp
qed

text \<open>C36: In JSON a signed message carries its signature as base64 of the bare bytes. An Ed25519
  signature is read back as it was written; the JSON of a message signed with a Secp256k1 key is
  refused when it is read, since the reader knows 64-byte signatures only.\<close>

theorem nep413_signature_json:
  assumes "b64_encode cr = base64_encode" "b64_decode cr = base64_decode" "bs58_decode cr = b58_decode"
  shows "(length b = 64 \<longrightarrow>
      deserialize_signature_flexible cr (serialize_signature_base64 cr (Signature_Ed25519 b)) = Inr (Signature_Ed25519 b)) \<and>
    (length b = 65 \<longrightarrow>
      (\<exists>e. deserialize_signature_flexible cr (serialize_signature_base64 cr (Signature_Secp256k1 b)) = Inl e))"
proof (intro conjI impI)
  let ?s = "base64_encode b"
  show "deserialize_signature_flexible cr (serialize_signature_base64 cr (Signature_Ed25519 b)) = Inr (Signature_Ed25519 b)"
    if "length b = 64"
    using assms that
    by (simp add: deserialize_signature_flexible_def serialize_signature_base64_def base64_decode_encode)
  assume l: "length b = 65"
  then have p: "84 < length ?s" "last ?s = CHR ''=''"
    using b64_groups_last [of "byte_vals b"] by (simp_all add: base64_encode_def byte_vals_def)
  then have "?s \<noteq> []" "drop 8 ?s \<noteq> []" "last (drop 8 ?s) = CHR ''=''" by auto
  then have "CHR ''='' \<in> set ?s" "CHR ''='' \<in> set (drop 8 ?s)" using p last_in_set by metis+
  then have d: "b58_decode ?s = Inl ''invalid character''" "b58_decode (drop 8 ?s) = Inl ''invalid character''"
    by (simp_all add: b58_decode_padding)
  have "\<exists>e. prefixed_signature cr ?s = Inl e"
    using assms(3) d by (auto simp: prefixed_signature_def plain_base58_signature_def strip_prefix_def numeral_eq_Suc)
  then show "\<exists>e. deserialize_signature_flexible cr (serialize_signature_base64 cr (Signature_Secp256k1 b)) = Inl e"
    using assms l by (simp add: deserialize_signature_flexible_def serialize_signature_base64_def base64_decode_encode)
qed

theorem nep413_signature_json_witness:
  "deserialize_signature_flexible crypto_ref
     (serialize_signature_base64 crypto_ref (Signature_Ed25519 (replicate 64 5))) = Inr (Signature_Ed25519 (replicate 64 5)) \<and>
   (\<exists>e. deserialize_signature_flexible crypto_ref
     (serialize_signature_base64 crypto_ref (Signature_Secp256k1 (replicate 65 5))) = Inl e)"
  using nep413_signature_json [of crypto_ref "replicate 64 5"] nep413_signature_json [of crypto_ref "replicate 65 5"]
  by (simp add: crypto_ref_def)

end
