(* ===== verification/Hd.thy ===== *)
theory Hd
  imports Keys
begin

text \<open>
  Hierarchical deterministic keys (\<open>types/hd.rs\<close>) and the seed-phrase constructors of
  \<open>types/key.rs\<close>: parsing of derivation paths, the SLIP-10 derivation loop, normalization
  of mnemonics, and generation of phrases. HMAC and BIP-39 are functions of \<open>crypto_ops\<close>;
  the random bytes of a generated phrase are an argument.
\<close>

section \<open>Paths\<close>

datatype hd_path_error =
    EmptySegment
  | InvalidIndex string
  | IndexOutOfRange string
  | NotHardened string

definition HARDENED :: u32 where "HARDENED = 0x80000000"

definition ED25519_SEED_SALT :: bytes where "ED25519_SEED_SALT = as_bytes ''ed25519 seed''"
definition ML_DSA65_SEED_SALT :: bytes where "ML_DSA65_SEED_SALT = as_bytes ''ML-DSA-65 seed''"

text \<open>The display of an error: the segment is printed with \<open>{:?}\<close>, given by \<open>dbg\<close>.\<close>

fun hd_path_error_display :: "(string \<Rightarrow> string) \<Rightarrow> hd_path_error \<Rightarrow> string" where
  "hd_path_error_display dbg EmptySegment = ''empty path segment''"
| "hd_path_error_display dbg (InvalidIndex s) = ''invalid path index '' @ dbg s"
| "hd_path_error_display dbg (IndexOutOfRange s) = ''path index out of range '' @ dbg s"
| "hd_path_error_display dbg (NotHardened s) = ''SLIP-10 requires hardened derivation, got '' @ dbg s"

definition hd_body :: "string \<Rightarrow> string" where
  "hd_body path =
     (let body = (case strip_prefix ''m'' path of Some r \<Rightarrow> r | None \<Rightarrow> path);
          body = (case strip_prefix ''/'' body of Some r \<Rightarrow> r | None \<Rightarrow> body);
          body = (case strip_suffix ''/'' body of Some r \<Rightarrow> r | None \<Rightarrow> body)
      in body)"

definition parse_hd_segment :: "string \<Rightarrow> hd_path_error + u32" where
  "parse_hd_segment seg =
     (if seg = [] then Inl EmptySegment
      else
        let (num_str, hardened) =
              (if last seg = CHR 0x27 \<or> last seg = CHR ''H'' then (butlast seg, True) else (seg, False))
        in if num_str = [] \<or> \<not> list_all is_ascii_digit num_str then Inl (InvalidIndex seg)
           else (case parse_uint num_str of None \<Rightarrow> Inl (IndexOutOfRange seg)
                 | Some (idx :: u32) \<Rightarrow>
                     if HARDENED \<le> idx then Inl (IndexOutOfRange seg)
                     else if \<not> hardened then Inl (NotHardened seg)
                     else Inr (or idx HARDENED)))"

text \<open>Collecting an iterator of results stops at the first error.\<close>

fun collect_results :: "('a \<Rightarrow> 'e + 'b) \<Rightarrow> 'a list \<Rightarrow> 'e + 'b list" where
  "collect_results f [] = Inr []"
| "collect_results f (x # xs) = rbind (f x) (\<lambda>y. rmap (\<lambda>ys. y # ys) (collect_results f xs))"

definition parse_hd_path :: "string \<Rightarrow> hd_path_error + u32 list" where
  "parse_hd_path path =
     (let body = hd_body path
      in if body = [] then Inr [] else collect_results parse_hd_segment (split_char CHR ''/'' body))"

section \<open>Derivation\<close>

text \<open>One hardened child step on the node \<open>I\<close>; the flag \<open>dbg\<close> is true in a build with debug
  assertions.\<close>

definition slip10_child :: "crypto_ops \<Rightarrow> bool \<Rightarrow> bytes \<Rightarrow> u32 \<Rightarrow> bytes run" where
  "slip10_child cr dbg i index =
     (if dbg \<and> and index HARDENED = 0 then Panic
      else Done (hmac_sha512 cr (drop 32 i) ((0 # take 32 i) @ to_be_bytes index)))"

fun slip10_loop :: "crypto_ops \<Rightarrow> bool \<Rightarrow> bytes \<Rightarrow> u32 list \<Rightarrow> bytes run" where
  "slip10_loop cr dbg i [] = Done i"
| "slip10_loop cr dbg i (index # path) =
     run_bind (slip10_child cr dbg i index) (\<lambda>i. slip10_loop cr dbg i path)"

definition derive_slip10_node :: "crypto_ops \<Rightarrow> bool \<Rightarrow> bytes \<Rightarrow> bytes \<Rightarrow> u32 list \<Rightarrow> bytes run" where
  "derive_slip10_node cr dbg salt seed path = slip10_loop cr dbg (hmac_sha512 cr salt seed) path"

definition derive_ed25519_slip10 :: "crypto_ops \<Rightarrow> bool \<Rightarrow> bytes \<Rightarrow> u32 list \<Rightarrow> bytes run" where
  "derive_ed25519_slip10 cr dbg seed path =
     run_bind (derive_slip10_node cr dbg ED25519_SEED_SALT seed path) (\<lambda>node. Done (take 32 node))"

definition derive_ml_dsa65_slip10 :: "crypto_ops \<Rightarrow> bool \<Rightarrow> bytes \<Rightarrow> u32 list \<Rightarrow> bytes run" where
  "derive_ml_dsa65_slip10 cr dbg seed path =
     run_bind (derive_slip10_node cr dbg ML_DSA65_SEED_SALT seed path) (\<lambda>node. Done (take 32 node))"

section \<open>Seed phrases\<close>

definition DEFAULT_HD_PATH :: string where
  "DEFAULT_HD_PATH = ''m/44'' @ [CHR 0x27] @ ''/397'' @ [CHR 0x27] @ ''/0'' @ [CHR 0x27]"

definition DEFAULT_WORD_COUNT :: nat where "DEFAULT_WORD_COUNT = 12"
definition DEFAULT_ML_DSA_65_WORD_COUNT :: nat where "DEFAULT_ML_DSA_65_WORD_COUNT = 24"
definition MIN_ML_DSA_65_WORD_COUNT :: nat where "MIN_ML_DSA_65_WORD_COUNT = 18"

definition mnemonic_to_seed :: "crypto_ops \<Rightarrow> string \<Rightarrow> string option \<Rightarrow> signer_error + bytes" where
  "mnemonic_to_seed cr phrase passphrase =
     (let normalized = join '' '' (split_whitespace (str_to_lowercase cr (trim phrase)))
      in case bip39_parse cr normalized of None \<Rightarrow> Inl InvalidSeedPhrase
         | Some mnemonic \<Rightarrow>
             Inr (bip39_to_seed cr mnemonic (case passphrase of Some p \<Rightarrow> p | None \<Rightarrow> '''')))"

definition entropy_bytes :: "nat \<Rightarrow> nat option" where
  "entropy_bytes word_count =
     (if word_count = 12 then Some 16 else if word_count = 15 then Some 20
      else if word_count = 18 then Some 24 else if word_count = 21 then Some 28
      else if word_count = 24 then Some 32 else None)"

text \<open>\<open>rnd n\<close> is what \<open>fill_random\<close> puts into a buffer of \<open>n\<close> bytes.\<close>

definition generate_seed_phrase :: "crypto_ops \<Rightarrow> (nat \<Rightarrow> bytes) \<Rightarrow> nat \<Rightarrow> signer_error + string" where
  "generate_seed_phrase cr rnd word_count =
     (case entropy_bytes word_count of
        None \<Rightarrow> Inl (KeyDerivationFailed (''Invalid word count: '' @ show_nat word_count @
                  ''. Must be 12, 15, 18, 21, or 24''))
      | Some n \<Rightarrow>
          map_err (\<lambda>e. KeyDerivationFailed (''Failed to generate mnemonic: '' @ e))
            (bip39_from_entropy cr (rnd n)))"

text \<open>The environment of the constructors: the crates, debug assertions, the \<open>{:?}\<close> of strings.\<close>

record hd_env =
  he_crypto :: crypto_ops
  he_debug :: bool
  he_dbg_str :: "string \<Rightarrow> string"

definition derive_from_phrase ::
  "hd_env \<Rightarrow> (crypto_ops \<Rightarrow> bool \<Rightarrow> bytes \<Rightarrow> u32 list \<Rightarrow> bytes run) \<Rightarrow> (bytes \<Rightarrow> secret_key)
   \<Rightarrow> string \<Rightarrow> string \<Rightarrow> string option \<Rightarrow> (signer_error + secret_key) run" where
  "derive_from_phrase env derive mk phrase hd_path passphrase =
     try_run (Done (mnemonic_to_seed (he_crypto env) phrase passphrase)) (\<lambda>seed.
     try_run (Done (map_err
         (\<lambda>e. KeyDerivationFailed (''Invalid HD path: '' @ hd_path_error_display (he_dbg_str env) e))
         (parse_hd_path hd_path))) (\<lambda>path.
     run_bind (derive (he_crypto env) (he_debug env) seed path) (\<lambda>d. Done (Inr (mk d)))))"

definition from_seed_phrase_with_path_and_passphrase ::
  "hd_env \<Rightarrow> string \<Rightarrow> string \<Rightarrow> string option \<Rightarrow> (signer_error + secret_key) run" where
  "from_seed_phrase_with_path_and_passphrase env =
     derive_from_phrase env derive_ed25519_slip10 secret_key_ed25519_from_bytes"

definition from_seed_phrase_with_path :: "hd_env \<Rightarrow> string \<Rightarrow> string \<Rightarrow> (signer_error + secret_key) run" where
  "from_seed_phrase_with_path env phrase hd_path =
     from_seed_phrase_with_path_and_passphrase env phrase hd_path None"

definition from_seed_phrase :: "hd_env \<Rightarrow> string \<Rightarrow> (signer_error + secret_key) run" where
  "from_seed_phrase env phrase = from_seed_phrase_with_path env phrase DEFAULT_HD_PATH"

definition ml_dsa65_from_seed_phrase_with_path_and_passphrase ::
  "hd_env \<Rightarrow> string \<Rightarrow> string \<Rightarrow> string option \<Rightarrow> (signer_error + secret_key) run" where
  "ml_dsa65_from_seed_phrase_with_path_and_passphrase env =
     derive_from_phrase env derive_ml_dsa65_slip10 ml_dsa65_from_seed"

definition ml_dsa65_from_seed_phrase_with_path ::
  "hd_env \<Rightarrow> string \<Rightarrow> string \<Rightarrow> (signer_error + secret_key) run" where
  "ml_dsa65_from_seed_phrase_with_path env phrase hd_path =
     ml_dsa65_from_seed_phrase_with_path_and_passphrase env phrase hd_path None"

definition ml_dsa65_from_seed_phrase :: "hd_env \<Rightarrow> string \<Rightarrow> (signer_error + secret_key) run" where
  "ml_dsa65_from_seed_phrase env phrase = ml_dsa65_from_seed_phrase_with_path env phrase DEFAULT_HD_PATH"

definition generate_with_seed_phrase_custom ::
  "hd_env \<Rightarrow> (nat \<Rightarrow> bytes) \<Rightarrow> nat \<Rightarrow> string \<Rightarrow> string option \<Rightarrow> (signer_error + (string \<times> secret_key)) run" where
  "generate_with_seed_phrase_custom env rnd word_count hd_path passphrase =
     try_run (Done (generate_seed_phrase (he_crypto env) rnd word_count)) (\<lambda>phrase.
     try_run (from_seed_phrase_with_path_and_passphrase env phrase hd_path passphrase)
       (\<lambda>sk. Done (Inr (phrase, sk))))"

definition generate_with_seed_phrase ::
  "hd_env \<Rightarrow> (nat \<Rightarrow> bytes) \<Rightarrow> (signer_error + (string \<times> secret_key)) run" where
  "generate_with_seed_phrase env rnd =
     generate_with_seed_phrase_custom env rnd DEFAULT_WORD_COUNT DEFAULT_HD_PATH None"

definition generate_with_seed_phrase_words ::
  "hd_env \<Rightarrow> (nat \<Rightarrow> bytes) \<Rightarrow> nat \<Rightarrow> (signer_error + (string \<times> secret_key)) run" where
  "generate_with_seed_phrase_words env rnd word_count =
     generate_with_seed_phrase_custom env rnd word_count DEFAULT_HD_PATH None"

definition ml_dsa65_generate_with_seed_phrase_custom ::
  "hd_env \<Rightarrow> (nat \<Rightarrow> bytes) \<Rightarrow> nat \<Rightarrow> string \<Rightarrow> string option \<Rightarrow> (signer_error + (string \<times> secret_key)) run" where
  "ml_dsa65_generate_with_seed_phrase_custom env rnd word_count hd_path passphrase =
     (if word_count < MIN_ML_DSA_65_WORD_COUNT then
        Done (Inl (KeyDerivationFailed (''Invalid word count: '' @ show_nat word_count @
          ''. NEP-649 requires at least '' @ show_nat MIN_ML_DSA_65_WORD_COUNT @
          '' words for a newly generated ML-DSA-65 seed phrase (12 words is 128 bits of entropy, below ''
          @ ''ML-DSA-65'' @ [CHR 0x27] @ ''s NIST Category 3 level); use 18, 21, or 24'')))
      else
        try_run (Done (generate_seed_phrase (he_crypto env) rnd word_count)) (\<lambda>phrase.
        try_run (ml_dsa65_from_seed_phrase_with_path_and_passphrase env phrase hd_path passphrase)
          (\<lambda>sk. Done (Inr (phrase, sk)))))"

definition ml_dsa65_generate_with_seed_phrase ::
  "hd_env \<Rightarrow> (nat \<Rightarrow> bytes) \<Rightarrow> (signer_error + (string \<times> secret_key)) run" where
  "ml_dsa65_generate_with_seed_phrase env rnd =
     ml_dsa65_generate_with_seed_phrase_custom env rnd DEFAULT_ML_DSA_65_WORD_COUNT DEFAULT_HD_PATH None"

definition ml_dsa65_generate_with_seed_phrase_words ::
  "hd_env \<Rightarrow> (nat \<Rightarrow> bytes) \<Rightarrow> nat \<Rightarrow> (signer_error + (string \<times> secret_key)) run" where
  "ml_dsa65_generate_with_seed_phrase_words env rnd word_count =
     ml_dsa65_generate_with_seed_phrase_custom env rnd word_count DEFAULT_HD_PATH None"

section \<open>Key pairs from phrases\<close>

definition key_pair_from_seed_phrase :: "hd_env \<Rightarrow> string \<Rightarrow> (signer_error + key_pair) run" where
  "key_pair_from_seed_phrase env phrase =
     try_run (from_seed_phrase env phrase)
       (\<lambda>sk. run_bind (key_pair_from_secret_key (he_crypto env) sk) (\<lambda>kp. Done (Inr kp)))"

definition key_pair_ml_dsa65_from_seed_phrase :: "hd_env \<Rightarrow> string \<Rightarrow> (signer_error + key_pair) run" where
  "key_pair_ml_dsa65_from_seed_phrase env phrase =
     try_run (ml_dsa65_from_seed_phrase env phrase)
       (\<lambda>sk. run_bind (key_pair_from_secret_key (he_crypto env) sk) (\<lambda>kp. Done (Inr kp)))"

definition key_pair_random_with_seed_phrase ::
  "hd_env \<Rightarrow> (nat \<Rightarrow> bytes) \<Rightarrow> (signer_error + (string \<times> key_pair)) run" where
  "key_pair_random_with_seed_phrase env rnd =
     try_run (generate_with_seed_phrase env rnd)
       (\<lambda>(phrase, sk). run_bind (key_pair_from_secret_key (he_crypto env) sk) (\<lambda>kp. Done (Inr (phrase, kp))))"

definition key_pair_random_ml_dsa65_with_seed_phrase ::
  "hd_env \<Rightarrow> (nat \<Rightarrow> bytes) \<Rightarrow> (signer_error + (string \<times> key_pair)) run" where
  "key_pair_random_ml_dsa65_with_seed_phrase env rnd =
     try_run (ml_dsa65_generate_with_seed_phrase env rnd)
       (\<lambda>(phrase, sk). run_bind (key_pair_from_secret_key (he_crypto env) sk) (\<lambda>kp. Done (Inr (phrase, kp))))"

section \<open>Lemmas\<close>

abbreviation hardened :: "u32 \<Rightarrow> bool" where
  "hardened i \<equiv> and i HARDENED = HARDENED"

lemma HARDENED_ne [simp]: "HARDENED \<noteq> 0"
  by (simp add: HARDENED_def)

lemma hardened_or [simp]: "and (or i HARDENED) HARDENED = HARDENED"
  by (auto simp: bit_eq_iff bit_simps)

lemma parse_hd_segment_Inr:
  "parse_hd_segment seg = Inr i \<Longrightarrow>
   \<exists>n < 2 ^ 31. i = or (of_nat n) HARDENED \<and> (\<exists>d. digits d \<and> d \<noteq> [] \<and> n = dec_value d \<and>
     (seg = d @ [CHR 0x27] \<or> seg = d @ ''H''))"
proof -
  assume h: "parse_hd_segment seg = Inr i"
  then have ne: "seg \<noteq> []" by (auto simp: parse_hd_segment_def)
  then obtain d m where seg: "seg = d @ [m]" by (cases seg rule: rev_cases) auto
  from h ne have m: "m = CHR 0x27 \<or> m = CHR ''H''"
    by (auto simp: parse_hd_segment_def seg split: if_splits option.splits)
  with h have d: "d \<noteq> []" "digits d"
    by (auto simp: parse_hd_segment_def seg split: if_splits)
  then obtain idx :: u32 where idx: "parse_uint d = Some idx" "idx < HARDENED" "i = or idx HARDENED"
    using h m by (auto simp: parse_hd_segment_def seg not_le split: if_splits option.splits)
  then have "unat idx = dec_value d" using d by (simp add: parse_uint_Some)
  moreover from this have "idx = of_nat (dec_value d)"
    by (metis word_of_nat_unat)
  moreover have "unat idx < 2 ^ 31" using idx(2) by (simp add: word_less_nat_alt HARDENED_def)
  ultimately show ?thesis using idx(3) d m seg by auto
qed

lemma parse_hd_segment_print:
  "n < 2 ^ 31 \<Longrightarrow> parse_hd_segment (show_nat n @ [CHR 0x27]) = Inr (or (of_nat n) HARDENED)"
proof -
  assume n: "n < 2 ^ 31"
  have "parse_uint (show_nat n) = Some (of_nat n :: u32)"
    using n by (simp add: parse_uint_def)
  moreover have "(of_nat n :: u32) < HARDENED"
    using n by (simp add: word_less_nat_alt unat_of_nat_small HARDENED_def)
  ultimately show ?thesis by (simp add: parse_hd_segment_def not_le)
qed

lemma collect_results_Inr:
  "collect_results f xs = Inr ys \<Longrightarrow> length ys = length xs \<and> (\<forall>y\<in>set ys. \<exists>x\<in>set xs. f x = Inr y)"
proof (induction xs arbitrary: ys)
  case (Cons x xs)
  then obtain y zs where "f x = Inr y" "collect_results f xs = Inr zs" "ys = y # zs" by auto
  with Cons.IH[of zs] show ?case by auto
qed simp

lemma collect_results_map:
  "(\<And>x. x \<in> set xs \<Longrightarrow> f (g x) = Inr (h x)) \<Longrightarrow> collect_results f (map g xs) = Inr (map h xs)"
  by (induction xs) auto

lemma parse_hd_path_hardened: "parse_hd_path path = Inr ixs \<Longrightarrow> list_all hardened ixs"
proof -
  assume "parse_hd_path path = Inr ixs"
  then have "ixs = [] \<or> collect_results parse_hd_segment (split_char CHR ''/'' (hd_body path)) = Inr ixs"
    by (auto simp: parse_hd_path_def Let_def split: if_splits)
  then show ?thesis
    by (auto simp: list_all_iff dest!: collect_results_Inr bspec parse_hd_segment_Inr)
qed

lemma slip10_loop_Done:
  "list_all hardened ixs \<Longrightarrow> \<exists>n. slip10_loop cr dbg i ixs = Done n"
  by (induction ixs arbitrary: i) (auto simp: slip10_child_def)

lemma slip10_loop_length:
  assumes "\<And>k d. length (hmac_sha512 cr k d) = 64" "length i = 64"
    and "slip10_loop cr dbg i ixs = Done n"
  shows "length n = 64"
  using assms(2,3)
proof (induction ixs arbitrary: i)
  case (Cons a ixs)
  then obtain j where "slip10_child cr dbg i a = Done j" "slip10_loop cr dbg j ixs = Done n" by auto
  moreover from this(1) have "length j = 64"
    by (auto simp: slip10_child_def assms(1) split: if_splits)
  ultimately show ?case using Cons.IH by blast
qed simp

text \<open>The printed form of a list of indices.\<close>

definition print_hd_path :: "nat list \<Rightarrow> string" where
  "print_hd_path ns = ''m'' @ concat (map (\<lambda>n. ''/'' @ show_nat n @ [CHR 0x27]) ns)"

lemma segment_no_slash: "CHR ''/'' \<notin> set (show_nat n @ [CHR 0x27])"
proof -
  have "is_ascii_digit c \<Longrightarrow> c \<noteq> CHR ''/''" for c
    by (auto simp: is_ascii_digit_def char_code_def)
  then show ?thesis using digits_show_nat[of n] by (auto simp: list_all_iff)
qed

lemma split_segments:
  "split_char CHR ''/'' (show_nat n @ [CHR 0x27] @ concat (map (\<lambda>n. ''/'' @ show_nat n @ [CHR 0x27]) ns))
   = map (\<lambda>n. show_nat n @ [CHR 0x27]) (n # ns)"
proof (induction ns arbitrary: n)
  case Nil
  then show ?case using segment_no_slash[of n] by (simp add: split_char_no)
next
  case (Cons k ns)
  have "split_char CHR ''/'' ((show_nat n @ [CHR 0x27]) @ CHR ''/'' #
      (show_nat k @ [CHR 0x27] @ concat (map (\<lambda>n. ''/'' @ show_nat n @ [CHR 0x27]) ns)))
    = (show_nat n @ [CHR 0x27]) # map (\<lambda>n. show_nat n @ [CHR 0x27]) (k # ns)"
    using Cons.IH[of k] segment_no_slash[of n] by (subst split_char_append) simp_all
  then show ?case by simp
qed

lemma hd_body_print:
  "hd_body (print_hd_path (n # ns)) =
     show_nat n @ [CHR 0x27] @ concat (map (\<lambda>n. ''/'' @ show_nat n @ [CHR 0x27]) ns)"
proof -
  let ?b = "show_nat n @ [CHR 0x27] @ concat (map (\<lambda>n. ''/'' @ show_nat n @ [CHR 0x27]) ns)"
  have p: "print_hd_path (n # ns) = ''m'' @ ''/'' @ ?b" by (simp add: print_hd_path_def)
  have "last ?b = CHR 0x27" by (induction ns rule: rev_induct) simp_all
  then have "strip_suffix ''/'' ?b = None" by (intro strip_suffix_None_last) simp_all
  moreover have "strip_prefix ''m'' (''m'' @ ''/'' @ ?b) = Some (''/'' @ ?b)"
    "strip_prefix ''/'' (''/'' @ ?b) = Some ?b" by (rule strip_prefix_append)+
  ultimately show ?thesis unfolding p hd_body_def by (simp del: append.simps)
qed

lemma parse_print_hd_path:
  "list_all (\<lambda>n. n < 2 ^ 31) ns \<Longrightarrow>
   parse_hd_path (print_hd_path ns) = Inr (map (\<lambda>n. or (of_nat n) HARDENED) ns)"
proof (cases ns)
  case Nil
  then show ?thesis by (simp add: parse_hd_path_def print_hd_path_def hd_body_def strip_prefix_def strip_suffix_def)
next
  case (Cons n ms)
  assume a: "list_all (\<lambda>n. n < 2 ^ 31) ns"
  have "collect_results parse_hd_segment (map (\<lambda>n. show_nat n @ [CHR 0x27]) ns)
      = Inr (map (\<lambda>n. or (of_nat n) HARDENED) ns)"
    using a by (intro collect_results_map) (simp add: list_all_iff parse_hd_segment_print)
  then show ?thesis using Cons hd_body_print[of n ms] split_segments[of n ms]
    by (simp add: parse_hd_path_def)
qed

section \<open>Properties\<close>

text \<open>A path parses only into hardened indices: every index has its top bit set, comes
  from a decimal number below 2 to the 31 followed by an apostrophe or H, and the printed form of any
  list of such numbers parses back to it.\<close>

theorem hd_path_only_hardened:
  "(parse_hd_path path = Inr ixs \<longrightarrow>
      list_all (\<lambda>i. and i HARDENED = HARDENED \<and> (\<exists>n < 2 ^ 31. i = or (of_nat n) HARDENED)) ixs) \<and>
   (list_all (\<lambda>n. n < 2 ^ 31) ns \<longrightarrow>
      parse_hd_path (print_hd_path ns) = Inr (map (\<lambda>n. or (of_nat n) HARDENED) ns))"
proof -
  have "\<exists>n < 2 ^ 31. i = or (of_nat n) HARDENED"
    if p: "parse_hd_path path = Inr ixs" and i: "i \<in> set ixs" for i
  proof -
    have "collect_results parse_hd_segment (split_char CHR ''/'' (hd_body path)) = Inr ixs"
      using p i by (auto simp: parse_hd_path_def Let_def split: if_splits)
    then obtain seg where "parse_hd_segment seg = Inr i"
      using collect_results_Inr[of parse_hd_segment _ ixs] i by blast
    then show ?thesis using parse_hd_segment_Inr by blast
  qed
  moreover have "and i HARDENED = HARDENED" if "parse_hd_path path = Inr ixs" "i \<in> set ixs" for i
    using parse_hd_path_hardened[OF that(1)] that(2) by (simp add: list_all_iff)
  ultimately show ?thesis using parse_print_hd_path by (simp add: list_all_iff)
qed

theorem hd_path_only_hardened_witness:
  "parse_hd_path (print_hd_path [44, 397, 0]) = Inr [or 44 HARDENED, or 397 HARDENED, or 0 HARDENED]
   \<and> print_hd_path [44, 397, 0] = DEFAULT_HD_PATH"
proof -
  have "print_hd_path [44, 397, 0] = DEFAULT_HD_PATH" by code_simp
  moreover have "list_all (\<lambda>n. n < 2 ^ 31) [44, 397, 0 :: nat]" by simp
  ultimately show ?thesis using hd_path_only_hardened[of _ _ "[44, 397, 0]"] by simp
qed

text \<open>Deriving an ed25519 or ML-DSA-65 key from any phrase, path and passphrase never
  panics, also with debug assertions: the result is an error or a well-formed key of the
  requested kind; and phrases for new ML-DSA-65 keys below 18 words are refused.\<close>

theorem seed_phrase_keys:
  assumes "\<forall>k d. length (hmac_sha512 (he_crypto env) k d) = 64"
  shows "(\<exists>r. from_seed_phrase_with_path_and_passphrase env phrase path pw = Done r \<and>
            (\<forall>sk. r = Inr sk \<longrightarrow> secret_key_ok (he_crypto env) sk \<and> secret_key_type sk = KeyType_Ed25519)) \<and>
         (\<exists>r. ml_dsa65_from_seed_phrase_with_path_and_passphrase env phrase path pw = Done r \<and>
            (\<forall>sk. r = Inr sk \<longrightarrow> secret_key_ok (he_crypto env) sk \<and> secret_key_type sk = KeyType_MlDsa65)) \<and>
         (wc < 18 \<longrightarrow> (\<exists>e. ml_dsa65_generate_with_seed_phrase_custom env rnd wc path pw = Done (Inl e)))"
proof -
  let ?cr = "he_crypto env"
  have len: "\<And>k d. length (hmac_sha512 ?cr k d) = 64" using assms by blast
  have node: "\<exists>n. derive_slip10_node ?cr (he_debug env) salt seed ixs = Done n \<and> length n = 64"
    if p: "parse_hd_path path = Inr ixs" for salt seed ixs
  proof -
    obtain n where n: "slip10_loop ?cr (he_debug env) (hmac_sha512 ?cr salt seed) ixs = Done n"
      using slip10_loop_Done[OF parse_hd_path_hardened[OF p]] by blast
    then show ?thesis using slip10_loop_length[OF len len n] by (simp add: derive_slip10_node_def)
  qed
  have phrase: "\<exists>r. derive_from_phrase env derive mk phrase path pw = Done r \<and> (\<forall>sk. r = Inr sk \<longrightarrow> P sk)"
    if d: "\<And>seed ixs. parse_hd_path path = Inr ixs \<Longrightarrow>
        \<exists>k. derive ?cr (he_debug env) seed ixs = Done k \<and> P (mk k)" for derive mk P
  proof (cases "mnemonic_to_seed ?cr phrase pw")
    case (Inr seed)
    then show ?thesis using d[of _ seed]
      by (cases "parse_hd_path path") (fastforce simp: derive_from_phrase_def)+
  qed (simp add: derive_from_phrase_def)
  have "\<exists>k. derive_ed25519_slip10 ?cr (he_debug env) seed ixs = Done k \<and>
      secret_key_ok ?cr (secret_key_ed25519_from_bytes k) \<and>
      secret_key_type (secret_key_ed25519_from_bytes k) = KeyType_Ed25519"
    if "parse_hd_path path = Inr ixs" for seed ixs
    using node[OF that, of ED25519_SEED_SALT seed]
    by (auto simp: derive_ed25519_slip10_def secret_key_ed25519_from_bytes_def)
  note ed = phrase[of derive_ed25519_slip10
      "\<lambda>sk. secret_key_ok ?cr sk \<and> secret_key_type sk = KeyType_Ed25519" secret_key_ed25519_from_bytes,
      OF this]
  have "\<exists>k. derive_ml_dsa65_slip10 ?cr (he_debug env) seed ixs = Done k \<and>
      secret_key_ok ?cr (ml_dsa65_from_seed k) \<and> secret_key_type (ml_dsa65_from_seed k) = KeyType_MlDsa65"
    if "parse_hd_path path = Inr ixs" for seed ixs
    using node[OF that, of ML_DSA65_SEED_SALT seed]
    by (auto simp: derive_ml_dsa65_slip10_def ml_dsa65_from_seed_def ML_DSA_65_SEED_LENGTH_def)
  note ml = phrase[of derive_ml_dsa65_slip10
      "\<lambda>sk. secret_key_ok ?cr sk \<and> secret_key_type sk = KeyType_MlDsa65" ml_dsa65_from_seed, OF this]
  have "\<exists>e. ml_dsa65_generate_with_seed_phrase_custom env rnd wc path pw = Done (Inl e)" if "wc < 18"
    using that by (simp add: ml_dsa65_generate_with_seed_phrase_custom_def MIN_ML_DSA_65_WORD_COUNT_def)
  then show ?thesis
    unfolding from_seed_phrase_with_path_and_passphrase_def
      ml_dsa65_from_seed_phrase_with_path_and_passphrase_def
    using ed ml by blast
qed

theorem seed_phrase_keys_witness:
  "\<exists>r. from_seed_phrase_with_path_and_passphrase
        \<lparr>he_crypto = crypto_ref, he_debug = True, he_dbg_str = quoted\<rparr> ''a b'' DEFAULT_HD_PATH None = Done r"
proof -
  have "\<forall>k d. length (hmac_sha512 (he_crypto \<lparr>he_crypto = crypto_ref, he_debug = True, he_dbg_str = quoted\<rparr>) k d) = 64"
    by (simp add: crypto_ref_def)
  from seed_phrase_keys[OF this] show ?thesis by blast
qed

end
