(* ===== verification/Signers.thy ===== *)
theory Signers
  imports Nep413 Hd
begin

text \<open>
  Signers (\<open>client/signer.rs\<close>, \<open>client/keyring_signer.rs\<close>): a signer knows its account and hands
  out signing keys. The signers with one key give the same key every time; the rotating signer
  claims its keys round robin with an atomic counter, so that concurrent claims are some sequence
  of claims. Environment, files, key ring and JSON are arguments; an argument of a type that
  converts to an account id stands for the result of that conversion.

  The locale \<open>signer\<close> is the contract of the trait \<open>Signer\<close>, interpreted for both kinds of signer.
\<close>

section \<open>Signing keys\<close>

datatype signing_backend = SecretKeyBackend secret_key

record signing_key =
  sk_public_key :: public_key
  sk_backend :: signing_backend

definition signing_key_new :: "crypto_ops \<Rightarrow> secret_key \<Rightarrow> signing_key run" where
  "signing_key_new cr secret =
     run_bind (secret_public_key cr secret) (\<lambda>pk. Done \<lparr>sk_public_key = pk, sk_backend = SecretKeyBackend secret\<rparr>)"

fun backend_sign :: "crypto_ops \<Rightarrow> signing_backend \<Rightarrow> bytes \<Rightarrow> (signer_error + signature) run" where
  "backend_sign cr (SecretKeyBackend secret) message = run_bind (secret_sign cr secret message) (\<lambda>sig. Done (Inr sig))"

definition signing_key_sign :: "crypto_ops \<Rightarrow> signing_key \<Rightarrow> bytes \<Rightarrow> (signer_error + signature) run" where
  "signing_key_sign cr k message = backend_sign cr (sk_backend k) message"

definition sign_nep413 ::
  "borsh_ops \<Rightarrow> crypto_ops \<Rightarrow> signing_key \<Rightarrow> account_id \<Rightarrow> sign_message_params \<Rightarrow> (signer_error + signed_message) run" where
  "sign_nep413 bo cr k account_id params =
     run_bind (serialize_message bo cr params) (\<lambda>h.
       try_run (signing_key_sign cr k h) (\<lambda>sig.
         Done (Inr \<lparr>sm_account_id = account_id, sm_public_key = sk_public_key k, sm_signature = sig,
           sm_state = smp_state params\<rparr>)))"

section \<open>One key in memory\<close>

record in_memory_signer =
  ims_account_id :: account_id
  ims_secret_key :: secret_key
  ims_public_key :: public_key

type_synonym 'a signer_result = "(near_error + 'a) run"

definition in_memory_from_secret_key ::
  "crypto_ops \<Rightarrow> string + account_id \<Rightarrow> secret_key \<Rightarrow> in_memory_signer signer_result" where
  "in_memory_from_secret_key cr account_id secret =
     try_run (Done (map_err Err_ParseAccountId account_id)) (\<lambda>a.
       run_bind (secret_public_key cr secret) (\<lambda>pk.
         Done (Inr \<lparr>ims_account_id = a, ims_secret_key = secret, ims_public_key = pk\<rparr>)))"

definition in_memory_new :: "crypto_ops \<Rightarrow> string + account_id \<Rightarrow> string \<Rightarrow> in_memory_signer signer_result" where
  "in_memory_new cr account_id secret =
     try_run (Done (map_err Err_ParseAccountId account_id)) (\<lambda>a.
     try_run (Done (map_err Err_ParseKey (secret_key_from_str cr secret))) (\<lambda>sk.
       run_bind (secret_public_key cr sk) (\<lambda>pk.
         Done (Inr \<lparr>ims_account_id = a, ims_secret_key = sk, ims_public_key = pk\<rparr>))))"

text \<open>The account of an implicit signer is the hexadecimal form of its Ed25519 key.\<close>

definition in_memory_implicit ::
  "crypto_ops \<Rightarrow> (bytes \<Rightarrow> string) \<Rightarrow> serde_ops \<Rightarrow> secret_key \<Rightarrow> in_memory_signer run" where
  "in_memory_implicit cr hex_encode sd secret =
     run_bind (secret_public_key cr secret) (\<lambda>pk.
     run_bind (expect (as_ed25519_bytes pk)) (\<lambda>pk_bytes.
     run_bind (expect (ok_opt (parse_account sd (hex_encode pk_bytes)))) (\<lambda>a.
       Done \<lparr>ims_account_id = a, ims_secret_key = secret, ims_public_key = pk\<rparr>)))"

definition in_memory_from_seed_phrase_with_path ::
  "hd_env \<Rightarrow> string + account_id \<Rightarrow> string \<Rightarrow> string \<Rightarrow> in_memory_signer signer_result" where
  "in_memory_from_seed_phrase_with_path env account_id phrase hd_path =
     run_bind (from_seed_phrase_with_path env phrase hd_path) (\<lambda>r.
       try_run (Done (map_err Err_Signing r)) (\<lambda>secret. in_memory_from_secret_key (he_crypto env) account_id secret))"

definition in_memory_from_seed_phrase ::
  "hd_env \<Rightarrow> string + account_id \<Rightarrow> string \<Rightarrow> in_memory_signer signer_result" where
  "in_memory_from_seed_phrase env account_id phrase =
     run_bind (from_seed_phrase env phrase) (\<lambda>r.
       try_run (Done (map_err Err_Signing r)) (\<lambda>secret. in_memory_from_secret_key (he_crypto env) account_id secret))"

definition in_memory_key :: "crypto_ops \<Rightarrow> in_memory_signer \<Rightarrow> signing_key run" where
  "in_memory_key cr s = signing_key_new cr (ims_secret_key s)"

section \<open>Signers from the environment, a file and the key ring\<close>

record env_signer =
  es_inner :: in_memory_signer

definition env_signer_from_env_vars ::
  "crypto_ops \<Rightarrow> serde_ops \<Rightarrow> (string \<Rightarrow> string option) \<Rightarrow> string \<Rightarrow> string \<Rightarrow> env_signer signer_result" where
  "env_signer_from_env_vars cr sd var account_var key_var =
     (let unset = (\<lambda>v. Err_Config (''Environment variable '' @ v @ '' not set'')) in
      try_run (Done (ok_or (unset account_var) (var account_var))) (\<lambda>account_id.
      try_run (Done (ok_or (unset key_var) (var key_var))) (\<lambda>private_key.
      try_run (in_memory_new cr (parse_account sd account_id) private_key) (\<lambda>inner. Done (Inr \<lparr>es_inner = inner\<rparr>)))))"

definition env_signer_new ::
  "crypto_ops \<Rightarrow> serde_ops \<Rightarrow> (string \<Rightarrow> string option) \<Rightarrow> env_signer signer_result" where
  "env_signer_new cr sd var = env_signer_from_env_vars cr sd var ''NEAR_ACCOUNT_ID'' ''NEAR_PRIVATE_KEY''"

record file_signer =
  fs_inner :: in_memory_signer

text \<open>\<open>read\<close> is \<open>std::fs::read_to_string\<close>, \<open>de_cred\<close> the private key of a credential file.\<close>

definition file_signer_from_file ::
  "crypto_ops \<Rightarrow> (string \<Rightarrow> string + string) \<Rightarrow> (string \<Rightarrow> string + string) \<Rightarrow> string \<Rightarrow> string + account_id
     \<Rightarrow> file_signer signer_result" where
  "file_signer_from_file cr read de_cred path account_id =
     try_run (Done (map_err (\<lambda>e. Err_Config (''Failed to read credentials file '' @ path @ '': '' @ e)) (read path))) (\<lambda>content.
     try_run (Done (map_err (\<lambda>e. Err_Config (''Failed to parse credentials file '' @ path @ '': '' @ e)) (de_cred content))) (\<lambda>private_key.
     try_run (in_memory_new cr account_id private_key) (\<lambda>inner. Done (Inr \<lparr>fs_inner = inner\<rparr>))))"

text \<open>\<open>Path::join\<close>: an absolute path replaces the base.\<close>

definition path_join :: "string \<Rightarrow> string \<Rightarrow> string" where
  "path_join base p =
     (if p \<noteq> [] \<and> hd p = CHR ''/'' then p
      else if base = [] \<or> last base = CHR ''/'' then base @ p else base @ ''/'' @ p)"

definition file_signer_new ::
  "crypto_ops \<Rightarrow> (string \<Rightarrow> string + string) \<Rightarrow> (string \<Rightarrow> string + string) \<Rightarrow> string option \<Rightarrow> string
     \<Rightarrow> string + account_id \<Rightarrow> file_signer signer_result" where
  "file_signer_new cr read de_cred home_dir network account_id =
     try_run (Done (map_err Err_ParseAccountId account_id)) (\<lambda>a.
     try_run (Done (ok_or (Err_Config ''Could not determine home directory'') home_dir)) (\<lambda>home.
       file_signer_from_file cr read de_cred
         (path_join (path_join (path_join home ''.near-credentials'') network) (a @ ''.json'')) (Inr a)))"

datatype keyring_error = NoEntry | KeyringError string

definition parse_keyring_credential ::
  "crypto_ops \<Rightarrow> (string \<Rightarrow> string + json) \<Rightarrow> string \<Rightarrow> account_id \<Rightarrow> near_error + secret_key" where
  "parse_keyring_credential cr from_json json_str account_id =
     rbind (map_err (\<lambda>e. Err_KeyStore (KeyStore_InvalidFormat
              (''Invalid JSON in keyring credential for '' @ account_id @ '': '' @ e))) (from_json json_str)) (\<lambda>v.
     rbind (ok_or (Err_KeyStore (KeyStore_InvalidFormat
              (''Missing 'private_key' field in keyring credential for '' @ account_id)))
            (Option.bind (json_get ''private_key'' v) json_as_str)) (\<lambda>private_key.
       map_err (\<lambda>e. Err_KeyStore (KeyStore_InvalidKey e)) (secret_key_from_str cr private_key)))"

text \<open>\<open>entry\<close> is \<open>keyring::Entry::new\<close> followed by \<open>get_password\<close>.\<close>

definition keyring_signer_new ::
  "crypto_ops \<Rightarrow> (string \<Rightarrow> string + json) \<Rightarrow> (string \<Rightarrow> string \<Rightarrow> string + (keyring_error + string)) \<Rightarrow> string
     \<Rightarrow> string + account_id \<Rightarrow> string \<Rightarrow> in_memory_signer signer_result" where
  "keyring_signer_new cr from_json entry network account_id public_key_str =
     try_run (Done (map_err Err_ParseAccountId account_id)) (\<lambda>a.
     try_run (Done (map_err Err_ParseKey (public_key_from_str cr public_key_str))) (\<lambda>pk.
     try_run (Done (map_err (\<lambda>e. Err_KeyStore (KeyStore_Platform (''Failed to access keyring: '' @ e @
         ''. On Linux, ensure a Secret Service daemon (gnome-keyring, kwallet) is running.'')))
         (entry (''near-'' @ network @ ''-'' @ a) (a @ '':'' @ public_key_str)))) (\<lambda>found.
     try_run (Done (map_err (\<lambda>e. Err_KeyStore (case e of NoEntry \<Rightarrow> KeyStore_KeyNotFound a
         | KeyringError t \<Rightarrow> KeyStore_Platform (''Failed to read from keyring: '' @ t))) found)) (\<lambda>password.
     try_run (Done (parse_keyring_credential cr from_json password a)) (\<lambda>secret.
     try_run (in_memory_from_secret_key cr (Inr a) secret) (\<lambda>inner.
       if ims_public_key inner \<noteq> pk then
         Done (Inl (Err_KeyStore (KeyStore_InvalidFormat (''Public key mismatch: stored key has '' @
           public_key_display cr (ims_public_key inner) @ '', but requested '' @ public_key_display cr pk))))
       else Done (Inr inner)))))))"

section \<open>Rotating keys\<close>

record rotating_signer =
  rs_account_id :: account_id
  rs_keys :: "secret_key list"
  rs_counter :: u64

definition rotating_new :: "string + account_id \<Rightarrow> secret_key list \<Rightarrow> near_error + rotating_signer" where
  "rotating_new account_id keys =
     (if keys = [] then Inl (Err_Config ''RotatingSigner requires at least one key'')
      else rbind (map_err Err_ParseAccountId account_id) (\<lambda>a.
        Inr \<lparr>rs_account_id = a, rs_keys = keys, rs_counter = 0\<rparr>))"

fun same_account :: "account_id \<Rightarrow> in_memory_signer list \<Rightarrow> near_error + unit" where
  "same_account a [] = Inr ()"
| "same_account a (s # ss) =
     (if ims_account_id s \<noteq> a then
        Inl (Err_Config (''All signers must share the same account ID, got '' @ a @ '' and '' @ ims_account_id s))
      else same_account a ss)"

fun rotating_from_signers :: "in_memory_signer list \<Rightarrow> near_error + rotating_signer" where
  "rotating_from_signers [] = Inl (Err_Config ''RotatingSigner requires at least one signer'')"
| "rotating_from_signers (s # ss) =
     rbind (same_account (ims_account_id s) ss) (\<lambda>_.
       Inr \<lparr>rs_account_id = ims_account_id s, rs_keys = map ims_secret_key (s # ss), rs_counter = 0\<rparr>)"

fun parse_keys :: "crypto_ops \<Rightarrow> string list \<Rightarrow> parse_key_error + secret_key list" where
  "parse_keys cr [] = Inr []"
| "parse_keys cr (k # ks) = rbind (secret_key_from_str cr k) (\<lambda>x. rbind (parse_keys cr ks) (\<lambda>xs. Inr (x # xs)))"

definition rotating_from_key_strings ::
  "crypto_ops \<Rightarrow> string + account_id \<Rightarrow> string list \<Rightarrow> near_error + rotating_signer" where
  "rotating_from_key_strings cr account_id keys =
     rbind (map_err Err_ParseKey (parse_keys cr keys)) (\<lambda>ks. rotating_new account_id ks)"

definition key_count :: "rotating_signer \<Rightarrow> nat" where
  "key_count s = length (rs_keys s)"

fun run_map :: "('a \<Rightarrow> 'b run) \<Rightarrow> 'a list \<Rightarrow> 'b list run" where
  "run_map f [] = Done []"
| "run_map f (x # xs) = run_bind (f x) (\<lambda>y. run_bind (run_map f xs) (\<lambda>ys. Done (y # ys)))"

definition public_keys :: "crypto_ops \<Rightarrow> rotating_signer \<Rightarrow> public_key list run" where
  "public_keys cr s = run_map (secret_public_key cr) (rs_keys s)"

definition signing_keys :: "crypto_ops \<Rightarrow> rotating_signer \<Rightarrow> signing_key list run" where
  "signing_keys cr s = run_map (signing_key_new cr) (rs_keys s)"

definition into_per_key_signers :: "crypto_ops \<Rightarrow> rotating_signer \<Rightarrow> in_memory_signer list run" where
  "into_per_key_signers cr s =
     run_map (\<lambda>sk. run_bind (in_memory_from_secret_key cr (Inr (rs_account_id s)) sk) (\<lambda>r. expect (ok_opt r))) (rs_keys s)"

text \<open>\<open>counter.fetch_add(1)\<close> wraps; the remainder by the number of keys panics without keys.\<close>

definition rotating_index :: "rotating_signer \<Rightarrow> nat run" where
  "rotating_index s = (if rs_keys s = [] then Panic else Done (unat (rs_counter s) mod length (rs_keys s)))"

definition rotating_key :: "crypto_ops \<Rightarrow> rotating_signer \<Rightarrow> (signing_key \<times> rotating_signer) run" where
  "rotating_key cr s =
     run_bind (rotating_index s) (\<lambda>i.
     run_bind (signing_key_new cr (rs_keys s ! i)) (\<lambda>k. Done (k, s\<lparr>rs_counter := rs_counter s + 1\<rparr>)))"

definition rotating_public_key :: "crypto_ops \<Rightarrow> rotating_signer \<Rightarrow> public_key run" where
  "rotating_public_key cr s = run_bind (rotating_index s) (\<lambda>i. secret_public_key cr (rs_keys s ! i))"

section \<open>Messages signed by a client\<close>

text \<open>\<open>Near::sign_message\<close>, for a client with a signer of any kind or without one; a rotating signer
  advances.\<close>

definition near_sign_message ::
  "borsh_ops \<Rightarrow> crypto_ops \<Rightarrow> ('s \<Rightarrow> account_id) \<Rightarrow> ('s \<Rightarrow> (signing_key \<times> 's) run) \<Rightarrow> 's option \<Rightarrow> sign_message_params
     \<Rightarrow> ((near_error + signed_message) \<times> 's option) run" where
  "near_sign_message bo cr acct key client_signer params =
     (case client_signer of
        None \<Rightarrow> Done (Inl Err_NoSigner, None)
      | Some s \<Rightarrow> run_bind (key s) (\<lambda>(k, s').
          run_bind (sign_nep413 bo cr k (acct s) params) (\<lambda>r. Done (map_err Err_Signing r, Some s'))))"

section \<open>The contract of a signer\<close>

definition signing_key_ok :: "crypto_ops \<Rightarrow> signing_key \<Rightarrow> bool" where
  "signing_key_ok cr k \<longleftrightarrow> (case sk_backend k of SecretKeyBackend secret \<Rightarrow>
     secret_key_ok cr secret \<and> secret_public_key cr secret = Done (sk_public_key k))"

fun claims :: "('s \<Rightarrow> (signing_key \<times> 's) run) \<Rightarrow> nat \<Rightarrow> 's \<Rightarrow> (signing_key list \<times> 's) run" where
  "claims key 0 s = Done ([], s)"
| "claims key (Suc n) s = run_bind (key s) (\<lambda>(k, s1). run_bind (claims key n s1) (\<lambda>(ks, s2). Done (k # ks, s2)))"

locale signer =
  fixes cr :: crypto_ops
    and acct :: "'s \<Rightarrow> account_id"
    and key :: "'s \<Rightarrow> (signing_key \<times> 's) run"
    and pub :: "'s \<Rightarrow> public_key run"
    and inv :: "'s \<Rightarrow> bool"
  assumes laws: "signature_laws cr"
    and key_law: "inv s \<Longrightarrow> \<exists>k s'. key s = Done (k, s') \<and> signing_key_ok cr k \<and> inv s' \<and> acct s' = acct s \<and>
      pub s = Done (sk_public_key k)"
begin

lemma claims_ok:
  "inv s \<Longrightarrow> \<exists>ks s'. claims key n s = Done (ks, s') \<and> length ks = n \<and> list_all (signing_key_ok cr) ks \<and>
     inv s' \<and> acct s' = acct s"
proof (induction n arbitrary: s)
  case (Suc n)
  obtain k s1 where k: "key s = Done (k, s1)" "signing_key_ok cr k" "inv s1" "acct s1 = acct s"
    using key_law [OF Suc.prems] by blast
  obtain ks s2 where "claims key n s1 = Done (ks, s2)" "length ks = n" "list_all (signing_key_ok cr) ks" "inv s2"
    "acct s2 = acct s1"
    using Suc.IH [OF k(3)] by blast
  then show ?case using k by simp
qed simp

lemma key_signs:
  assumes "signing_key_ok cr k"
  shows "\<exists>sig. signing_key_sign cr k m = Done (Inr sig) \<and> signature_verify cr sig m (sk_public_key k)"
proof -
  obtain secret where "sk_backend k = SecretKeyBackend secret" by (cases "sk_backend k")
  then show ?thesis
    using assms signing_verifies [OF laws, of secret m] by (auto simp: signing_key_ok_def signing_key_sign_def)
qed

lemma sign_message_verifies:
  assumes "inv s" and "message_bytes bo params = Some b"
  shows "\<exists>sm s'. near_sign_message bo cr acct key (Some s) params = Done (Inr sm, Some s') \<and> inv s' \<and> acct s' = acct s \<and>
    sm_account_id sm = acct s \<and> pub s = Done (sm_public_key sm) \<and> sm_state sm = smp_state params \<and>
    (\<forall>now nv. verify_signature bo cr now sm params nv = Done (\<not> nonce_expired nv (smp_nonce params) now))"
proof -
  obtain k s1 where k: "key s = Done (k, s1)" "signing_key_ok cr k" "pub s = Done (sk_public_key k)" "inv s1" "acct s1 = acct s"
    using key_law [OF assms(1)] by blast
  obtain sig where "signing_key_sign cr k (crypto_hash_hash cr b) = Done (Inr sig)"
    "signature_verify cr sig (crypto_hash_hash cr b) (sk_public_key k)"
    using key_signs [OF k(2)] by blast
  then show ?thesis
    using k(1,3-5) assms(2)
    by (simp add: near_sign_message_def sign_nep413_def serialize_message_def verify_signature_def)
qed

end

definition in_memory_ok :: "crypto_ops \<Rightarrow> in_memory_signer \<Rightarrow> bool" where
  "in_memory_ok cr s \<longleftrightarrow> secret_key_ok cr (ims_secret_key s) \<and> secret_public_key cr (ims_secret_key s) = Done (ims_public_key s)"

definition rotating_ok :: "crypto_ops \<Rightarrow> rotating_signer \<Rightarrow> bool" where
  "rotating_ok cr s \<longleftrightarrow> rs_keys s \<noteq> [] \<and> list_all (secret_key_ok cr) (rs_keys s)"

lemma signing_key_new_ok:
  assumes "signature_laws cr" "secret_key_ok cr secret"
  shows "\<exists>k. signing_key_new cr secret = Done k \<and> signing_key_ok cr k \<and> sk_backend k = SecretKeyBackend secret \<and>
    secret_public_key cr secret = Done (sk_public_key k)"
proof -
  obtain pk where "secret_public_key cr secret = Done pk" using signing_verifies [OF assms, of "[]"] by blast
  then show ?thesis using assms(2) by (simp add: signing_key_new_def signing_key_ok_def)
qed

lemma in_memory_signer_law:
  assumes "signature_laws cr"
  shows "signer cr ims_account_id (\<lambda>s. run_bind (in_memory_key cr s) (\<lambda>k. Done (k, s)))
    (\<lambda>s. run_bind (in_memory_key cr s) (\<lambda>k. Done (sk_public_key k))) (in_memory_ok cr)"
  using signing_key_new_ok [OF assms] assms by unfold_locales (fastforce simp: in_memory_ok_def in_memory_key_def)+

lemma rotating_key_ok:
  assumes "signature_laws cr" "rotating_ok cr s"
  shows "\<exists>k. rotating_key cr s = Done (k, s\<lparr>rs_counter := rs_counter s + 1\<rparr>) \<and> signing_key_ok cr k \<and>
    sk_backend k = SecretKeyBackend (rs_keys s ! (unat (rs_counter s) mod length (rs_keys s))) \<and>
    rotating_public_key cr s = Done (sk_public_key k)"
proof -
  let ?i = "unat (rs_counter s) mod length (rs_keys s)"
  have ne: "rs_keys s \<noteq> []" and "secret_key_ok cr (rs_keys s ! ?i)"
    using assms(2) by (auto simp: rotating_ok_def list_all_length)
  then obtain k where "signing_key_new cr (rs_keys s ! ?i) = Done k" "signing_key_ok cr k"
    "sk_backend k = SecretKeyBackend (rs_keys s ! ?i)" "secret_public_key cr (rs_keys s ! ?i) = Done (sk_public_key k)"
    using signing_key_new_ok [OF assms(1)] by blast
  then show ?thesis using ne by (simp add: rotating_key_def rotating_public_key_def rotating_index_def)
qed

lemma rotating_signer_law:
  assumes "signature_laws cr"
  shows "signer cr rs_account_id (rotating_key cr) (rotating_public_key cr) (rotating_ok cr)"
proof
  fix s assume "rotating_ok cr s"
  then show "\<exists>k s'. rotating_key cr s = Done (k, s') \<and> signing_key_ok cr k \<and> rotating_ok cr s' \<and>
      rs_account_id s' = rs_account_id s \<and> rotating_public_key cr s = Done (sk_public_key k)"
    using rotating_key_ok [OF assms] by (fastforce simp: rotating_ok_def)
qed (rule assms)

interpretation ref_in_memory: signer crypto_ref ims_account_id "\<lambda>s. run_bind (in_memory_key crypto_ref s) (\<lambda>k. Done (k, s))"
    "\<lambda>s. run_bind (in_memory_key crypto_ref s) (\<lambda>k. Done (sk_public_key k))" "in_memory_ok crypto_ref"
  by (rule in_memory_signer_law [OF signature_laws_ref])

interpretation ref_rotating: signer crypto_ref rs_account_id "rotating_key crypto_ref" "rotating_public_key crypto_ref"
    "rotating_ok crypto_ref"
  by (rule rotating_signer_law [OF signature_laws_ref])

section \<open>Properties\<close>

lemma rotating_claims:
  assumes "signature_laws cr" "rotating_ok cr s"
  shows "\<exists>ks. claims (rotating_key cr) n s = Done (ks, s\<lparr>rs_counter := rs_counter s + of_nat n\<rparr>) \<and>
    map sk_backend ks = map (\<lambda>i. SecretKeyBackend (rs_keys s ! (unat (rs_counter s + of_nat i) mod length (rs_keys s)))) [0..<n]"
  using assms(2)
proof (induction n arbitrary: s)
  case (Suc n)
  let ?t = "s\<lparr>rs_counter := rs_counter s + 1\<rparr>"
  let ?b = "\<lambda>s i. SecretKeyBackend (rs_keys s ! (unat (rs_counter s + of_nat i) mod length (rs_keys s)))"
  obtain k where k: "rotating_key cr s = Done (k, ?t)" "sk_backend k = ?b s 0"
    using rotating_key_ok [OF assms(1) Suc.prems] by auto
  have "rotating_ok cr ?t" using Suc.prems by (simp add: rotating_ok_def)
  from Suc.IH [OF this] obtain ks where ks: "claims (rotating_key cr) n ?t = Done (ks, ?t\<lparr>rs_counter := rs_counter ?t + of_nat n\<rparr>)"
    "map sk_backend ks = map (?b ?t) [0..<n]" by blast
  have "map (?b s) [0..<Suc n] = ?b s 0 # map (?b ?t) [0..<n]"
    by (simp add: upt_conv_Cons map_Suc_upt [symmetric] comp_def algebra_simps del: upt_Suc)
  then show ?case using k ks by (simp add: algebra_simps del: upt_Suc)
qed simp

lemma mod_window:
  assumes "0 < (l :: nat)"
  shows "mset (map (\<lambda>i. (c + i) mod l) [0..<l]) = mset [0..<l]"
proof -
  have inj: "inj_on (\<lambda>i. (c + i) mod l) {0..<l}"
  proof (rule inj_onI)
    fix i j assume ij: "i \<in> {0..<l}" "j \<in> {0..<l}" and e: "(c + i) mod l = (c + j) mod l"
    have "int (c + i) mod int l = int (c + j) mod int l" using arg_cong [OF e, of int] by (simp only: zmod_int)
    then have "int l dvd int i - int j" by (simp add: mod_eq_dvd_iff)
    then have "i \<noteq> j \<Longrightarrow> int l \<le> \<bar>int i - int j\<bar>" using dvd_imp_le_int [of "int i - int j" "int l"] by auto
    then show "i = j" using ij by (cases "i = j") auto
  qed
  moreover have "(\<lambda>i. (c + i) mod l) ` {0..<l} = {0..<l}"
    using assms inj by (intro endo_inj_surj) auto
  ultimately show ?thesis
    by (subst set_eq_iff_mset_eq_distinct [symmetric]) (simp_all add: distinct_map)
qed

lemma fair_window:
  assumes "0 < length (rs_keys s)" "unat (rs_counter s) + length (rs_keys s) \<le> 2 ^ 64"
  shows "mset (map (\<lambda>i. rs_keys s ! (unat (rs_counter s + of_nat i) mod length (rs_keys s))) [0..<length (rs_keys s)]) =
    mset (rs_keys s)"
proof -
  let ?l = "length (rs_keys s)"
  have "unat (rs_counter s + of_nat i) = unat (rs_counter s) + i" if "i < ?l" for i
  proof -
    have "unat (of_nat i :: u64) = i" using that assms(2) by (intro unat_of_nat_small) simp
    then show ?thesis using that assms(2) by (subst unat_add_nowrap) simp_all
  qed
  then have "map (\<lambda>i. rs_keys s ! (unat (rs_counter s + of_nat i) mod ?l)) [0..<?l] =
      map ((!) (rs_keys s)) (map (\<lambda>i. (unat (rs_counter s) + i) mod ?l) [0..<?l])" by simp
  also have "mset \<dots> = image_mset ((!) (rs_keys s)) (mset [0..<?l])"
    by (simp only: mset_map [of "(!) (rs_keys s)"] mod_window [OF assms(1)])
  also have "\<dots> = mset (map ((!) (rs_keys s)) [0..<?l])" by simp
  finally show ?thesis by (simp add: map_nth)
qed

lemma rotating_new_ok:
  "rotating_new a ks = Inr s \<Longrightarrow> list_all (secret_key_ok cr) ks \<Longrightarrow> rotating_ok cr s \<and> rs_counter s = 0 \<and> rs_keys s = ks"
  by (auto simp: rotating_new_def rotating_ok_def split: if_splits)

text \<open>C23: Every rotating signer that its constructor accepts has a key, and claiming keys keeps it so:
  \<open>key\<close> never panics. The claims are round robin - the claim after \<open>i\<close> others uses the key at
  position (counter + i) modulo the number of keys, with the counter wrapping at its width - each
  claimed key signs with the secret that belongs to its public key, \<open>public_key\<close> announces the
  key that the next claim uses, and as many claims as there are keys use each key once unless the
  counter wraps between them.\<close>

theorem rotating_signer_round_robin:
  assumes "signature_laws cr" and "rotating_new a ks = Inr s0" and "list_all (secret_key_ok cr) ks"
    and "claims (rotating_key cr) m s0 = Done (earlier, s)"
  shows "rotating_ok cr s \<and> rs_keys s = ks \<and> rs_account_id s = rs_account_id s0 \<and> rs_counter s = of_nat m \<and>
    (\<exists>now t. claims (rotating_key cr) n s = Done (now, t) \<and> rotating_ok cr t \<and> list_all (signing_key_ok cr) now \<and>
       map sk_backend now = map (\<lambda>i. SecretKeyBackend (ks ! (unat (of_nat m + of_nat i :: u64) mod length ks))) [0..<n] \<and>
       (n = length ks \<and> unat (of_nat m :: u64) + n \<le> 2 ^ 64 \<longrightarrow> mset (map sk_backend now) = mset (map SecretKeyBackend ks))) \<and>
    (\<exists>k t. rotating_key cr s = Done (k, t) \<and> rotating_public_key cr s = Done (sk_public_key k))"
proof -
  have sg: "signer cr rs_account_id (rotating_key cr) (rotating_public_key cr) (rotating_ok cr)"
    by (rule rotating_signer_law [OF assms(1)])
  have s0: "rotating_ok cr s0" "rs_counter s0 = 0" "rs_keys s0 = ks" using rotating_new_ok [OF assms(2,3)] by simp_all
  obtain es where "claims (rotating_key cr) m s0 = Done (es, s0\<lparr>rs_counter := rs_counter s0 + of_nat m\<rparr>)"
    using rotating_claims [OF assms(1) s0(1)] by blast
  then have s: "s = s0\<lparr>rs_counter := of_nat m\<rparr>" using assms(4) s0(2) by simp
  then have ok: "rotating_ok cr s" and ks: "rs_keys s = ks" "rs_counter s = of_nat m" using s0 by (simp_all add: rotating_ok_def)
  obtain now where now: "claims (rotating_key cr) n s = Done (now, s\<lparr>rs_counter := rs_counter s + of_nat n\<rparr>)"
    "map sk_backend now = map (\<lambda>i. SecretKeyBackend (rs_keys s ! (unat (rs_counter s + of_nat i) mod length (rs_keys s)))) [0..<n]"
    using rotating_claims [OF assms(1) ok] by blast
  have t: "rotating_ok cr (s\<lparr>rs_counter := rs_counter s + of_nat n\<rparr>)" "list_all (signing_key_ok cr) now"
    using signer.claims_ok [OF sg ok, of n] now(1) by auto
  have fair: "mset (map sk_backend now) = mset (map SecretKeyBackend ks)"
    if "n = length ks" "unat (of_nat m :: u64) + n \<le> 2 ^ 64"
  proof -
    have "mset (map sk_backend now) = image_mset SecretKeyBackend
        (mset (map (\<lambda>i. rs_keys s ! (unat (rs_counter s + of_nat i) mod length (rs_keys s))) [0..<n]))"
      using now(2) by (simp only: mset_map [symmetric] map_map comp_def)
    also have "\<dots> = image_mset SecretKeyBackend (mset ks)"
      using fair_window [of s] that ks ok by (simp add: rotating_ok_def)
    finally show ?thesis by simp
  qed
  have peek: "\<exists>k t. rotating_key cr s = Done (k, t) \<and> rotating_public_key cr s = Done (sk_public_key k)"
    using rotating_key_ok [OF assms(1) ok] by blast
  have b: "map sk_backend now = map (\<lambda>i. SecretKeyBackend (ks ! (unat (of_nat m + of_nat i :: u64) mod length ks))) [0..<n]"
    using now(2) by (simp only: ks)
  have "rs_account_id s = rs_account_id s0" using s by simp
  then show ?thesis using ok ks now(1) t b fair peek by blast
qed

theorem rotating_signer_round_robin_witness:
  "\<exists>now t. claims (rotating_key crypto_ref) 3
       \<lparr>rs_account_id = ''bot.near'', rs_keys = map (\<lambda>i. SecretKey_Ed25519 (replicate 32 i)) [1, 2], rs_counter = 0\<rparr> = Done (now, t) \<and>
     map sk_backend now = map (\<lambda>i. SecretKeyBackend (SecretKey_Ed25519 (replicate 32 i))) [1, 2, 1]"
proof -
  let ?ks = "map (\<lambda>i. SecretKey_Ed25519 (replicate 32 i)) [1, 2]"
  let ?s = "\<lparr>rs_account_id = ''bot.near'', rs_keys = ?ks, rs_counter = 0\<rparr>"
  have "rotating_new (Inr ''bot.near'') ?ks = Inr ?s" by (simp add: rotating_new_def)
  moreover have "list_all (secret_key_ok crypto_ref) ?ks" by simp
  moreover have "(2 :: nat) mod Suc (Suc 0) = 0" by presburger
  ultimately show ?thesis
    using rotating_signer_round_robin [OF signature_laws_ref, of "Inr ''bot.near''" ?ks ?s 0 "[]" ?s 3]
    by (auto simp: upt_rec)
qed

lemma unat_as_millis: "unat (as_millis d) = unat (dur_secs d) * 1000 + unat (dur_nanos d) div 1000000"
proof -
  have s: "unat (dur_secs d) < 2 ^ 64" and n: "unat (dur_nanos d) < 2 ^ 32"
    using unat_lt_size [of "dur_secs d"] unat_lt_size [of "dur_nanos d"] by simp_all
  then have u: "unat (ucast (dur_secs d) :: u128) = unat (dur_secs d)"
    "unat (ucast (dur_nanos d div 1000000) :: u128) = unat (dur_nanos d) div 1000000"
    by (simp_all add: unsigned_ucast_eq take_bit_nat_eq_self unat_div)
  have m: "unat (ucast (dur_secs d) * 1000 :: u128) = unat (dur_secs d) * 1000"
    using u(1) s by (subst unat_mul_nowrap) simp_all
  show ?thesis using u m s n unfolding as_millis_def by (subst unat_add_nowrap) simp_all
qed

lemma nonce_expired_generated:
  "nonce_expired (NvTimestamp d) (generate_nonce t r) now \<longleftrightarrow>
     now < t \<or> unat (dur_secs d) * 1000 + unat (dur_nanos d) div 1000000 < unat now - unat t"
proof -
  have "extract_timestamp_from_nonce (generate_nonce t r) = t"
    by (simp add: extract_timestamp_from_nonce_def generate_nonce_def from_be_bytes_to_be_bytes)
  moreover have "unat (ucast (saturating_sub now t) :: u128) = unat now - unat t"
    using unat_lt_size [of "saturating_sub now t"]
    by (simp add: unsigned_ucast_eq take_bit_nat_eq_self saturating_sub_unat)
  ultimately show ?thesis
    by (auto simp: nonce_expired_def Let_def word_less_nat_alt unat_as_millis)
qed

text \<open>C22: A message that a client signs with a nonce generated at time \<open>t\<close> verifies for the account
  and the announced public key exactly while its age is within the limit: never before \<open>t\<close> (a
  nonce from the future), at every moment up to the limit, never after it; without interpretation
  of the nonce it always verifies. What the payload of an HTTP request carries is enough to
  verify, and a client without a signer refuses to sign.\<close>

theorem signed_message_lifetime:
  assumes "signature_laws cr" "rotating_ok cr s" "message_bytes bo params = Some b"
    and "smp_nonce params = generate_nonce t random"
  shows "\<exists>sm s'. near_sign_message bo cr rs_account_id (rotating_key cr) (Some s) params = Done (Inr sm, Some s') \<and>
    rotating_ok cr s' \<and> sm_account_id sm = rs_account_id s \<and> rotating_public_key cr s = Done (sm_public_key sm) \<and>
    (\<forall>now max_age. verify_signature bo cr now (ap_signed_message (from_signed sm params)) (to_params (from_signed sm params))
        (NvTimestamp max_age) =
      Done (t \<le> now \<and> unat now - unat t \<le> unat (dur_secs max_age) * 1000 + unat (dur_nanos max_age) div 1000000) \<and>
      verify_signature bo cr now sm params NvNone = Done True) \<and>
    near_sign_message bo cr rs_account_id (rotating_key cr) None params = Done (Inl Err_NoSigner, None)"
proof -
  obtain sm s' where sm: "near_sign_message bo cr rs_account_id (rotating_key cr) (Some s) params = Done (Inr sm, Some s')"
    "sm_account_id sm = rs_account_id s" "rotating_public_key cr s = Done (sm_public_key sm)" "sm_state sm = smp_state params"
    "rotating_ok cr s'"
    and v: "\<And>now nv. verify_signature bo cr now sm params nv = Done (\<not> nonce_expired nv (smp_nonce params) now)"
    using signer.sign_message_verifies [OF rotating_signer_law [OF assms(1)] assms(2,3)] by blast
  have p: "to_params (from_signed sm params) = params" "ap_signed_message (from_signed sm params) = sm"
    using sm(4) by (simp_all add: to_params_def from_signed_def)
  have "verify_signature bo cr now sm params NvNone = Done True" for now using v by (simp add: nonce_expired_def)
  moreover have "verify_signature bo cr now sm params (NvTimestamp d) =
      Done (t \<le> now \<and> unat now - unat t \<le> unat (dur_secs d) * 1000 + unat (dur_nanos d) div 1000000)" for now d
    using v [of now "NvTimestamp d"] by (simp add: assms(4) nonce_expired_generated not_less)
  ultimately show ?thesis using sm(1-3,5) by (intro exI [of _ sm] exI [of _ s']) (simp add: p near_sign_message_def)
qed

theorem signed_message_lifetime_witness:
  "\<exists>sm s'. near_sign_message borsh_le crypto_ref rs_account_id (rotating_key crypto_ref)
       (Some \<lparr>rs_account_id = ''bot.near'', rs_keys = [SecretKey_Ed25519 (replicate 32 1)], rs_counter = 0\<rparr>) sample_params = Done (Inr sm, Some s') \<and>
     verify_signature borsh_le crypto_ref 1700000300000 sm sample_params nonce_validation_default = Done True \<and>
     verify_signature borsh_le crypto_ref 1700000300001 sm sample_params nonce_validation_default = Done False"
proof -
  let ?s = "\<lparr>rs_account_id = ''bot.near'', rs_keys = [SecretKey_Ed25519 (replicate 32 1)], rs_counter = 0\<rparr>"
  obtain b where b: "message_bytes borsh_le sample_params = Some b" using sample_message_bytes by blast
  have "rotating_ok crypto_ref ?s" by (simp add: rotating_ok_def)
  moreover have "smp_nonce sample_params = generate_nonce 1700000000000 (replicate 24 7)" by (simp add: sample_params_def)
  ultimately obtain sm s' where sm: "near_sign_message borsh_le crypto_ref rs_account_id (rotating_key crypto_ref) (Some ?s) sample_params =
      Done (Inr sm, Some s')"
    and v: "\<And>now max_age. verify_signature borsh_le crypto_ref now (ap_signed_message (from_signed sm sample_params))
        (to_params (from_signed sm sample_params)) (NvTimestamp max_age) =
      Done (1700000000000 \<le> now \<and> unat now - unat (1700000000000 :: u64) \<le>
        unat (dur_secs max_age) * 1000 + unat (dur_nanos max_age) div 1000000)"
    using signed_message_lifetime [OF signature_laws_ref _ b, of ?s "1700000000000" "replicate 24 7"] by blast
  have "sm_state sm = smp_state sample_params"
    using sm by (auto simp: near_sign_message_def sign_nep413_def elim!: try_run.elims)
  then have "to_params (from_signed sm sample_params) = sample_params" "ap_signed_message (from_signed sm sample_params) = sm"
    by (simp_all add: to_params_def from_signed_def)
  then show ?thesis
    using sm v [of 1700000300000 "from_secs 300"] v [of 1700000300001 "from_secs 300"]
    by (simp add: nonce_validation_default_def DEFAULT_MAX_AGE_def from_secs_def)
qed

end
