(* ===== verification/Nonces.thy ===== *)
theory Nonces
  imports Keys
begin

text \<open>
  The nonce manager (\<open>client/nonce_manager.rs\<close>). The mutex makes every call of \<open>next\<close>
  atomic, so concurrent use is a sequence of calls in the order in which they take the
  lock. A panic while the lock is held poisons the mutex, after which every later call
  panics in \<open>lock().unwrap()\<close>; the state therefore carries the poison flag, and \<open>next\<close>
  returns the new state together with a result that may be a panic.

  The locale \<open>nonce_source\<close> is the contract that the transaction builder relies on: a
  fresh nonce exceeds both the chain's nonce and everything handed out before for the
  same key, and other keys are unaffected.
\<close>

section \<open>The model\<close>

type_synonym network = string
type_synonym nonce_key = "network \<times> account_id \<times> public_key"

record nonce_manager =
  nonces :: "nonce_key \<Rightarrow> u64 option"
  poisoned :: bool

definition nonce_manager_new :: nonce_manager where
  "nonce_manager_new = \<lparr>nonces = (\<lambda>_. None), poisoned = False\<rparr>"

definition nonce_manager_next ::
  "bool \<Rightarrow> nonce_manager \<Rightarrow> nonce_key \<Rightarrow> u64 \<Rightarrow> nonce_manager \<times> u64 run" where
  "nonce_manager_next oc nm k blockchain_nonce =
     (if poisoned nm then (nm, Panic)
      else
        let n = (case nonces nm k of Some c \<Rightarrow> max c blockchain_nonce | None \<Rightarrow> blockchain_nonce)
        in case arith_add oc n 1 of
             Panic \<Rightarrow> (nm\<lparr>nonces := (nonces nm)(k \<mapsto> n), poisoned := True\<rparr>, Panic)
           | Done n' \<Rightarrow> (nm\<lparr>nonces := (nonces nm)(k \<mapsto> n')\<rparr>, Done n'))"

text \<open>The last nonce handed out for a key, or 0.\<close>

definition last_nonce :: "nonce_manager \<Rightarrow> nonce_key \<Rightarrow> u64" where
  "last_nonce nm k = (case nonces nm k of Some c \<Rightarrow> c | None \<Rightarrow> 0)"

text \<open>A sequence of calls, each with the key and the chain's nonce that its caller fetched.\<close>

fun issue_all :: "('s \<Rightarrow> 'k \<Rightarrow> u64 \<Rightarrow> 's \<times> u64 run) \<Rightarrow> 's \<Rightarrow> ('k \<times> u64) list \<Rightarrow> 's \<times> u64 run list" where
  "issue_all issue s [] = (s, [])"
| "issue_all issue s ((k, c) # calls) =
     (let (s', r) = issue s k c; (s'', rs) = issue_all issue s' calls in (s'', r # rs))"

section \<open>The contract\<close>

locale nonce_source =
  fixes issue :: "'s \<Rightarrow> 'k \<Rightarrow> u64 \<Rightarrow> 's \<times> u64 run"
    and handed_out :: "'s \<Rightarrow> 'k \<Rightarrow> u64"
    and live :: "'s \<Rightarrow> bool"
  assumes issue_fresh:
    "live s \<Longrightarrow> unat (max (handed_out s k) c) + 1 < 2 ^ 64 \<Longrightarrow>
     \<exists>s' n. issue s k c = (s', Done n) \<and> live s' \<and>
       unat n = unat (max (handed_out s k) c) + 1 \<and>
       (\<forall>k'. handed_out s' k' = (if k' = k then n else handed_out s k'))"
begin

text \<open>Every result of a run of calls exceeds the nonce handed out before for its key, exceeds
  the chain's nonce, and results for one key increase.\<close>

lemma issue_all_fresh:
  assumes "live s" "\<forall>k. unat (handed_out s k) \<le> B" "\<forall>(k, c)\<in>set calls. unat c \<le> B"
    and "B + length calls < 2 ^ 64"
  shows "\<exists>s' rs. issue_all issue s calls = (s', map Done rs) \<and> live s' \<and> length rs = length calls \<and>
     (\<forall>i<length calls. handed_out s (fst (calls ! i)) < rs ! i \<and> snd (calls ! i) < rs ! i) \<and>
     (\<forall>i j. i < j \<and> j < length calls \<and> fst (calls ! i) = fst (calls ! j) \<longrightarrow> rs ! i < rs ! j)"
  using assms
proof (induction calls arbitrary: s B)
  case (Cons kc calls)
  obtain k c where kc: "kc = (k, c)" by (cases kc)
  have mx: "unat (max (handed_out s k) c) \<le> B"
    using Cons.prems kc by (simp add: max_def)
  then have room: "unat (max (handed_out s k) c) + 1 < 2 ^ 64" using Cons.prems(4) by simp
  obtain s' n where s': "issue s k c = (s', Done n)" "live s'"
      "unat n = unat (max (handed_out s k) c) + 1"
      "\<And>k'. handed_out s' k' = (if k' = k then n else handed_out s k')"
    using issue_fresh[OF Cons.prems(1) room] by blast
  have gt: "handed_out s k < n" "c < n"
    using s'(3) by (auto simp: word_less_nat_alt max_def word_le_nat_alt split: if_splits)
  have "\<forall>k. unat (handed_out s' k) \<le> Suc B"
    using Cons.prems(2) s'(3,4) mx by (simp add: le_SucI)
  moreover have "\<forall>(k, c)\<in>set calls. unat c \<le> Suc B" using Cons.prems(3) by fastforce
  moreover have "Suc B + length calls < 2 ^ 64" using Cons.prems(4) by simp
  ultimately obtain s'' rs where ih: "issue_all issue s' calls = (s'', map Done rs)" "live s''"
      "length rs = length calls"
      "\<And>i. i < length calls \<Longrightarrow> handed_out s' (fst (calls ! i)) < rs ! i \<and> snd (calls ! i) < rs ! i"
      "\<And>i j. i < j \<Longrightarrow> j < length calls \<Longrightarrow> fst (calls ! i) = fst (calls ! j) \<Longrightarrow> rs ! i < rs ! j"
    using Cons.IH[OF s'(2), of "Suc B"] by metis
  have run: "issue_all issue s (kc # calls) = (s'', map Done (n # rs))"
    using s'(1) ih(1) by (simp add: kc)
  have first: "handed_out s (fst ((kc # calls) ! i)) < (n # rs) ! i \<and> snd ((kc # calls) ! i) < (n # rs) ! i"
    if "i < length (kc # calls)" for i
  proof (cases i)
    case 0
    then show ?thesis using gt kc by simp
  next
    case (Suc i')
    then have i': "handed_out s' (fst (calls ! i')) < rs ! i'" "snd (calls ! i') < rs ! i'"
      using ih(4)[of i'] that by simp_all
    have "handed_out s (fst (calls ! i')) \<le> handed_out s' (fst (calls ! i'))"
      using s'(4)[of "fst (calls ! i')"] gt(1) by (cases "fst (calls ! i') = k") simp_all
    with i' Suc show ?thesis by simp
  qed
  have later: "(n # rs) ! i < (n # rs) ! j"
    if ij: "i < j" "j < length (kc # calls)" "fst ((kc # calls) ! i) = fst ((kc # calls) ! j)" for i j
  proof -
    obtain j' where j': "j = Suc j'" using ij by (cases j) auto
    show ?thesis
    proof (cases i)
      case 0
      then have "fst (calls ! j') = k" using that(3) j' kc by simp
      then show ?thesis using ih(4)[of j'] s'(4) that(2) j' 0 by simp
    next
      case (Suc i')
      then show ?thesis using ih(5)[of i' j'] that j' by simp
    qed
  qed
  show ?case using run ih(2,3) first later by (intro exI[of _ s''] exI[of _ "n # rs"]) auto
qed simp

lemma issue_all_distinct:
  assumes "live s" "\<forall>k. unat (handed_out s k) \<le> B" "\<forall>(k, c)\<in>set calls. unat c \<le> B"
    and "B + length calls < 2 ^ 64" "\<forall>kc\<in>set calls. fst kc = k"
  shows "\<exists>s' rs. issue_all issue s calls = (s', map Done rs) \<and> sorted rs \<and> distinct rs"
proof -
  obtain s' rs where rs: "issue_all issue s calls = (s', map Done rs)" "length rs = length calls"
      "\<And>i j. i < j \<Longrightarrow> j < length calls \<Longrightarrow> fst (calls ! i) = fst (calls ! j) \<Longrightarrow> rs ! i < rs ! j"
    using issue_all_fresh[OF assms(1-4)] by blast
  have "rs ! i < rs ! j" if "i < j" "j < length rs" for i j
    using rs(2,3) that assms(5) by simp
  then have "sorted_wrt (<) rs" by (simp add: sorted_wrt_iff_nth_less)
  then show ?thesis using rs(1) strict_sorted_iff by blast
qed

end

section \<open>The nonce manager keeps the contract\<close>

lemma unat_max: "unat (max a b) = max (unat a) (unat b)" for a b :: "'a::len word"
  by (simp add: max_def word_le_nat_alt)

lemma last_nonce_max:
  "(case nonces nm k of Some c \<Rightarrow> max c b | None \<Rightarrow> b) = max (last_nonce nm k) b"
  by (simp add: last_nonce_def split: option.splits)

lemma next_not_poisoned:
  assumes "\<not> poisoned nm" "unat (max (last_nonce nm k) b) + 1 < 2 ^ 64"
  shows "nonce_manager_next oc nm k b =
     (nm\<lparr>nonces := (nonces nm)(k \<mapsto> max (last_nonce nm k) b + 1)\<rparr>, Done (max (last_nonce nm k) b + 1))"
  using assms
  by (simp add: nonce_manager_next_def last_nonce_max arith_add_def Let_def)

interpretation nonce_mgr: nonce_source "nonce_manager_next oc" last_nonce "\<lambda>nm. \<not> poisoned nm" for oc
proof
  fix nm k and c :: u64
  assume h: "\<not> poisoned nm" "unat (max (last_nonce nm k) c) + 1 < 2 ^ 64"
  have "unat (max (last_nonce nm k) c + 1) = unat (max (last_nonce nm k) c) + 1"
    using h(2) by (subst unat_add_nowrap) simp_all
  then show "\<exists>s' n. nonce_manager_next oc nm k c = (s', Done n) \<and> \<not> poisoned s' \<and>
      unat n = unat (max (last_nonce nm k) c) + 1 \<and>
      (\<forall>k'. last_nonce s' k' = (if k' = k then n else last_nonce nm k'))"
    using next_not_poisoned[OF h] h(1) by (simp add: last_nonce_def)
qed

lemma last_nonce_new [simp]: "last_nonce nonce_manager_new k = 0"
  by (simp add: last_nonce_def nonce_manager_new_def)

section \<open>Properties\<close>

text \<open>For any sequence of calls on a fresh manager, in whatever order concurrent tasks
  take the lock and however stale the chain nonces they fetched, no call panics, every
  nonce exceeds the chain nonce of its call, and the nonces handed out for one network,
  account and key are strictly increasing, so no two calls for a key share a nonce.\<close>

theorem nonces_never_collide:
  assumes "\<forall>(k, c)\<in>set calls. unat c \<le> B" "B + length calls < 2 ^ 64"
  shows "\<exists>nm rs. issue_all (nonce_manager_next oc) nonce_manager_new calls = (nm, map Done rs) \<and>
     length rs = length calls \<and>
     (\<forall>i<length calls. snd (calls ! i) < rs ! i) \<and>
     (\<forall>i j. i < j \<and> j < length calls \<and> fst (calls ! i) = fst (calls ! j) \<longrightarrow> rs ! i < rs ! j)"
proof -
  have live: "\<not> poisoned nonce_manager_new" by (simp add: nonce_manager_new_def)
  have zero: "\<forall>k. unat (last_nonce nonce_manager_new k) \<le> B" by simp
  show ?thesis using nonce_mgr.issue_all_fresh[OF live zero assms, of oc] by blast
qed

theorem nonces_never_collide_witness:
  "\<exists>nm rs. issue_all (nonce_manager_next True) nonce_manager_new
       [((''mainnet'', ''alice.near'', PublicKey_Ed25519 []), 5),
        ((''mainnet'', ''alice.near'', PublicKey_Ed25519 []), 5)] = (nm, map Done rs) \<and> rs ! 0 < rs ! 1"
proof -
  let ?calls = "[((''mainnet'', ''alice.near'', PublicKey_Ed25519 []), 5 :: u64),
        ((''mainnet'', ''alice.near'', PublicKey_Ed25519 []), 5)]"
  have "\<forall>(k, c)\<in>set ?calls. unat c \<le> 5" "5 + length ?calls < 2 ^ 64" by simp_all
  from nonces_never_collide[OF this, of True] obtain nm rs where
    "issue_all (nonce_manager_next True) nonce_manager_new ?calls = (nm, map Done rs)"
    "\<And>i j. i < j \<and> j < length ?calls \<and> fst (?calls ! i) = fst (?calls ! j) \<longrightarrow> rs ! i < rs ! j"
    by blast
  from this(1) this(2)[of 0 1] show ?thesis by auto
qed

text \<open>\<open>next\<close> returns \<open>max(cached, chain nonce) + 1\<close> and caches it for that key only; at the
  top of the range the addition overflows, and a build with overflow checks panics with
  the lock held, so that every later call panics, while one without hands out 0, which
  is not above the chain's nonce.\<close>

theorem next_behaviour:
  "(\<not> poisoned nm \<and> unat (max (last_nonce nm k) b) + 1 < 2 ^ 64 \<longrightarrow>
      (\<exists>nm'. nonce_manager_next oc nm k b = (nm', Done (max (last_nonce nm k) b + 1)) \<and>
         (\<forall>k'. nonces nm' k' = (if k' = k then Some (max (last_nonce nm k) b + 1) else nonces nm k')))) \<and>
   (\<not> poisoned nm \<and> b = - 1 \<longrightarrow>
      snd (nonce_manager_next True nm k b) = Panic \<and>
      snd (nonce_manager_next True (fst (nonce_manager_next True nm k b)) k' c) = Panic \<and>
      snd (nonce_manager_next False nm k b) = Done 0)"
proof -
  have top: "max (last_nonce nm k) (- 1) = - 1"
    by (rule max.absorb2) (rule word_order.extremum)
  have ov: "arith_add True (- 1 :: u64) 1 = Panic" "arith_add False (- 1 :: u64) 1 = Done 0"
    by (simp_all add: arith_add_def unsigned_minus_1_eq_mask mask_eq_exp_minus_1)
  have ok: "\<exists>nm'. nonce_manager_next oc nm k b = (nm', Done (max (last_nonce nm k) b + 1)) \<and>
         (\<forall>k'. nonces nm' k' = (if k' = k then Some (max (last_nonce nm k) b + 1) else nonces nm k'))"
    if "\<not> poisoned nm" "unat (max (last_nonce nm k) b) + 1 < 2 ^ 64"
    unfolding next_not_poisoned[OF that] by simp
  have bad: "nonce_manager_next oc' nm k (- 1) =
      (case arith_add oc' (- 1 :: u64) 1 of
         Panic \<Rightarrow> (nm\<lparr>nonces := (nonces nm)(k \<mapsto> - 1), poisoned := True\<rparr>, Panic)
       | Done n' \<Rightarrow> (nm\<lparr>nonces := (nonces nm)(k \<mapsto> n')\<rparr>, Done n'))" if "\<not> poisoned nm" for oc'
    unfolding nonce_manager_next_def last_nonce_max top using that by (simp add: Let_def)
  have again: "snd (nonce_manager_next True (nm\<lparr>nonces := m, poisoned := True\<rparr>) k' c) = Panic" for m
    by (simp add: nonce_manager_next_def)
  show ?thesis using ok bad ov again by auto
qed

theorem next_behaviour_witness:
  "(\<exists>nm'. nonce_manager_next True nonce_manager_new (''t'', ''a.near'', PublicKey_Ed25519 []) 41
      = (nm', Done 42))
   \<and> snd (nonce_manager_next False nonce_manager_new (''t'', ''a.near'', PublicKey_Ed25519 []) (- 1)) = Done 0"
proof -
  have "\<not> poisoned nonce_manager_new" by (simp add: nonce_manager_new_def)
  moreover have "unat (max (last_nonce nonce_manager_new k) 41) + 1 < 2 ^ 64" for k
    by (simp add: unat_max)
  moreover have "max (last_nonce nonce_manager_new k) 41 + 1 = 42" for k by (simp add: max_def)
  ultimately show ?thesis
    using next_behaviour[of nonce_manager_new "(''t'', ''a.near'', PublicKey_Ed25519 [])" 41 True]
      next_behaviour[of nonce_manager_new "(''t'', ''a.near'', PublicKey_Ed25519 [])" "- 1"]
    by auto
qed

end
