(* ===== verification/Tokens.thy ===== *)
theory Tokens
  imports Units
begin

text \<open>
  Token amounts (\<open>tokens/types.rs\<close>) and the table of known tokens (\<open>tokens/known.rs\<close>).
  The number of decimals comes from the metadata of a contract, a \<open>u8\<close>, and \<open>10u128.pow\<close>
  overflows above 38, so formatting and parsing have results of type \<open>run\<close>.
\<close>

section \<open>Amounts\<close>

record ft_metadata =
  ftm_spec :: string
  ftm_name :: string
  ftm_symbol :: string
  ftm_decimals :: u8
  ftm_icon :: "string option"
  ftm_reference :: "string option"
  ftm_reference_hash :: "string option"

record ft_amount =
  raw :: u128
  decimals :: u8
  symbol :: string

definition ft_amount_new :: "u128 \<Rightarrow> u8 \<Rightarrow> string \<Rightarrow> ft_amount" where
  "ft_amount_new r d s = \<lparr>raw = r, decimals = d, symbol = s\<rparr>"

definition ft_amount_from_metadata :: "u128 \<Rightarrow> ft_metadata \<Rightarrow> ft_amount" where
  "ft_amount_from_metadata r m = ft_amount_new r (ftm_decimals m) (ftm_symbol m)"

definition format_raw_with_decimals :: "bool \<Rightarrow> u128 \<Rightarrow> u8 \<Rightarrow> string run" where
  "format_raw_with_decimals oc r d =
     (if d = 0 then Done (show_word r)
      else
        run_bind (arith_pow oc 10 (unat d)) (\<lambda>divisor.
        run_bind (arith_div r divisor) (\<lambda>whole.
        run_bind (arith_rem r divisor) (\<lambda>frac.
          if frac = 0 then Done (show_word whole)
          else
            let frac_str = pad_left0 (show_word frac) (unat d);
                trimmed = trim_end_matches CHR ''0'' frac_str
            in Done (show_word whole @ ''.'' @ trimmed)))))"

definition too_many_decimals_msg :: "str \<Rightarrow> nat \<Rightarrow> u8 \<Rightarrow> string" where
  "too_many_decimals_msg s n d =
     ''Too many decimal places: '' @ s @ '' has '' @ show_nat n @ '' but max is '' @ show_word d"

definition parse_decimal_to_raw :: "bool \<Rightarrow> str \<Rightarrow> u8 \<Rightarrow> (parse_amount_error + u128) run" where
  "parse_decimal_to_raw oc s0 d =
     (let s = trim s0
      in if s = [] then Done (Inl (AmountInvalidFormat s))
         else
           case split_char CHR ''.'' s of
             [w] \<Rightarrow>
               try_run (Done (ok_or (AmountInvalidNumber s) (parse_uint w))) (\<lambda>whole.
               run_bind (arith_pow oc 10 (unat d)) (\<lambda>scale.
                 Done (ok_or AmountOverflow (checked_mul whole scale))))
           | [w, frac_str] \<Rightarrow>
               try_run (Done (if w = [] then Inr 0 else ok_or (AmountInvalidNumber s) (parse_uint w))) (\<lambda>whole.
                 if unat d < length frac_str
                 then Done (Inl (AmountInvalidFormat (too_many_decimals_msg s (length frac_str) d)))
                 else
                   let padded = pad_right0 frac_str (unat d)
                   in try_run (Done (ok_or (AmountInvalidNumber s) (parse_uint padded))) (\<lambda>frac.
                      run_bind (arith_pow oc 10 (unat d)) (\<lambda>scale.
                        Done (rbind (ok_or AmountOverflow (checked_mul whole scale)) (\<lambda>shifted.
                          ok_or AmountOverflow (checked_add shifted frac))))))
           | _ \<Rightarrow> Done (Inl (AmountInvalidFormat (''Multiple decimal points in: '' @ s))))"

definition ft_amount_parse :: "bool \<Rightarrow> str \<Rightarrow> u8 \<Rightarrow> string \<Rightarrow> (parse_amount_error + ft_amount) run" where
  "ft_amount_parse oc s d tok =
     try_run (parse_decimal_to_raw oc s d) (\<lambda>r. Done (Inr (ft_amount_new r d tok)))"

definition ft_is_zero :: "ft_amount \<Rightarrow> bool" where
  "ft_is_zero a \<longleftrightarrow> raw a = 0"

definition format_amount :: "bool \<Rightarrow> ft_amount \<Rightarrow> string run" where
  "format_amount oc a = format_raw_with_decimals oc (raw a) (decimals a)"

definition ft_amount_display :: "bool \<Rightarrow> ft_amount \<Rightarrow> string run" where
  "ft_amount_display oc a = run_bind (format_amount oc a) (\<lambda>s. Done (s @ '' '' @ symbol a))"

definition ft_checked_add :: "ft_amount \<Rightarrow> ft_amount \<Rightarrow> ft_amount option" where
  "ft_checked_add a b =
     (if decimals a \<noteq> decimals b \<or> symbol a \<noteq> symbol b then None
      else map_option (\<lambda>r. \<lparr>raw = r, decimals = decimals a, symbol = symbol a\<rparr>) (checked_add (raw a) (raw b)))"

definition ft_checked_sub :: "ft_amount \<Rightarrow> ft_amount \<Rightarrow> ft_amount option" where
  "ft_checked_sub a b =
     (if decimals a \<noteq> decimals b \<or> symbol a \<noteq> symbol b then None
      else map_option (\<lambda>r. \<lparr>raw = r, decimals = decimals a, symbol = symbol a\<rparr>) (checked_sub (raw a) (raw b)))"

definition ft_checked_mul :: "ft_amount \<Rightarrow> u128 \<Rightarrow> ft_amount option" where
  "ft_checked_mul a m =
     map_option (\<lambda>r. \<lparr>raw = r, decimals = decimals a, symbol = symbol a\<rparr>) (checked_mul (raw a) m)"

definition ft_checked_div :: "ft_amount \<Rightarrow> u128 \<Rightarrow> ft_amount option" where
  "ft_checked_div a q =
     (if q = 0 then None else Some \<lparr>raw = raw a div q, decimals = decimals a, symbol = symbol a\<rparr>)"

definition ft_saturating_add :: "ft_amount \<Rightarrow> ft_amount \<Rightarrow> ft_amount option" where
  "ft_saturating_add a b =
     (if decimals a \<noteq> decimals b \<or> symbol a \<noteq> symbol b then None
      else Some \<lparr>raw = saturating_add (raw a) (raw b), decimals = decimals a, symbol = symbol a\<rparr>)"

definition ft_saturating_sub :: "ft_amount \<Rightarrow> ft_amount \<Rightarrow> ft_amount option" where
  "ft_saturating_sub a b =
     (if decimals a \<noteq> decimals b \<or> symbol a \<noteq> symbol b then None
      else Some \<lparr>raw = saturating_sub (raw a) (raw b), decimals = decimals a, symbol = symbol a\<rparr>)"

record storage_balance_bounds =
  sbb_min :: near_token
  sbb_max :: "near_token option"

record storage_balance =
  sb_total :: near_token
  sb_available :: near_token

section \<open>Known tokens\<close>

type_synonym chain_id = string

definition chain_is_mainnet :: "chain_id \<Rightarrow> bool" where "chain_is_mainnet c \<longleftrightarrow> c = ''mainnet''"
definition chain_is_testnet :: "chain_id \<Rightarrow> bool" where "chain_is_testnet c \<longleftrightarrow> c = ''testnet''"

record known_token =
  kt_name :: string
  kt_mainnet :: string
  kt_testnet :: "string option"

datatype token_error = TokenNotAvailable string string | TokenParseAccountId string

text \<open>\<open>parse_acct\<close> is the parser of the crate \<open>near-account-id\<close>.\<close>

definition known_token_resolve ::
  "(string \<Rightarrow> string + string) \<Rightarrow> known_token \<Rightarrow> chain_id \<Rightarrow> token_error + string" where
  "known_token_resolve parse_acct t chain_id =
     rbind (if chain_id = ''mainnet'' then Inr (kt_mainnet t)
            else if chain_id = ''testnet'' then ok_or (TokenNotAvailable (kt_name t) chain_id) (kt_testnet t)
            else Inl (TokenNotAvailable (kt_name t) chain_id))
       (\<lambda>address. map_err TokenParseAccountId (parse_acct address))"

datatype contract_id_arg = ContractStr string | ContractAccount string | ContractToken known_token

fun into_contract_id ::
  "(string \<Rightarrow> string + string) \<Rightarrow> contract_id_arg \<Rightarrow> chain_id \<Rightarrow> token_error + string" where
  "into_contract_id parse_acct (ContractStr s) c = map_err TokenParseAccountId (parse_acct s)"
| "into_contract_id parse_acct (ContractAccount a) c = Inr a"
| "into_contract_id parse_acct (ContractToken t) c = known_token_resolve parse_acct t c"

definition USDC :: known_token where
  "USDC = \<lparr>kt_name = ''USDC'',
     kt_mainnet = ''17208628f84f5d6ad33f0da3bbbeb27ffcb398eac501a31bd6ad2011e36133a1'',
     kt_testnet = Some ''3e2210e1184b45b64c8a434c0a7e7b23cc04ea7eb7a6c3c32520d03d4afcb8af''\<rparr>"

definition USDT :: known_token where
  "USDT = \<lparr>kt_name = ''USDT'', kt_mainnet = ''usdt.tether-token.near'', kt_testnet = None\<rparr>"

definition W_NEAR :: known_token where
  "W_NEAR = \<lparr>kt_name = ''wNEAR'', kt_mainnet = ''wrap.near'', kt_testnet = Some ''wrap.testnet''\<rparr>"

section \<open>Lemmas\<close>

lemma show_word_digits [simp]: "digits (show_word w)" "show_word w \<noteq> []"
  by (simp_all add: show_word_def)

lemma length_show_nat: "n < 10 ^ k \<Longrightarrow> 0 < k \<Longrightarrow> length (show_nat n) \<le> k"
proof (induction n arbitrary: k rule: show_nat.induct)
  case (1 n)
  show ?case
  proof (cases "n < 10")
    case True
    then show ?thesis using 1 by (subst show_nat.simps) simp
  next
    case False
    then have k: "1 < k" using 1(2) by (cases k; cases "k - 1") auto
    then have "n div 10 < 10 ^ (k - 1)"
      using 1(2) by (cases k) (auto intro: less_mult_imp_div_less simp: mult.commute)
    then have "length (show_nat (n div 10)) \<le> k - 1" using 1(1)[OF False] k by simp
    then show ?thesis using False k by (subst show_nat.simps) simp
  qed
qed

lemma pad_left0_digits:
  assumes "n < 10 ^ k" "0 < k"
  shows "digits (pad_left0 (show_nat n) k)" "length (pad_left0 (show_nat n) k) = k"
    "dec_value (pad_left0 (show_nat n) k) = n"
  using length_show_nat[OF assms]
  by (simp_all add: pad_left0_def dec_value_append)

text \<open>Trimming the trailing zeros and padding them again.\<close>

lemma trim_end_matches_split: "\<exists>k. s = trim_end_matches c s @ replicate k c"
proof -
  let ?t = "takeWhile (\<lambda>x. x = c) (rev s)"
  have "?t = replicate (length ?t) c"
    by (rule replicate_length_same[symmetric]) (auto dest: set_takeWhileD)
  then obtain k where k: "?t = replicate k c" by blast
  have "rev s = ?t @ dropWhile (\<lambda>x. x = c) (rev s)" by simp
  then have "s = rev (dropWhile (\<lambda>x. x = c) (rev s)) @ rev ?t" by (metis rev_append rev_rev_ident)
  then show ?thesis using k by (auto simp: trim_end_matches_def)
qed

lemma pad_trim:
  assumes "digits s" "length s = k"
  shows "pad_right0 (trim_end_matches CHR ''0'' s) k = s"
    "digits (trim_end_matches CHR ''0'' s)" "length (trim_end_matches CHR ''0'' s) \<le> k"
proof -
  obtain n where n: "s = trim_end_matches CHR ''0'' s @ replicate n CHR ''0''"
    using trim_end_matches_split by blast
  then show d: "digits (trim_end_matches CHR ''0'' s)" using assms(1) by (metis list_all_append)
  have "k = length (trim_end_matches CHR ''0'' s) + n" using n assms(2) by (metis length_append length_replicate)
  then show "pad_right0 (trim_end_matches CHR ''0'' s) k = s" "length (trim_end_matches CHR ''0'' s) \<le> k"
    using d n by (simp_all add: pad_right0_def)
qed

lemma trim_end_matches_ne: "digits s \<Longrightarrow> dec_value s \<noteq> 0 \<Longrightarrow> trim_end_matches CHR ''0'' s \<noteq> []"
  using trim_end_matches_split[of s "CHR ''0''"] by auto

lemma dot_not_digit: "digits s \<Longrightarrow> CHR ''.'' \<notin> set s"
  using digit_not_dot by (auto simp: list_all_iff)

lemma split_numeral:
  "digits w \<Longrightarrow> split_char CHR ''.'' w = [w]"
  "digits w \<Longrightarrow> digits f \<Longrightarrow> split_char CHR ''.'' (w @ ''.'' @ f) = [w, f]"
  by (simp_all add: split_char_no split_char_append dot_not_digit)

text \<open>What the parser returns on a numeral, for a number of decimals that fits.\<close>

lemma parse_decimal_whole:
  assumes "digits w" "w \<noteq> []" "unat d \<le> 38"
  shows "parse_decimal_to_raw oc w d =
     Done (exact_result (AmountInvalidNumber w) AmountOverflow (dec_value w) (dec_value w * 10 ^ unat d))"
proof -
  have p: "arith_pow oc 10 (unat d) = Done ((10 :: u128) ^ unat d)" "unat ((10 :: u128) ^ unat d) = 10 ^ unat d"
    using pow10_nowrap[OF assms(3)] by simp_all
  show ?thesis
    using assms p
    by (simp add: parse_decimal_to_raw_def split_numeral parse_uint_digits_eq checked_mul_of_nat
        exact_result_def del: of_nat_mult)
qed

lemma parse_decimal_frac:
  assumes "digits w" "digits f" "w \<noteq> [] \<or> f \<noteq> []" "length f \<le> unat d" "0 < unat d" "unat d \<le> 38"
  shows "parse_decimal_to_raw oc (w @ ''.'' @ f) d =
     Done (exact_result (AmountInvalidNumber (w @ ''.'' @ f)) AmountOverflow (dec_value w) (decimal_value (unat d) w f))"
proof -
  let ?s = "w @ ''.'' @ f" and ?n = "unat d"
  define p where "p = f @ replicate (?n - length f) CHR ''0''"
  have pad: "pad_right0 f ?n = p" using assms(2) by (simp add: pad_right0_def p_def)
  have dp: "digits p" "p \<noteq> []" "dec_value p = dec_value f * 10 ^ (?n - length f)" "length p = ?n"
    using assms(2,4,5) by (auto simp: p_def dec_value_append)
  have small: "dec_value p < 2 ^ 128"
  proof -
    have "dec_value p < 10 ^ ?n" using dec_value_lt[OF dp(1)] dp(4) by simp
    also have "(10::nat) ^ ?n \<le> 10 ^ 38" using assms(6) by (intro power_increasing) simp_all
    also have "(10::nat) ^ 38 < 2 ^ 128" by simp
    finally show ?thesis .
  qed
  have pw: "arith_pow oc 10 ?n = Done ((10 :: u128) ^ ?n)" "unat ((10 :: u128) ^ ?n) = 10 ^ ?n"
    using pow10_nowrap[OF assms(6)] by simp_all
  have pi: "(if w = [] then Inr 0 else ok_or (AmountInvalidNumber ?s) (parse_uint w)) =
      (if dec_value w < 2 ^ 128 then Inr (of_nat (dec_value w) :: u128) else Inl (AmountInvalidNumber ?s))"
    using assms(1) by (cases "w = []") (simp_all add: parse_uint_digits_eq)
  have pp: "parse_uint p = Some (of_nat (dec_value p) :: u128)"
    using dp small by (simp add: parse_uint_digits_eq)
  have val: "rbind (ok_or AmountOverflow (checked_mul (of_nat (dec_value w)) ((10 :: u128) ^ ?n)))
        (\<lambda>v. ok_or AmountOverflow (checked_add v (of_nat (dec_value p)))) =
      (if decimal_value ?n w f < 2 ^ 128 then Inr (of_nat (decimal_value ?n w f)) else Inl AmountOverflow)"
    if "dec_value w < 2 ^ 128"
    using mul_add_exact[of "dec_value w" "dec_value p" AmountOverflow "(10 :: u128) ^ ?n"]
      that pw(2) small dp(3) by (simp add: decimal_value_def)
  have "parse_decimal_to_raw oc ?s d = try_run
      (Done (if dec_value w < 2 ^ 128 then Inr (of_nat (dec_value w) :: u128) else Inl (AmountInvalidNumber ?s)))
      (\<lambda>whole. Done (rbind (ok_or AmountOverflow (checked_mul whole ((10 :: u128) ^ ?n)))
        (\<lambda>v. ok_or AmountOverflow (checked_add v (of_nat (dec_value p))))))"
    unfolding parse_decimal_to_raw_def trim_numeral[OF assms(1-3)] split_numeral(2)[OF assms(1,2)] Let_def
      list.case pi
    using assms(4) by (simp add: pad pp pw)
  then show ?thesis using val by (simp add: exact_result_def)
qed

text \<open>The formatted string as integer part and fraction.\<close>

lemma format_raw_eq:
  assumes "0 < unat d" "unat d \<le> 38"
  shows "format_raw_with_decimals oc r d =
     (if unat r mod 10 ^ unat d = 0 then Done (show_nat (unat r div 10 ^ unat d))
      else Done (show_nat (unat r div 10 ^ unat d) @ ''.'' @
             trim_end_matches CHR ''0'' (pad_left0 (show_nat (unat r mod 10 ^ unat d)) (unat d))))"
proof -
  have p: "arith_pow oc 10 (unat d) = Done ((10 :: u128) ^ unat d)" "unat ((10 :: u128) ^ unat d) = 10 ^ unat d"
    using pow10_nowrap[OF assms(2)] by simp_all
  have nz: "(10 :: u128) ^ unat d \<noteq> 0"
  proof
    assume "(10 :: u128) ^ unat d = 0"
    then have "unat ((10 :: u128) ^ unat d) = 0" by simp
    with p(2) show False by simp
  qed
  have "d \<noteq> 0" using assms(1) by auto
  moreover have "r mod (10 ^ unat d) = 0 \<longleftrightarrow> unat r mod 10 ^ unat d = 0"
    by (simp add: unat_eq_0[symmetric] unat_mod p(2) del: unat_eq_0)
  ultimately show ?thesis
    using p nz
    by (simp add: format_raw_with_decimals_def arith_div_def arith_rem_def show_word_def unat_div unat_mod)
qed

section \<open>Properties\<close>

text \<open>For a token with at most 38 decimals, the formatted amount parses back to the same
  raw amount, whatever the overflow checks, and formatting never panics.\<close>

theorem ft_format_parse:
  assumes "unat d \<le> 38"
  shows "\<exists>s. format_raw_with_decimals oc r d = Done s \<and> parse_decimal_to_raw oc' s d = Done (Inr r)"
proof (cases "unat d = 0")
  case True
  then have d: "d = 0" by (simp add: unat_eq_0)
  have "parse_decimal_to_raw oc' (show_nat (unat r)) d = Done (Inr r)"
    using parse_decimal_whole[of "show_nat (unat r)" d oc'] assms True unat_lt_size[of r]
    by (simp add: exact_result_def)
  then show ?thesis using d by (simp add: format_raw_with_decimals_def show_word_def)
next
  case False
  then have k: "0 < unat d" by simp
  let ?w = "unat r div 10 ^ unat d" and ?f = "unat r mod 10 ^ unat d"
  have "?w \<le> unat r" by (rule div_le_dividend)
  also have "unat r < 2 ^ 128" using unat_lt_size[of r] by simp
  finally have wlt: "?w < 2 ^ 128" .
  have flt: "?f < 10 ^ unat d" by simp
  show ?thesis
  proof (cases "?f = 0")
    case True
    then have "?w * 10 ^ unat d = unat r" by (metis add.right_neutral div_mult_mod_eq)
    then show ?thesis
      using True parse_decimal_whole[of "show_nat ?w" d oc'] assms wlt unat_lt_size[of r]
      by (simp add: format_raw_eq[OF k assms] exact_result_def word_of_nat_unat)
  next
    case False
    let ?p = "pad_left0 (show_nat ?f) (unat d)"
    let ?t = "trim_end_matches CHR ''0'' ?p"
    note pad = pad_left0_digits[OF flt k]
    note tr = pad_trim[OF pad(1,2)]
    have "dec_value ?t * 10 ^ (unat d - length ?t) = ?f"
      using tr pad(3) by (metis dec_value_append dec_value_replicate0 add.right_neutral
          char_count_digits length_replicate pad_right0_def)
    then have v: "decimal_value (unat d) (show_nat ?w) ?t = unat r"
      unfolding decimal_value_def dec_value_show_nat by (simp only: div_mult_mod_eq)
    have "parse_decimal_to_raw oc' (show_nat ?w @ ''.'' @ ?t) d = Done (Inr r)"
      using parse_decimal_frac[of "show_nat ?w" ?t d oc'] tr(2,3) k assms wlt v unat_lt_size[of r]
      by (simp add: exact_result_def word_of_nat_unat)
    then show ?thesis using False by (simp add: format_raw_eq[OF k assms])
  qed
qed

theorem ft_format_parse_witness:
  "\<exists>s. format_raw_with_decimals True 1500000 6 = Done s \<and> parse_decimal_to_raw True s 6 = Done (Inr 1500000)"
  by (rule ft_format_parse) simp

text \<open>Parsing an amount of a token is exact: a numeral with at most as many fractional
  digits as the token has decimals gives its value in raw units, or an error if that does
  not fit 128 bits; one with more fractional digits, or with two points, is refused.\<close>

theorem ft_parse_exact:
  assumes "digits w" "digits f" "0 < unat d" "unat d \<le> 38" "w \<noteq> [] \<or> f \<noteq> []"
  shows "(length f \<le> unat d \<longrightarrow> parse_decimal_to_raw oc (w @ ''.'' @ f) d =
            Done (exact_result (AmountInvalidNumber (w @ ''.'' @ f)) AmountOverflow
                    (dec_value w) (decimal_value (unat d) w f))) \<and>
         (unat d < length f \<longrightarrow> (\<exists>e. parse_decimal_to_raw oc (w @ ''.'' @ f) d = Done (Inl e))) \<and>
         (f \<noteq> [] \<longrightarrow> (\<exists>e. parse_decimal_to_raw oc (w @ ''.'' @ f @ ''.'' @ f) d = Done (Inl e)))"
proof -
  have many: "\<exists>e. parse_decimal_to_raw oc (w @ ''.'' @ f) d = Done (Inl e)" if "unat d < length f"
  proof -
    have "\<exists>r. try_run (Done (if w = [] then Inr (0::u128) else ok_or (AmountInvalidNumber s) (parse_uint w)))
        (\<lambda>whole. Done (Inl e) :: (parse_amount_error + u128) run) = Done (Inl r)" for s e
      by (cases "parse_uint w :: u128 option") auto
    then show ?thesis
      unfolding parse_decimal_to_raw_def trim_numeral[OF assms(1,2,5)] split_numeral(2)[OF assms(1,2)]
        Let_def list.case
      using that by simp
  qed
  have two: "\<exists>e. parse_decimal_to_raw oc (w @ ''.'' @ f @ ''.'' @ f) d = Done (Inl e)" if "f \<noteq> []"
  proof -
    have "trim (w @ ''.'' @ f @ ''.'' @ f) = w @ ''.'' @ f @ ''.'' @ f"
      using assms(1,2) that by (intro trim_plain) (cases w; auto simp: list_all_iff)+
    moreover have "split_char CHR ''.'' (w @ ''.'' @ f @ ''.'' @ f) = [w, f, f]"
      using assms(1,2) by (simp add: split_char_append split_char_no dot_not_digit)
    ultimately show ?thesis by (simp add: parse_decimal_to_raw_def)
  qed
  show ?thesis using parse_decimal_frac[OF assms(1,2,5) _ assms(3,4)] many two by blast
qed

theorem ft_parse_exact_witness: "parse_decimal_to_raw True ''1.5'' 6 = Done (Inr 1500000)"
proof -
  have "digits ''1''" "digits ''5''" "0 < unat (6::u8)" "unat (6::u8) \<le> 38" "''1'' \<noteq> [] \<or> ''5'' \<noteq> []"
    by (simp_all add: is_ascii_digit_def char_code_def)
  from ft_parse_exact[OF this, of True] show ?thesis
    by (simp add: exact_result_def decimal_value_def dec_value_def digit_value_def char_code_def)
qed

text \<open>Metadata with more than 38 decimals breaks formatting: with overflow checks it
  panics, and without them it panics from 128 decimals on, where the divisor wraps to 0.\<close>

theorem ft_too_many_decimals:
  "(38 < unat d \<longrightarrow> format_raw_with_decimals True r d = Panic) \<and>
   (128 \<le> unat d \<longrightarrow> format_raw_with_decimals False r d = Panic)"
proof -
  have d0: "d \<noteq> 0" if "38 < unat d" using that by auto
  have big: "\<not> (10::nat) ^ unat d < 2 ^ 128" if "38 < unat d"
  proof -
    have "(10::nat) ^ 39 \<le> 10 ^ unat d" using that by (intro power_increasing) simp_all
    moreover have "\<not> (10::nat) ^ 39 < 2 ^ 128" by simp
    ultimately show ?thesis by linarith
  qed
  have "(10 :: u128) ^ unat d = 0" if "128 \<le> unat d"
  proof -
    have "(2 :: u128) ^ 128 = 0" by simp
    then have "(10 :: u128) ^ 128 = 0" using power_mult_distrib[of "2 :: u128" 5 128] by simp
    then show ?thesis using that by (metis le_add_diff_inverse mult_zero_left power_add)
  qed
  then show ?thesis using d0 big
    by (auto simp: format_raw_with_decimals_def arith_pow_def arith_div_def)
qed

theorem ft_too_many_decimals_witness: "format_raw_with_decimals True 1 39 = Panic"
  using ft_too_many_decimals[of 39 1] by simp

text \<open>C26: Arithmetic on amounts is defined exactly between amounts of the same token and keeps the token:
  the checked operations are exact and defined when the result fits 128 bits, the saturating
  ones are always defined between amounts of one token and clamp; adding and then subtracting
  gives the first amount back.\<close>

theorem ft_arithmetic:
  "(ft_checked_add a b = Some c \<longleftrightarrow> decimals a = decimals b \<and> symbol a = symbol b \<and>
      decimals c = decimals a \<and> symbol c = symbol a \<and> unat (raw c) = unat (raw a) + unat (raw b)) \<and>
   (ft_checked_sub a b = Some c \<longleftrightarrow> decimals a = decimals b \<and> symbol a = symbol b \<and>
      decimals c = decimals a \<and> symbol c = symbol a \<and> unat (raw a) = unat (raw b) + unat (raw c)) \<and>
   (ft_checked_add a b = Some c \<longrightarrow> ft_checked_sub c b = Some a) \<and>
   (ft_saturating_sub a b = Some c \<longleftrightarrow> decimals a = decimals b \<and> symbol a = symbol b \<and>
      decimals c = decimals a \<and> symbol c = symbol a \<and> unat (raw c) = unat (raw a) - unat (raw b)) \<and>
   (ft_saturating_add a b = Some c \<longleftrightarrow> decimals a = decimals b \<and> symbol a = symbol b \<and>
      decimals c = decimals a \<and> symbol c = symbol a \<and> unat (raw c) = min (2 ^ 128 - 1) (unat (raw a) + unat (raw b)))"
proof -
  have add: "ft_checked_add a b = Some c \<longleftrightarrow> decimals a = decimals b \<and> symbol a = symbol b \<and>
      decimals c = decimals a \<and> symbol c = symbol a \<and> unat (raw c) = unat (raw a) + unat (raw b)"
    by (cases c) (auto simp: ft_checked_add_def checked_add_Some)
  have sub: "ft_checked_sub x b = Some y \<longleftrightarrow> decimals x = decimals b \<and> symbol x = symbol b \<and>
      decimals y = decimals x \<and> symbol y = symbol x \<and> unat (raw x) = unat (raw b) + unat (raw y)" for x y
    by (cases y) (auto simp: ft_checked_sub_def checked_sub_Some)
  have addsub: "ft_checked_add a b = Some c \<longrightarrow> ft_checked_sub c b = Some a"
    unfolding add sub by simp
  have "ft_saturating_sub a b = Some c \<longleftrightarrow> decimals a = decimals b \<and> symbol a = symbol b \<and>
      decimals c = decimals a \<and> symbol c = symbol a \<and> unat (raw c) = unat (raw a) - unat (raw b)"
    by (cases c) (auto simp: ft_saturating_sub_def word_unat_eq_iff saturating_sub_unat)
  moreover have "ft_saturating_add a b = Some c \<longleftrightarrow> decimals a = decimals b \<and> symbol a = symbol b \<and>
      decimals c = decimals a \<and> symbol c = symbol a \<and> unat (raw c) = min (2 ^ 128 - 1) (unat (raw a) + unat (raw b))"
    using saturating_add_unat[of "raw a" "raw b"] by (cases c) (auto simp: ft_saturating_add_def word_unat_eq_iff)
  ultimately show ?thesis using add sub[of a c] addsub by blast
qed

theorem ft_arithmetic_witness:
  "\<exists>c. ft_checked_add (ft_amount_new 3 6 ''USDC'') (ft_amount_new 4 6 ''USDC'') = Some c \<and>
     ft_checked_sub c (ft_amount_new 4 6 ''USDC'') = Some (ft_amount_new 3 6 ''USDC'') \<and>
     (\<forall>d. ft_saturating_add c (ft_amount_new 4 6 ''USDT'') \<noteq> Some d)"
proof -
  have "ft_checked_add (ft_amount_new 3 6 ''USDC'') (ft_amount_new 4 6 ''USDC'') = Some (ft_amount_new 7 6 ''USDC'')"
    by (simp add: ft_checked_add_def ft_amount_new_def checked_add_def)
  moreover from this have "ft_checked_sub (ft_amount_new 7 6 ''USDC'') (ft_amount_new 4 6 ''USDC'') = Some (ft_amount_new 3 6 ''USDC'')"
    using ft_arithmetic by blast
  moreover have "ft_saturating_add (ft_amount_new 7 6 ''USDC'') (ft_amount_new 4 6 ''USDT'') \<noteq> Some d" for d
    using ft_arithmetic [of "ft_amount_new 7 6 ''USDC''" "ft_amount_new 4 6 ''USDT''" d] by (simp add: ft_amount_new_def)
  ultimately show ?thesis by blast
qed

end
