(* ===== verification/Tx_Builder.thy ===== *)
theory Tx_Builder
  imports Signers Nonces Tokens
begin

text \<open>
  The transaction builder (\<open>client/transaction.rs\<close>): actions accumulate in a builder, which is then
  built, signed or turned into a signed delegate action. Signers are shared between builders
  (\<open>Arc<dyn Signer>\<close>), so a builder holds references into a store of signers; the store, the
  process-wide nonce manager and the network are the state that the operations thread through.
  The signers of the library are of two kinds, one key in memory (also behind a file, the
  environment or the key ring) or rotating keys.

  An argument of a type that converts to a token amount, an amount of gas or an account id
  stands for the result of that conversion; \<open>expect\<close> on it panics. A panic ends the operation;
  what it leaves behind in the nonce manager is described in the theory \<open>Nonces\<close>.
\<close>

section \<open>State\<close>

datatype any_signer = OneKey in_memory_signer | Rotating rotating_signer

fun any_account_id :: "any_signer \<Rightarrow> account_id" where
  "any_account_id (OneKey s) = ims_account_id s"
| "any_account_id (Rotating s) = rs_account_id s"

fun any_key :: "crypto_ops \<Rightarrow> any_signer \<Rightarrow> (signing_key \<times> any_signer) run" where
  "any_key cr (OneKey s) = run_bind (in_memory_key cr s) (\<lambda>k. Done (k, OneKey s))"
| "any_key cr (Rotating s) = run_bind (rotating_key cr s) (\<lambda>(k, s'). Done (k, Rotating s'))"

fun any_public_key :: "crypto_ops \<Rightarrow> any_signer \<Rightarrow> public_key run" where
  "any_public_key cr (OneKey s) = run_bind (in_memory_key cr s) (\<lambda>k. Done (sk_public_key k))"
| "any_public_key cr (Rotating s) = rotating_public_key cr s"

fun any_ok :: "crypto_ops \<Rightarrow> any_signer \<Rightarrow> bool" where
  "any_ok cr (OneKey s) = in_memory_ok cr s"
| "any_ok cr (Rotating s) = rotating_ok cr s"

type_synonym signer_ref = nat

record 'w tx_state =
  ts_net :: "'w net"
  ts_nonces :: nonce_manager
  ts_signers :: "signer_ref \<Rightarrow> any_signer"

text \<open>The surroundings that do not change: overflow checks, the codecs, the transport and the
  deserializers; \<open>env_de_height\<close> reads \<open>sync_info.latest_block_height\<close> of a node status.\<close>

record 'w tx_env =
  env_oc :: bool
  env_bo :: borsh_ops
  env_io :: "'w rpc_io"
  env_dv :: view_de
  env_de_height :: "json \<Rightarrow> string + u64"

abbreviation tx_cr :: "'w tx_env \<Rightarrow> crypto_ops" where "tx_cr env \<equiv> io_cr (env_io env)"

type_synonym ('w, 'a) tx_result = "((near_error + 'a) \<times> 'w tx_state) run"

definition tx_bind :: "('w, 'a) tx_result \<Rightarrow> ('a \<Rightarrow> 'w tx_state \<Rightarrow> ('w, 'b) tx_result) \<Rightarrow> ('w, 'b) tx_result" where
  "tx_bind m f = run_bind m (\<lambda>(r, st). case r of Inl e \<Rightarrow> Done (Inl e, st) | Inr x \<Rightarrow> f x st)"

definition tx_rpc :: "('w net \<Rightarrow> ('w, 'a) rpc_result) \<Rightarrow> 'w tx_state \<Rightarrow> ((rpc_error + 'a) \<times> 'w tx_state) run" where
  "tx_rpc call st = run_bind (call (ts_net st)) (\<lambda>(r, net). Done (r, st\<lparr>ts_net := net\<rparr>))"

definition tx_try_rpc :: "('w net \<Rightarrow> ('w, 'a) rpc_result) \<Rightarrow> 'w tx_state \<Rightarrow> ('w, 'a) tx_result" where
  "tx_try_rpc call st = run_bind (tx_rpc call st) (\<lambda>(r, st). Done (map_err error_from_rpc r, st))"

text \<open>\<open>signer.key()\<close> on a shared signer, and \<open>nonce_manager().next(..)\<close>.\<close>

definition claim_key :: "crypto_ops \<Rightarrow> signer_ref \<Rightarrow> 'w tx_state \<Rightarrow> (signing_key \<times> 'w tx_state) run" where
  "claim_key cr r st =
     run_bind (any_key cr (ts_signers st r)) (\<lambda>(k, s). Done (k, st\<lparr>ts_signers := (ts_signers st)(r := s)\<rparr>))"

definition next_nonce :: "bool \<Rightarrow> nonce_key \<Rightarrow> u64 \<Rightarrow> 'w tx_state \<Rightarrow> (u64 \<times> 'w tx_state) run" where
  "next_nonce oc k n st =
     (case nonce_manager_next oc (ts_nonces st) k n of
        (nm, Done x) \<Rightarrow> Done (x, st\<lparr>ts_nonces := nm\<rparr>)
      | (_, Panic) \<Rightarrow> Panic)"

section \<open>The builder\<close>

record transaction_builder =
  tb_rpc :: rpc_client
  tb_signer :: "signer_ref option"
  tb_receiver_id :: account_id
  tb_actions :: "action list"
  tb_signer_override :: "signer_ref option"
  tb_max_nonce_retries :: u32

definition transaction_builder_new ::
  "rpc_client \<Rightarrow> signer_ref option \<Rightarrow> account_id \<Rightarrow> u32 \<Rightarrow> transaction_builder" where
  "transaction_builder_new rpc client_signer receiver_id max_nonce_retries =
     \<lparr>tb_rpc = rpc, tb_signer = client_signer, tb_receiver_id = receiver_id, tb_actions = [],
      tb_signer_override = None, tb_max_nonce_retries = max_nonce_retries\<rparr>"

definition add_action :: "action \<Rightarrow> transaction_builder \<Rightarrow> transaction_builder" where
  "add_action a b = b\<lparr>tb_actions := tb_actions b @ [a]\<rparr>"

definition tb_create_account :: "transaction_builder \<Rightarrow> transaction_builder" where
  "tb_create_account b = add_action action_create_account b"

definition tb_transfer :: "parse_amount_error + near_token \<Rightarrow> transaction_builder \<Rightarrow> transaction_builder run" where
  "tb_transfer amount b = run_bind (expect (ok_opt amount)) (\<lambda>a. Done (add_action (action_transfer a) b))"

definition tb_deploy :: "bytes \<Rightarrow> transaction_builder \<Rightarrow> transaction_builder" where
  "tb_deploy code b = add_action (action_deploy_contract code) b"

definition tb_add_full_access_key :: "public_key \<Rightarrow> transaction_builder \<Rightarrow> transaction_builder" where
  "tb_add_full_access_key pk b = add_action (action_add_full_access_key pk) b"

definition tb_add_function_call_key ::
  "public_key \<Rightarrow> string + account_id \<Rightarrow> string list \<Rightarrow> near_token option \<Rightarrow> transaction_builder \<Rightarrow> transaction_builder run" where
  "tb_add_function_call_key pk receiver_id method_names allowance b =
     run_bind (expect (ok_opt receiver_id)) (\<lambda>r.
       Done (add_action (action_add_function_call_key pk r method_names allowance) b))"

definition tb_delete_key :: "public_key \<Rightarrow> transaction_builder \<Rightarrow> transaction_builder" where
  "tb_delete_key pk b = add_action (action_delete_key pk) b"

definition tb_delete_account :: "string + account_id \<Rightarrow> transaction_builder \<Rightarrow> transaction_builder run" where
  "tb_delete_account beneficiary_id b = run_bind (expect (ok_opt beneficiary_id)) (\<lambda>a. Done (add_action (action_delete_account a) b))"

definition tb_stake :: "parse_amount_error + near_token \<Rightarrow> public_key \<Rightarrow> transaction_builder \<Rightarrow> transaction_builder run" where
  "tb_stake amount pk b = run_bind (expect (ok_opt amount)) (\<lambda>a. Done (add_action (action_stake a pk) b))"

definition tb_signed_delegate_action :: "signed_delegate_action \<Rightarrow> transaction_builder \<Rightarrow> transaction_builder" where
  "tb_signed_delegate_action s b =
     add_action (action_delegate s) (b\<lparr>tb_receiver_id := signed_delegate_sender_id s\<rparr>)"

definition tb_publish :: "bytes \<Rightarrow> publish_mode \<Rightarrow> transaction_builder \<Rightarrow> transaction_builder" where
  "tb_publish code mode b = add_action (action_publish code mode) b"

definition tb_deploy_from ::
  "(string \<Rightarrow> string + account_id) \<Rightarrow> global_contract_arg \<Rightarrow> transaction_builder \<Rightarrow> transaction_builder run" where
  "tb_deploy_from parse_acct contract_ref b =
     run_bind (into_identifier parse_acct contract_ref) (\<lambda>g. Done (add_action (UseGlobalContract g) b))"

definition tb_state_init ::
  "(state_init \<Rightarrow> account_id) \<Rightarrow> state_init \<Rightarrow> parse_amount_error + near_token \<Rightarrow> transaction_builder \<Rightarrow> transaction_builder run" where
  "tb_state_init derive_account_id si deposit b =
     run_bind (expect (ok_opt deposit)) (\<lambda>d.
       Done (add_action (action_state_init si d) (b\<lparr>tb_receiver_id := derive_account_id si\<rparr>)))"

definition tb_sign_with :: "signer_ref \<Rightarrow> transaction_builder \<Rightarrow> transaction_builder" where
  "tb_sign_with r b = b\<lparr>tb_signer_override := Some r\<rparr>"

definition max_nonce_retries :: "u32 \<Rightarrow> transaction_builder \<Rightarrow> transaction_builder" where
  "max_nonce_retries n b = b\<lparr>tb_max_nonce_retries := n\<rparr>"

definition builder_signer :: "transaction_builder \<Rightarrow> near_error + signer_ref" where
  "builder_signer b = ok_or Err_NoSigner (or_else (tb_signer_override b) (tb_signer b))"

section \<open>Function calls\<close>

record function_call =
  call_method :: string
  call_args :: bytes
  call_gas :: gas
  call_deposit :: near_token

definition function_call_new :: "string \<Rightarrow> function_call" where
  "function_call_new m = \<lparr>call_method = m, call_args = [], call_gas = 30 * GAS_PER_TGAS, call_deposit = 0\<rparr>"

text \<open>The arguments of the first two setters are the results of \<open>serde_json::to_vec\<close> and
  \<open>borsh::to_vec\<close>; a failure leaves empty arguments.\<close>

definition call_set_args :: "string + bytes \<Rightarrow> function_call \<Rightarrow> function_call" where
  "call_set_args r c = c\<lparr>call_args := (case r of Inr bs \<Rightarrow> bs | Inl _ \<Rightarrow> [])\<rparr>"

definition call_set_args_borsh :: "bytes option \<Rightarrow> function_call \<Rightarrow> function_call" where
  "call_set_args_borsh r c = c\<lparr>call_args := (case r of Some bs \<Rightarrow> bs | None \<Rightarrow> [])\<rparr>"

definition call_set_args_raw :: "bytes \<Rightarrow> function_call \<Rightarrow> function_call" where
  "call_set_args_raw bs c = c\<lparr>call_args := bs\<rparr>"

definition call_set_gas :: "parse_gas_error + gas \<Rightarrow> function_call \<Rightarrow> function_call run" where
  "call_set_gas g c = run_bind (expect (ok_opt g)) (\<lambda>g. Done (c\<lparr>call_gas := g\<rparr>))"

definition call_set_deposit :: "parse_amount_error + near_token \<Rightarrow> function_call \<Rightarrow> function_call run" where
  "call_set_deposit d c = run_bind (expect (ok_opt d)) (\<lambda>d. Done (c\<lparr>call_deposit := d\<rparr>))"

definition function_call_to_action :: "function_call \<Rightarrow> action" where
  "function_call_to_action c = action_function_call (call_method c) (call_args c) (call_gas c) (call_deposit c)"

record call_builder =
  cb_builder :: transaction_builder
  cb_call :: function_call

definition tb_call :: "string \<Rightarrow> transaction_builder \<Rightarrow> call_builder" where
  "tb_call m b = \<lparr>cb_builder = b, cb_call = function_call_new m\<rparr>"

definition call_into_action :: "call_builder \<Rightarrow> action run" where
  "call_into_action c = (if tb_actions (cb_builder c) = [] then Done (function_call_to_action (cb_call c)) else Panic)"

definition call_finish :: "call_builder \<Rightarrow> transaction_builder" where
  "call_finish c = add_action (function_call_to_action (cb_call c)) (cb_builder c)"

section \<open>Building and signing\<close>

abbreviation no_actions :: near_error where
  "no_actions \<equiv> Err_InvalidTransaction ''Transaction must have at least one action''"

definition build :: "'w tx_env \<Rightarrow> transaction_builder \<Rightarrow> 'w tx_state \<Rightarrow> ('w, transaction) tx_result" where
  "build env b st =
     (if tb_actions b = [] then Done (Inl no_actions, st)
      else case builder_signer b of
        Inl e \<Rightarrow> Done (Inl e, st)
      | Inr r \<Rightarrow>
          let signer_id = any_account_id (ts_signers st r) in
          run_bind (any_public_key (tx_cr env) (ts_signers st r)) (\<lambda>pk.
          tx_bind (tx_try_rpc (view_access_key (env_oc env) (env_io env) (tb_rpc b) (env_dv env) signer_id pk
                     (RefFinality FinalityFinal)) st) (\<lambda>access_key st.
          run_bind (next_nonce (env_oc env) (cl_url (tb_rpc b), signer_id, pk) (akv_nonce access_key) st) (\<lambda>(nonce, st).
            Done (Inr \<lparr>tx_signer_id = signer_id, tx_public_key = pk, tx_nonce = nonce,
              tx_receiver_id = tb_receiver_id b, tx_block_hash = akv_block_hash access_key,
              tx_actions = tb_actions b\<rparr>, st)))))"

definition build_offline ::
  "string + account_id \<Rightarrow> public_key \<Rightarrow> crypto_hash \<Rightarrow> u64 \<Rightarrow> transaction_builder \<Rightarrow> near_error + transaction" where
  "build_offline signer_id pk block_hash nonce b =
     (if tb_actions b = [] then Inl no_actions
      else rbind (map_err Err_ParseAccountId signer_id) (\<lambda>a.
        Inr \<lparr>tx_signer_id = a, tx_public_key = pk, tx_nonce = nonce, tx_receiver_id = tb_receiver_id b,
          tx_block_hash = block_hash, tx_actions = tb_actions b\<rparr>))"

text \<open>Hashing and signing a transaction with a claimed key.\<close>

definition sign_transaction ::
  "borsh_ops \<Rightarrow> crypto_ops \<Rightarrow> signing_key \<Rightarrow> transaction \<Rightarrow> (near_error + signed_transaction) run" where
  "sign_transaction bo cr k tx =
     run_bind (tx_get_hash bo cr tx) (\<lambda>h.
     run_bind (signing_key_sign cr k h) (\<lambda>r.
       Done (rmap (\<lambda>sig. \<lparr>st_transaction = tx, st_signature = sig\<rparr>) (map_err Err_Signing r))))"

text \<open>Claim a key, fetch its access key, take a nonce, build and sign. Signing and each attempt
  of sending do this; an attempt may know a nonce that is newer than the access key's.\<close>

definition sign_attempt ::
  "'w tx_env \<Rightarrow> transaction_builder \<Rightarrow> signer_ref \<Rightarrow> account_id \<Rightarrow> u64 option \<Rightarrow> 'w tx_state \<Rightarrow> ('w, signed_transaction) tx_result" where
  "sign_attempt env b r signer_id last_ak_nonce st =
     run_bind (claim_key (tx_cr env) r st) (\<lambda>(k, st).
     tx_bind (tx_try_rpc (view_access_key (env_oc env) (env_io env) (tb_rpc b) (env_dv env) signer_id (sk_public_key k)
                (RefFinality FinalityFinal)) st) (\<lambda>access_key st.
     run_bind (next_nonce (env_oc env) (cl_url (tb_rpc b), signer_id, sk_public_key k)
                (case last_ak_nonce of Some n \<Rightarrow> n | None \<Rightarrow> akv_nonce access_key) st) (\<lambda>(nonce, st).
     run_bind (sign_transaction (env_bo env) (tx_cr env) k
         \<lparr>tx_signer_id = signer_id, tx_public_key = sk_public_key k, tx_nonce = nonce,
          tx_receiver_id = tb_receiver_id b, tx_block_hash = akv_block_hash access_key, tx_actions = tb_actions b\<rparr>) (\<lambda>s.
       Done (s, st)))))"

definition sign :: "'w tx_env \<Rightarrow> transaction_builder \<Rightarrow> 'w tx_state \<Rightarrow> ('w, signed_transaction) tx_result" where
  "sign env b st =
     (if tb_actions b = [] then Done (Inl no_actions, st)
      else case builder_signer b of
        Inl e \<Rightarrow> Done (Inl e, st)
      | Inr r \<Rightarrow> sign_attempt env b r (any_account_id (ts_signers st r)) None st)"

definition sign_offline ::
  "'w tx_env \<Rightarrow> crypto_hash \<Rightarrow> u64 \<Rightarrow> transaction_builder \<Rightarrow> 'w tx_state \<Rightarrow> ('w, signed_transaction) tx_result" where
  "sign_offline env block_hash nonce b st =
     (if tb_actions b = [] then Done (Inl no_actions, st)
      else case builder_signer b of
        Inl e \<Rightarrow> Done (Inl e, st)
      | Inr r \<Rightarrow>
          let signer_id = any_account_id (ts_signers st r) in
          run_bind (claim_key (tx_cr env) r st) (\<lambda>(k, st).
          run_bind (sign_transaction (env_bo env) (tx_cr env) k
             \<lparr>tx_signer_id = signer_id, tx_public_key = sk_public_key k, tx_nonce = nonce,
              tx_receiver_id = tb_receiver_id b, tx_block_hash = block_hash, tx_actions = tb_actions b\<rparr>) (\<lambda>s. Done (s, st))))"

section \<open>Meta-transactions\<close>

record delegate_options =
  do_max_block_height :: "u64 option"
  do_block_height_offset :: "u64 option"
  do_nonce :: "u64 option"

definition delegate_options_default :: delegate_options where
  "delegate_options_default = \<lparr>do_max_block_height = None, do_block_height_offset = None, do_nonce = None\<rparr>"

definition with_offset :: "u64 \<Rightarrow> delegate_options" where
  "with_offset n = delegate_options_default\<lparr>do_block_height_offset := Some n\<rparr>"

definition with_max_height :: "u64 \<Rightarrow> delegate_options" where
  "with_max_height h = delegate_options_default\<lparr>do_max_block_height := Some h\<rparr>"

record delegate_result =
  dr_signed_delegate_action :: signed_delegate_action
  dr_payload :: string

definition delegate_nonce ::
  "'w tx_env \<Rightarrow> transaction_builder \<Rightarrow> account_id \<Rightarrow> public_key \<Rightarrow> u64 option \<Rightarrow> 'w tx_state \<Rightarrow> ('w, u64) tx_result" where
  "delegate_nonce env b sender_id pk option_nonce st =
     (case option_nonce of
        Some n \<Rightarrow> Done (Inr n, st)
      | None \<Rightarrow>
          tx_bind (tx_try_rpc (view_access_key (env_oc env) (env_io env) (tb_rpc b) (env_dv env) sender_id pk
                     (RefFinality Optimistic)) st) (\<lambda>access_key st.
          run_bind (arith_add (env_oc env) (akv_nonce access_key) 1) (\<lambda>n. Done (Inr n, st))))"

definition delegate_max_height ::
  "'w tx_env \<Rightarrow> transaction_builder \<Rightarrow> delegate_options \<Rightarrow> 'w tx_state \<Rightarrow> ('w, u64) tx_result" where
  "delegate_max_height env b opts st =
     (case do_max_block_height opts of
        Some h \<Rightarrow> Done (Inr h, st)
      | None \<Rightarrow>
          tx_bind (tx_try_rpc (rpc_status (env_oc env) (env_io env) (tb_rpc b) (env_de_height env)) st) (\<lambda>height st.
          run_bind (arith_add (env_oc env) height (case do_block_height_offset opts of Some n \<Rightarrow> n | None \<Rightarrow> 200)) (\<lambda>h.
            Done (Inr h, st))))"

definition delegate ::
  "'w tx_env \<Rightarrow> delegate_options \<Rightarrow> transaction_builder \<Rightarrow> 'w tx_state \<Rightarrow> ('w, delegate_result) tx_result" where
  "delegate env opts b st =
     (if tb_actions b = [] then
        Done (Inl (Err_InvalidTransaction ''Delegate action requires at least one action''), st)
      else if list_ex is_delegate (tb_actions b) then
        Done (Inl (Err_InvalidTransaction ''Delegate actions cannot contain nested signed delegate actions''), st)
      else case builder_signer b of
        Inl e \<Rightarrow> Done (Inl e, st)
      | Inr r \<Rightarrow>
          let sender_id = any_account_id (ts_signers st r) in
          run_bind (claim_key (tx_cr env) r st) (\<lambda>(k, st).
          tx_bind (delegate_nonce env b sender_id (sk_public_key k) (do_nonce opts) st) (\<lambda>nonce st.
          tx_bind (delegate_max_height env b opts st) (\<lambda>max_block_height st.
          let d = DelegateAction sender_id (tb_receiver_id b) (List.map_filter non_delegate_from_action (tb_actions b))
                    nonce max_block_height (sk_public_key k) in
          run_bind (expect (delegate_get_hash (env_bo env) (tx_cr env) d)) (\<lambda>h.
          run_bind (signing_key_sign (tx_cr env) k h) (\<lambda>s.
          tx_bind (Done (map_err Err_Signing s, st)) (\<lambda>sig st.
          run_bind (expect (signed_delegate_to_base64 (env_bo env) (tx_cr env) (delegate_sign d sig))) (\<lambda>payload.
            Done (Inr \<lparr>dr_signed_delegate_action = delegate_sign d sig, dr_payload = payload\<rparr>, st)))))))))"

section \<open>Facts about the operations\<close>

lemma tx_bind_simps [simp]:
  "tx_bind (Done (Inr x, st)) f = f x st"
  "tx_bind (Done (Inl e, st)) f = Done (Inl e, st)"
  "tx_bind Panic f = Panic"
  by (simp_all add: tx_bind_def)

lemma tx_bind_ok:
  "tx_bind m f = Done (Inr y, st') \<longleftrightarrow> (\<exists>x st. m = Done (Inr x, st) \<and> f x st = Done (Inr y, st'))"
proof (cases m)
  case (Done p)
  obtain r st where "p = (r, st)" by fastforce
  then show ?thesis using Done by (cases r) auto
qed simp

lemma tx_try_rpc_ok:
  "tx_try_rpc call st = Done (Inr x, st') \<longleftrightarrow> (\<exists>net. call (ts_net st) = Done (Inr x, net) \<and> st' = st\<lparr>ts_net := net\<rparr>)"
  by (auto simp: tx_try_rpc_def tx_rpc_def)

lemma any_signer_law:
  assumes "signature_laws cr"
  shows "signer cr any_account_id (any_key cr) (any_public_key cr) (any_ok cr)"
proof
  fix s assume ok: "any_ok cr s"
  show "\<exists>k s'. any_key cr s = Done (k, s') \<and> signing_key_ok cr k \<and> any_ok cr s' \<and>
      any_account_id s' = any_account_id s \<and> any_public_key cr s = Done (sk_public_key k)"
  proof (cases s)
    case (OneKey t)
    then show ?thesis using signer.key_law [OF in_memory_signer_law [OF assms], of t] ok by auto
  next
    case (Rotating t)
    then show ?thesis using signer.key_law [OF rotating_signer_law [OF assms], of t] ok by fastforce
  qed
qed (rule assms)

interpretation ref_any: signer crypto_ref any_account_id "any_key crypto_ref" "any_public_key crypto_ref" "any_ok crypto_ref"
  by (rule any_signer_law [OF signature_laws_ref])

lemma claim_key_law:
  assumes "signature_laws cr" "any_ok cr (ts_signers st r)"
  shows "\<exists>k s. claim_key cr r st = Done (k, st\<lparr>ts_signers := (ts_signers st)(r := s)\<rparr>) \<and> signing_key_ok cr k \<and>
    any_ok cr s \<and> any_account_id s = any_account_id (ts_signers st r)"
  using signer.key_law [OF any_signer_law [OF assms(1)] assms(2)] by (auto simp: claim_key_def)

section \<open>Properties of delegation\<close>

lemma non_delegates_kept:
  "\<not> list_ex is_delegate as \<Longrightarrow> List.map_filter non_delegate_from_action as = map NonDelegateAction as"
  by (induction as) (simp_all add: non_delegate_from_action_def)

lemma delegate_nonce_given: "delegate_nonce env b sid pk (Some n) st = Done (Inr m, st') \<Longrightarrow> m = n"
  by (simp add: delegate_nonce_def)

lemma delegate_height_given:
  "do_max_block_height opts = Some h \<Longrightarrow> delegate_max_height env b opts st = Done (Inr m, st') \<Longrightarrow> m = h"
  by (simp add: delegate_max_height_def)

text \<open>C12: A delegate action that the builder returns carries exactly the builder's actions in order -
  the conversion that could drop one drops none - with the sender of the signer, the builder's
  receiver and the nonce and height that the options fix. Its signature verifies on its hash
  under its public key, and its payload decodes to it. An empty builder and one that holds a
  delegate action of either version are refused before a key is claimed.\<close>

theorem delegate_exact:
  assumes "signature_laws (tx_cr env)" "borsh_laws (env_bo env)" "b64_laws (tx_cr env)"
    and "builder_signer b = Inr r" "any_ok (tx_cr env) (ts_signers st r)"
  shows "(\<forall>res st'. delegate env opts b st = Done (Inr res, st') \<longrightarrow>
      (let sd = dr_signed_delegate_action res; d = sd_delegate_action sd in
       map inner (da_actions d) = tb_actions b \<and> da_sender_id d = any_account_id (ts_signers st r) \<and>
       da_receiver_id d = tb_receiver_id b \<and>
       (\<forall>n. do_nonce opts = Some n \<longrightarrow> da_nonce d = n) \<and> (\<forall>h. do_max_block_height opts = Some h \<longrightarrow> da_max_block_height d = h) \<and>
       (\<exists>h. delegate_get_hash (env_bo env) (tx_cr env) d = Some h \<and>
         signature_verify (tx_cr env) (sd_signature sd) h (da_public_key d)) \<and>
       (signed_delegate_ok (env_bo env) (tx_cr env) sd \<longrightarrow>
         signed_delegate_from_base64 (env_bo env) (tx_cr env) (dr_payload res) = Inr sd))) \<and>
    (tb_actions b = [] \<or> list_ex is_delegate (tb_actions b) \<longrightarrow>
      (\<exists>m. delegate env opts b st = Done (Inl (Err_InvalidTransaction m), st)))"
proof (intro conjI allI impI)
  fix res st' assume run: "delegate env opts b st = Done (Inr res, st')"
  then have nd: "tb_actions b \<noteq> []" "\<not> list_ex is_delegate (tb_actions b)" by (auto simp: delegate_def split: if_splits)
  obtain k sg where k: "claim_key (tx_cr env) r st = Done (k, st\<lparr>ts_signers := (ts_signers st)(r := sg)\<rparr>)"
    "signing_key_ok (tx_cr env) k" using claim_key_law [OF assms(1,5)] by blast
  let ?d = "\<lambda>n h. DelegateAction (any_account_id (ts_signers st r)) (tb_receiver_id b)
      (map NonDelegateAction (tb_actions b)) n h (sk_public_key k)"
  obtain n st1 h st2 hs sig t where n: "delegate_nonce env b (any_account_id (ts_signers st r)) (sk_public_key k) (do_nonce opts)
      (st\<lparr>ts_signers := (ts_signers st)(r := sg)\<rparr>) = Done (Inr n, st1)"
    and h: "delegate_max_height env b opts st1 = Done (Inr h, st2)"
    and hs: "delegate_get_hash (env_bo env) (tx_cr env) (?d n h) = Some hs"
    and sig: "signing_key_sign (tx_cr env) k hs = Done (Inr sig)"
    and t: "signed_delegate_to_base64 (env_bo env) (tx_cr env) (delegate_sign (?d n h) sig) = Some t"
    and res: "res = \<lparr>dr_signed_delegate_action = delegate_sign (?d n h) sig, dr_payload = t\<rparr>"
    using run k(1) nd assms(4) by (auto simp: delegate_def tx_bind_ok non_delegates_kept Let_def)
  have v: "signature_verify (tx_cr env) sig hs (sk_public_key k)"
    using signer.key_signs [OF any_signer_law [OF assms(1)] k(2), of hs] sig by auto
  have rt: "signed_delegate_from_base64 (env_bo env) (tx_cr env) t = Inr (delegate_sign (?d n h) sig)"
    if "signed_delegate_ok (env_bo env) (tx_cr env) (delegate_sign (?d n h) sig)"
    using t that wire_env.signed_delegate_rt [OF wire_env.intro [OF assms(2)] that] b64_laws.b64_rt [OF assms(3)]
    by (auto simp: signed_delegate_to_base64_def signed_delegate_from_base64_def signed_delegate_to_bytes_def
        signed_delegate_from_bytes_def)
  have "map inner (map NonDelegateAction (tb_actions b)) = tb_actions b" by (simp add: comp_def)
  then show "let sd = dr_signed_delegate_action res; d = sd_delegate_action sd in
       map inner (da_actions d) = tb_actions b \<and> da_sender_id d = any_account_id (ts_signers st r) \<and>
       da_receiver_id d = tb_receiver_id b \<and>
       (\<forall>n. do_nonce opts = Some n \<longrightarrow> da_nonce d = n) \<and> (\<forall>h. do_max_block_height opts = Some h \<longrightarrow> da_max_block_height d = h) \<and>
       (\<exists>h. delegate_get_hash (env_bo env) (tx_cr env) d = Some h \<and>
         signature_verify (tx_cr env) (sd_signature sd) h (da_public_key d)) \<and>
       (signed_delegate_ok (env_bo env) (tx_cr env) sd \<longrightarrow>
         signed_delegate_from_base64 (env_bo env) (tx_cr env) (dr_payload res) = Inr sd)"
    using n h hs v rt res delegate_nonce_given delegate_height_given by (auto simp: delegate_sign_def)
next
  assume "tb_actions b = [] \<or> list_ex is_delegate (tb_actions b)"
  then show "\<exists>m. delegate env opts b st = Done (Inl (Err_InvalidTransaction m), st)" by (auto simp: delegate_def)
qed

end
