(* ===== verification/Tx_Send.thy ===== *)
theory Tx_Send
  imports Tx_Builder
begin

text \<open>
  Sending (\<open>client/transaction.rs\<close>): a signed transaction is sent once; a builder is signed and sent
  again, with a fresh nonce and block hash, when the node rejects its nonce or finds the block
  hash expired. The step relation \<open>sends\<close> describes the attempts of such a run with the
  transactions that were sent and what the node answered.
\<close>

section \<open>The model\<close>

definition send_signed ::
  "'w tx_env \<Rightarrow> rpc_client \<Rightarrow> wait_level \<Rightarrow> signed_transaction \<Rightarrow> 'w tx_state \<Rightarrow> ('w, level_response) tx_result" where
  "send_signed env rpc level signed_tx st =
     tx_bind (tx_try_rpc (send_tx (env_oc env) (env_bo env) (env_io env) rpc (env_dv env) signed_tx (level_status level)) st)
       (\<lambda>response st. Done (level_convert (tx_cr env) level response (tx_signer_id (st_transaction signed_tx)), st))"

text \<open>What an answer of the node to an attempt means: it is final, or the next attempt starts
  with a newer nonce or without one, and with the error to report.\<close>

datatype attempt_verdict = Final_result "near_error + level_response" | Retry "u64 option" near_error

definition judge ::
  "'w tx_env \<Rightarrow> transaction_builder \<Rightarrow> account_id \<Rightarrow> wait_level \<Rightarrow> u32 \<Rightarrow> rpc_error + raw_transaction_response
     \<Rightarrow> attempt_verdict run" where
  "judge env b signer_id level attempt r =
     (case r of
        Inr response \<Rightarrow> Done (Final_result (level_convert (tx_cr env) level response signer_id))
      | Inl e \<Rightarrow>
          (case e of
             Rpc_InvalidTx (InvalidTx_InvalidNonce ak tn) \<Rightarrow>
               Done (if attempt < tb_max_nonce_retries b
                     then Retry (Some ak) (Err_InvalidTx (InvalidTx_InvalidNonce ak tn))
                     else Final_result (Inl (error_from_rpc e)))
           | Rpc_InvalidTx InvalidTx_Expired \<Rightarrow>
               run_bind (arith_add (env_oc env) attempt 1) (\<lambda>next_attempt.
                 Done (if next_attempt < tb_max_nonce_retries b then Retry None (Err_InvalidTx InvalidTx_Expired)
                       else Final_result (Inl (error_from_rpc e))))
           | _ \<Rightarrow> Done (Final_result (Inl (error_from_rpc e)))))"

definition send_attempt ::
  "'w tx_env \<Rightarrow> transaction_builder \<Rightarrow> wait_level \<Rightarrow> signed_transaction \<Rightarrow> 'w tx_state
     \<Rightarrow> ((rpc_error + raw_transaction_response) \<times> 'w tx_state) run" where
  "send_attempt env b level signed_tx st =
     tx_rpc (send_tx (env_oc env) (env_bo env) (env_io env) (tb_rpc b) (env_dv env) signed_tx (level_status level)) st"

text \<open>The iterations from \<open>attempt\<close> on, of which \<open>n\<close> are left.\<close>

fun send_loop ::
  "'w tx_env \<Rightarrow> transaction_builder \<Rightarrow> signer_ref \<Rightarrow> account_id \<Rightarrow> wait_level \<Rightarrow> u32 \<Rightarrow> nat \<Rightarrow> u64 option \<Rightarrow> near_error option
     \<Rightarrow> 'w tx_state \<Rightarrow> ('w, level_response) tx_result" where
  "send_loop env b r signer_id level attempt 0 last_ak_nonce last_error st =
     Done (Inl (case last_error of Some e \<Rightarrow> e
       | None \<Rightarrow> Err_InvalidTransaction ''Unknown error during transaction send''), st)"
| "send_loop env b r signer_id level attempt (Suc n) last_ak_nonce last_error st =
     tx_bind (sign_attempt env b r signer_id last_ak_nonce st) (\<lambda>signed_tx st.
     run_bind (send_attempt env b level signed_tx st) (\<lambda>(res, st).
     run_bind (judge env b signer_id level attempt res) (\<lambda>v.
       case v of
         Final_result x \<Rightarrow> Done (x, st)
       | Retry ak e \<Rightarrow> send_loop env b r signer_id level (attempt + 1) n ak (Some e) st)))"

definition send :: "'w tx_env \<Rightarrow> wait_level \<Rightarrow> transaction_builder \<Rightarrow> 'w tx_state \<Rightarrow> ('w, level_response) tx_result" where
  "send env level b st =
     (if tb_actions b = [] then Done (Inl no_actions, st)
      else case builder_signer b of
        Inl e \<Rightarrow> Done (Inl e, st)
      | Inr r \<Rightarrow> send_loop env b r (any_account_id (ts_signers st r)) level 0 (unat (tb_max_nonce_retries b) + 1) None None st)"

section \<open>The attempts of a run\<close>

inductive sends ::
  "'w tx_env \<Rightarrow> transaction_builder \<Rightarrow> signer_ref \<Rightarrow> account_id \<Rightarrow> wait_level \<Rightarrow> u32 \<Rightarrow> u64 option \<Rightarrow> 'w tx_state
     \<Rightarrow> (signed_transaction \<times> (rpc_error + raw_transaction_response)) list \<Rightarrow> near_error + level_response \<Rightarrow> 'w tx_state \<Rightarrow> bool"
  for env b r signer_id level where
  sends_sign_fails:
    "sign_attempt env b r signer_id ak st = Done (Inl e, st1) \<Longrightarrow> sends env b r signer_id level attempt ak st [] (Inl e) st1"
| sends_final:
    "sign_attempt env b r signer_id ak st = Done (Inr s, st1) \<Longrightarrow>
     tx_rpc (send_tx (env_oc env) (env_bo env) (env_io env) (tb_rpc b) (env_dv env) s (level_status level)) st1 = Done (a, st2) \<Longrightarrow>
     judge env b signer_id level attempt a = Done (Final_result x) \<Longrightarrow> sends env b r signer_id level attempt ak st [(s, a)] x st2"
| sends_retry:
    "sign_attempt env b r signer_id ak st = Done (Inr s, st1) \<Longrightarrow>
     tx_rpc (send_tx (env_oc env) (env_bo env) (env_io env) (tb_rpc b) (env_dv env) s (level_status level)) st1 = Done (a, st2) \<Longrightarrow>
     judge env b signer_id level attempt a = Done (Retry ak' e) \<Longrightarrow>
     sends env b r signer_id level (attempt + 1) ak' st2 tr x st3 \<Longrightarrow>
     sends env b r signer_id level attempt ak st ((s, a) # tr) x st3"

lemmas sends_attempt_intros = sends.intros [folded send_attempt_def]

text \<open>A rejection after which the loop may try again.\<close>

fun transient :: "rpc_error + raw_transaction_response \<Rightarrow> bool" where
  "transient (Inl (Rpc_InvalidTx (InvalidTx_InvalidNonce ak tn))) = True"
| "transient (Inl (Rpc_InvalidTx InvalidTx_Expired)) = True"
| "transient _ = False"

lemma arith_add_1_less: "arith_add oc a (1 :: 'a::len word) = Done x \<Longrightarrow> oc \<or> x \<noteq> 0 \<Longrightarrow> a < x"
proof -
  assume h: "arith_add oc a 1 = Done x" "oc \<or> x \<noteq> 0"
  then have x: "x = a + 1" by (auto simp: arith_add_def split: if_splits)
  show "a < x"
  proof (cases "unat a + 1 < 2 ^ LENGTH('a)")
    case True
    then have "unat (a + 1) = unat a + 1" by (subst unat_add_nowrap) simp_all
    then show ?thesis using x by (simp add: word_less_nat_alt)
  next
    case False
    then have "unat a + 1 = 2 ^ LENGTH('a)" using unat_lt_size [of a] by linarith
    then have "x = of_nat (2 ^ LENGTH('a))" using x by (metis of_nat_1 of_nat_add word_of_nat_unat)
    then show ?thesis using h False by (simp add: arith_add_def)
  qed
qed

lemma arith_add_below: "a \<le> m \<Longrightarrow> m \<noteq> - 1 \<Longrightarrow> arith_add oc a (1 :: 'a::len word) = Done x \<Longrightarrow> a < x"
proof (rule arith_add_1_less)
  assume "a \<le> m" "m \<noteq> - 1" "arith_add oc a 1 = Done x"
  then have "x = a + 1" "a \<noteq> - 1" by (auto simp: arith_add_def word_order.extremum_unique split: if_splits)
  then show "oc \<or> x \<noteq> 0" by (simp add: eq_neg_iff_add_eq_0)
qed

lemma judge_retry:
  assumes "judge env b sid level attempt a = Done (Retry ak e)"
    and "attempt \<le> tb_max_nonce_retries b" "tb_max_nonce_retries b \<noteq> - 1"
  shows "transient a \<and> attempt < tb_max_nonce_retries b \<and>
    (\<forall>n t. a = Inl (Rpc_InvalidTx (InvalidTx_InvalidNonce n t)) \<longrightarrow> ak = Some n)"
proof -
  have "arith_add (env_oc env) attempt 1 = Done x \<Longrightarrow> x < tb_max_nonce_retries b \<Longrightarrow> attempt < tb_max_nonce_retries b" for x
    using arith_add_below [OF assms(2,3)] less_trans by blast
  then show ?thesis
    using assms(1) by (auto simp: judge_def split: sum.splits rpc_error.splits invalid_tx_error.splits if_splits)
qed

lemma judge_final:
  assumes "judge env b sid level attempt a = Done (Final_result x)"
  shows "x = (case a of Inr response \<Rightarrow> level_convert (tx_cr env) level response sid | Inl e \<Rightarrow> Inl (error_from_rpc e)) \<and>
    (\<forall>n t. a = Inl (Rpc_InvalidTx (InvalidTx_InvalidNonce n t)) \<longrightarrow> tb_max_nonce_retries b \<le> attempt)"
  using assms by (auto simp: judge_def not_less split: sum.splits rpc_error.splits invalid_tx_error.splits if_splits)

lemma attempt_step:
  assumes "(attempt :: u32) < m"
  shows "unat (attempt + 1) = unat attempt + 1" and "attempt + 1 \<le> m"
proof -
  have "unat attempt < unat m" "unat m < 2 ^ 32"
    using assms unat_lt_size [of m] by (simp_all add: word_less_nat_alt)
  then show u: "unat (attempt + 1) = unat attempt + 1" by (subst unat_add_nowrap) simp_all
  show "attempt + 1 \<le> m" using \<open>unat attempt < unat m\<close> by (simp add: word_le_nat_alt u)
qed

text \<open>With the iterations that the bound leaves, the loop is exactly such a run: it does not end by
  running out of iterations.\<close>

lemma send_loop_sends:
  assumes "n + unat attempt = unat (tb_max_nonce_retries b) + 1" "0 < n" "tb_max_nonce_retries b \<noteq> - 1"
    and "send_loop env b r sid level attempt n ak err st = Done (x, st')"
  shows "\<exists>tr. sends env b r sid level attempt ak st tr x st'"
  using assms
proof (induction n arbitrary: attempt ak err st)
  case (Suc n)
  obtain res st1 where sg: "sign_attempt env b r sid ak st = Done (res, st1)"
    using Suc.prems(4) by (cases "sign_attempt env b r sid ak st") auto
  show ?case
  proof (cases res)
    case (Inl e)
    then show ?thesis using sg Suc.prems(4) by (auto intro: sends_attempt_intros)
  next
    case (Inr s)
    then obtain a st2 v where a: "send_attempt env b level s st1 = Done (a, st2)" "judge env b sid level attempt a = Done v"
      and v: "(case v of Final_result x \<Rightarrow> Done (x, st2)
        | Retry ak e \<Rightarrow> send_loop env b r sid level (attempt + 1) n ak (Some e) st2) = Done (x, st')"
      using sg Suc.prems(4) by auto
    show ?thesis
    proof (cases v)
      case (Final_result y)
      then show ?thesis using sg Inr a v by (auto intro: sends_attempt_intros)
    next
      case (Retry ak' e)
      have le: "attempt \<le> tb_max_nonce_retries b" using Suc.prems(1) by (simp add: word_le_nat_alt)
      have lt: "attempt < tb_max_nonce_retries b" using judge_retry [OF _ le Suc.prems(3)] a(2) Retry by blast
      then have "0 < n" using Suc.prems(1) by (simp add: word_less_nat_alt)
      then obtain tr where "sends env b r sid level (attempt + 1) ak' st2 tr x st'"
        using Suc.IH [of "attempt + 1" ak' "Some e" st2] Suc.prems v Retry attempt_step [OF lt] by auto
      then show ?thesis using sg Inr a Retry sends_attempt_intros(3) by metis
    qed
  qed
qed simp

section \<open>What an attempt signs\<close>

abbreviation handed_out :: "'w tx_state \<Rightarrow> transaction_builder \<Rightarrow> account_id \<Rightarrow> public_key \<Rightarrow> u64" where
  "handed_out st b sid pk \<equiv> last_nonce (ts_nonces st) (cl_url (tb_rpc b), sid, pk)"

lemma next_nonce_fresh:
  assumes "next_nonce oc k n st = Done (x, st')" "oc \<or> x \<noteq> 0"
  shows "n < x \<and> last_nonce (ts_nonces st) k < x \<and> ts_signers st' = ts_signers st \<and> ts_net st' = ts_net st \<and>
    (\<forall>k'. last_nonce (ts_nonces st') k' = (if k' = k then x else last_nonce (ts_nonces st) k'))"
proof -
  let ?m = "case nonces (ts_nonces st) k of Some c \<Rightarrow> max c n | None \<Rightarrow> n"
  have *: "\<not> poisoned (ts_nonces st)" "arith_add oc ?m 1 = Done x"
    "st' = st\<lparr>ts_nonces := (ts_nonces st)\<lparr>nonces := (nonces (ts_nonces st))(k \<mapsto> x)\<rparr>\<rparr>"
    using assms(1) by (auto simp: next_nonce_def nonce_manager_next_def Let_def split: if_splits run.splits prod.splits)
  have "?m < x" using arith_add_1_less [OF *(2) assms(2)] .
  moreover have "n \<le> ?m" "last_nonce (ts_nonces st) k \<le> ?m" by (auto simp: last_nonce_def split: option.splits)
  ultimately show ?thesis using *(3) by (auto simp: last_nonce_def)
qed

text \<open>A transaction that carries what the builder holds, with a signature that verifies.\<close>

definition signed_for :: "'w tx_env \<Rightarrow> transaction_builder \<Rightarrow> account_id \<Rightarrow> signed_transaction \<Rightarrow> bool" where
  "signed_for env b sid s \<longleftrightarrow>
     (let tx = st_transaction s in
      tx_signer_id tx = sid \<and> tx_receiver_id tx = tb_receiver_id b \<and> tx_actions tx = tb_actions b \<and>
      (case tx_get_hash (env_bo env) (tx_cr env) tx of
         Done h \<Rightarrow> signature_verify (tx_cr env) (st_signature s) h (tx_public_key tx) | Panic \<Rightarrow> False))"

abbreviation tx_of :: "signed_transaction \<times> 'a \<Rightarrow> transaction" where
  "tx_of p \<equiv> st_transaction (fst p)"

lemma sign_transaction_ok:
  assumes "signature_laws cr" "signing_key_ok cr k" "sign_transaction bo cr k tx = Done r" "tx_public_key tx = sk_public_key k"
  shows "\<exists>s h. r = Inr s \<and> st_transaction s = tx \<and> tx_get_hash bo cr tx = Done h \<and>
    signature_verify cr (st_signature s) h (tx_public_key tx)"
proof -
  obtain h where h: "tx_get_hash bo cr tx = Done h" using assms(3) by (auto simp: sign_transaction_def)
  obtain sig where "signing_key_sign cr k h = Done (Inr sig)" "signature_verify cr sig h (sk_public_key k)"
    using signer.key_signs [OF any_signer_law [OF assms(1)] assms(2)] by blast
  then show ?thesis using h assms(3,4) by (auto simp: sign_transaction_def)
qed

lemma sign_attempt_parts:
  assumes laws: "signature_laws (tx_cr env)" and ok: "any_ok (tx_cr env) (ts_signers st r)"
    and run: "sign_attempt env b r sid ak st = Done (Inr s, st1)"
  shows "signed_for env b sid s" "\<exists>sg (access_key :: access_key_view) net.
    next_nonce (env_oc env) (cl_url (tb_rpc b), sid, tx_public_key (st_transaction s))
      (case ak of Some n \<Rightarrow> n | None \<Rightarrow> akv_nonce access_key) (st\<lparr>ts_signers := (ts_signers st)(r := sg), ts_net := net\<rparr>) =
      Done (tx_nonce (st_transaction s), st1) \<and>
    any_ok (tx_cr env) sg \<and> any_account_id sg = any_account_id (ts_signers st r)"
proof -
  obtain k sg where k: "claim_key (tx_cr env) r st = Done (k, st\<lparr>ts_signers := (ts_signers st)(r := sg)\<rparr>)"
    "signing_key_ok (tx_cr env) k" "any_ok (tx_cr env) sg" "any_account_id sg = any_account_id (ts_signers st r)"
    using claim_key_law [OF laws ok] by blast
  obtain access_key :: access_key_view and net nonce where
    n: "next_nonce (env_oc env) (cl_url (tb_rpc b), sid, sk_public_key k)
          (case ak of Some n \<Rightarrow> n | None \<Rightarrow> akv_nonce access_key) (st\<lparr>ts_signers := (ts_signers st)(r := sg), ts_net := net\<rparr>) = Done (nonce, st1)"
    and s: "sign_transaction (env_bo env) (tx_cr env) k
         \<lparr>tx_signer_id = sid, tx_public_key = sk_public_key k, tx_nonce = nonce,
          tx_receiver_id = tb_receiver_id b, tx_block_hash = akv_block_hash access_key, tx_actions = tb_actions b\<rparr> = Done (Inr s)"
    using run k(1) by (clarsimp simp: sign_attempt_def tx_bind_ok tx_try_rpc_ok)
  obtain h where st: "st_transaction s = \<lparr>tx_signer_id = sid, tx_public_key = sk_public_key k, tx_nonce = nonce,
          tx_receiver_id = tb_receiver_id b, tx_block_hash = akv_block_hash access_key, tx_actions = tb_actions b\<rparr>"
    and h: "tx_get_hash (env_bo env) (tx_cr env) (st_transaction s) = Done h"
      "signature_verify (tx_cr env) (st_signature s) h (tx_public_key (st_transaction s))"
    using sign_transaction_ok [OF laws k(2) s] by auto
  then show "signed_for env b sid s" by (auto simp: signed_for_def Let_def)
  have "tx_public_key (st_transaction s) = sk_public_key k" "tx_nonce (st_transaction s) = nonce" using st by simp_all
  then show "\<exists>sg (access_key :: access_key_view) net.
    next_nonce (env_oc env) (cl_url (tb_rpc b), sid, tx_public_key (st_transaction s))
      (case ak of Some n \<Rightarrow> n | None \<Rightarrow> akv_nonce access_key) (st\<lparr>ts_signers := (ts_signers st)(r := sg), ts_net := net\<rparr>) =
      Done (tx_nonce (st_transaction s), st1) \<and>
    any_ok (tx_cr env) sg \<and> any_account_id sg = any_account_id (ts_signers st r)"
    using n k(3,4) by (intro exI [of _ sg] exI [of _ access_key] exI [of _ net]) simp
qed

lemma next_nonce_signers: "next_nonce oc k n st = Done (x, st') \<Longrightarrow> ts_signers st' = ts_signers st"
  by (auto simp: next_nonce_def split: run.splits prod.splits)

lemma sign_attempt_signed:
  assumes "signature_laws (tx_cr env)" "any_ok (tx_cr env) (ts_signers st r)" "sign_attempt env b r sid ak st = Done (Inr s, st1)"
  shows "signed_for env b sid s \<and> any_ok (tx_cr env) (ts_signers st1 r) \<and>
    any_account_id (ts_signers st1 r) = any_account_id (ts_signers st r)"
  using sign_attempt_parts [OF assms] by (auto dest: next_nonce_signers)

lemma sign_attempt_ok:
  assumes "signature_laws (tx_cr env)" "any_ok (tx_cr env) (ts_signers st r)" "sign_attempt env b r sid ak st = Done (Inr s, st1)"
    and nz: "env_oc env \<or> tx_nonce (st_transaction s) \<noteq> 0"
  shows "signed_for env b sid s \<and> any_ok (tx_cr env) (ts_signers st1 r) \<and>
    any_account_id (ts_signers st1 r) = any_account_id (ts_signers st r) \<and>
    handed_out st b sid (tx_public_key (st_transaction s)) < tx_nonce (st_transaction s) \<and>
    (\<forall>n. ak = Some n \<longrightarrow> n < tx_nonce (st_transaction s)) \<and>
    (\<forall>pk. handed_out st1 b sid pk =
      (if pk = tx_public_key (st_transaction s) then tx_nonce (st_transaction s) else handed_out st b sid pk))"
proof -
  obtain sg and access_key :: access_key_view and net where n: "next_nonce (env_oc env) (cl_url (tb_rpc b), sid, tx_public_key (st_transaction s))
      (case ak of Some n \<Rightarrow> n | None \<Rightarrow> akv_nonce access_key) (st\<lparr>ts_signers := (ts_signers st)(r := sg), ts_net := net\<rparr>) =
      Done (tx_nonce (st_transaction s), st1)" using sign_attempt_parts(2) [OF assms(1-3)] by blast
  show ?thesis using sign_attempt_signed [OF assms(1-3)] next_nonce_fresh [OF n nz] by auto
qed

lemma tx_rpc_keeps: "tx_rpc f st = Done (a, st') \<Longrightarrow> ts_signers st' = ts_signers st \<and> ts_nonces st' = ts_nonces st"
  by (auto simp: tx_rpc_def)

lemma send_attempt_keeps:
  "send_attempt env b level s st = Done (a, st') \<Longrightarrow> ts_signers st' = ts_signers st \<and> ts_nonces st' = ts_nonces st"
  unfolding send_attempt_def by (rule tx_rpc_keeps)

text \<open>Pairs of a key and a nonce of which each exceeds everything handed out for its key.\<close>

fun fresh_run :: "('k \<Rightarrow> u64) \<Rightarrow> ('k \<times> u64) list \<Rightarrow> bool" where
  "fresh_run f [] = True"
| "fresh_run f (p # ps) = (f (fst p) < snd p \<and> fresh_run (f(fst p := snd p)) ps)"

lemma fresh_run_above: "fresh_run f ps \<Longrightarrow> p \<in> set ps \<Longrightarrow> f (fst p) < snd p"
proof (induction ps arbitrary: f)
  case (Cons q ps)
  show ?case
  proof (cases "p = q")
    case False
    then have "fresh_run (f(fst q := snd q)) ps" "p \<in> set ps" using Cons.prems by simp_all
    from Cons.IH [OF this] show ?thesis using Cons.prems by (cases "fst p = fst q") auto
  qed (use Cons.prems in simp)
qed simp

lemma fresh_run_increasing:
  "fresh_run f ps \<Longrightarrow> sorted_wrt (\<lambda>p q. fst p = fst q \<longrightarrow> snd p < snd q) ps"
proof (induction ps arbitrary: f)
  case (Cons p ps)
  have "snd p < snd q" if "q \<in> set ps" "fst p = fst q" for q
    using fresh_run_above [of "f(fst p := snd p)" ps q] Cons.prems that by simp
  moreover have "fresh_run (f(fst p := snd p)) ps" using Cons.prems by simp
  ultimately show ?case using Cons.IH by simp
qed simp

section \<open>Runs\<close>

definition answer_result ::
  "'w tx_env \<Rightarrow> wait_level \<Rightarrow> account_id \<Rightarrow> rpc_error + raw_transaction_response \<Rightarrow> near_error + level_response" where
  "answer_result env level sid a =
     (case a of Inr response \<Rightarrow> level_convert (tx_cr env) level response sid | Inl e \<Rightarrow> Inl (error_from_rpc e))"

definition newer_than_rejection :: "signed_transaction \<times> (rpc_error + 'r) \<Rightarrow> signed_transaction \<times> (rpc_error + 'r) \<Rightarrow> bool" where
  "newer_than_rejection p q \<longleftrightarrow>
     (\<forall>ak tn. snd p = Inl (Rpc_InvalidTx (InvalidTx_InvalidNonce ak tn)) \<longrightarrow> ak < tx_nonce (tx_of q))"

abbreviation key_nonces :: "(signed_transaction \<times> 'a) list \<Rightarrow> (public_key \<times> u64) list" where
  "key_nonces tr \<equiv> map (\<lambda>p. (tx_public_key (tx_of p), tx_nonce (tx_of p))) tr"

lemma sends_signed:
  assumes "sends env b r sid level attempt ak st tr x st'" and laws: "signature_laws (tx_cr env)"
    and "any_ok (tx_cr env) (ts_signers st r)"
  shows "list_all (\<lambda>p. signed_for env b sid (fst p)) tr"
  using assms(1,3)
proof (induction rule: sends.induct)
  case (sends_retry ak st s st1 a st2 attempt ak' e tr x st3)
  then show ?case using sign_attempt_signed [OF laws sends_retry.prems sends_retry.hyps(1)] tx_rpc_keeps [OF sends_retry.hyps(2)] by simp
qed (use sign_attempt_signed [OF laws] in auto)

lemma sends_nonces:
  assumes "sends env b r sid level attempt ak st tr x st'" and laws: "signature_laws (tx_cr env)"
    and "any_ok (tx_cr env) (ts_signers st r)" "env_oc env \<or> list_all (\<lambda>p. tx_nonce (tx_of p) \<noteq> 0) tr"
    and "attempt \<le> tb_max_nonce_retries b" "tb_max_nonce_retries b \<noteq> - 1"
  shows "fresh_run (handed_out st b sid) (key_nonces tr) \<and>
    (\<forall>n. ak = Some n \<and> tr \<noteq> [] \<longrightarrow> n < tx_nonce (tx_of (hd tr))) \<and> successively newer_than_rejection tr"
  using assms(1,3-6)
proof (induction rule: sends.induct)
  case (sends_sign_fails ak st e st1 attempt)
  then show ?case by simp
next
  case (sends_final ak st s st1 a st2 attempt x)
  then show ?case using sign_attempt_ok [OF laws sends_final.prems(1) sends_final.hyps(1)] by auto
next
  case (sends_retry ak st s st1 a st2 attempt ak' e tr x st3)
  have nz: "env_oc env \<or> tx_nonce (st_transaction s) \<noteq> 0" using sends_retry.prems(2) by auto
  note s = sign_attempt_ok [OF laws sends_retry.prems(1) sends_retry.hyps(1) nz]
  note keep = tx_rpc_keeps [OF sends_retry.hyps(2)]
  note j = judge_retry [OF sends_retry.hyps(3) sends_retry.prems(3,4)]
  have ih: "fresh_run (handed_out st2 b sid) (key_nonces tr)"
    "\<And>n. ak' = Some n \<Longrightarrow> tr \<noteq> [] \<Longrightarrow> n < tx_nonce (tx_of (hd tr))" "successively newer_than_rejection tr"
    using sends_retry.IH s keep sends_retry.prems(2,4) j attempt_step by auto
  have "handed_out st2 b sid = (handed_out st b sid)(tx_public_key (st_transaction s) := tx_nonce (st_transaction s))"
    using s keep by auto
  moreover have "newer_than_rejection (s, a) (hd tr)" if "tr \<noteq> []"
    using j ih(2) that by (auto simp: newer_than_rejection_def)
  ultimately show ?case using s ih by (auto simp: successively_Cons)
qed

lemma sends_answers:
  assumes "sends env b r sid level attempt ak st tr x st'"
    and "attempt \<le> tb_max_nonce_retries b" "tb_max_nonce_retries b \<noteq> - 1"
  shows "unat attempt + length tr \<le> unat (tb_max_nonce_retries b) + 1 \<and> list_all (\<lambda>p. transient (snd p)) (butlast tr) \<and>
    ((tr \<noteq> [] \<and> x = answer_result env level sid (snd (last tr)) \<and>
      (\<forall>n t. snd (last tr) = Inl (Rpc_InvalidTx (InvalidTx_InvalidNonce n t)) \<longrightarrow>
        unat attempt + length tr = unat (tb_max_nonce_retries b) + 1)) \<or>
     (list_all (\<lambda>p. transient (snd p)) tr \<and> (\<exists>e ak' st1. sign_attempt env b r sid ak' st1 = Done (Inl e, st') \<and> x = Inl e)))"
  using assms
proof (induction rule: sends.induct)
  case (sends_sign_fails ak st e st1 attempt)
  then show ?case by (auto simp: word_le_nat_alt)
next
  case (sends_final ak st s st1 a st2 attempt x)
  then show ?case using judge_final [OF sends_final.hyps(3)] by (auto simp: word_le_nat_alt answer_result_def)
next
  case (sends_retry ak st s st1 a st2 attempt ak' e tr x st3)
  note j = judge_retry [OF sends_retry.hyps(3) sends_retry.prems]
  then have lt: "attempt < tb_max_nonce_retries b" by blast
  note ih = sends_retry.IH [OF attempt_step(2) [OF lt] sends_retry.prems(2)]
  show ?case
  proof (cases "tr = []")
    case True
    then show ?thesis using ih j attempt_step(1) [OF lt] by auto
  next
    case False
    then show ?thesis using ih j attempt_step(1) [OF lt] by auto
  qed
qed

section \<open>A run returns\<close>

text \<open>What a send relies on: a client whose retries are within bounds, a nonce manager that no
  earlier panic has poisoned, and actions that fit the wire format.\<close>

definition client_ok :: "'w tx_env \<Rightarrow> transaction_builder \<Rightarrow> bool" where
  "client_ok env b \<longleftrightarrow> is_ok (parse_account (env_sd (io_env (env_io env))) ''unknown'') \<and>
     cl_retries (tb_rpc b) \<le> 64 \<and>
     unat (rc_initial_delay_ms (cl_retry (tb_rpc b))) * 2 ^ (cl_retries (tb_rpc b) - 1) < 2 ^ 64"

definition serializable :: "borsh_ops \<Rightarrow> transaction_builder \<Rightarrow> account_id \<Rightarrow> bool" where
  "serializable bo b sid \<longleftrightarrow> (\<forall>pk nonce h. ser_transaction bo \<lparr>tx_signer_id = sid, tx_public_key = pk, tx_nonce = nonce,
     tx_receiver_id = tb_receiver_id b, tx_block_hash = h, tx_actions = tb_actions b\<rparr> \<noteq> None)"

lemma rpc_call_returns:
  assumes "client_ok env b"
  shows "\<exists>res net'. rpc_call oc (env_io env) (tb_rpc b) de m ps net = Done (res, net')"
proof -
  have "rpc_node (env_io env)" using assms by unfold_locales (simp add: client_ok_def)
  moreover have "retry_delay oc (cl_retry (tb_rpc b)) k = Done (backoff (cl_retry (tb_rpc b)) k)" if "k < cl_retries (tb_rpc b)" for k
    using assms that by (intro retry_delay_range [where n = "cl_retries (tb_rpc b)"]) (simp_all add: client_ok_def)
  ultimately show ?thesis
    using rpc_node.rpc_call_trace [of "env_io env" "tb_rpc b" oc de m ps net] assms by (auto simp: client_ok_def)
qed

text \<open>The one way in which an attempt panics: a build with overflow checks, and a nonce that leaves no
  larger one.\<close>

definition nonce_exhausted ::
  "'w tx_env \<Rightarrow> transaction_builder \<Rightarrow> signer_ref \<Rightarrow> account_id \<Rightarrow> u64 option \<Rightarrow> 'w tx_state \<Rightarrow> bool" where
  "nonce_exhausted env b r sid ak st \<longleftrightarrow>
     (\<exists>k st0 access_key net. claim_key (tx_cr env) r st = Done (k, st0) \<and>
        view_access_key (env_oc env) (env_io env) (tb_rpc b) (env_dv env) sid (sk_public_key k)
          (RefFinality FinalityFinal) (ts_net st) = Done (Inr access_key, net) \<and>
        (handed_out st b sid (sk_public_key k) = - 1 \<or> (case ak of Some n \<Rightarrow> n | None \<Rightarrow> akv_nonce access_key) = - 1))"

lemma arith_add_1_panic: "arith_add oc a (1 :: 'a::len word) = Panic \<longleftrightarrow> oc \<and> a = - 1"
proof -
  have "\<not> unat a + 1 < 2 ^ LENGTH('a) \<longleftrightarrow> a = - 1"
  proof
    assume "\<not> unat a + 1 < 2 ^ LENGTH('a)"
    then have "unat a + 1 = 2 ^ LENGTH('a)" using unat_lt_size [of a] by linarith
    then have "a + 1 = of_nat (2 ^ LENGTH('a))" by (metis of_nat_1 of_nat_add word_of_nat_unat)
    then have "a + 1 = 0" by simp
    then show "a = - 1" by (simp add: eq_neg_iff_add_eq_0)
  next
    assume "a = - 1"
    then have "unat (a + 1) = 0" by simp
    then show "\<not> unat a + 1 < 2 ^ LENGTH('a)" using unat_add_nowrap [of a 1] by auto
  qed
  then show ?thesis by (simp add: arith_add_def)
qed

lemma next_nonce_outcome:
  assumes "\<not> poisoned (ts_nonces st)"
  shows "(\<exists>x nm. next_nonce oc k n st = Done (x, st\<lparr>ts_nonces := nm\<rparr>) \<and> \<not> poisoned nm) \<or>
    (oc \<and> next_nonce oc k n st = Panic \<and> (last_nonce (ts_nonces st) k = - 1 \<or> n = - 1))"
proof -
  let ?m = "case nonces (ts_nonces st) k of Some c \<Rightarrow> max c n | None \<Rightarrow> n"
  show ?thesis
  proof (cases "arith_add oc ?m 1")
    case Panic
    then have "oc" "?m = - 1" by (simp_all add: arith_add_1_panic)
    then show ?thesis using assms Panic
      by (auto simp: next_nonce_def nonce_manager_next_def last_nonce_def Let_def max_def split: option.splits if_splits)
  next
    case (Done x)
    then have "next_nonce oc k n st = Done (x, st\<lparr>ts_nonces := (ts_nonces st)\<lparr>nonces := (nonces (ts_nonces st))(k \<mapsto> x)\<rparr>\<rparr>)"
      using assms by (simp add: next_nonce_def nonce_manager_next_def Let_def)
    moreover have "\<not> poisoned ((ts_nonces st)\<lparr>nonces := (nonces (ts_nonces st))(k \<mapsto> x)\<rparr>)" using assms by simp
    ultimately show ?thesis by blast
  qed
qed

lemma sign_attempt_outcome:
  assumes "signature_laws (tx_cr env)" "client_ok env b" "serializable (env_bo env) b sid"
    and "any_ok (tx_cr env) (ts_signers st r)" "\<not> poisoned (ts_nonces st)"
  shows "(\<exists>res st1. sign_attempt env b r sid ak st = Done (res, st1) \<and> any_ok (tx_cr env) (ts_signers st1 r) \<and>
      \<not> poisoned (ts_nonces st1) \<and> (\<forall>s. res = Inr s \<longrightarrow> ser_transaction (env_bo env) (st_transaction s) \<noteq> None)) \<or>
    (env_oc env \<and> sign_attempt env b r sid ak st = Panic \<and> nonce_exhausted env b r sid ak st)"
proof -
  obtain k sg where k: "claim_key (tx_cr env) r st = Done (k, st\<lparr>ts_signers := (ts_signers st)(r := sg)\<rparr>)"
    "signing_key_ok (tx_cr env) k" "any_ok (tx_cr env) sg"
    using claim_key_law [OF assms(1,4)] by blast
  let ?sa = "st\<lparr>ts_signers := (ts_signers st)(r := sg)\<rparr>"
  obtain v net where v: "view_access_key (env_oc env) (env_io env) (tb_rpc b) (env_dv env) sid (sk_public_key k)
      (RefFinality FinalityFinal) (ts_net st) = Done (v, net)"
    using rpc_call_returns [OF assms(2)] by (fastforce simp: view_access_key_def rpc_map_err_def)
  show ?thesis
  proof (cases v)
    case (Inl e)
    then show ?thesis using k v assms(5) by (simp add: sign_attempt_def tx_try_rpc_def tx_rpc_def)
  next
    case (Inr access_key)
    let ?base = "case ak of Some n \<Rightarrow> n | None \<Rightarrow> akv_nonce access_key"
    let ?key = "(cl_url (tb_rpc b), sid, sk_public_key k)"
    consider (nonce) nonce nm where "next_nonce (env_oc env) ?key ?base (?sa\<lparr>ts_net := net\<rparr>) =
        Done (nonce, ?sa\<lparr>ts_net := net, ts_nonces := nm\<rparr>)" "\<not> poisoned nm"
      | (panic) "env_oc env" "next_nonce (env_oc env) ?key ?base (?sa\<lparr>ts_net := net\<rparr>) = Panic"
          "handed_out st b sid (sk_public_key k) = - 1 \<or> ?base = - 1"
      using next_nonce_outcome [of "?sa\<lparr>ts_net := net\<rparr>" "env_oc env" ?key ?base] assms(5) by auto
    then show ?thesis
    proof cases
      case nonce
      let ?tx = "\<lparr>tx_signer_id = sid, tx_public_key = sk_public_key k, tx_nonce = nonce,
            tx_receiver_id = tb_receiver_id b, tx_block_hash = akv_block_hash access_key, tx_actions = tb_actions b\<rparr>"
      have ser: "ser_transaction (env_bo env) ?tx \<noteq> None" using assms(3) by (simp add: serializable_def)
      then obtain h where h: "tx_get_hash (env_bo env) (tx_cr env) ?tx = Done h" by (auto simp: tx_get_hash_def)
      obtain sig where "signing_key_sign (tx_cr env) k h = Done (Inr sig)"
        using signer.key_signs [OF any_signer_law [OF assms(1)] k(2)] by blast
      then have "sign_transaction (env_bo env) (tx_cr env) k ?tx = Done (Inr \<lparr>st_transaction = ?tx, st_signature = sig\<rparr>)"
        using h by (simp add: sign_transaction_def)
      then show ?thesis
        using k v nonce ser Inr by (simp add: sign_attempt_def tx_try_rpc_def tx_rpc_def)
    next
      case panic
      have "sign_attempt env b r sid ak st = Panic"
        using k(1) v panic(2) Inr by (simp add: sign_attempt_def tx_try_rpc_def tx_rpc_def)
      moreover have "nonce_exhausted env b r sid ak st" using k(1) v panic(3) Inr by (auto simp: nonce_exhausted_def)
      ultimately show ?thesis using panic(1) by simp
    qed
  qed
qed

lemma send_attempt_returns:
  assumes "client_ok env b" "ser_transaction (env_bo env) (st_transaction s) \<noteq> None"
  shows "\<exists>a st'. send_attempt env b level s st = Done (a, st')"
proof -
  obtain tx where "ser_transaction (env_bo env) (st_transaction s) = Some tx" using assms(2) by blast
  then obtain h t where "signed_get_hash (env_bo env) (tx_cr env) s = Done h" "signed_to_base64 (env_bo env) (tx_cr env) s = Done t"
    by (auto simp: signed_get_hash_def tx_get_hash_def signed_to_base64_def signed_to_bytes_def ser_signed_transaction_def ser_signature_def)
  moreover obtain res net where "rpc_call (env_oc env) (env_io env) (tb_rpc b) (de_raw_tx (env_dv env)) ''send_tx''
      (JObj [(''signed_tx_base64'', JStr t), (''wait_until'', JStr (status_as_str (level_status level)))]) (ts_net st) = Done (res, net)"
    using rpc_call_returns [OF assms(1)] by blast
  ultimately show ?thesis by (cases res) (simp_all add: send_attempt_def tx_rpc_def send_tx_def)
qed

lemma judge_outcome:
  assumes "env_oc env \<Longrightarrow> attempt \<noteq> - 1"
  shows "\<exists>v. judge env b sid level attempt a = Done v"
proof -
  have "\<exists>x. arith_add (env_oc env) attempt 1 = Done x" using assms arith_add_1_panic run.exhaust by metis
  then show ?thesis by (auto simp: judge_def split: sum.splits rpc_error.splits invalid_tx_error.splits)
qed

text \<open>The attempts that a send can come to, with the nonce and the state in which they start.\<close>

inductive attempted ::
  "'w tx_env \<Rightarrow> transaction_builder \<Rightarrow> signer_ref \<Rightarrow> account_id \<Rightarrow> wait_level \<Rightarrow> 'w tx_state
     \<Rightarrow> u32 \<Rightarrow> u64 option \<Rightarrow> 'w tx_state \<Rightarrow> bool"
  for env b r signer_id level st0 where
  attempted_first: "attempted env b r signer_id level st0 0 None st0"
| attempted_again:
    "attempted env b r signer_id level st0 attempt ak st \<Longrightarrow> sign_attempt env b r signer_id ak st = Done (Inr s, st1) \<Longrightarrow>
     tx_rpc (send_tx (env_oc env) (env_bo env) (env_io env) (tb_rpc b) (env_dv env) s (level_status level)) st1 = Done (a, st2) \<Longrightarrow>
     judge env b signer_id level attempt a = Done (Retry ak' e) \<Longrightarrow>
     attempted env b r signer_id level st0 (attempt + 1) ak' st2"

lemma send_loop_outcome:
  assumes "signature_laws (tx_cr env)" "client_ok env b" "serializable (env_bo env) b sid"
    and "env_oc env \<Longrightarrow> tb_max_nonce_retries b \<noteq> - 1"
    and "attempted env b r sid level st0 attempt ak st"
    and "any_ok (tx_cr env) (ts_signers st r)" "\<not> poisoned (ts_nonces st)"
    and "env_oc env \<Longrightarrow> n + unat attempt = unat (tb_max_nonce_retries b) + 1"
  shows "(\<exists>x st'. send_loop env b r sid level attempt n ak err st = Done (x, st')) \<or>
    (env_oc env \<and> send_loop env b r sid level attempt n ak err st = Panic \<and>
     (\<exists>attempt ak st1. attempted env b r sid level st0 attempt ak st1 \<and> nonce_exhausted env b r sid ak st1))"
  using assms(5-8)
proof (induction n arbitrary: attempt ak err st)
  case (Suc n)
  show ?case
  proof (cases "sign_attempt env b r sid ak st")
    case Panic
    then show ?thesis using sign_attempt_outcome [OF assms(1-3) Suc.prems(2,3), of ak] Suc.prems(1) by auto
  next
    case (Done p)
    then obtain res st1 where s: "sign_attempt env b r sid ak st = Done (res, st1)" "any_ok (tx_cr env) (ts_signers st1 r)"
      "\<not> poisoned (ts_nonces st1)" "\<And>s. res = Inr s \<Longrightarrow> ser_transaction (env_bo env) (st_transaction s) \<noteq> None"
      using sign_attempt_outcome [OF assms(1-3) Suc.prems(2,3), of ak] by auto
    show ?thesis
    proof (cases res)
      case (Inr signed_tx)
      obtain a st2 where a: "send_attempt env b level signed_tx st1 = Done (a, st2)"
        using send_attempt_returns [OF assms(2) s(4) [OF Inr]] by blast
      have le: "attempt \<le> tb_max_nonce_retries b" if "env_oc env" using Suc.prems(4) [OF that] by (simp add: word_le_nat_alt)
      then have "attempt \<noteq> - 1" if "env_oc env" using that assms(4) word_order.extremum_unique by blast
      then obtain v where v: "judge env b sid level attempt a = Done v" using judge_outcome by blast
      show ?thesis
      proof (cases v)
        case (Retry ak' e)
        have keep: "any_ok (tx_cr env) (ts_signers st2 r)" "\<not> poisoned (ts_nonces st2)"
          using send_attempt_keeps [OF a] s(2,3) by simp_all
        have "n + unat (attempt + 1) = unat (tb_max_nonce_retries b) + 1" if "env_oc env"
          using judge_retry [OF _ le [OF that] assms(4) [OF that]] v Retry attempt_step(1) Suc.prems(4) [OF that] by fastforce
        moreover have "attempted env b r sid level st0 (attempt + 1) ak' st2"
          using attempted_again [OF Suc.prems(1) _ a [unfolded send_attempt_def]] s(1) v Inr Retry by auto
        ultimately show ?thesis using Suc.IH [OF _ keep] s(1) a v Inr Retry by simp
      qed (use s a v Inr in simp)
    qed (use s in simp)
  qed
qed simp

lemma send_loop_returns:
  assumes "signature_laws (tx_cr env)" "client_ok env b" "serializable (env_bo env) b sid" "\<not> env_oc env"
    and "any_ok (tx_cr env) (ts_signers st r)" "\<not> poisoned (ts_nonces st)"
  shows "\<exists>x st'. send_loop env b r sid level 0 n None err st = Done (x, st')"
  using send_loop_outcome [OF assms(1-3) _ attempted_first assms(5,6)] assms(4) by blast

section \<open>Properties\<close>

text \<open>C2: When a builder with a signer is sent and the call returns, it has made a run of at most
  \<open>max_nonce_retries\<close> + 1 attempts from the state before the call to the state after it, and the
  transactions below are those that it handed to the RPC client, each with its answer. Every one
  carries the signer's account, the builder's receiver and exactly its actions, and a signature
  that verifies under its own public key. Unless the counter of a key overflows, its nonce exceeds every nonce handed out
  before for that key, the nonces of one key increase along the run, and after a rejected nonce
  the next one exceeds the nonce that the node reported. All answers but the last are rejections
  of a nonce or an expired block hash; the result is what the last answer says, or the error of
  a signing step, and a rejected nonce is reported only when all attempts are used.\<close>

theorem send_run:
  assumes "signature_laws (tx_cr env)" "tb_actions b \<noteq> []" "builder_signer b = Inr r"
    and "any_ok (tx_cr env) (ts_signers st r)" "tb_max_nonce_retries b \<noteq> - 1"
    and "send env level b st = Done (x, st')" and sid: "sid = any_account_id (ts_signers st r)"
  shows "\<exists>tr. sends env b r sid level 0 None st tr x st' \<and>
    length tr \<le> unat (tb_max_nonce_retries b) + 1 \<and> list_all (\<lambda>p. transient (snd p)) (butlast tr) \<and>
    ((tr \<noteq> [] \<and> x = answer_result env level sid (snd (last tr)) \<and>
      (\<forall>n t. snd (last tr) = Inl (Rpc_InvalidTx (InvalidTx_InvalidNonce n t)) \<longrightarrow>
        length tr = unat (tb_max_nonce_retries b) + 1)) \<or>
     (\<exists>e ak st1. sign_attempt env b r sid ak st1 = Done (Inl e, st') \<and> x = Inl e)) \<and>
    list_all (\<lambda>p. signed_for env b sid (fst p)) tr \<and>
    (env_oc env \<or> list_all (\<lambda>p. tx_nonce (tx_of p) \<noteq> 0) tr \<longrightarrow>
      list_all (\<lambda>p. handed_out st b sid (tx_public_key (tx_of p)) < tx_nonce (tx_of p)) tr \<and>
      sorted_wrt (\<lambda>p q. tx_public_key (tx_of p) = tx_public_key (tx_of q) \<longrightarrow> tx_nonce (tx_of p) < tx_nonce (tx_of q)) tr \<and>
      successively newer_than_rejection tr)"
proof -
  have "send_loop env b r sid level 0 (unat (tb_max_nonce_retries b) + 1) None None st = Done (x, st')"
    using assms(2,3,6) sid by (simp add: send_def)
  then obtain tr where tr: "sends env b r sid level 0 None st tr x st'"
    using send_loop_sends [OF _ _ assms(5), where attempt = 0] by fastforce
  note n = sends_nonces [OF tr assms(1,4) _ _ assms(5)]
  have "list_all (\<lambda>p. handed_out st b sid (tx_public_key (tx_of p)) < tx_nonce (tx_of p)) tr"
    if "fresh_run (handed_out st b sid) (key_nonces tr)"
    using fresh_run_above [OF that] by (fastforce simp: list_all_iff)
  moreover have "sorted_wrt (\<lambda>p q. tx_public_key (tx_of p) = tx_public_key (tx_of q) \<longrightarrow> tx_nonce (tx_of p) < tx_nonce (tx_of q)) tr"
    if "fresh_run (handed_out st b sid) (key_nonces tr)"
    using fresh_run_increasing [OF that] by (simp add: sorted_wrt_map)
  ultimately show ?thesis using tr sends_answers [OF tr _ assms(5)] sends_signed [OF tr assms(1,4)] n by (intro exI [of _ tr]) auto
qed

text \<open>C9: Sending a builder whose client has its retries within bounds, whose signer and nonce
  manager are intact and whose actions fit the wire format returns, whatever the node answers,
  in a build without overflow checks. In a build with them it returns or panics, and it panics
  only when one of its attempts starts from the largest nonce there is: that of the access key,
  the one that a rejection reported, or the last one handed out for the key. An empty builder
  and a builder without a signer are refused with an error, and the node is not contacted.\<close>

theorem send_returns:
  assumes "signature_laws (tx_cr env)" "client_ok env b" "\<not> poisoned (ts_nonces st)"
    and "env_oc env \<Longrightarrow> tb_max_nonce_retries b \<noteq> - 1"
    and "\<And>r. builder_signer b = Inr r \<Longrightarrow> any_ok (tx_cr env) (ts_signers st r) \<and>
      serializable (env_bo env) b (any_account_id (ts_signers st r))"
  shows "((\<exists>x st'. send env level b st = Done (x, st')) \<or>
     (env_oc env \<and> send env level b st = Panic \<and>
      (\<exists>r attempt ak st1. builder_signer b = Inr r \<and>
         attempted env b r (any_account_id (ts_signers st r)) level st attempt ak st1 \<and>
         nonce_exhausted env b r (any_account_id (ts_signers st r)) ak st1))) \<and>
    (tb_actions b = [] \<longrightarrow> send env level b st = Done (Inl no_actions, st)) \<and>
    (tb_actions b \<noteq> [] \<and> tb_signer_override b = None \<and> tb_signer b = None \<longrightarrow> send env level b st = Done (Inl Err_NoSigner, st))"
proof (intro conjI impI)
  show "(\<exists>x st'. send env level b st = Done (x, st')) \<or>
     (env_oc env \<and> send env level b st = Panic \<and>
      (\<exists>r attempt ak st1. builder_signer b = Inr r \<and>
         attempted env b r (any_account_id (ts_signers st r)) level st attempt ak st1 \<and>
         nonce_exhausted env b r (any_account_id (ts_signers st r)) ak st1))"
  proof (cases "builder_signer b")
    case (Inr r)
    then show ?thesis
      using send_loop_outcome [OF assms(1,2) _ assms(4) attempted_first _ assms(3), of "any_account_id (ts_signers st r)" r
          "unat (tb_max_nonce_retries b) + 1" level None] assms(5) [OF Inr]
      by (auto simp: send_def simp del: send_loop.simps)
  qed (simp add: send_def)
qed (simp_all add: send_def builder_signer_def)

section \<open>A node that rejects the first nonce\<close>

definition send_dv :: view_de where
  "send_dv = view_de_snapshot\<lparr>
     de_key := (\<lambda>_. Inr \<lparr>akv_nonce = 5, akv_permission = AkvFullAccess, akv_block_height = 1, akv_block_hash = replicate 32 0\<rparr>),
     de_raw_tx := (\<lambda>_. Inr \<lparr>rt_transaction_hash = [], rt_final_execution_status = StNone, rt_outcome = None\<rparr>)\<rparr>"

definition send_env :: "bool \<Rightarrow> (rpc_error + transport_response) list tx_env" where
  "send_env oc = \<lparr>env_oc = oc, env_bo = borsh_le, env_io = rpc_io_ref, env_dv = send_dv, env_de_height = (\<lambda>_. Inl [])\<rparr>"

definition send_builder :: transaction_builder where
  "send_builder = add_action (Transfer 5) (transaction_builder_new sample_client (Some 0) ''bob.near'' 3)"

definition ok_response :: "rpc_error + transport_response" where
  "ok_response = Inr \<lparr>tr_status = 200, tr_body = as_bytes ''ok''\<rparr>"

definition send_state :: "(rpc_error + transport_response) list \<Rightarrow> any_signer \<Rightarrow> (rpc_error + transport_response) list tx_state" where
  "send_state ws s = \<lparr>ts_net = \<lparr>net_id = 0, net_world = ws, net_slept = []\<rparr>, ts_nonces = nonce_manager_new, ts_signers = (\<lambda>_. s)\<rparr>"

definition alice_signer :: any_signer where
  "alice_signer = OneKey \<lparr>ims_account_id = ''alice.near'', ims_secret_key = SecretKey_Ed25519 (replicate 32 1),
     ims_public_key = PublicKey_Ed25519 (replicate 32 1)\<rparr>"

lemma sample_serializable: "serializable borsh_le send_builder ''alice.near''"
  by (simp add: serializable_def send_builder_def add_action_def transaction_builder_new_def ser_transaction_def borsh_le_def
      enc_list_def cat.simps le_enc_str_def le_enc_bytes_def le_enc_len_def ser_public_key_def ser_crypto_hash_def)

lemma alice_ok: "any_ok crypto_ref alice_signer"
  by (simp add: alice_signer_def in_memory_ok_def crypto_ref_def)

lemma send_env_cr [simp]: "tx_cr (send_env oc) = crypto_ref" "env_bo (send_env oc) = borsh_le" "env_oc (send_env oc) = oc"
  by (simp_all add: send_env_def rpc_io_ref_def rpc_env_ref_def)

lemma send_client_ok: "client_ok (send_env oc) send_builder"
  using parse_account_ref_unknown
  by (simp add: client_ok_def send_env_def rpc_io_ref_def send_builder_def add_action_def transaction_builder_new_def
      sample_client_def retry_config_default_def)

theorem send_returns_witness:
  "\<exists>x st'. send (send_env False) Submitted send_builder (send_state [ok_response, Inl (Rpc_InvalidTx (InvalidTx_InvalidNonce 9 6))] alice_signer) =
     Done (x, st')"
proof -
  let ?st = "send_state [ok_response, Inl (Rpc_InvalidTx (InvalidTx_InvalidNonce 9 6))] alice_signer"
  have "any_ok crypto_ref (ts_signers ?st r)" for r using alice_ok by (simp add: send_state_def)
  moreover have "any_account_id (ts_signers ?st r) = ''alice.near''" for r by (simp add: send_state_def alice_signer_def)
  moreover have "\<not> poisoned (ts_nonces ?st)" by (simp add: send_state_def nonce_manager_new_def)
  ultimately show ?thesis
    using send_returns [of "send_env False" send_builder ?st Submitted] send_client_ok sample_serializable signature_laws_ref by simp
qed

lemma canned_attempt:
  "try_call rpc_io_ref url de m ps i (ok_response # ws) = Done (map_err Rpc_Json (de JNull), ws)"
  "try_call rpc_io_ref url de m ps i (Inl e # ws) = Done (Inl e, ws)"
proof -
  have "from_utf8_lossy (as_bytes ''ok'') = ''ok''" by code_simp
  then show "try_call rpc_io_ref url de m ps i (ok_response # ws) = Done (map_err Rpc_Json (de JNull), ws)"
    by (simp add: try_call_def rpc_io_ref_def ok_response_def read_response_def Let_def json_get_def)
qed (simp add: try_call_def rpc_io_ref_def)

lemma canned_call:
  assumes "try_call rpc_io_ref (cl_url sample_client) de m ps i w = Done (r, w')" and "\<And>e. r = Inl e \<Longrightarrow> \<not> rpc_is_retryable e"
  shows "rpc_call oc rpc_io_ref sample_client de m ps \<lparr>net_id = i, net_world = w, net_slept = sl\<rparr> =
    Done (r, \<lparr>net_id = i + 1, net_world = w', net_slept = sl\<rparr>)"
proof -
  have loop: "call_loop oc rpc_io_ref sample_client de m ps t k (Suc n) \<lparr>net_id = i, net_world = w, net_slept = sl\<rparr> =
    Done (r, \<lparr>net_id = i + 1, net_world = w', net_slept = sl\<rparr>)" for t k n
    using assms by (cases r) simp_all
  have "arith_add oc (rc_max_retries (cl_retry sample_client)) 1 = Done 4"
    by (simp add: sample_client_def retry_config_default_def arith_add_def)
  then show ?thesis using loop [of 4 0 3] by (simp add: rpc_call_def del: call_loop.simps)
qed

lemma canned_calls:
  "view_access_key oc rpc_io_ref sample_client send_dv a pk blk \<lparr>net_id = i, net_world = ok_response # ws, net_slept = sl\<rparr> =
     Done (Inr \<lparr>akv_nonce = 5, akv_permission = AkvFullAccess, akv_block_height = 1, akv_block_hash = replicate 32 0\<rparr>,
       \<lparr>net_id = i + 1, net_world = ws, net_slept = sl\<rparr>)"
  using canned_call [where de = "de_key send_dv", OF canned_attempt(1)]
  by (simp add: view_access_key_def rpc_map_err_def send_dv_def)

lemma alice_claims:
  "ts_signers st = (\<lambda>_. alice_signer) \<Longrightarrow> \<exists>k. claim_key crypto_ref r st = Done (k, st) \<and> signing_key_ok crypto_ref k \<and>
     sk_public_key k = PublicKey_Ed25519 (replicate 32 1)"
  by (simp add: claim_key_def alice_signer_def in_memory_key_def signing_key_new_def signing_key_ok_def crypto_ref_def
      fun_upd_idem)

lemma canned_sign:
  assumes "claim_key crypto_ref 0 st = Done (k, st0)" "signing_key_ok crypto_ref k"
    and "ts_net st0 = \<lparr>net_id = i, net_world = ok_response # ws, net_slept = sl\<rparr>"
    and n: "next_nonce oc (cl_url sample_client, ''alice.near'', sk_public_key k)
      (case ak of Some n \<Rightarrow> n | None \<Rightarrow> 5) (st0\<lparr>ts_net := \<lparr>net_id = i + 1, net_world = ws, net_slept = sl\<rparr>\<rparr>) = Done (nonce, st1)"
  shows "\<exists>s. sign_attempt (send_env oc) send_builder 0 ''alice.near'' ak st = Done (Inr s, st1) \<and>
    ser_transaction borsh_le (st_transaction s) \<noteq> None"
proof -
  let ?tx = "\<lparr>tx_signer_id = ''alice.near'', tx_public_key = sk_public_key k, tx_nonce = nonce,
          tx_receiver_id = tb_receiver_id send_builder, tx_block_hash = replicate 32 0, tx_actions = tb_actions send_builder\<rparr>"
  have ser: "ser_transaction borsh_le ?tx \<noteq> None" using sample_serializable unfolding serializable_def by blast
  then obtain h where h: "tx_get_hash borsh_le crypto_ref ?tx = Done h" by (auto simp: tx_get_hash_def)
  obtain sig where "signing_key_sign crypto_ref k h = Done (Inr sig)" using ref_any.key_signs [OF assms(2)] by blast
  then have "sign_transaction borsh_le crypto_ref k ?tx = Done (Inr \<lparr>st_transaction = ?tx, st_signature = sig\<rparr>)"
    using h by (simp add: sign_transaction_def)
  moreover have "tb_rpc send_builder = sample_client" "env_io (send_env oc) = rpc_io_ref" "env_dv (send_env oc) = send_dv"
    "io_cr rpc_io_ref = crypto_ref"
    by (simp_all add: send_builder_def add_action_def transaction_builder_new_def send_env_def rpc_io_ref_def rpc_env_ref_def)
  ultimately show ?thesis
    using assms(1,3) n ser by (cases ak) (simp_all add: sign_attempt_def tx_try_rpc_def tx_rpc_def canned_calls)
qed

lemma alice_attempt:
  assumes "ts_signers st = (\<lambda>_. alice_signer)" "ts_net st = \<lparr>net_id = i, net_world = ok_response # ws, net_slept = sl\<rparr>"
    and n: "next_nonce oc (cl_url sample_client, ''alice.near'', PublicKey_Ed25519 (replicate 32 1))
      (case ak of Some n \<Rightarrow> n | None \<Rightarrow> 5) (st\<lparr>ts_net := \<lparr>net_id = i + 1, net_world = ws, net_slept = sl\<rparr>\<rparr>) = Done (nonce, st1)"
  shows "\<exists>s. sign_attempt (send_env oc) send_builder 0 ''alice.near'' ak st = Done (Inr s, st1) \<and>
    ser_transaction borsh_le (st_transaction s) \<noteq> None"
  using alice_claims [OF assms(1), of 0] canned_sign [of st _ st i ws sl oc ak nonce st1] assms(2) n by auto

abbreviation rejected_state :: "any_signer \<Rightarrow> (rpc_error + transport_response) list tx_state" where
  "rejected_state \<equiv> send_state [ok_response, Inl (Rpc_InvalidTx (InvalidTx_InvalidNonce 9 6)), ok_response, ok_response]"

lemma send_attempt_canned:
  assumes "ser_transaction borsh_le (st_transaction s) \<noteq> None" "ts_net st = \<lparr>net_id = i, net_world = w # ws, net_slept = sl\<rparr>"
    and "w = ok_response \<or> (\<exists>e. w = Inl e \<and> \<not> rpc_is_retryable e)"
  shows "\<exists>a. send_attempt (send_env oc) send_builder level s st =
      Done (a, st\<lparr>ts_net := \<lparr>net_id = i + 1, net_world = ws, net_slept = sl\<rparr>\<rparr>) \<and> (\<forall>e. w = Inl e \<longrightarrow> a = Inl e) \<and> (w = ok_response \<longrightarrow> (\<exists>x. a = Inr x))"
proof -
  have c: "tb_rpc send_builder = sample_client" "env_io (send_env oc) = rpc_io_ref" "env_dv (send_env oc) = send_dv"
    "io_cr rpc_io_ref = crypto_ref"
    by (simp_all add: send_builder_def add_action_def transaction_builder_new_def send_env_def rpc_io_ref_def rpc_env_ref_def)
  obtain h t where ht: "signed_get_hash borsh_le crypto_ref s = Done h" "signed_to_base64 borsh_le crypto_ref s = Done t"
    using assms(1) by (auto simp: signed_get_hash_def tx_get_hash_def signed_to_base64_def signed_to_bytes_def
        ser_signed_transaction_def ser_signature_def)
  have d: "de_raw_tx send_dv JNull = Inr \<lparr>rt_transaction_hash = [], rt_final_execution_status = StNone, rt_outcome = None\<rparr>"
    by (simp add: send_dv_def)
  show ?thesis using assms(3)
  proof
    assume "w = ok_response"
    then show ?thesis
      using canned_call [where de = "de_raw_tx send_dv", OF canned_attempt(1)] d ht assms(2) c
      by (simp add: send_attempt_def tx_rpc_def send_tx_def ok_response_def)
  next
    assume "\<exists>e. w = Inl e \<and> \<not> rpc_is_retryable e"
    then show ?thesis
      using canned_call [where de = "de_raw_tx send_dv", OF canned_attempt(2)] ht assms(2) c
      by (auto simp: send_attempt_def tx_rpc_def send_tx_def ok_response_def)
  qed
qed

lemma alice_send:
  "\<exists>x st'. send (send_env True) Submitted send_builder (rejected_state alice_signer) = Done (x, st')"
proof -
  let ?st = "rejected_state alice_signer" and ?rej = "Inl (Rpc_InvalidTx (InvalidTx_InvalidNonce 9 6)) :: rpc_error + transport_response"
  let ?k = "(cl_url sample_client, ''alice.near'', PublicKey_Ed25519 (replicate 32 1))"
  have "\<exists>st1. next_nonce True ?k 5 (?st\<lparr>ts_net := \<lparr>net_id = 1, net_world = [?rej, ok_response, ok_response], net_slept = []\<rparr>\<rparr>) = Done (6, st1)
      \<and> ts_net st1 = \<lparr>net_id = 1, net_world = [?rej, ok_response, ok_response], net_slept = []\<rparr> \<and> ts_signers st1 = (\<lambda>_. alice_signer) \<and>
      \<not> poisoned (ts_nonces st1) \<and> nonces (ts_nonces st1) ?k = Some 6"
    by (simp add: next_nonce_def nonce_manager_next_def send_state_def nonce_manager_new_def arith_add_def)
  then obtain st1 where st1: "next_nonce True ?k 5 (?st\<lparr>ts_net := \<lparr>net_id = 1, net_world = [?rej, ok_response, ok_response], net_slept = []\<rparr>\<rparr>) = Done (6, st1)"
    "ts_net st1 = \<lparr>net_id = 1, net_world = [?rej, ok_response, ok_response], net_slept = []\<rparr>" "ts_signers st1 = (\<lambda>_. alice_signer)"
    "\<not> poisoned (ts_nonces st1)" "nonces (ts_nonces st1) ?k = Some 6" by blast
  obtain s1 where s1: "sign_attempt (send_env True) send_builder 0 ''alice.near'' None ?st = Done (Inr s1, st1)"
    "ser_transaction borsh_le (st_transaction s1) \<noteq> None"
    using alice_attempt [of ?st 0 "[?rej, ok_response, ok_response]" "[]" True None 6 st1] st1(1) by (auto simp: send_state_def)
  let ?st2 = "st1\<lparr>ts_net := \<lparr>net_id = 2, net_world = [ok_response, ok_response], net_slept = []\<rparr>\<rparr>"
  have a1: "send_attempt (send_env True) send_builder Submitted s1 st1 = Done (Inl (Rpc_InvalidTx (InvalidTx_InvalidNonce 9 6)), ?st2)"
    using send_attempt_canned [OF s1(2) st1(2), of True Submitted] by auto
  have "\<exists>st3. next_nonce True ?k 9 (?st2\<lparr>ts_net := \<lparr>net_id = 3, net_world = [ok_response], net_slept = []\<rparr>\<rparr>) = Done (10, st3)
      \<and> ts_net st3 = \<lparr>net_id = 3, net_world = [ok_response], net_slept = []\<rparr>"
    using st1(4,5) by (simp add: next_nonce_def nonce_manager_next_def arith_add_def)
  then obtain st3 where st3: "next_nonce True ?k 9 (?st2\<lparr>ts_net := \<lparr>net_id = 3, net_world = [ok_response], net_slept = []\<rparr>\<rparr>) = Done (10, st3)"
    "ts_net st3 = \<lparr>net_id = 3, net_world = [ok_response], net_slept = []\<rparr>" by blast
  obtain s2 where s2: "sign_attempt (send_env True) send_builder 0 ''alice.near'' (Some 9) ?st2 = Done (Inr s2, st3)"
    "ser_transaction borsh_le (st_transaction s2) \<noteq> None"
    using alice_attempt [of ?st2 2 "[ok_response]" "[]" True "Some 9" 10 st3] st3(1) st1(3) by auto
  obtain x st4 where a2: "send_attempt (send_env True) send_builder Submitted s2 st3 = Done (Inr x, st4)"
    using send_attempt_canned [OF s2(2) st3(2), of True Submitted] by auto
  have b: "builder_signer send_builder = Inr 0" "tb_actions send_builder \<noteq> []" "tb_max_nonce_retries send_builder = 3"
    "any_account_id (ts_signers ?st 0) = ''alice.near''"
    by (simp_all add: send_builder_def add_action_def transaction_builder_new_def builder_signer_def send_state_def alice_signer_def)
  have "\<exists>x st'. send_loop (send_env True) send_builder 0 ''alice.near'' Submitted 0 (Suc (Suc n)) None None ?st = Done (x, st')" for n
    using b s1(1) a1 s2(1) a2 by (simp add: judge_def)
  from this [of 2] show ?thesis using b by (simp add: send_def del: send_loop.simps)
qed

theorem send_run_witness:
  "\<exists>tr x st'. send (send_env True) Submitted send_builder (rejected_state alice_signer) = Done (x, st') \<and>
     sends (send_env True) send_builder 0 ''alice.near'' Submitted 0 None (rejected_state alice_signer) tr x st' \<and>
     length tr \<le> 4 \<and> list_all (\<lambda>p. signed_for (send_env True) send_builder ''alice.near'' (fst p)) tr"
proof -
  obtain x st' where x: "send (send_env True) Submitted send_builder (rejected_state alice_signer) = Done (x, st')"
    using alice_send by blast
  have b: "builder_signer send_builder = Inr 0" "tb_actions send_builder \<noteq> []" "tb_max_nonce_retries send_builder = 3"
    "any_account_id (ts_signers (rejected_state alice_signer) 0) = ''alice.near''"
    by (simp_all add: send_builder_def add_action_def transaction_builder_new_def builder_signer_def send_state_def alice_signer_def)
  have "any_ok crypto_ref (ts_signers (rejected_state alice_signer) 0)" using alice_ok by (simp add: send_state_def)
  then show ?thesis
    using send_run [of "send_env True" send_builder 0 "rejected_state alice_signer" Submitted x st' "''alice.near''"]
      x b signature_laws_ref by auto
qed

theorem delegate_exact_witness:
  "\<exists>res st'. delegate (send_env True) \<lparr>do_max_block_height = Some 100, do_block_height_offset = None, do_nonce = Some 7\<rparr> send_builder
       (send_state [] alice_signer) = Done (Inr res, st') \<and>
     map inner (da_actions (sd_delegate_action (dr_signed_delegate_action res))) = [Transfer 5] \<and>
     da_nonce (sd_delegate_action (dr_signed_delegate_action res)) = 7"
proof -
  let ?o = "\<lparr>do_max_block_height = Some 100, do_block_height_offset = None, do_nonce = Some 7\<rparr> :: delegate_options"
  let ?st = "send_state [] alice_signer"
  have b: "builder_signer send_builder = Inr 0" "tb_actions send_builder = [Transfer 5]" "tb_receiver_id send_builder = ''bob.near''"
    "any_account_id (ts_signers ?st 0) = ''alice.near''"
    by (simp_all add: send_builder_def add_action_def transaction_builder_new_def builder_signer_def send_state_def alice_signer_def)
  obtain k where k: "claim_key crypto_ref 0 ?st = Done (k, ?st)" "signing_key_ok crypto_ref k"
    "sk_public_key k = PublicKey_Ed25519 (replicate 32 1)" using alice_claims [of ?st 0] by (auto simp: send_state_def)
  let ?d = "DelegateAction ''alice.near'' ''bob.near'' [NonDelegateAction (Transfer 5)] 7 100 (PublicKey_Ed25519 (replicate 32 1))"
  have "ser_delegate_action borsh_le ?d \<noteq> None"
    by (simp add: borsh_le_def enc_list_def cat.simps le_enc_str_def le_enc_bytes_def le_enc_len_def ser_public_key_def)
  then obtain ds where ds: "ser_delegate_action borsh_le ?d = Some ds" by blast
  then obtain h where h: "delegate_get_hash borsh_le crypto_ref ?d = Some h"
    by (auto simp: delegate_get_hash_def delegate_serialize_for_signing_def)
  obtain sig where sig: "signing_key_sign crypto_ref k h = Done (Inr sig)" using ref_any.key_signs [OF k(2)] by blast
  obtain t where t: "signed_delegate_to_base64 borsh_le crypto_ref (delegate_sign ?d sig) = Some t"
    using ds by (auto simp: signed_delegate_to_base64_def signed_delegate_to_bytes_def delegate_sign_def ser_signature_def)
  have "delegate (send_env True) ?o send_builder ?st =
      Done (Inr \<lparr>dr_signed_delegate_action = delegate_sign ?d sig, dr_payload = t\<rparr>, ?st)"
    using b k h sig t
    by (simp add: delegate_def delegate_nonce_def delegate_max_height_def non_delegate_from_action_def List.map_filter_def Let_def)
  moreover have "any_ok crypto_ref (ts_signers ?st 0)" using alice_ok by (simp add: send_state_def)
  ultimately show ?thesis
    using delegate_exact [of "send_env True" send_builder 0 ?st ?o] signature_laws_ref le.borsh_laws_axioms ref64.b64_laws_axioms b
    by (fastforce simp: Let_def)
qed

section \<open>Nonces of rotating keys\<close>

lemma rotating_claim:
  assumes "signature_laws cr" "rotating_ok cr s" "ts_signers st r = Rotating s"
  shows "\<exists>k. claim_key cr r st = Done (k, st\<lparr>ts_signers := (ts_signers st)(r := Rotating (s\<lparr>rs_counter := rs_counter s + 1\<rparr>))\<rparr>) \<and>
    secret_public_key cr (rs_keys s ! (unat (rs_counter s) mod length (rs_keys s))) = Done (sk_public_key k) \<and> signing_key_ok cr k"
  using rotating_key_ok [OF assms(1,2)] assms(3) by (auto simp: claim_key_def signing_key_ok_def)

lemma sign_attempt_key:
  assumes "claim_key (tx_cr env) r st = Done (k, st0)" "sign_attempt env b r sid ak st = Done (Inr s, st1)"
  shows "tx_public_key (st_transaction s) = sk_public_key k \<and> ts_signers st1 = ts_signers st0 \<and>
    handed_out st1 b sid = (handed_out st b sid)(sk_public_key k := tx_nonce (st_transaction s)) \<and>
    (\<forall>n. ak = Some n \<longrightarrow> tx_nonce (st_transaction s) = max (handed_out st b sid (sk_public_key k)) n + 1)"
proof -
  obtain access_key :: access_key_view and net nonce where
    n: "next_nonce (env_oc env) (cl_url (tb_rpc b), sid, sk_public_key k)
          (case ak of Some n \<Rightarrow> n | None \<Rightarrow> akv_nonce access_key) (st0\<lparr>ts_net := net\<rparr>) = Done (nonce, st1)"
    and s: "sign_transaction (env_bo env) (tx_cr env) k
         \<lparr>tx_signer_id = sid, tx_public_key = sk_public_key k, tx_nonce = nonce,
          tx_receiver_id = tb_receiver_id b, tx_block_hash = akv_block_hash access_key, tx_actions = tb_actions b\<rparr> = Done (Inr s)"
    using assms by (clarsimp simp: sign_attempt_def tx_bind_ok tx_try_rpc_ok)
  have "ts_nonces st0 = ts_nonces st" using assms(1) by (auto simp: claim_key_def)
  then have "ts_signers st1 = ts_signers st0" "handed_out st1 b sid = (handed_out st b sid)(sk_public_key k := nonce)"
    "\<And>m. ak = Some m \<Longrightarrow> nonce = max (handed_out st b sid (sk_public_key k)) m + 1"
    using n by (auto simp: next_nonce_def nonce_manager_next_def arith_add_def last_nonce_def Let_def fun_eq_iff
        split: if_splits run.splits prod.splits option.splits)
  then show ?thesis using s by (auto simp: sign_transaction_def)
qed

text \<open>A retry after a rejected nonce that uses another key, and a nonce that is one more than the larger of
  the last one handed out for this key and the one reported for the other. The first argument has
  the nonces handed out.\<close>

fun mixes_keys :: "(public_key \<Rightarrow> u64) \<Rightarrow> (signed_transaction \<times> (rpc_error + 'r)) list \<Rightarrow> bool" where
  "mixes_keys f (p # q # tr) =
     ((\<forall>ak tn. snd p = Inl (Rpc_InvalidTx (InvalidTx_InvalidNonce ak tn)) \<longrightarrow>
        tx_public_key (tx_of q) \<noteq> tx_public_key (tx_of p) \<and>
        tx_nonce (tx_of q) = max ((f(tx_public_key (tx_of p) := tx_nonce (tx_of p))) (tx_public_key (tx_of q))) ak + 1) \<and>
      mixes_keys (f(tx_public_key (tx_of p) := tx_nonce (tx_of p))) (q # tr))"
| "mixes_keys f _ = True"

text \<open>What an attempt with a rotating signer uses.\<close>

lemma rotating_attempt:
  assumes "signature_laws (tx_cr env)" "rotating_ok (tx_cr env) s" "ts_signers st r = Rotating s"
    and "sign_attempt env b r sid ak st = Done (Inr t, st1)"
  shows "secret_public_key (tx_cr env) (rs_keys s ! (unat (rs_counter s) mod length (rs_keys s))) = Done (tx_public_key (st_transaction t)) \<and>
    ts_signers st1 r = Rotating (s\<lparr>rs_counter := rs_counter s + 1\<rparr>) \<and>
    handed_out st1 b sid = (handed_out st b sid)(tx_public_key (st_transaction t) := tx_nonce (st_transaction t)) \<and>
    (\<forall>n. ak = Some n \<longrightarrow> tx_nonce (st_transaction t) = max (handed_out st b sid (tx_public_key (st_transaction t))) n + 1)"
proof -
  obtain k where "claim_key (tx_cr env) r st = Done (k, st\<lparr>ts_signers := (ts_signers st)(r := Rotating (s\<lparr>rs_counter := rs_counter s + 1\<rparr>))\<rparr>)"
    "secret_public_key (tx_cr env) (rs_keys s ! (unat (rs_counter s) mod length (rs_keys s))) = Done (sk_public_key k)"
    using rotating_claim [OF assms(1-3)] by blast
  then show ?thesis using sign_attempt_key [OF _ assms(4)] by auto
qed

lemma next_key_differs:
  assumes "2 \<le> length ks" "distinct (map f ks)"
  shows "f (ks ! (c mod length ks)) \<noteq> f (ks ! (Suc c mod length ks))"
proof -
  have l: "0 < length ks" using assms(1) by linarith
  then have "c mod length ks < length ks" "Suc c mod length ks < length ks" by (rule mod_less_divisor)+
  moreover have "c mod length ks \<noteq> Suc c mod length ks" using assms(1) by (auto simp: mod_Suc)
  ultimately show ?thesis using assms(2) by (metis length_map nth_eq_iff_index_eq nth_map)
qed

lemma sends_mixes_keys:
  assumes "sends env b r sid level attempt ak st tr x st'" and laws: "signature_laws (tx_cr env)"
    and "rotating_ok (tx_cr env) s" "ts_signers st r = Rotating s"
    and "2 \<le> length (rs_keys s)" "distinct (map (secret_public_key (tx_cr env)) (rs_keys s))"
    and "unat (rs_counter s) + length tr < 2 ^ 64"
    and "attempt \<le> tb_max_nonce_retries b" "tb_max_nonce_retries b \<noteq> - 1"
  shows "mixes_keys (handed_out st b sid) tr \<and>
    (tr \<noteq> [] \<longrightarrow>
      secret_public_key (tx_cr env) (rs_keys s ! (unat (rs_counter s) mod length (rs_keys s))) = Done (tx_public_key (tx_of (hd tr))) \<and>
      (\<forall>n. ak = Some n \<longrightarrow> tx_nonce (tx_of (hd tr)) = max (handed_out st b sid (tx_public_key (tx_of (hd tr)))) n + 1))"
  using assms(1,3-9)
proof (induction arbitrary: s rule: sends.induct)
  case (sends_final ak st t st1 a st2 attempt x)
  then show ?case using rotating_attempt [OF laws sends_final.prems(1,2) sends_final.hyps(1)] by simp
next
  case (sends_retry ak st t st1 a st2 attempt ak' e tr x st3)
  let ?s = "s\<lparr>rs_counter := rs_counter s + 1\<rparr>"
  note t = rotating_attempt [OF laws sends_retry.prems(1,2) sends_retry.hyps(1)]
  note keep = tx_rpc_keeps [OF sends_retry.hyps(2)]
  note j = judge_retry [OF sends_retry.hyps(3) sends_retry.prems(6,7)]
  have c: "unat (rs_counter s + 1) = Suc (unat (rs_counter s))"
    using sends_retry.prems(5) by (subst unat_add_nowrap) simp_all
  have ih: "mixes_keys (handed_out st2 b sid) tr \<and>
    (tr \<noteq> [] \<longrightarrow>
      secret_public_key (tx_cr env) (rs_keys s ! (Suc (unat (rs_counter s)) mod length (rs_keys s))) = Done (tx_public_key (tx_of (hd tr))) \<and>
      (\<forall>n. ak' = Some n \<longrightarrow> tx_nonce (tx_of (hd tr)) = max (handed_out st2 b sid (tx_public_key (tx_of (hd tr)))) n + 1))"
    using sends_retry.IH [of ?s] sends_retry.prems t keep j c attempt_step(2) by (simp add: rotating_ok_def)
  have f: "handed_out st2 b sid = (handed_out st b sid)(tx_public_key (st_transaction t) := tx_nonce (st_transaction t))"
    using t keep by simp
  show ?case
  proof (cases tr)
    case (Cons q tr')
    have "tx_public_key (tx_of q) \<noteq> tx_public_key (st_transaction t)"
      using next_key_differs [OF sends_retry.prems(3,4), of "unat (rs_counter s)"] t ih Cons by auto
    moreover from this have "handed_out st2 b sid (tx_public_key (tx_of q)) = handed_out st b sid (tx_public_key (tx_of q))"
      using fun_cong [OF f, of "tx_public_key (tx_of q)"] by simp
    ultimately show ?thesis using ih t f j Cons by auto
  qed (use t in simp)
qed simp

text \<open>C37: With a rotating signer the attempts of a send use different keys in turn, but a retry after
  a rejected nonce starts from the nonce that the node reported for the key before: its own nonce
  is one more than the larger of that number and the last nonce handed out for its key in this
  process, whatever nonce the node has just reported for its own access key. So the nonce of one
  key jumps to that of another.\<close>

theorem retry_mixes_rotating_keys:
  assumes "signature_laws (tx_cr env)" "tb_actions b \<noteq> []" "builder_signer b = Inr r" "tb_max_nonce_retries b \<noteq> - 1"
    and "rotating_ok (tx_cr env) s" "ts_signers st r = Rotating s"
    and "2 \<le> length (rs_keys s)" "distinct (map (secret_public_key (tx_cr env)) (rs_keys s))"
    and "unat (rs_counter s) + unat (tb_max_nonce_retries b) + 1 < 2 ^ 64"
    and "send env level b st = Done (x, st')"
  shows "(\<exists>tr. sends env b r (rs_account_id s) level 0 None st tr x st') \<and>
    (\<forall>tr. sends env b r (rs_account_id s) level 0 None st tr x st' \<longrightarrow> mixes_keys (handed_out st b (rs_account_id s)) tr)"
proof (intro conjI allI impI)
  have "send_loop env b r (rs_account_id s) level 0 (unat (tb_max_nonce_retries b) + 1) None None st = Done (x, st')"
    using assms(2,3,6,10) by (simp add: send_def del: send_loop.simps)
  then show "\<exists>tr. sends env b r (rs_account_id s) level 0 None st tr x st'"
    using send_loop_sends [OF _ _ assms(4), where attempt = 0] by fastforce
next
  fix tr
  assume tr: "sends env b r (rs_account_id s) level 0 None st tr x st'"
  have "unat (rs_counter s) + length tr < 2 ^ 64" using sends_answers [OF tr _ assms(4)] assms(9) by simp
  then show "mixes_keys (handed_out st b (rs_account_id s)) tr"
    using sends_mixes_keys [OF tr assms(1,5-8)] assms(4) by simp
qed

definition two_keys :: rotating_signer where
  "two_keys = \<lparr>rs_account_id = ''alice.near'', rs_keys = [SecretKey_Ed25519 (replicate 32 1), SecretKey_Ed25519 (replicate 32 2)],
     rs_counter = 0\<rparr>"

theorem retry_mixes_rotating_keys_witness:
  "\<exists>s1 s2 a1 a2 x st'. send (send_env True) Submitted send_builder (rejected_state (Rotating two_keys)) = Done (x, st') \<and>
     sends (send_env True) send_builder 0 ''alice.near'' Submitted 0 None (rejected_state (Rotating two_keys)) [(s1, a1), (s2, a2)] x st' \<and>
     tx_public_key (st_transaction s2) \<noteq> tx_public_key (st_transaction s1) \<and>
     tx_nonce (st_transaction s2) = max (handed_out (rejected_state (Rotating two_keys)) send_builder ''alice.near'' (tx_public_key (st_transaction s2))) 9 + 1"
proof -
  let ?rej = "Inl (Rpc_InvalidTx (InvalidTx_InvalidNonce 9 6)) :: rpc_error + transport_response"
  let ?st = "rejected_state (Rotating two_keys)" and ?k = "\<lambda>pk. (cl_url sample_client, ''alice.near'', pk)"
  have ok: "rotating_ok crypto_ref two_keys" "rotating_ok crypto_ref (two_keys\<lparr>rs_counter := 1\<rparr>)"
    by (simp_all add: two_keys_def rotating_ok_def)
  obtain k1 where k1: "claim_key crypto_ref 0 ?st = Done (k1, ?st\<lparr>ts_signers := (ts_signers ?st)(0 := Rotating (two_keys\<lparr>rs_counter := 1\<rparr>))\<rparr>)"
    "sk_public_key k1 = PublicKey_Ed25519 (replicate 32 1)" "signing_key_ok crypto_ref k1"
    using rotating_claim [OF signature_laws_ref ok(1), of ?st 0] by (auto simp: send_state_def two_keys_def crypto_ref_def)
  let ?sa = "?st\<lparr>ts_signers := (ts_signers ?st)(0 := Rotating (two_keys\<lparr>rs_counter := 1\<rparr>))\<rparr>"
  let ?st1 = "?sa\<lparr>ts_net := \<lparr>net_id = 1, net_world = [?rej, ok_response, ok_response], net_slept = []\<rparr>,
      ts_nonces := nonce_manager_new\<lparr>nonces := [?k (sk_public_key k1) \<mapsto> 6]\<rparr>\<rparr>"
  obtain s1 where s1: "sign_attempt (send_env True) send_builder 0 ''alice.near'' None ?st = Done (Inr s1, ?st1)"
    "ser_transaction borsh_le (st_transaction s1) \<noteq> None"
    using canned_sign [OF k1(1,3), of 0 "[?rej, ok_response, ok_response]" "[]" True None 6 ?st1]
    by (auto simp: send_state_def next_nonce_def nonce_manager_next_def nonce_manager_new_def arith_add_def)
  let ?st2 = "?st1\<lparr>ts_net := \<lparr>net_id = 2, net_world = [ok_response, ok_response], net_slept = []\<rparr>\<rparr>"
  have a1: "send_attempt (send_env True) send_builder Submitted s1 ?st1 = Done (Inl (Rpc_InvalidTx (InvalidTx_InvalidNonce 9 6)), ?st2)"
    using send_attempt_canned [OF s1(2), of ?st1 1 ?rej "[ok_response, ok_response]" "[]" True Submitted] by auto
  obtain k2 where k2: "claim_key crypto_ref 0 ?st2 = Done (k2, ?st2\<lparr>ts_signers := (ts_signers ?st2)(0 := Rotating (two_keys\<lparr>rs_counter := 2\<rparr>))\<rparr>)"
    "sk_public_key k2 = PublicKey_Ed25519 (replicate 32 2)" "signing_key_ok crypto_ref k2"
    using rotating_claim [OF signature_laws_ref ok(2), of ?st2 0] by (auto simp: two_keys_def crypto_ref_def)
  let ?sb = "?st2\<lparr>ts_signers := (ts_signers ?st2)(0 := Rotating (two_keys\<lparr>rs_counter := 2\<rparr>))\<rparr>"
  have "\<exists>st3. next_nonce True (?k (sk_public_key k2)) 9 (?sb\<lparr>ts_net := \<lparr>net_id = 3, net_world = [ok_response], net_slept = []\<rparr>\<rparr>) = Done (10, st3)
      \<and> ts_net st3 = \<lparr>net_id = 3, net_world = [ok_response], net_slept = []\<rparr>"
    using k1(2) k2(2) by (simp add: next_nonce_def nonce_manager_next_def nonce_manager_new_def arith_add_def)
  then obtain st3 where n2: "next_nonce True (?k (sk_public_key k2)) 9 (?sb\<lparr>ts_net := \<lparr>net_id = 3, net_world = [ok_response], net_slept = []\<rparr>\<rparr>) = Done (10, st3)"
    "ts_net st3 = \<lparr>net_id = 3, net_world = [ok_response], net_slept = []\<rparr>" by blast
  obtain s2 where s2: "sign_attempt (send_env True) send_builder 0 ''alice.near'' (Some 9) ?st2 = Done (Inr s2, st3)"
    "ser_transaction borsh_le (st_transaction s2) \<noteq> None"
    using canned_sign [OF k2(1,3), of 2 "[ok_response]" "[]" True "Some 9" 10 st3] n2(1) by auto
  obtain a2 st4 where a2: "send_attempt (send_env True) send_builder Submitted s2 st3 = Done (Inr a2, st4)"
    using send_attempt_canned [OF s2(2) n2(2), of True Submitted] by auto
  have b: "builder_signer send_builder = Inr 0" "tb_actions send_builder \<noteq> []" "tb_max_nonce_retries send_builder = 3"
    by (simp_all add: send_builder_def add_action_def transaction_builder_new_def builder_signer_def)
  have j: "judge (send_env True) send_builder ''alice.near'' Submitted 0 (Inl (Rpc_InvalidTx (InvalidTx_InvalidNonce 9 6))) =
      Done (Retry (Some 9) (Err_InvalidTx (InvalidTx_InvalidNonce 9 6)))" using b by (simp add: judge_def)
  let ?x = "level_convert crypto_ref Submitted a2 ''alice.near''"
  have j2: "judge (send_env True) send_builder ''alice.near'' Submitted (0 + 1) (Inr a2) = Done (Final_result ?x)" by (simp add: judge_def)
  have run: "sends (send_env True) send_builder 0 ''alice.near'' Submitted 0 None ?st
      [(s1, Inl (Rpc_InvalidTx (InvalidTx_InvalidNonce 9 6))), (s2, Inr a2)] ?x st4"
    by (rule sends_attempt_intros(3) [OF s1(1) a1 j sends_attempt_intros(2) [OF s2(1) a2 j2]])
  have acct: "rs_account_id two_keys = ''alice.near''" "ts_signers ?st 0 = Rotating two_keys" by (simp_all add: two_keys_def send_state_def)
  have "send_loop (send_env True) send_builder 0 ''alice.near'' Submitted 0 (Suc (Suc n)) None None ?st = Done (?x, st4)" for n
    using s1(1) a1 s2(1) a2 j j2 by simp
  from this [of 2] have x: "send (send_env True) Submitted send_builder ?st = Done (?x, st4)"
    using b acct by (simp add: send_def del: send_loop.simps)
  have "mixes_keys (handed_out ?st send_builder ''alice.near'') [(s1, Inl (Rpc_InvalidTx (InvalidTx_InvalidNonce 9 6))), (s2, Inr a2)]"
    using retry_mixes_rotating_keys [of "send_env True" send_builder 0 two_keys ?st Submitted ?x st4]
      b acct x run ok(1) signature_laws_ref by (auto simp: two_keys_def crypto_ref_def)
  then show ?thesis using x run by (intro exI conjI) auto
qed

end
