(* ===== verification/Queries.thy ===== *)
theory Queries
  imports Rpc_Methods
begin

text \<open>
  The query builders (\<open>client/query.rs\<close>). The six builders that ask about an account, a contract
  or a global contract have the same three fields and the same setters, so they share the record
  \<open>block_query\<close>; each has its own operation that awaits it. A query borrows the client only for
  the network, which is the state that awaiting threads through.
\<close>

type_synonym ('w, 'a) query_result = "((near_error + 'a) \<times> 'w net) run"

text \<open>\<open>?\<close> on the result of a method of the RPC client inside a function that returns \<open>Error\<close>.\<close>

definition try_rpc :: "('w, 'a) rpc_result \<Rightarrow> ('a \<Rightarrow> near_error + 'b) \<Rightarrow> ('w, 'b) query_result" where
  "try_rpc m f = run_bind m (\<lambda>(r, st). Done (rbind (map_err error_from_rpc r) f, st))"

section \<open>Queries at a block\<close>

record 't block_query =
  q_rpc :: rpc_client
  q_target :: 't
  q_block_ref :: block_reference

definition query_new :: "rpc_client \<Rightarrow> 't \<Rightarrow> 't block_query" where
  "query_new rpc t = \<lparr>q_rpc = rpc, q_target = t, q_block_ref = block_reference_default\<rparr>"

definition query_at_block :: "u64 \<Rightarrow> 't block_query \<Rightarrow> 't block_query" where
  "query_at_block height q = q\<lparr>q_block_ref := RefHeight height\<rparr>"

definition query_at_block_hash :: "crypto_hash \<Rightarrow> 't block_query \<Rightarrow> 't block_query" where
  "query_at_block_hash h q = q\<lparr>q_block_ref := RefHash h\<rparr>"

definition query_finality :: "finality \<Rightarrow> 't block_query \<Rightarrow> 't block_query" where
  "query_finality f q = q\<lparr>q_block_ref := RefFinality f\<rparr>"

definition balance_query ::
  "bool \<Rightarrow> 'w rpc_io \<Rightarrow> view_de \<Rightarrow> account_id block_query \<Rightarrow> 'w net \<Rightarrow> ('w, account_balance) query_result" where
  "balance_query oc io dv q st =
     try_rpc (view_account oc io (q_rpc q) dv (q_target q) (q_block_ref q) st) (\<lambda>v. Inr (account_balance_from v))"

definition account_query ::
  "bool \<Rightarrow> 'w rpc_io \<Rightarrow> view_de \<Rightarrow> account_id block_query \<Rightarrow> 'w net \<Rightarrow> ('w, account_view) query_result" where
  "account_query oc io dv q st = try_rpc (view_account oc io (q_rpc q) dv (q_target q) (q_block_ref q) st) Inr"

text \<open>The existence queries: certain errors mean that there is nothing, all others are passed on.\<close>

definition exists_unless :: "(rpc_error \<Rightarrow> bool) \<Rightarrow> ('w, 'a) rpc_result \<Rightarrow> ('w, bool) query_result" where
  "exists_unless absent m = run_bind m (\<lambda>(r, st). Done (case r of
       Inr _ \<Rightarrow> Inr True
     | Inl e \<Rightarrow> if absent e then Inr False else Inl (error_from_rpc e), st))"

definition no_contract :: "rpc_error \<Rightarrow> bool" where
  "no_contract e \<longleftrightarrow> is_contract_not_deployed e \<or> is_account_not_found e"

definition no_global_contract :: "rpc_error \<Rightarrow> bool" where
  "no_global_contract e \<longleftrightarrow> is_global_contract_not_found e \<or> is_account_not_found e"

definition account_exists_query ::
  "bool \<Rightarrow> 'w rpc_io \<Rightarrow> view_de \<Rightarrow> account_id block_query \<Rightarrow> 'w net \<Rightarrow> ('w, bool) query_result" where
  "account_exists_query oc io dv q st =
     exists_unless is_account_not_found (view_account oc io (q_rpc q) dv (q_target q) (q_block_ref q) st)"

definition access_keys_page ::
  "bool \<Rightarrow> 'w rpc_io \<Rightarrow> view_de \<Rightarrow> account_id block_query \<Rightarrow> public_key_handle option \<Rightarrow> u32 option \<Rightarrow> 'w net
     \<Rightarrow> ('w, access_key_list_view) query_result" where
  "access_keys_page oc io dv q after_key limit st =
     try_rpc (view_access_key_list_page oc io (q_rpc q) dv (q_target q) after_key limit (q_block_ref q) st) Inr"

definition access_keys_query ::
  "bool \<Rightarrow> 'w rpc_io \<Rightarrow> view_de \<Rightarrow> account_id block_query \<Rightarrow> 'w net \<Rightarrow> ('w, access_key_list_view) query_result option" where
  "access_keys_query oc io dv q st =
     map_option (\<lambda>r. try_rpc r Inr) (view_access_key_list oc io (q_rpc q) dv (q_target q) (q_block_ref q) st)"

text \<open>\<open>de_code\<close> is the deserializer of \<open>ContractCodeView\<close>.\<close>

definition contract_code_query ::
  "bool \<Rightarrow> 'w rpc_io \<Rightarrow> (json \<Rightarrow> string + 'r) \<Rightarrow> account_id block_query \<Rightarrow> 'w net \<Rightarrow> ('w, 'r) query_result" where
  "contract_code_query oc io de_code q st =
     try_rpc (view_code oc io (q_rpc q) de_code (q_target q) (q_block_ref q) st) Inr"

definition contract_code_exists ::
  "bool \<Rightarrow> 'w rpc_io \<Rightarrow> (json \<Rightarrow> string + 'r) \<Rightarrow> account_id block_query \<Rightarrow> 'w net \<Rightarrow> ('w, bool) query_result" where
  "contract_code_exists oc io de_code q st =
     exists_unless no_contract (view_code oc io (q_rpc q) de_code (q_target q) (q_block_ref q) st)"

definition global_contract_query ::
  "bool \<Rightarrow> 'w rpc_io \<Rightarrow> (json \<Rightarrow> string + 'r) \<Rightarrow> global_contract_id block_query \<Rightarrow> 'w net \<Rightarrow> ('w, 'r) query_result" where
  "global_contract_query oc io de_code q st =
     try_rpc (view_global_contract_code oc io (q_rpc q) de_code (q_target q) (q_block_ref q) st) Inr"

definition global_contract_exists ::
  "bool \<Rightarrow> 'w rpc_io \<Rightarrow> (json \<Rightarrow> string + 'r) \<Rightarrow> global_contract_id block_query \<Rightarrow> 'w net \<Rightarrow> ('w, bool) query_result" where
  "global_contract_exists oc io de_code q st =
     exists_unless no_global_contract (view_global_contract_code oc io (q_rpc q) de_code (q_target q) (q_block_ref q) st)"

section \<open>The status of a transaction\<close>

text \<open>The wait level is a type parameter of the query in the code and a field here; the sender is
  kept as the result of its conversion and fails only when the query is awaited.\<close>

record transaction_status_query =
  tq_rpc :: rpc_client
  tq_tx_hash :: crypto_hash
  tq_sender_id :: "near_error + account_id"
  tq_level :: wait_level

definition tx_status_query_new :: "rpc_client \<Rightarrow> crypto_hash \<Rightarrow> string + account_id \<Rightarrow> transaction_status_query" where
  "tx_status_query_new rpc tx_hash sender_id =
     \<lparr>tq_rpc = rpc, tq_tx_hash = tx_hash, tq_sender_id = map_err Err_ParseAccountId sender_id, tq_level = Submitted\<rparr>"

definition tx_status_wait_until :: "wait_level \<Rightarrow> transaction_status_query \<Rightarrow> transaction_status_query" where
  "tx_status_wait_until level q = q\<lparr>tq_level := level\<rparr>"

definition tx_status_query ::
  "bool \<Rightarrow> 'w rpc_io \<Rightarrow> view_de \<Rightarrow> transaction_status_query \<Rightarrow> 'w net \<Rightarrow> ('w, level_response) query_result" where
  "tx_status_query oc io dv q st =
     (case tq_sender_id q of
        Inl e \<Rightarrow> Done (Inl e, st)
      | Inr sender_id \<Rightarrow>
          try_rpc (tx_status oc io (tq_rpc q) dv (tq_tx_hash q) sender_id (level_status (tq_level q)) st)
            (\<lambda>response. level_convert (io_cr io) (tq_level q) response sender_id))"

section \<open>View calls\<close>

record view_call =
  vc_rpc :: rpc_client
  vc_contract_id :: account_id
  vc_method :: string
  vc_args :: bytes
  vc_block_ref :: block_reference

definition view_call_new :: "rpc_client \<Rightarrow> account_id \<Rightarrow> string \<Rightarrow> view_call" where
  "view_call_new rpc contract_id m =
     \<lparr>vc_rpc = rpc, vc_contract_id = contract_id, vc_method = m, vc_args = [], vc_block_ref = block_reference_default\<rparr>"

text \<open>The arguments of the setters are the results of \<open>serde_json::to_vec\<close> and \<open>borsh::to_vec\<close>;
  a failure leaves empty arguments.\<close>

definition view_call_args :: "string + bytes \<Rightarrow> view_call \<Rightarrow> view_call" where
  "view_call_args r v = v\<lparr>vc_args := (case r of Inr bs \<Rightarrow> bs | Inl _ \<Rightarrow> [])\<rparr>"

definition view_call_args_raw :: "bytes \<Rightarrow> view_call \<Rightarrow> view_call" where
  "view_call_args_raw bs v = v\<lparr>vc_args := bs\<rparr>"

definition view_call_args_borsh :: "bytes option \<Rightarrow> view_call \<Rightarrow> view_call" where
  "view_call_args_borsh r v = v\<lparr>vc_args := (case r of Some bs \<Rightarrow> bs | None \<Rightarrow> [])\<rparr>"

definition view_call_at_block :: "u64 \<Rightarrow> view_call \<Rightarrow> view_call" where
  "view_call_at_block height v = v\<lparr>vc_block_ref := RefHeight height\<rparr>"

definition view_call_at_block_hash :: "crypto_hash \<Rightarrow> view_call \<Rightarrow> view_call" where
  "view_call_at_block_hash h v = v\<lparr>vc_block_ref := RefHash h\<rparr>"

definition view_call_finality :: "finality \<Rightarrow> view_call \<Rightarrow> view_call" where
  "view_call_finality f v = v\<lparr>vc_block_ref := RefFinality f\<rparr>"

definition view_call_function ::
  "bool \<Rightarrow> 'w rpc_io \<Rightarrow> view_de \<Rightarrow> view_call \<Rightarrow> 'w net \<Rightarrow> ('w, view_function_result) rpc_result" where
  "view_call_function oc io dv v st =
     view_function oc io (vc_rpc v) dv (vc_contract_id v) (vc_method v) (vc_args v) (vc_block_ref v) st"

definition view_call_json ::
  "bool \<Rightarrow> 'w rpc_io \<Rightarrow> view_de \<Rightarrow> (bytes \<Rightarrow> string + 'a) \<Rightarrow> view_call \<Rightarrow> 'w net \<Rightarrow> ('w, 'a) query_result" where
  "view_call_json oc io dv from_json v st =
     try_rpc (view_call_function oc io dv v st) (\<lambda>result. map_err Err_Json (view_function_json from_json result))"

text \<open>After \<open>borsh()\<close> the same call is read as borsh.\<close>

definition view_call_borsh ::
  "bool \<Rightarrow> 'w rpc_io \<Rightarrow> view_de \<Rightarrow> (bytes \<Rightarrow> string + 'a) \<Rightarrow> view_call \<Rightarrow> 'w net \<Rightarrow> ('w, 'a) query_result" where
  "view_call_borsh oc io dv from_borsh v st =
     try_rpc (view_call_function oc io dv v st) (\<lambda>result. map_err Err_Borsh (from_borsh (vf_result result)))"

section \<open>When an account is missing\<close>

lemma is_account_not_found_iff [simp]: "is_account_not_found e \<longleftrightarrow> (\<exists>a h x. e = Rpc_AccountNotFound a h x)"
  by (cases e) (simp_all add: is_account_not_found_def)

lemma exists_unless_False:
  "exists_unless absent m = Done (Inr False, st') \<longleftrightarrow> (\<exists>e. m = Done (Inl e, st') \<and> absent e)"
proof (cases m)
  case (Done p)
  then show ?thesis by (cases p; cases "fst p") (auto simp: exists_unless_def)
qed (simp add: exists_unless_def)

text \<open>The two ways in which a node reports that an account does not exist: a named cause, or the
  text of nodes that name none.\<close>

definition reports_missing :: "json_rpc_error \<Rightarrow> bool" where
  "reports_missing error \<longleftrightarrow>
     (case je_cause error of Some c \<Rightarrow> ec_name c = ''UNKNOWN_ACCOUNT'' | None \<Rightarrow> False) \<or>
     (case Option.bind (je_data error) json_as_str of
        Some s \<Rightarrow> str_contains s ''does not exist'' \<and> strip_prefix ''account '' s \<noteq> None | None \<Rightarrow> False)"

lemma classify_not_missing:
  "classify_function_call_error e c m h x \<noteq> Some (Rpc_AccountNotFound a h' x')"
  "classify_legacy_function_call_error sd msg c m h x \<noteq> Some (Rpc_AccountNotFound a h' x')"
  by (auto simp: classify_function_call_error_def classify_legacy_function_call_error_def Let_def
      split: function_call_error.splits compilation_error.splits method_resolve_error.splits host_error.splits
        option.splits if_splits)

lemma contract_execution_not_missing:
  "contract_execution_error env error info h x \<noteq> Done (Rpc_AccountNotFound a h' x')"
  by (auto simp: contract_execution_error_def Let_def classify_not_missing bind_eq_Some_conv split: option.splits)

lemma cause_error_missing:
  assumes "cause_error env error c = Done (Some (Rpc_AccountNotFound a h x))"
  shows "ec_name c = ''UNKNOWN_ACCOUNT''"
proof (rule ccontr)
  assume "ec_name c \<noteq> ''UNKNOWN_ACCOUNT''"
  then show False
    using assms
    by (auto simp: cause_error_def node_cause_error_def rpc_invalid_transaction_def Let_def contract_execution_not_missing
        split: prod.splits if_splits option.splits sum.splits)
qed

lemma parse_rpc_error_missing:
  assumes "parse_rpc_error env error = Done (Rpc_AccountNotFound a h x)"
  shows "reports_missing error"
proof (cases "\<exists>c. je_cause error = Some c \<and> ec_name c = ''UNKNOWN_ACCOUNT''")
  case True
  then show ?thesis by (auto simp: reports_missing_def)
next
  case False
  then have "data_error (env_sd env) error = Rpc_AccountNotFound a h x"
    using assms cause_error_missing by (auto simp: parse_rpc_error_def split: option.splits)
  then show ?thesis
    by (auto simp: reports_missing_def data_error_def bind_eq_Some_conv split: option.splits if_splits)
qed

text \<open>Only an answer of the node makes an attempt fail with \<open>AccountNotFound\<close>, provided that the
  transport does not.\<close>

definition honest_transport :: "'w rpc_io \<Rightarrow> bool" where
  "honest_transport io \<longleftrightarrow> (\<forall>url body w e. fst (io_post io url body w) = Inl e \<longrightarrow> \<not> is_account_not_found e)"

text \<open>What the node reports in an HTTP response.\<close>

definition response_error :: "'w rpc_io \<Rightarrow> transport_response \<Rightarrow> json_rpc_error option" where
  "response_error io resp = Option.bind (ok_opt (io_de_response io (from_utf8_lossy (tr_body resp)))) jr_error"

lemma map_err_eq_Inl: "map_err f r = Inl e \<longleftrightarrow> (\<exists>e'. r = Inl e' \<and> e = f e')"
  by (cases r) auto

lemma preserved_missing:
  "preserve_http_retry_classification e status body = Rpc_AccountNotFound a h x \<Longrightarrow> e = Rpc_AccountNotFound a h x"
  by (cases e) (auto simp: preserve_http_retry_classification_def rpc_network_def split: if_splits)

lemma read_response_missing:
  assumes "read_response io de m resp = Done (Inl (Rpc_AccountNotFound a h x))" and "m \<noteq> ''query''"
  shows "\<exists>error. response_error io resp = Some error \<and> reports_missing error"
proof (cases "response_error io resp")
  case None
  then show ?thesis
    using assms by (auto simp: read_response_def response_error_def Let_def rpc_network_def map_err_eq_Inl bind_eq_None_conv
        split: if_splits option.splits sum.splits)
next
  case (Some error)
  then obtain rr where rr: "io_de_response io (from_utf8_lossy (tr_body resp)) = Inr rr" "jr_error rr = Some error"
    by (cases "io_de_response io (from_utf8_lossy (tr_body resp))") (auto simp: response_error_def)
  then have "parse_rpc_error (io_env io) error = Done (Rpc_AccountNotFound a h x)"
    using assms(1) by (auto simp: read_response_def Let_def dest: preserved_missing split: if_splits)
  then show ?thesis using Some parse_rpc_error_missing by blast
qed

lemma try_call_missing:
  assumes "honest_transport io" and "try_call io url de m ps i w = Done (Inl (Rpc_AccountNotFound a h x), w')" and "m \<noteq> ''query''"
  shows "\<exists>body w resp error. io_post io url body w = (Inr resp, w') \<and> response_error io resp = Some error \<and> reports_missing error"
proof -
  obtain body where body: "io_to_vec io (json_rpc_request i m ps) = Inr body"
    using assms(2) by (auto simp: try_call_def split: sum.splits)
  obtain p w1 where p: "io_post io url body w = (p, w1)" by fastforce
  have honest: "fst (io_post io url body w) \<noteq> Inl (Rpc_AccountNotFound a h x)"
    using assms(1) unfolding honest_transport_def is_account_not_found_iff by blast
  show ?thesis
  proof (cases p)
    case (Inl e)
    then show ?thesis using honest assms(2) body p by (simp add: try_call_def)
  next
    case (Inr resp)
    then have "read_response io de m resp = Done (Inl (Rpc_AccountNotFound a h x))" "w1 = w'"
      using assms(2) body p by (auto simp: try_call_def)
    then show ?thesis using read_response_missing [OF _ assms(3)] p Inr by blast
  qed
qed

lemma call_loop_last_attempt:
  "call_loop oc io cl de m ps tot attempt n st = Done (r, st') \<Longrightarrow>
     \<exists>i w. try_call io (cl_url cl) de m ps i w = Done (r, net_world st')"
proof (induction n arbitrary: attempt st)
  case (Suc n)
  obtain r1 w1 where t: "try_call io (cl_url cl) de m ps (net_id st) (net_world st) = Done (r1, w1)"
    using Suc.prems by auto
  show ?case
  proof (cases "\<exists>e. r1 = Inl e \<and> rpc_is_retryable e \<and> attempt < tot - 1")
    case True
    then show ?thesis using Suc.prems t Suc.IH by (auto simp: Let_def)
  next
    case False
    then have "r = r1 \<and> net_world st' = w1" using Suc.prems t by (auto simp: Let_def split: sum.splits)
    then show ?thesis using t by blast
  qed
qed simp

lemma rpc_call_last_attempt:
  "rpc_call oc io cl de m ps st = Done (r, st') \<Longrightarrow> \<exists>i w. try_call io (cl_url cl) de m ps i w = Done (r, net_world st')"
  by (auto simp: rpc_call_def dest: call_loop_last_attempt)

text \<open>A first attempt with a final result is the whole call.\<close>

lemma rpc_call_once:
  assumes "try_call io (cl_url cl) de m ps (net_id st) (net_world st) = Done (r, w)"
    and "case r of Inl e \<Rightarrow> \<not> rpc_is_retryable e | Inr _ \<Rightarrow> True" and "rc_max_retries (cl_retry cl) \<noteq> - 1"
  shows "rpc_call oc io cl de m ps st = Done (r, st\<lparr>net_id := net_id st + 1, net_world := w\<rparr>)"
proof -
  let ?n = "rc_max_retries (cl_retry cl)"
  have "unat ?n + 1 < 2 ^ 32"
  proof -
    have "unat ?n \<noteq> unat (- 1 :: u32)" using assms(3) unat_inj by blast
    then show ?thesis using unat_lt_size [of ?n] by (simp add: unsigned_minus_1_eq_mask mask_eq_exp_minus_1)
  qed
  then have "arith_add oc ?n 1 = Done (?n + 1)" "unat (?n + 1) = Suc (unat ?n)"
    by (simp_all add: arith_add_def unat_add_nowrap)
  then show ?thesis using assms(1,2) by (cases r) (simp_all add: rpc_call_def Let_def)
qed

text \<open>An answer that names the cause and a valid account.\<close>

definition unknown_account_answer :: "'w rpc_io \<Rightarrow> transport_response \<Rightarrow> account_id \<Rightarrow> bool" where
  "unknown_account_answer io resp a \<longleftrightarrow>
     (case Option.bind (response_error io resp) je_cause of
        None \<Rightarrow> False
      | Some c \<Rightarrow> ec_name c = ''UNKNOWN_ACCOUNT'' \<and>
          Option.bind (info_str (ec_info c) ''requested_account_id'') (\<lambda>s. ok_opt (parse_account (env_sd (io_env io)) s)) = Some a)"

lemma read_unknown_account:
  assumes "unknown_account_answer io resp a"
  shows "\<exists>h x. read_response io de m resp = Done (Inl (Rpc_AccountNotFound a h x))"
proof -
  obtain rr error c where rr: "io_de_response io (from_utf8_lossy (tr_body resp)) = Inr rr" "jr_error rr = Some error"
    "je_cause error = Some c" "ec_name c = ''UNKNOWN_ACCOUNT''"
    "Option.bind (info_str (ec_info c) ''requested_account_id'') (\<lambda>s. ok_opt (parse_account (env_sd (io_env io)) s)) = Some a"
    using assms by (cases "io_de_response io (from_utf8_lossy (tr_body resp))")
      (auto simp: unknown_account_answer_def response_error_def bind_eq_Some_conv split: option.splits)
  obtain h x where "parse_rpc_error (io_env io) error = Done (Rpc_AccountNotFound a h x)"
    using rr(3-5) by (cases "parse_error_block_context (env_cr (io_env io)) (ec_info c)")
      (auto simp: parse_rpc_error_def cause_error_def Let_def)
  then show ?thesis
    using rr(1,2) by (auto simp: read_response_def Let_def preserve_http_retry_classification_def)
qed

abbreviation view_account_request :: "'w rpc_io \<Rightarrow> account_id block_query \<Rightarrow> u64 \<Rightarrow> json" where
  "view_account_request io q i \<equiv> json_rpc_request i ''EXPERIMENTAL_view_account''
     (merge_block_reference (io_cr io) (JObj [(''account_id'', JStr (q_target q))]) (q_block_ref q))"

lemma view_account_unknown:
  assumes "io_to_vec io (view_account_request io q (net_id st)) = Inr body"
    and "io_post io (cl_url (q_rpc q)) body (net_world st) = (Inr resp, w)"
    and "unknown_account_answer io resp a" and "rc_max_retries (cl_retry (q_rpc q)) \<noteq> - 1"
  shows "\<exists>h x. view_account oc io (q_rpc q) dv (q_target q) (q_block_ref q) st =
    Done (Inl (Rpc_AccountNotFound a h x), st\<lparr>net_id := net_id st + 1, net_world := w\<rparr>)"
proof -
  obtain h x where "read_response io (de_account dv) ''EXPERIMENTAL_view_account'' resp = Done (Inl (Rpc_AccountNotFound a h x))"
    using read_unknown_account [OF assms(3)] by blast
  then have "try_call io (cl_url (q_rpc q)) (de_account dv) ''EXPERIMENTAL_view_account''
      (merge_block_reference (io_cr io) (JObj [(''account_id'', JStr (q_target q))]) (q_block_ref q))
      (net_id st) (net_world st) = Done (Inl (Rpc_AccountNotFound a h x), w)"
    using assms(1,2) by (simp add: try_call_def)
  from rpc_call_once [OF this _ assms(4)] show ?thesis by (auto simp: view_account_def)
qed

section \<open>Properties\<close>

text \<open>C14: \<open>account_exists\<close> answers \<open>false\<close> only when the node has reported that the account does not
  exist; a failing network or any other error never looks like a missing account. When the node
  answers the first request so, whatever the HTTP status, the query takes that one request,
  sleeps for no retry and returns \<open>false\<close>, while \<open>account\<close> and \<open>balance\<close> fail with
  \<open>AccountNotFound\<close>.\<close>

theorem missing_account:
  fixes io :: "'w rpc_io" and q :: "account_id block_query" and dv :: view_de
  assumes "honest_transport io"
  shows "(account_exists_query oc io dv q st = Done (Inr False, st') \<longrightarrow>
      (\<exists>body w resp error. io_post io (cl_url (q_rpc q)) body w = (Inr resp, net_world st') \<and>
        response_error io resp = Some error \<and> reports_missing error)) \<and>
    (io_to_vec io (view_account_request io q (net_id st)) = Inr body \<and>
      io_post io (cl_url (q_rpc q)) body (net_world st) = (Inr resp, w) \<and>
      unknown_account_answer io resp a \<and> rc_max_retries (cl_retry (q_rpc q)) \<noteq> - 1 \<longrightarrow>
      (\<exists>h x. let st1 = st\<lparr>net_id := net_id st + 1, net_world := w\<rparr> in
        account_exists_query oc io dv q st = Done (Inr False, st1) \<and>
        account_query oc io dv q st = Done (Inl (Err_Rpc (Rpc_AccountNotFound a h x)), st1) \<and>
        balance_query oc io dv q st = Done (Inl (Err_Rpc (Rpc_AccountNotFound a h x)), st1)))"
proof (intro conjI impI)
  assume "account_exists_query oc io dv q st = Done (Inr False, st')"
  then obtain b h x where "view_account oc io (q_rpc q) dv (q_target q) (q_block_ref q) st = Done (Inl (Rpc_AccountNotFound b h x), st')"
    by (auto simp: account_exists_query_def exists_unless_False)
  then obtain i w0 where "try_call io (cl_url (q_rpc q)) (de_account dv) ''EXPERIMENTAL_view_account''
      (merge_block_reference (io_cr io) (JObj [(''account_id'', JStr (q_target q))]) (q_block_ref q)) i w0 =
      Done (Inl (Rpc_AccountNotFound b h x), net_world st')"
    using rpc_call_last_attempt by (fastforce simp: view_account_def)
  with try_call_missing [OF assms this] show "\<exists>body w resp error. io_post io (cl_url (q_rpc q)) body w = (Inr resp, net_world st') \<and>
      response_error io resp = Some error \<and> reports_missing error"
    by simp
next
  assume *: "io_to_vec io (view_account_request io q (net_id st)) = Inr body \<and>
      io_post io (cl_url (q_rpc q)) body (net_world st) = (Inr resp, w) \<and>
      unknown_account_answer io resp a \<and> rc_max_retries (cl_retry (q_rpc q)) \<noteq> - 1"
  obtain h x where "view_account oc io (q_rpc q) dv (q_target q) (q_block_ref q) st =
      Done (Inl (Rpc_AccountNotFound a h x), st\<lparr>net_id := net_id st + 1, net_world := w\<rparr>)"
    using * by (metis view_account_unknown)
  then show "\<exists>h x. let st1 = st\<lparr>net_id := net_id st + 1, net_world := w\<rparr> in
        account_exists_query oc io dv q st = Done (Inr False, st1) \<and>
        account_query oc io dv q st = Done (Inl (Err_Rpc (Rpc_AccountNotFound a h x)), st1) \<and>
        balance_query oc io dv q st = Done (Inl (Err_Rpc (Rpc_AccountNotFound a h x)), st1)"
    by (auto simp: account_exists_query_def account_query_def balance_query_def exists_unless_def try_rpc_def
        error_from_rpc_def Let_def)
qed

text \<open>A node that knows no account.\<close>

definition io_unknown :: "unit rpc_io" where
  "io_unknown = \<lparr>io_env = rpc_env_ref, io_to_vec = (\<lambda>v. Inr []),
     io_de_response = (\<lambda>s. Inr \<lparr>jr_jsonrpc = ''2.0'', jr_id = 0, jr_result = None,
       jr_error = Some \<lparr>je_code = - 32000, je_message = ''Server error'', je_data = None,
         je_cause = Some \<lparr>ec_name = ''UNKNOWN_ACCOUNT'',
           ec_info = Some (JObj [(''requested_account_id'', JStr ''bob.near'')])\<rparr>, je_name = None\<rparr>\<rparr>),
     io_post = (\<lambda>url body w. (Inr \<lparr>tr_status = 422, tr_body = []\<rparr>, w))\<rparr>"

theorem missing_account_witness:
  "account_exists_query True io_unknown view_de_snapshot (query_new sample_client ''bob.near'')
      \<lparr>net_id = 4, net_world = (), net_slept = []\<rparr> =
    Done (Inr False, \<lparr>net_id = 5, net_world = (), net_slept = []\<rparr>)"
proof -
  have "unknown_account_answer io_unknown \<lparr>tr_status = 422, tr_body = []\<rparr> ''bob.near''"
    by (simp add: unknown_account_answer_def response_error_def io_unknown_def info_str_def rpc_env_ref_def serde_ref_def
        parse_account_ref_def acct_alnum_def acct_sep_def char_code_def)
  moreover have "honest_transport io_unknown" by (simp add: honest_transport_def io_unknown_def)
  moreover have "rc_max_retries (cl_retry sample_client) \<noteq> - 1"
    by (simp add: sample_client_def retry_config_default_def)
  ultimately show ?thesis
    using missing_account [of io_unknown True view_de_snapshot "query_new sample_client ''bob.near''"
        "\<lparr>net_id = 4, net_world = (), net_slept = []\<rparr>" _ "[]" "\<lparr>tr_status = 422, tr_body = []\<rparr>" "()" "''bob.near''"]
    by (simp add: io_unknown_def query_new_def Let_def)
qed

end
