(* ===== verification/Near_Client.thy ===== *)
theory Near_Client
  imports Tx_Send Queries
begin

text \<open>
  The client \<open>Near\<close> and its builder (\<open>client/near.rs\<close>). A client shares its RPC connection and its
  signer: it holds a reference into the store of signers, and an operation that makes a new shared
  signer (\<open>Arc::new\<close>) is given the reference that it takes. The transport of a client is the
  transport of the environment, so the setters that choose one have no counterpart here.
\<close>

section \<open>State\<close>

record near =
  nr_rpc :: rpc_client
  nr_signer :: "signer_ref option"
  nr_chain_id :: chain_id
  nr_max_nonce_retries :: u32

record near_builder =
  nb_rpc_url :: string
  nb_signer :: "signer_ref option"
  nb_retry_config :: retry_config
  nb_chain_id :: chain_id
  nb_max_nonce_retries :: u32

type_synonym signer_store = "signer_ref \<Rightarrow> any_signer"

section \<open>The builder\<close>

definition near_builder_new :: "string \<Rightarrow> chain_id \<Rightarrow> near_builder" where
  "near_builder_new rpc_url chain_id =
     \<lparr>nb_rpc_url = rpc_url, nb_signer = None, nb_retry_config = retry_config_default, nb_chain_id = chain_id,
      nb_max_nonce_retries = 3\<rparr>"

definition near_builder_signer :: "signer_ref \<Rightarrow> any_signer \<Rightarrow> near_builder \<Rightarrow> signer_store \<Rightarrow> near_builder \<times> signer_store" where
  "near_builder_signer r s b store = (b\<lparr>nb_signer := Some r\<rparr>, store(r := s))"

definition near_builder_credentials ::
  "crypto_ops \<Rightarrow> signer_ref \<Rightarrow> string \<Rightarrow> string + account_id \<Rightarrow> near_builder \<Rightarrow> signer_store
     \<Rightarrow> (near_error + near_builder \<times> signer_store) run" where
  "near_builder_credentials cr r private_key account_id b store =
     try_run (in_memory_new cr account_id private_key) (\<lambda>s. Done (Inr (near_builder_signer r (OneKey s) b store)))"

definition near_builder_chain_id :: "string \<Rightarrow> near_builder \<Rightarrow> near_builder" where
  "near_builder_chain_id i b = b\<lparr>nb_chain_id := i\<rparr>"

definition near_builder_retry_config :: "retry_config \<Rightarrow> near_builder \<Rightarrow> near_builder" where
  "near_builder_retry_config cfg b = b\<lparr>nb_retry_config := cfg\<rparr>"

definition near_builder_max_nonce_retries :: "u32 \<Rightarrow> near_builder \<Rightarrow> near_builder" where
  "near_builder_max_nonce_retries n b = b\<lparr>nb_max_nonce_retries := n\<rparr>"

definition near_build :: "near_builder \<Rightarrow> near" where
  "near_build b =
     \<lparr>nr_rpc = \<lparr>cl_url = nb_rpc_url b, cl_retry = nb_retry_config b\<rparr>, nr_signer = nb_signer b,
      nr_chain_id = nb_chain_id b, nr_max_nonce_retries = nb_max_nonce_retries b\<rparr>"

section \<open>Networks and the environment\<close>

definition MAINNET_rpc_url :: string where "MAINNET_rpc_url = ''https://free.rpc.fastnear.com''"
definition TESTNET_rpc_url :: string where "TESTNET_rpc_url = ''https://test.rpc.fastnear.com''"

definition near_mainnet :: near_builder where
  "near_mainnet = near_builder_new MAINNET_rpc_url ''mainnet''"

definition near_testnet :: near_builder where
  "near_testnet = near_builder_new TESTNET_rpc_url ''testnet''"

definition near_custom :: "string \<Rightarrow> chain_id \<Rightarrow> near_builder" where
  "near_custom rpc_url chain_id = near_builder_new rpc_url chain_id"

text \<open>The preset for \<open>NEAR_NETWORK\<close>, with what is left of \<open>NEAR_CHAIN_ID\<close>: a custom network takes it.\<close>

definition network_builder :: "string option \<Rightarrow> string option \<Rightarrow> near_builder \<times> string option" where
  "network_builder network chain_id_override =
     (case network of
        None \<Rightarrow> (near_testnet, chain_id_override)
      | Some url \<Rightarrow>
          if url = ''mainnet'' then (near_mainnet, chain_id_override)
          else if url = ''testnet'' then (near_testnet, chain_id_override)
          else (near_custom url (case chain_id_override of Some i \<Rightarrow> i | None \<Rightarrow> ''custom''), None))"

definition env_credentials ::
  "crypto_ops \<Rightarrow> serde_ops \<Rightarrow> (string \<Rightarrow> string option) \<Rightarrow> signer_ref \<Rightarrow> near_builder \<Rightarrow> signer_store
     \<Rightarrow> (near_error + near_builder \<times> signer_store) run" where
  "env_credentials cr sd var r b store =
     (case (var ''NEAR_ACCOUNT_ID'', var ''NEAR_PRIVATE_KEY'') of
        (Some account, Some key) \<Rightarrow> near_builder_credentials cr r key (parse_account sd account) b store
      | (Some _, None) \<Rightarrow> Done (Inl (Err_Config ''NEAR_ACCOUNT_ID is set but NEAR_PRIVATE_KEY is missing''))
      | (None, Some _) \<Rightarrow> Done (Inl (Err_Config ''NEAR_PRIVATE_KEY is set but NEAR_ACCOUNT_ID is missing''))
      | (None, None) \<Rightarrow> Done (Inr (b, store)))"

definition env_retries :: "(string \<Rightarrow> string option) \<Rightarrow> near_builder \<Rightarrow> near_error + near_builder" where
  "env_retries var b =
     (case var ''NEAR_MAX_NONCE_RETRIES'' of
        None \<Rightarrow> Inr b
      | Some retries \<Rightarrow>
          rmap (\<lambda>n. near_builder_max_nonce_retries n b)
            (ok_or (Err_Config (''NEAR_MAX_NONCE_RETRIES must be a non-negative integer, got: '' @ retries)) (parse_uint retries)))"

text \<open>\<open>var\<close> is \<open>std::env::var(..).ok()\<close>.\<close>

definition near_from_env ::
  "crypto_ops \<Rightarrow> serde_ops \<Rightarrow> (string \<Rightarrow> string option) \<Rightarrow> signer_ref \<Rightarrow> signer_store
     \<Rightarrow> (near_error + near \<times> signer_store) run" where
  "near_from_env cr sd var r store =
     (case network_builder (var ''NEAR_NETWORK'') (var ''NEAR_CHAIN_ID'') of (b, chain_id_override) \<Rightarrow>
      let b = (case chain_id_override of Some i \<Rightarrow> near_builder_chain_id i b | None \<Rightarrow> b) in
      try_run (env_credentials cr sd var r b store) (\<lambda>(b, store).
        Done (rmap (\<lambda>b. (near_build b, store)) (env_retries var b))))"

text \<open>The arguments are what the sandbox network provides.\<close>

definition near_sandbox ::
  "crypto_ops \<Rightarrow> serde_ops \<Rightarrow> signer_ref \<Rightarrow> string \<Rightarrow> string \<Rightarrow> string \<Rightarrow> string option \<Rightarrow> signer_store
     \<Rightarrow> (near \<times> signer_store) run" where
  "near_sandbox cr sd r rpc_url root_account_id root_secret_key chain_id store =
     run_bind (expect (ok_opt (secret_key_from_str cr root_secret_key))) (\<lambda>secret_key.
     run_bind (expect (ok_opt (parse_account sd root_account_id))) (\<lambda>account_id.
     run_bind (in_memory_from_secret_key cr (Inr account_id) secret_key) (\<lambda>signer.
     run_bind (expect (ok_opt signer)) (\<lambda>s.
       Done (\<lparr>nr_rpc = \<lparr>cl_url = rpc_url, cl_retry = retry_config_default\<rparr>, nr_signer = Some r,
           nr_chain_id = (case chain_id of Some i \<Rightarrow> i | None \<Rightarrow> ''sandbox''), nr_max_nonce_retries = 3\<rparr>,
         store(r := OneKey s))))))"

section \<open>The client\<close>

definition near_account_id :: "near \<Rightarrow> signer_store \<Rightarrow> account_id run" where
  "near_account_id n store = run_bind (expect (nr_signer n)) (\<lambda>r. Done (any_account_id (store r)))"

definition try_account_id :: "near \<Rightarrow> signer_store \<Rightarrow> account_id option" where
  "try_account_id n store = map_option (\<lambda>r. any_account_id (store r)) (nr_signer n)"

definition near_public_key :: "crypto_ops \<Rightarrow> near \<Rightarrow> signer_store \<Rightarrow> public_key option run" where
  "near_public_key cr n store =
     (case nr_signer n of None \<Rightarrow> Done None | Some r \<Rightarrow> run_bind (any_public_key cr (store r)) (\<lambda>pk. Done (Some pk)))"

definition near_max_nonce_retries :: "u32 \<Rightarrow> near \<Rightarrow> near" where
  "near_max_nonce_retries retries n = n\<lparr>nr_max_nonce_retries := retries\<rparr>"

definition near_with_signer :: "signer_ref \<Rightarrow> any_signer \<Rightarrow> near \<Rightarrow> signer_store \<Rightarrow> near \<times> signer_store" where
  "near_with_signer r s n store =
     (\<lparr>nr_rpc = nr_rpc n, nr_signer = Some r, nr_chain_id = nr_chain_id n, nr_max_nonce_retries = nr_max_nonce_retries n\<rparr>,
      store(r := s))"

definition near_client_sign_message ::
  "borsh_ops \<Rightarrow> crypto_ops \<Rightarrow> near \<Rightarrow> sign_message_params \<Rightarrow> signer_store
     \<Rightarrow> ((near_error + signed_message) \<times> signer_store) run" where
  "near_client_sign_message bo cr n params store =
     run_bind (near_sign_message bo cr any_account_id (any_key cr) (map_option store (nr_signer n)) params) (\<lambda>(r, s).
       Done (r, case (nr_signer n, s) of (Some i, Some s') \<Rightarrow> store(i := s') | _ \<Rightarrow> store))"

subsection \<open>Queries\<close>

text \<open>The conversion of the account and the constructor that the queries of an account share; what
  awaiting a query does is in \<open>Queries\<close>.\<close>

definition near_query :: "near \<Rightarrow> string + account_id \<Rightarrow> account_id block_query run" where
  "near_query n account_id = run_bind (expect (ok_opt account_id)) (\<lambda>a. Done (query_new (nr_rpc n) a))"

definition near_balance :: "near \<Rightarrow> string + account_id \<Rightarrow> account_id block_query run" where
  "near_balance n account_id = near_query n account_id"

definition near_account :: "near \<Rightarrow> string + account_id \<Rightarrow> account_id block_query run" where
  "near_account n account_id = near_query n account_id"

definition near_account_exists :: "near \<Rightarrow> string + account_id \<Rightarrow> account_id block_query run" where
  "near_account_exists n account_id = near_query n account_id"

definition near_access_keys :: "near \<Rightarrow> string + account_id \<Rightarrow> account_id block_query run" where
  "near_access_keys n account_id = near_query n account_id"

definition near_contract_code :: "near \<Rightarrow> string + account_id \<Rightarrow> account_id block_query run" where
  "near_contract_code n account_id = near_query n account_id"

definition near_global_contract ::
  "(string \<Rightarrow> string + account_id) \<Rightarrow> near \<Rightarrow> global_contract_arg \<Rightarrow> global_contract_id block_query run" where
  "near_global_contract parse_acct n i = run_bind (into_identifier parse_acct i) (\<lambda>g. Done (query_new (nr_rpc n) g))"

definition near_view :: "near \<Rightarrow> string + account_id \<Rightarrow> string \<Rightarrow> view_call run" where
  "near_view n contract_id m = run_bind (expect (ok_opt contract_id)) (\<lambda>c. Done (view_call_new (nr_rpc n) c m))"

definition near_validators ::
  "bool \<Rightarrow> 'w rpc_io \<Rightarrow> (json \<Rightarrow> string + 'r) \<Rightarrow> near \<Rightarrow> 'w net \<Rightarrow> ('w, 'r) query_result" where
  "near_validators oc io de n st = try_rpc (validators oc io (nr_rpc n) de None st) Inr"

definition near_tx_status :: "near \<Rightarrow> crypto_hash \<Rightarrow> string + account_id \<Rightarrow> transaction_status_query" where
  "near_tx_status n tx_hash sender_id = tx_status_query_new (nr_rpc n) tx_hash sender_id"

definition view_with_args ::
  "bool \<Rightarrow> 'w rpc_io \<Rightarrow> view_de \<Rightarrow> (bytes \<Rightarrow> string + 'a) \<Rightarrow> near \<Rightarrow> string + account_id \<Rightarrow> string \<Rightarrow> string + bytes
     \<Rightarrow> 'w net \<Rightarrow> ('w, 'a) query_result" where
  "view_with_args oc io dv from_json n contract_id m args st =
     (case map_err Err_ParseAccountId contract_id of
        Inl e \<Rightarrow> Done (Inl e, st)
      | Inr c \<Rightarrow> view_call_json oc io dv from_json (view_call_args args (view_call_new (nr_rpc n) c m)) st)"

subsection \<open>Transactions\<close>

definition near_transaction :: "near \<Rightarrow> string + account_id \<Rightarrow> transaction_builder run" where
  "near_transaction n receiver_id =
     run_bind (expect (ok_opt receiver_id)) (\<lambda>r.
       Done (transaction_builder_new (nr_rpc n) (nr_signer n) r (nr_max_nonce_retries n)))"

definition near_transfer :: "near \<Rightarrow> string + account_id \<Rightarrow> parse_amount_error + near_token \<Rightarrow> transaction_builder run" where
  "near_transfer n receiver amount = run_bind (near_transaction n receiver) (tb_transfer amount)"

definition near_call :: "near \<Rightarrow> string + account_id \<Rightarrow> string \<Rightarrow> call_builder run" where
  "near_call n contract_id m = run_bind (near_transaction n contract_id) (\<lambda>b. Done (tb_call m b))"

text \<open>A transaction to the account of the signer.\<close>

definition near_own :: "near \<Rightarrow> signer_store \<Rightarrow> (transaction_builder \<Rightarrow> transaction_builder run) \<Rightarrow> transaction_builder run" where
  "near_own n store f = run_bind (near_account_id n store) (\<lambda>a. run_bind (near_transaction n (Inr a)) f)"

definition near_deploy :: "near \<Rightarrow> signer_store \<Rightarrow> bytes \<Rightarrow> transaction_builder run" where
  "near_deploy n store code = near_own n store (\<lambda>b. Done (tb_deploy code b))"

definition near_deploy_from ::
  "(string \<Rightarrow> string + account_id) \<Rightarrow> near \<Rightarrow> signer_store \<Rightarrow> global_contract_arg \<Rightarrow> transaction_builder run" where
  "near_deploy_from parse_acct n store contract_ref = near_own n store (tb_deploy_from parse_acct contract_ref)"

definition near_publish :: "near \<Rightarrow> signer_store \<Rightarrow> bytes \<Rightarrow> publish_mode \<Rightarrow> transaction_builder run" where
  "near_publish n store code mode = near_own n store (\<lambda>b. Done (tb_publish code mode b))"

definition near_add_full_access_key :: "near \<Rightarrow> signer_store \<Rightarrow> public_key \<Rightarrow> transaction_builder run" where
  "near_add_full_access_key n store pk = near_own n store (\<lambda>b. Done (tb_add_full_access_key pk b))"

definition near_delete_key :: "near \<Rightarrow> signer_store \<Rightarrow> public_key \<Rightarrow> transaction_builder run" where
  "near_delete_key n store pk = near_own n store (\<lambda>b. Done (tb_delete_key pk b))"

definition near_state_init ::
  "(state_init \<Rightarrow> account_id) \<Rightarrow> near \<Rightarrow> state_init \<Rightarrow> parse_amount_error + near_token \<Rightarrow> transaction_builder run" where
  "near_state_init derive_account_id n si deposit =
     run_bind (expect (ok_opt deposit)) (\<lambda>d.
     run_bind (near_transaction n (Inr (derive_account_id si))) (\<lambda>b. Done (add_action (action_state_init si d) b)))"

definition near_send ::
  "'w tx_env \<Rightarrow> near \<Rightarrow> wait_level \<Rightarrow> signed_transaction \<Rightarrow> 'w tx_state \<Rightarrow> ('w, level_response) tx_result" where
  "near_send env n level signed_tx st = send_signed env (nr_rpc n) level signed_tx st"

text \<open>Awaiting a call sends it at the level \<open>ExecutedOptimistic\<close>.\<close>

definition call_with_args ::
  "'w tx_env \<Rightarrow> near \<Rightarrow> string + account_id \<Rightarrow> string \<Rightarrow> string + bytes \<Rightarrow> 'w tx_state \<Rightarrow> ('w, level_response) tx_result" where
  "call_with_args env n contract_id m args st =
     run_bind (near_call n contract_id m) (\<lambda>c.
       send env ExecutedOptimistic (call_finish (c\<lparr>cb_call := call_set_args args (cb_call c)\<rparr>)) st)"

definition call_with_options ::
  "'w tx_env \<Rightarrow> near \<Rightarrow> string + account_id \<Rightarrow> string \<Rightarrow> string + bytes \<Rightarrow> gas \<Rightarrow> near_token \<Rightarrow> 'w tx_state
     \<Rightarrow> ('w, level_response) tx_result" where
  "call_with_options env n contract_id m args gas deposit st =
     run_bind (near_call n contract_id m) (\<lambda>c.
     run_bind (call_set_gas (Inr gas) (call_set_args args (cb_call c))) (\<lambda>f.
     run_bind (call_set_deposit (Inr deposit) f) (\<lambda>f.
       send env ExecutedOptimistic (call_finish (c\<lparr>cb_call := f\<rparr>)) st)))"

section \<open>Properties\<close>

text \<open>The URL and the chain that a network stands for.\<close>

definition network_url :: "string option \<Rightarrow> string" where
  "network_url network =
     (case network of None \<Rightarrow> TESTNET_rpc_url
      | Some u \<Rightarrow> if u = ''mainnet'' then MAINNET_rpc_url else if u = ''testnet'' then TESTNET_rpc_url else u)"

definition network_chain :: "string option \<Rightarrow> chain_id" where
  "network_chain network =
     (case network of None \<Rightarrow> ''testnet'' | Some u \<Rightarrow> if u \<in> {''mainnet'', ''testnet''} then u else ''custom'')"

lemma near_from_env_steps:
  "near_from_env cr sd var r store =
     try_run (env_credentials cr sd var r \<lparr>nb_rpc_url = network_url (var ''NEAR_NETWORK''), nb_signer = None,
         nb_retry_config = retry_config_default,
         nb_chain_id = (case var ''NEAR_CHAIN_ID'' of Some i \<Rightarrow> i | None \<Rightarrow> network_chain (var ''NEAR_NETWORK'')),
         nb_max_nonce_retries = 3\<rparr> store)
       (\<lambda>(b, store). Done (rmap (\<lambda>b. (near_build b, store)) (env_retries var b)))"
  by (simp add: near_from_env_def network_builder_def network_url_def network_chain_def near_mainnet_def near_testnet_def
      near_custom_def near_builder_new_def near_builder_chain_id_def split: option.split)

lemma env_retries_ok:
  "env_retries var b = Inr b' \<longleftrightarrow>
     (case var ''NEAR_MAX_NONCE_RETRIES'' of None \<Rightarrow> b' = b
      | Some s \<Rightarrow> \<exists>n. parse_uint s = Some n \<and> b' = b\<lparr>nb_max_nonce_retries := n\<rparr>)"
  by (auto simp: env_retries_def near_builder_max_nonce_retries_def rmap_eq_Inr split: option.split)

lemma env_credentials_ok:
  "env_credentials cr sd var r b store = Done (Inr (b', store')) \<longleftrightarrow>
     (var ''NEAR_ACCOUNT_ID'' = None \<and> var ''NEAR_PRIVATE_KEY'' = None \<and> b' = b \<and> store' = store) \<or>
     (\<exists>a k s. var ''NEAR_ACCOUNT_ID'' = Some a \<and> var ''NEAR_PRIVATE_KEY'' = Some k \<and>
        in_memory_new cr (parse_account sd a) k = Done (Inr s) \<and> b' = b\<lparr>nb_signer := Some r\<rparr> \<and> store' = store(r := OneKey s))"
  by (auto simp: env_credentials_def near_builder_credentials_def near_builder_signer_def try_run_eq_ok split: option.splits)

lemma near_from_env_ok:
  "near_from_env cr sd var r store = Done (Inr (n, store')) \<longleftrightarrow>
     (\<exists>b b'. env_credentials cr sd var r \<lparr>nb_rpc_url = network_url (var ''NEAR_NETWORK''), nb_signer = None,
         nb_retry_config = retry_config_default,
         nb_chain_id = (case var ''NEAR_CHAIN_ID'' of Some i \<Rightarrow> i | None \<Rightarrow> network_chain (var ''NEAR_NETWORK'')),
         nb_max_nonce_retries = 3\<rparr> store = Done (Inr (b, store')) \<and> env_retries var b = Inr b' \<and> n = near_build b')"
  by (auto simp: near_from_env_steps try_run_eq_ok rmap_eq_Inr)

lemma configured:
  "(\<exists>b b'. env_credentials cr sd var r b0 store = Done (Inr (b, store')) \<and> env_retries var b = Inr b' \<and> n = near_build b') \<longleftrightarrow>
     nr_rpc n = \<lparr>cl_url = nb_rpc_url b0, cl_retry = nb_retry_config b0\<rparr> \<and> nr_chain_id n = nb_chain_id b0 \<and>
     (case var ''NEAR_MAX_NONCE_RETRIES'' of None \<Rightarrow> nr_max_nonce_retries n = nb_max_nonce_retries b0
      | Some s \<Rightarrow> parse_uint s = Some (nr_max_nonce_retries n)) \<and>
     ((var ''NEAR_ACCOUNT_ID'' = None \<and> var ''NEAR_PRIVATE_KEY'' = None \<and> nr_signer n = nb_signer b0 \<and> store' = store) \<or>
      (\<exists>a k s. var ''NEAR_ACCOUNT_ID'' = Some a \<and> var ''NEAR_PRIVATE_KEY'' = Some k \<and>
        in_memory_new cr (parse_account sd a) k = Done (Inr s) \<and> nr_signer n = Some r \<and> store' = store(r := OneKey s)))"
  by (cases n; cases "var ''NEAR_MAX_NONCE_RETRIES''") (auto simp: env_credentials_ok env_retries_ok near_build_def)

text \<open>C38: \<open>Near::from_env\<close> succeeds exactly when the credentials are both unset or both set to a valid
  account and key and \<open>NEAR_MAX_NONCE_RETRIES\<close> is unset or a 32-bit number. The client is then
  the one that the variables describe: \<open>NEAR_CHAIN_ID\<close> always decides the chain, a network
  that is neither preset is taken as a URL, and there is a signer exactly with credentials. One
  credential without the other is refused, whatever the other variables hold.\<close>

theorem from_env_exact:
  "(near_from_env cr sd var r store = Done (Inr (n, store')) \<longleftrightarrow>
     nr_rpc n = \<lparr>cl_url = network_url (var ''NEAR_NETWORK''), cl_retry = retry_config_default\<rparr> \<and>
     nr_chain_id n = (case var ''NEAR_CHAIN_ID'' of Some i \<Rightarrow> i | None \<Rightarrow> network_chain (var ''NEAR_NETWORK'')) \<and>
     (case var ''NEAR_MAX_NONCE_RETRIES'' of None \<Rightarrow> nr_max_nonce_retries n = 3
      | Some s \<Rightarrow> parse_uint s = Some (nr_max_nonce_retries n)) \<and>
     ((var ''NEAR_ACCOUNT_ID'' = None \<and> var ''NEAR_PRIVATE_KEY'' = None \<and> nr_signer n = None \<and> store' = store) \<or>
      (\<exists>a k s. var ''NEAR_ACCOUNT_ID'' = Some a \<and> var ''NEAR_PRIVATE_KEY'' = Some k \<and>
        in_memory_new cr (parse_account sd a) k = Done (Inr s) \<and> nr_signer n = Some r \<and> store' = store(r := OneKey s)))) \<and>
   ((var ''NEAR_ACCOUNT_ID'' = None) \<noteq> (var ''NEAR_PRIVATE_KEY'' = None) \<longrightarrow>
     (\<exists>msg. near_from_env cr sd var r store = Done (Inl (Err_Config msg))))"
proof
  show "near_from_env cr sd var r store = Done (Inr (n, store')) \<longleftrightarrow>
     nr_rpc n = \<lparr>cl_url = network_url (var ''NEAR_NETWORK''), cl_retry = retry_config_default\<rparr> \<and>
     nr_chain_id n = (case var ''NEAR_CHAIN_ID'' of Some i \<Rightarrow> i | None \<Rightarrow> network_chain (var ''NEAR_NETWORK'')) \<and>
     (case var ''NEAR_MAX_NONCE_RETRIES'' of None \<Rightarrow> nr_max_nonce_retries n = 3
      | Some s \<Rightarrow> parse_uint s = Some (nr_max_nonce_retries n)) \<and>
     ((var ''NEAR_ACCOUNT_ID'' = None \<and> var ''NEAR_PRIVATE_KEY'' = None \<and> nr_signer n = None \<and> store' = store) \<or>
      (\<exists>a k s. var ''NEAR_ACCOUNT_ID'' = Some a \<and> var ''NEAR_PRIVATE_KEY'' = Some k \<and>
        in_memory_new cr (parse_account sd a) k = Done (Inr s) \<and> nr_signer n = Some r \<and> store' = store(r := OneKey s)))"
    unfolding near_from_env_ok configured by (simp only: near_builder.simps)
  show "(var ''NEAR_ACCOUNT_ID'' = None) \<noteq> (var ''NEAR_PRIVATE_KEY'' = None) \<longrightarrow>
     (\<exists>msg. near_from_env cr sd var r store = Done (Inl (Err_Config msg)))"
    by (auto simp: near_from_env_steps env_credentials_def)
qed

theorem from_env_exact_witness:
  "\<forall>store. (\<exists>msg. near_from_env crypto_ref serde_ref [''NEAR_ACCOUNT_ID'' \<mapsto> ''bob.near''] 0 store = Done (Inl (Err_Config msg))) \<and>
     near_from_env crypto_ref serde_ref
       [''NEAR_NETWORK'' \<mapsto> ''http://node'', ''NEAR_CHAIN_ID'' \<mapsto> ''pinet'', ''NEAR_MAX_NONCE_RETRIES'' \<mapsto> ''10''] 0 store =
     Done (Inr (\<lparr>nr_rpc = sample_client, nr_signer = None, nr_chain_id = ''pinet'', nr_max_nonce_retries = 10\<rparr>, store))"
proof
  fix store :: signer_store
  let ?var = "[''NEAR_NETWORK'' \<mapsto> ''http://node'', ''NEAR_CHAIN_ID'' \<mapsto> ''pinet'', ''NEAR_MAX_NONCE_RETRIES'' \<mapsto> ''10'']"
  let ?n = "\<lparr>nr_rpc = sample_client, nr_signer = None, nr_chain_id = ''pinet'', nr_max_nonce_retries = 10\<rparr>"
  have "parse_uint ''10'' = Some (10 :: u32)" by code_simp
  then have "near_from_env crypto_ref serde_ref ?var 0 store = Done (Inr (?n, store))"
    using from_env_exact [THEN conjunct1, of crypto_ref serde_ref ?var 0 store ?n store]
    by (simp add: network_url_def sample_client_def)
  moreover have "\<exists>msg. near_from_env crypto_ref serde_ref [''NEAR_ACCOUNT_ID'' \<mapsto> ''bob.near''] 0 store = Done (Inl (Err_Config msg))"
    using from_env_exact [where var = "[''NEAR_ACCOUNT_ID'' \<mapsto> ''bob.near'']"] by simp
  ultimately show "(\<exists>msg. near_from_env crypto_ref serde_ref [''NEAR_ACCOUNT_ID'' \<mapsto> ''bob.near''] 0 store = Done (Inl (Err_Config msg))) \<and>
      near_from_env crypto_ref serde_ref ?var 0 store = Done (Inr (?n, store))" by blast
qed

end
