(* ===== verification/Token_Clients.thy ===== *)
theory Token_Clients
  imports Near_Client
begin

text \<open>
  The clients of token contracts (\<open>tokens/ft.rs\<close>, \<open>tokens/nft.rs\<close>, and \<open>Near::ft\<close>, \<open>Near::nft\<close>). A client
  keeps what a contract says about itself in cells that are filled once (\<open>OnceCell\<close>); an operation
  on a shared client returns the client with its cells. The locale \<open>caching_client\<close> is the contract
  of such a cell over sequences of operations; it is interpreted for each of the three cells.
\<close>

section \<open>Data\<close>

record nft_contract_metadata =
  ncm_spec :: string
  ncm_name :: string
  ncm_symbol :: string
  ncm_icon :: "string option"
  ncm_base_uri :: "string option"
  ncm_reference :: "string option"
  ncm_reference_hash :: "string option"

record nft_token_metadata =
  ntm_title :: "string option"
  ntm_description :: "string option"
  ntm_media :: "string option"
  ntm_media_hash :: "string option"
  ntm_copies :: "u64 option"
  ntm_issued_at :: "string option"
  ntm_expires_at :: "string option"
  ntm_starts_at :: "string option"
  ntm_updated_at :: "string option"
  ntm_extra :: "string option"
  ntm_reference :: "string option"
  ntm_reference_hash :: "string option"

record nft_token =
  nt_token_id :: string
  nt_owner_id :: string
  nt_metadata :: "nft_token_metadata option"
  nt_approved_account_ids :: "(string \<rightharpoonup> u64) option"

record fungible_token =
  ftc_rpc :: rpc_client
  ftc_signer :: "signer_ref option"
  ftc_contract_id :: account_id
  ftc_metadata :: "ft_metadata option"
  ftc_storage_bounds :: "storage_balance_bounds option"
  ftc_max_nonce_retries :: u32

record non_fungible_token =
  nfc_rpc :: rpc_client
  nfc_signer :: "signer_ref option"
  nfc_contract_id :: account_id
  nfc_metadata :: "nft_contract_metadata option"
  nfc_max_nonce_retries :: u32

text \<open>\<open>serde_json::from_slice\<close> at the types that contracts return.\<close>

record token_de =
  td_string :: "bytes \<Rightarrow> string + string"
  td_ft_metadata :: "bytes \<Rightarrow> string + ft_metadata"
  td_storage_balance :: "bytes \<Rightarrow> string + storage_balance option"
  td_storage_bounds :: "bytes \<Rightarrow> string + storage_balance_bounds"
  td_nft_metadata :: "bytes \<Rightarrow> string + nft_contract_metadata"
  td_nft_token :: "bytes \<Rightarrow> string + nft_token option"
  td_nft_tokens :: "bytes \<Rightarrow> string + nft_token list"

section \<open>Views of a contract\<close>

type_synonym ('c, 'w, 'a) client_result = "((near_error + 'a) \<times> 'c \<times> 'w net) run"

definition client_bind :: "('c, 'w, 'a) client_result \<Rightarrow> ('a \<Rightarrow> 'c \<Rightarrow> 'w net \<Rightarrow> ('c, 'w, 'b) client_result) \<Rightarrow> ('c, 'w, 'b) client_result" where
  "client_bind m f = run_bind m (\<lambda>(r, c, st). case r of Inl e \<Rightarrow> Done (Inl e, c, st) | Inr x \<Rightarrow> f x c st)"

text \<open>\<open>?\<close> on a value, and an operation that does not touch the client.\<close>

definition client_try :: "near_error + 'a \<Rightarrow> 'c \<Rightarrow> 'w net \<Rightarrow> ('c, 'w, 'a) client_result" where
  "client_try r c st = Done (r, c, st)"

definition client_query :: "('w net \<Rightarrow> ('w, 'a) query_result) \<Rightarrow> 'c \<Rightarrow> 'w net \<Rightarrow> ('c, 'w, 'a) client_result" where
  "client_query m c st = run_bind (m st) (\<lambda>(r, st). Done (r, c, st))"

text \<open>\<open>OnceCell::get_or_try_init\<close>: a failure leaves the cell empty.\<close>

definition get_or_try_init ::
  "'m option \<Rightarrow> ('w net \<Rightarrow> ('w, 'm) query_result) \<Rightarrow> 'w net \<Rightarrow> ('m option, 'w, 'm) client_result" where
  "get_or_try_init cell init st =
     (case cell of
        Some x \<Rightarrow> Done (Inr x, cell, st)
      | None \<Rightarrow> run_bind (init st) (\<lambda>(r, st). Done (r, ok_opt r, st)))"

definition contract_view ::
  "bool \<Rightarrow> 'w rpc_io \<Rightarrow> view_de \<Rightarrow> rpc_client \<Rightarrow> account_id \<Rightarrow> string \<Rightarrow> bytes \<Rightarrow> (bytes \<Rightarrow> string + 'a) \<Rightarrow> 'w net
     \<Rightarrow> ('w, 'a) query_result" where
  "contract_view oc io dv rpc contract_id m args from_json st =
     try_rpc (view_function oc io rpc dv contract_id m args (RefFinality Optimistic) st)
       (\<lambda>result. map_err Err_Json (view_function_json from_json result))"

definition parse_number :: "string \<Rightarrow> string \<Rightarrow> near_error + 'n::len word" where
  "parse_number what s = ok_or (Err_Rpc (Rpc_InvalidResponse (''Invalid '' @ what @ '' format: '' @ s))) (parse_uint s)"

section \<open>Fungible tokens\<close>

definition fungible_token_new :: "rpc_client \<Rightarrow> signer_ref option \<Rightarrow> account_id \<Rightarrow> u32 \<Rightarrow> fungible_token" where
  "fungible_token_new rpc client_signer contract_id retries =
     \<lparr>ftc_rpc = rpc, ftc_signer = client_signer, ftc_contract_id = contract_id, ftc_metadata = None,
      ftc_storage_bounds = None, ftc_max_nonce_retries = retries\<rparr>"

definition ft_with_signer :: "signer_ref \<Rightarrow> any_signer \<Rightarrow> fungible_token \<Rightarrow> signer_store \<Rightarrow> fungible_token \<times> signer_store" where
  "ft_with_signer r s c store =
     (fungible_token_new (ftc_rpc c) (Some r) (ftc_contract_id c) (ftc_max_nonce_retries c), store(r := s))"

definition ft_clone :: "fungible_token \<Rightarrow> fungible_token" where
  "ft_clone c = fungible_token_new (ftc_rpc c) (ftc_signer c) (ftc_contract_id c) (ftc_max_nonce_retries c)"

definition ft_transaction :: "fungible_token \<Rightarrow> transaction_builder" where
  "ft_transaction c = transaction_builder_new (ftc_rpc c) (ftc_signer c) (ftc_contract_id c) (ftc_max_nonce_retries c)"

abbreviation ft_view ::
  "bool \<Rightarrow> 'w rpc_io \<Rightarrow> view_de \<Rightarrow> fungible_token \<Rightarrow> string \<Rightarrow> bytes \<Rightarrow> (bytes \<Rightarrow> string + 'a) \<Rightarrow> 'w net \<Rightarrow> ('w, 'a) query_result" where
  "ft_view oc io dv c \<equiv> contract_view oc io dv (ftc_rpc c) (ftc_contract_id c)"

definition ft_get_metadata ::
  "bool \<Rightarrow> 'w rpc_io \<Rightarrow> view_de \<Rightarrow> token_de \<Rightarrow> fungible_token \<Rightarrow> 'w net \<Rightarrow> (fungible_token, 'w, ft_metadata) client_result" where
  "ft_get_metadata oc io dv td c st =
     run_bind (get_or_try_init (ftc_metadata c) (ft_view oc io dv c ''ft_metadata'' [] (td_ft_metadata td)) st)
       (\<lambda>(r, cell, st). Done (r, c\<lparr>ftc_metadata := cell\<rparr>, st))"

definition account_args :: "'w rpc_io \<Rightarrow> account_id \<Rightarrow> near_error + bytes" where
  "account_args io a = map_err Err_Json (io_to_vec io (JObj [(''account_id'', JStr a)]))"

definition ft_balance_of ::
  "bool \<Rightarrow> 'w rpc_io \<Rightarrow> view_de \<Rightarrow> token_de \<Rightarrow> string + account_id \<Rightarrow> fungible_token \<Rightarrow> 'w net
     \<Rightarrow> (fungible_token, 'w, ft_amount) client_result" where
  "ft_balance_of oc io dv td account_id c st =
     client_bind (client_try (map_err Err_ParseAccountId account_id) c st) (\<lambda>a c st.
     client_bind (ft_get_metadata oc io dv td c st) (\<lambda>m c st.
     client_bind (client_try (account_args io a) c st) (\<lambda>args c st.
     client_bind (client_query (ft_view oc io dv c ''ft_balance_of'' args (td_string td)) c st) (\<lambda>balance_str c st.
       client_try (rmap (\<lambda>n. ft_amount_from_metadata n m) (parse_number ''balance'' balance_str)) c st))))"

definition ft_total_supply ::
  "bool \<Rightarrow> 'w rpc_io \<Rightarrow> view_de \<Rightarrow> token_de \<Rightarrow> fungible_token \<Rightarrow> 'w net \<Rightarrow> (fungible_token, 'w, ft_amount) client_result" where
  "ft_total_supply oc io dv td c st =
     client_bind (ft_get_metadata oc io dv td c st) (\<lambda>m c st.
     client_bind (client_query (ft_view oc io dv c ''ft_total_supply'' [] (td_string td)) c st) (\<lambda>supply_str c st.
       client_try (rmap (\<lambda>n. ft_amount_from_metadata n m) (parse_number ''supply'' supply_str)) c st))"

definition ft_storage_balance_of ::
  "bool \<Rightarrow> 'w rpc_io \<Rightarrow> view_de \<Rightarrow> token_de \<Rightarrow> string + account_id \<Rightarrow> fungible_token \<Rightarrow> 'w net
     \<Rightarrow> (fungible_token, 'w, storage_balance option) client_result" where
  "ft_storage_balance_of oc io dv td account_id c st =
     client_bind (client_try (map_err Err_ParseAccountId account_id) c st) (\<lambda>a c st.
     client_bind (client_try (account_args io a) c st) (\<lambda>args c st.
       client_query (ft_view oc io dv c ''storage_balance_of'' args (td_storage_balance td)) c st))"

definition ft_is_registered ::
  "bool \<Rightarrow> 'w rpc_io \<Rightarrow> view_de \<Rightarrow> token_de \<Rightarrow> string + account_id \<Rightarrow> fungible_token \<Rightarrow> 'w net
     \<Rightarrow> (fungible_token, 'w, bool) client_result" where
  "ft_is_registered oc io dv td account_id c st =
     client_bind (ft_storage_balance_of oc io dv td account_id c st) (\<lambda>balance c st. client_try (Inr (balance \<noteq> None)) c st)"

definition ft_storage_balance_bounds ::
  "bool \<Rightarrow> 'w rpc_io \<Rightarrow> view_de \<Rightarrow> token_de \<Rightarrow> fungible_token \<Rightarrow> 'w net
     \<Rightarrow> (fungible_token, 'w, storage_balance_bounds) client_result" where
  "ft_storage_balance_bounds oc io dv td c st =
     run_bind (get_or_try_init (ftc_storage_bounds c) (ft_view oc io dv c ''storage_balance_bounds'' [] (td_storage_bounds td)) st)
       (\<lambda>(r, cell, st). Done (r, c\<lparr>ftc_storage_bounds := cell\<rparr>, st))"

text \<open>The call of a method with JSON arguments, a deposit and gas; \<open>args\<close> are the fields in order.\<close>

definition contract_call ::
  "'w rpc_io \<Rightarrow> transaction_builder \<Rightarrow> string \<Rightarrow> (string \<times> json) list \<Rightarrow> parse_amount_error + near_token \<Rightarrow> u64
     \<Rightarrow> call_builder run" where
  "contract_call io b m args deposit tgas =
     run_bind (call_set_deposit deposit (call_set_args (io_to_vec io (JObj args)) (function_call_new m))) (\<lambda>f.
     run_bind (call_set_gas (Inr (tgas * GAS_PER_TGAS)) f) (\<lambda>f. Done \<lparr>cb_builder = b, cb_call = f\<rparr>))"

definition ft_storage_deposit ::
  "'w rpc_io \<Rightarrow> string + account_id \<Rightarrow> parse_amount_error + near_token \<Rightarrow> fungible_token \<Rightarrow> call_builder run" where
  "ft_storage_deposit io account_id deposit c =
     run_bind (expect (ok_opt account_id)) (\<lambda>a.
       contract_call io (ft_transaction c) ''storage_deposit''
         [(''account_id'', JStr a), (''registration_only'', JBool True)] deposit 30)"

definition ft_transfer :: "'w rpc_io \<Rightarrow> string + account_id \<Rightarrow> u128 \<Rightarrow> fungible_token \<Rightarrow> call_builder run" where
  "ft_transfer io receiver_id amount c =
     run_bind (expect (ok_opt receiver_id)) (\<lambda>a.
       contract_call io (ft_transaction c) ''ft_transfer''
         [(''receiver_id'', JStr a), (''amount'', JStr (show_word amount))] (Inr 1) 30)"

definition ft_transfer_with_memo ::
  "'w rpc_io \<Rightarrow> string + account_id \<Rightarrow> u128 \<Rightarrow> string \<Rightarrow> fungible_token \<Rightarrow> call_builder run" where
  "ft_transfer_with_memo io receiver_id amount memo c =
     run_bind (expect (ok_opt receiver_id)) (\<lambda>a.
       contract_call io (ft_transaction c) ''ft_transfer''
         [(''receiver_id'', JStr a), (''amount'', JStr (show_word amount)), (''memo'', JStr memo)] (Inr 1) 30)"

definition ft_transfer_call ::
  "'w rpc_io \<Rightarrow> string + account_id \<Rightarrow> u128 \<Rightarrow> string \<Rightarrow> fungible_token \<Rightarrow> call_builder run" where
  "ft_transfer_call io receiver_id amount msg c =
     run_bind (expect (ok_opt receiver_id)) (\<lambda>a.
       contract_call io (ft_transaction c) ''ft_transfer_call''
         [(''receiver_id'', JStr a), (''amount'', JStr (show_word amount)), (''msg'', JStr msg)] (Inr 1) 100)"

section \<open>Non-fungible tokens\<close>

definition non_fungible_token_new :: "rpc_client \<Rightarrow> signer_ref option \<Rightarrow> account_id \<Rightarrow> u32 \<Rightarrow> non_fungible_token" where
  "non_fungible_token_new rpc client_signer contract_id retries =
     \<lparr>nfc_rpc = rpc, nfc_signer = client_signer, nfc_contract_id = contract_id, nfc_metadata = None,
      nfc_max_nonce_retries = retries\<rparr>"

definition nft_with_signer ::
  "signer_ref \<Rightarrow> any_signer \<Rightarrow> non_fungible_token \<Rightarrow> signer_store \<Rightarrow> non_fungible_token \<times> signer_store" where
  "nft_with_signer r s c store =
     (non_fungible_token_new (nfc_rpc c) (Some r) (nfc_contract_id c) (nfc_max_nonce_retries c), store(r := s))"

definition nft_clone :: "non_fungible_token \<Rightarrow> non_fungible_token" where
  "nft_clone c = non_fungible_token_new (nfc_rpc c) (nfc_signer c) (nfc_contract_id c) (nfc_max_nonce_retries c)"

definition nft_transaction :: "non_fungible_token \<Rightarrow> transaction_builder" where
  "nft_transaction c = transaction_builder_new (nfc_rpc c) (nfc_signer c) (nfc_contract_id c) (nfc_max_nonce_retries c)"

abbreviation nft_view ::
  "bool \<Rightarrow> 'w rpc_io \<Rightarrow> view_de \<Rightarrow> non_fungible_token \<Rightarrow> string \<Rightarrow> bytes \<Rightarrow> (bytes \<Rightarrow> string + 'a) \<Rightarrow> 'w net \<Rightarrow> ('w, 'a) query_result" where
  "nft_view oc io dv c \<equiv> contract_view oc io dv (nfc_rpc c) (nfc_contract_id c)"

definition nft_get_metadata ::
  "bool \<Rightarrow> 'w rpc_io \<Rightarrow> view_de \<Rightarrow> token_de \<Rightarrow> non_fungible_token \<Rightarrow> 'w net
     \<Rightarrow> (non_fungible_token, 'w, nft_contract_metadata) client_result" where
  "nft_get_metadata oc io dv td c st =
     run_bind (get_or_try_init (nfc_metadata c) (nft_view oc io dv c ''nft_metadata'' [] (td_nft_metadata td)) st)
       (\<lambda>(r, cell, st). Done (r, c\<lparr>nfc_metadata := cell\<rparr>, st))"

definition nft_token_by_id ::
  "bool \<Rightarrow> 'w rpc_io \<Rightarrow> view_de \<Rightarrow> token_de \<Rightarrow> string \<Rightarrow> non_fungible_token \<Rightarrow> 'w net
     \<Rightarrow> (non_fungible_token, 'w, nft_token option) client_result" where
  "nft_token_by_id oc io dv td token_id c st =
     client_bind (client_try (map_err Err_Json (io_to_vec io (JObj [(''token_id'', JStr token_id)]))) c st) (\<lambda>args c st.
       client_query (nft_view oc io dv c ''nft_token'' args (td_nft_token td)) c st)"

text \<open>Absent arguments are left out of the JSON; an index is sent as a string, a limit as a number.\<close>

definition tokens_for_owner_args :: "account_id \<Rightarrow> u64 option \<Rightarrow> u64 option \<Rightarrow> (string \<times> json) list" where
  "tokens_for_owner_args a from_index limit =
     [(''account_id'', JStr a)] @
     (case from_index of Some i \<Rightarrow> [(''from_index'', JStr (show_word i))] | None \<Rightarrow> []) @
     (case limit of Some l \<Rightarrow> [(''limit'', JInt (uint l))] | None \<Rightarrow> [])"

definition nft_tokens_for_owner ::
  "bool \<Rightarrow> 'w rpc_io \<Rightarrow> view_de \<Rightarrow> token_de \<Rightarrow> string + account_id \<Rightarrow> u64 option \<Rightarrow> u64 option \<Rightarrow> non_fungible_token \<Rightarrow> 'w net
     \<Rightarrow> (non_fungible_token, 'w, nft_token list) client_result" where
  "nft_tokens_for_owner oc io dv td account_id from_index limit c st =
     client_bind (client_try (map_err Err_ParseAccountId account_id) c st) (\<lambda>a c st.
     client_bind (client_try (map_err Err_Json (io_to_vec io (JObj (tokens_for_owner_args a from_index limit)))) c st) (\<lambda>args c st.
       client_query (nft_view oc io dv c ''nft_tokens_for_owner'' args (td_nft_tokens td)) c st))"

definition nft_total_supply ::
  "bool \<Rightarrow> 'w rpc_io \<Rightarrow> view_de \<Rightarrow> token_de \<Rightarrow> non_fungible_token \<Rightarrow> 'w net \<Rightarrow> (non_fungible_token, 'w, u64) client_result" where
  "nft_total_supply oc io dv td c st =
     client_bind (client_query (nft_view oc io dv c ''nft_total_supply'' [] (td_string td)) c st) (\<lambda>supply_str c st.
       client_try (parse_number ''supply'' supply_str) c st)"

definition nft_supply_for_owner ::
  "bool \<Rightarrow> 'w rpc_io \<Rightarrow> view_de \<Rightarrow> token_de \<Rightarrow> string + account_id \<Rightarrow> non_fungible_token \<Rightarrow> 'w net
     \<Rightarrow> (non_fungible_token, 'w, u64) client_result" where
  "nft_supply_for_owner oc io dv td account_id c st =
     client_bind (client_try (map_err Err_ParseAccountId account_id) c st) (\<lambda>a c st.
     client_bind (client_try (account_args io a) c st) (\<lambda>args c st.
     client_bind (client_query (nft_view oc io dv c ''nft_supply_for_owner'' args (td_string td)) c st) (\<lambda>supply_str c st.
       client_try (parse_number ''supply'' supply_str) c st)))"

definition nft_transfer :: "'w rpc_io \<Rightarrow> string + account_id \<Rightarrow> string \<Rightarrow> non_fungible_token \<Rightarrow> call_builder run" where
  "nft_transfer io receiver_id token_id c =
     run_bind (expect (ok_opt receiver_id)) (\<lambda>a.
       contract_call io (nft_transaction c) ''nft_transfer'' [(''receiver_id'', JStr a), (''token_id'', JStr token_id)] (Inr 1) 30)"

definition nft_transfer_with_memo ::
  "'w rpc_io \<Rightarrow> string + account_id \<Rightarrow> string \<Rightarrow> string \<Rightarrow> non_fungible_token \<Rightarrow> call_builder run" where
  "nft_transfer_with_memo io receiver_id token_id memo c =
     run_bind (expect (ok_opt receiver_id)) (\<lambda>a.
       contract_call io (nft_transaction c) ''nft_transfer''
         [(''receiver_id'', JStr a), (''token_id'', JStr token_id), (''memo'', JStr memo)] (Inr 1) 30)"

definition nft_transfer_with_approval ::
  "'w rpc_io \<Rightarrow> string + account_id \<Rightarrow> string \<Rightarrow> u64 \<Rightarrow> non_fungible_token \<Rightarrow> call_builder run" where
  "nft_transfer_with_approval io receiver_id token_id approval_id c =
     run_bind (expect (ok_opt receiver_id)) (\<lambda>a.
       contract_call io (nft_transaction c) ''nft_transfer''
         [(''receiver_id'', JStr a), (''token_id'', JStr token_id), (''approval_id'', JInt (uint approval_id))] (Inr 1) 30)"

definition nft_transfer_call ::
  "'w rpc_io \<Rightarrow> string + account_id \<Rightarrow> string \<Rightarrow> string \<Rightarrow> non_fungible_token \<Rightarrow> call_builder run" where
  "nft_transfer_call io receiver_id token_id msg c =
     run_bind (expect (ok_opt receiver_id)) (\<lambda>a.
       contract_call io (nft_transaction c) ''nft_transfer_call''
         [(''receiver_id'', JStr a), (''token_id'', JStr token_id), (''msg'', JStr msg)] (Inr 1) 100)"

section \<open>Clients for the tokens of a chain\<close>

fun error_from_token :: "token_error \<Rightarrow> near_error" where
  "error_from_token (TokenNotAvailable token chain) = Err_TokenNotAvailable token chain"
| "error_from_token (TokenParseAccountId e) = Err_ParseAccountId e"

definition near_ft :: "(string \<Rightarrow> string + account_id) \<Rightarrow> near \<Rightarrow> contract_id_arg \<Rightarrow> near_error + fungible_token" where
  "near_ft parse_acct n contract =
     rbind (map_err error_from_token (into_contract_id parse_acct contract (nr_chain_id n))) (\<lambda>contract_id.
       Inr (fungible_token_new (nr_rpc n) (nr_signer n) contract_id (nr_max_nonce_retries n)))"

definition near_nft :: "(string \<Rightarrow> string + account_id) \<Rightarrow> near \<Rightarrow> contract_id_arg \<Rightarrow> near_error + non_fungible_token" where
  "near_nft parse_acct n contract =
     rbind (map_err error_from_token (into_contract_id parse_acct contract (nr_chain_id n))) (\<lambda>contract_id.
       Inr (non_fungible_token_new (nr_rpc n) (nr_signer n) contract_id (nr_max_nonce_retries n)))"

section \<open>Sequences of operations\<close>

fun client_steps :: "('a \<Rightarrow> 'c \<Rightarrow> 's \<Rightarrow> ('r \<times> 'c \<times> 's) run) \<Rightarrow> 'a list \<Rightarrow> 'c \<Rightarrow> 's \<Rightarrow> ('r list \<times> 'c \<times> 's) run" where
  "client_steps step [] c st = Done ([], c, st)"
| "client_steps step (x # xs) c st =
     run_bind (step x c st) (\<lambda>(r, c, st). run_bind (client_steps step xs c st) (\<lambda>(rs, c, st). Done (r # rs, c, st)))"

text \<open>A cell that an operation fills at most once, and what the results say about its value.\<close>

locale caching_client =
  fixes step :: "'a \<Rightarrow> 'c \<Rightarrow> 's \<Rightarrow> ('r \<times> 'c \<times> 's) run"
    and cell :: "'c \<Rightarrow> 'm option"
    and says :: "'r \<Rightarrow> 'm \<Rightarrow> bool"
    and depends :: "'r \<Rightarrow> bool"
  assumes step_law: "step x c st = Done (r, c', st') \<Longrightarrow>
    (\<forall>m. cell c = Some m \<longrightarrow> cell c' = Some m) \<and> (depends r \<longrightarrow> (\<exists>m. cell c' = Some m \<and> says r m))"
begin

lemma steps_law:
  "client_steps step xs c st = Done (rs, c', st') \<Longrightarrow>
     (\<forall>m. cell c = Some m \<longrightarrow> cell c' = Some m) \<and> (\<forall>r \<in> set rs. depends r \<longrightarrow> (\<exists>m. cell c' = Some m \<and> says r m))"
proof (induction xs arbitrary: c st rs)
  case (Cons x xs)
  then obtain r c1 st1 rs1 where *: "step x c st = Done (r, c1, st1)" "client_steps step xs c1 st1 = Done (rs1, c', st')" "rs = r # rs1"
    by fastforce
  show ?case using step_law [OF *(1)] Cons.IH [OF *(2)] *(3) by fastforce
qed simp

text \<open>Two results of one client speak of the same value.\<close>

lemma steps_agree:
  assumes "client_steps step xs c st = Done (rs, c', st')" "r \<in> set rs" "r' \<in> set rs" "depends r" "depends r'"
  shows "\<exists>m. cell c' = Some m \<and> says r m \<and> says r' m"
  using steps_law [OF assms(1)] assms(2-5) by (metis option.inject)

end

datatype ft_op =
    OpMetadata | OpBalanceOf "string + account_id" | OpTotalSupply | OpStorageBalanceOf "string + account_id"
  | OpIsRegistered "string + account_id" | OpStorageBounds

datatype ft_value =
    FvMetadata ft_metadata | FvAmount ft_amount | FvStorageBalance "storage_balance option" | FvRegistered bool
  | FvBounds storage_balance_bounds

abbreviation returning :: "('a \<Rightarrow> 'v) \<Rightarrow> ('c, 'w, 'a) client_result \<Rightarrow> ('c, 'w, 'v) client_result" where
  "returning f m \<equiv> client_bind m (\<lambda>x c st. client_try (Inr (f x)) c st)"

fun ft_step ::
  "bool \<Rightarrow> 'w rpc_io \<Rightarrow> view_de \<Rightarrow> token_de \<Rightarrow> ft_op \<Rightarrow> fungible_token \<Rightarrow> 'w net \<Rightarrow> (fungible_token, 'w, ft_value) client_result" where
  "ft_step oc io dv td OpMetadata c st = returning FvMetadata (ft_get_metadata oc io dv td c st)"
| "ft_step oc io dv td (OpBalanceOf a) c st = returning FvAmount (ft_balance_of oc io dv td a c st)"
| "ft_step oc io dv td OpTotalSupply c st = returning FvAmount (ft_total_supply oc io dv td c st)"
| "ft_step oc io dv td (OpStorageBalanceOf a) c st = returning FvStorageBalance (ft_storage_balance_of oc io dv td a c st)"
| "ft_step oc io dv td (OpIsRegistered a) c st = returning FvRegistered (ft_is_registered oc io dv td a c st)"
| "ft_step oc io dv td OpStorageBounds c st = returning FvBounds (ft_storage_balance_bounds oc io dv td c st)"

datatype nft_op =
    NopMetadata | NopToken string | NopTokensForOwner "string + account_id" "u64 option" "u64 option" | NopTotalSupply
  | NopSupplyForOwner "string + account_id"

datatype nft_value =
    NvMetadata nft_contract_metadata | NvToken "nft_token option" | NvTokens "nft_token list" | NvSupply u64

fun nft_step ::
  "bool \<Rightarrow> 'w rpc_io \<Rightarrow> view_de \<Rightarrow> token_de \<Rightarrow> nft_op \<Rightarrow> non_fungible_token \<Rightarrow> 'w net
     \<Rightarrow> (non_fungible_token, 'w, nft_value) client_result" where
  "nft_step oc io dv td NopMetadata c st = returning NvMetadata (nft_get_metadata oc io dv td c st)"
| "nft_step oc io dv td (NopToken i) c st = returning NvToken (nft_token_by_id oc io dv td i c st)"
| "nft_step oc io dv td (NopTokensForOwner a i l) c st = returning NvTokens (nft_tokens_for_owner oc io dv td a i l c st)"
| "nft_step oc io dv td NopTotalSupply c st = returning NvSupply (nft_total_supply oc io dv td c st)"
| "nft_step oc io dv td (NopSupplyForOwner a) c st = returning NvSupply (nft_supply_for_owner oc io dv td a c st)"

lemma client_bind_Done:
  "client_bind m f = Done (r, c', st') \<longleftrightarrow>
     (\<exists>e. m = Done (Inl e, c', st') \<and> r = Inl e) \<or> (\<exists>x c st. m = Done (Inr x, c, st) \<and> f x c st = Done (r, c', st'))"
proof (cases m)
  case (Done p)
  obtain r1 c1 st1 where "p = (r1, c1, st1)" by (cases p)
  then show ?thesis using Done by (cases r1) (auto simp: client_bind_def)
qed (simp add: client_bind_def)

lemma client_try_Done [simp]: "client_try r c st = Done (r', c', st') \<longleftrightarrow> r' = r \<and> c' = c \<and> st' = st"
  by (auto simp: client_try_def)

lemma client_query_Done: "client_query m c st = Done (r, c', st') \<longleftrightarrow> c' = c \<and> m st = Done (r, st')"
  by (cases "m st") (auto simp: client_query_def)

lemma get_or_try_init_Done:
  assumes "get_or_try_init cell init st = Done (r, cell', st')"
  shows "(\<forall>m. cell = Some m \<longrightarrow> cell' = Some m \<and> r = Inr m \<and> st' = st) \<and> (\<forall>m. r = Inr m \<longrightarrow> cell' = Some m)"
  using assms by (cases cell; cases r) (auto simp: get_or_try_init_def)

lemma ft_get_metadata_Done:
  assumes "ft_get_metadata oc io dv td c st = Done (r, c', st')"
  shows "ftc_storage_bounds c' = ftc_storage_bounds c \<and> (\<forall>m. ftc_metadata c = Some m \<longrightarrow> ftc_metadata c' = Some m \<and> r = Inr m \<and> st' = st) \<and>
    (\<forall>m. r = Inr m \<longrightarrow> ftc_metadata c' = Some m)"
  using assms by (auto simp: ft_get_metadata_def dest!: get_or_try_init_Done)

lemma ft_bounds_Done:
  assumes "ft_storage_balance_bounds oc io dv td c st = Done (r, c', st')"
  shows "ftc_metadata c' = ftc_metadata c \<and> (\<forall>m. ftc_storage_bounds c = Some m \<longrightarrow> ftc_storage_bounds c' = Some m) \<and>
    (\<forall>m. r = Inr m \<longrightarrow> ftc_storage_bounds c' = Some m)"
  using assms by (auto simp: ft_storage_balance_bounds_def dest!: get_or_try_init_Done)

lemma nft_get_metadata_Done:
  assumes "nft_get_metadata oc io dv td c st = Done (r, c', st')"
  shows "(\<forall>m. nfc_metadata c = Some m \<longrightarrow> nfc_metadata c' = Some m) \<and>
    (\<forall>m. r = Inr m \<longrightarrow> nfc_metadata c' = Some m)"
  using assms by (auto simp: nft_get_metadata_def dest!: get_or_try_init_Done)

text \<open>What a result says about the metadata of the token, and about the bounds.\<close>

fun says_metadata :: "near_error + ft_value \<Rightarrow> ft_metadata \<Rightarrow> bool" where
  "says_metadata (Inr (FvMetadata m')) m \<longleftrightarrow> m' = m"
| "says_metadata (Inr (FvAmount a)) m \<longleftrightarrow> decimals a = ftm_decimals m \<and> symbol a = ftm_symbol m"
| "says_metadata _ m \<longleftrightarrow> True"

fun of_metadata :: "near_error + ft_value \<Rightarrow> bool" where
  "of_metadata (Inr (FvMetadata m)) \<longleftrightarrow> True"
| "of_metadata (Inr (FvAmount a)) \<longleftrightarrow> True"
| "of_metadata _ \<longleftrightarrow> False"

lemmas client_Done = client_bind_Done client_query_Done

lemma ft_balance_of_Done:
  assumes "ft_balance_of oc io dv td a c st = Done (r, c', st')"
  shows "ftc_storage_bounds c' = ftc_storage_bounds c \<and> (\<forall>m. ftc_metadata c = Some m \<longrightarrow> ftc_metadata c' = Some m) \<and>
    (\<forall>x. r = Inr x \<longrightarrow> (\<exists>m. ftc_metadata c' = Some m \<and> decimals x = ftm_decimals m \<and> symbol x = ftm_symbol m))"
  using assms unfolding ft_balance_of_def
  by (auto simp: client_Done rmap_eq_Inr ft_amount_from_metadata_def ft_amount_new_def dest!: ft_get_metadata_Done)

lemma ft_total_supply_Done:
  assumes "ft_total_supply oc io dv td c st = Done (r, c', st')"
  shows "ftc_storage_bounds c' = ftc_storage_bounds c \<and> (\<forall>m. ftc_metadata c = Some m \<longrightarrow> ftc_metadata c' = Some m) \<and>
    (\<forall>x. r = Inr x \<longrightarrow> (\<exists>m. ftc_metadata c' = Some m \<and> decimals x = ftm_decimals m \<and> symbol x = ftm_symbol m))"
  using assms unfolding ft_total_supply_def
  by (auto simp: client_Done rmap_eq_Inr ft_amount_from_metadata_def ft_amount_new_def dest!: ft_get_metadata_Done)

lemma ft_other_Done:
  "ft_storage_balance_of oc io dv td a c st = Done (r1, c', st') \<Longrightarrow> c' = c"
  "ft_is_registered oc io dv td a c st = Done (r2, c', st') \<Longrightarrow> c' = c"
  by (auto simp: ft_storage_balance_of_def ft_is_registered_def client_Done)

lemma nft_other_Done:
  "nft_token_by_id oc io dv td i c st = Done (r1, c', st') \<Longrightarrow> c' = c"
  "nft_tokens_for_owner oc io dv td a f l c st = Done (r2, c', st') \<Longrightarrow> c' = c"
  "nft_total_supply oc io dv td c st = Done (r3, c', st') \<Longrightarrow> c' = c"
  "nft_supply_for_owner oc io dv td a c st = Done (r3, c', st') \<Longrightarrow> c' = c"
  by (auto simp: nft_token_by_id_def nft_tokens_for_owner_def nft_total_supply_def nft_supply_for_owner_def client_Done)

interpretation ft_cache: caching_client "ft_step oc io dv td" ftc_metadata says_metadata of_metadata
proof
  fix x c st r c' st'
  assume "ft_step oc io dv td x c st = Done (r, c', st')"
  then show "(\<forall>m. ftc_metadata c = Some m \<longrightarrow> ftc_metadata c' = Some m) \<and>
      (of_metadata r \<longrightarrow> (\<exists>m. ftc_metadata c' = Some m \<and> says_metadata r m))"
    by (cases x) (auto simp: client_Done dest!: ft_get_metadata_Done ft_balance_of_Done ft_total_supply_Done ft_other_Done ft_bounds_Done)
qed

interpretation ft_bounds: caching_client "ft_step oc io dv td" ftc_storage_bounds "\<lambda>r b. r = Inr (FvBounds b)"
    "\<lambda>r. \<exists>b. r = Inr (FvBounds b)"
proof
  fix x c st r c' st'
  assume "ft_step oc io dv td x c st = Done (r, c', st')"
  then show "(\<forall>m. ftc_storage_bounds c = Some m \<longrightarrow> ftc_storage_bounds c' = Some m) \<and>
      ((\<exists>b. r = Inr (FvBounds b)) \<longrightarrow> (\<exists>m. ftc_storage_bounds c' = Some m \<and> r = Inr (FvBounds m)))"
    by (cases x) (auto simp: client_Done dest!: ft_get_metadata_Done ft_balance_of_Done ft_total_supply_Done ft_other_Done ft_bounds_Done)
qed

interpretation nft_cache: caching_client "nft_step oc io dv td" nfc_metadata "\<lambda>r m. r = Inr (NvMetadata m)"
    "\<lambda>r. \<exists>m. r = Inr (NvMetadata m)"
proof
  fix x c st r c' st'
  assume "nft_step oc io dv td x c st = Done (r, c', st')"
  then show "(\<forall>m. nfc_metadata c = Some m \<longrightarrow> nfc_metadata c' = Some m) \<and>
      ((\<exists>m. r = Inr (NvMetadata m)) \<longrightarrow> (\<exists>m. nfc_metadata c' = Some m \<and> r = Inr (NvMetadata m)))"
    by (cases x) (auto simp: client_Done dest!: nft_get_metadata_Done nft_other_Done)
qed

section \<open>Properties\<close>

text \<open>C15: Over any sequence of operations on a fungible token client, failing ones included, the
  metadata is settled by the first operation that obtains it: it never changes afterwards, asking
  for it again does not touch the network, and all amounts that the client returns carry its
  decimals and symbol. So amounts of one client can always be added; the sum fails only when it
  leaves 128 bits.\<close>

theorem ft_client_amounts:
  assumes run: "client_steps (ft_step oc io dv td) ops c st = Done (rs, c', st')"
  shows "(\<forall>m. ftc_metadata c = Some m \<longrightarrow> ftc_metadata c' = Some m) \<and>
    (\<forall>a b. Inr (FvAmount a) \<in> set rs \<and> Inr (FvAmount b) \<in> set rs \<longrightarrow>
      ft_checked_add a b = map_option (\<lambda>n. a\<lparr>raw := n\<rparr>) (checked_add (raw a) (raw b))) \<and>
    (\<forall>m. Inr (FvMetadata m) \<in> set rs \<longrightarrow> ftc_metadata c' = Some m \<and>
      (\<forall>st. ft_get_metadata oc io dv td c' st = Done (Inr m, c', st)))"
proof (intro conjI allI impI)
  fix m assume "ftc_metadata c = Some m"
  then show "ftc_metadata c' = Some m" using ft_cache.steps_law [OF run] by blast
next
  fix a b :: ft_amount
  assume "Inr (FvAmount a) \<in> set rs \<and> Inr (FvAmount b) \<in> set rs"
  then obtain m where "says_metadata (Inr (FvAmount a)) m" "says_metadata (Inr (FvAmount b)) m"
    using ft_cache.steps_agree [OF run, of "Inr (FvAmount a)" "Inr (FvAmount b)"] by auto
  then show "ft_checked_add a b = map_option (\<lambda>n. a\<lparr>raw := n\<rparr>) (checked_add (raw a) (raw b))"
    by (cases a) (simp add: ft_checked_add_def)
next
  fix m assume "Inr (FvMetadata m) \<in> set rs"
  then show m: "ftc_metadata c' = Some m"
    using ft_cache.steps_agree [OF run, of "Inr (FvMetadata m)" "Inr (FvMetadata m)"] by auto
  fix st show "ft_get_metadata oc io dv td c' st = Done (Inr m, c', st)"
    using m by (cases c') (simp add: ft_get_metadata_def get_or_try_init_def)
qed

text \<open>A contract that returns nothing but successes, which are read as the metadata of a token and as
  the number 25.\<close>

definition token_dv :: view_de where
  "token_dv = send_dv\<lparr>de_call_function := (\<lambda>_. Inr \<lparr>vf_result = [], vf_logs = [], vf_block_height = 1, vf_block_hash = []\<rparr>)\<rparr>"

definition token_td :: token_de where
  "token_td = \<lparr>td_string = (\<lambda>_. Inr ''25''),
     td_ft_metadata = (\<lambda>_. Inr \<lparr>ftm_spec = ''ft-1.0.0'', ftm_name = ''USD Coin'', ftm_symbol = ''USDC'', ftm_decimals = 6,
       ftm_icon = None, ftm_reference = None, ftm_reference_hash = None\<rparr>),
     td_storage_balance = (\<lambda>_. Inr None), td_storage_bounds = (\<lambda>_. Inl ''none''), td_nft_metadata = (\<lambda>_. Inl ''none''),
     td_nft_token = (\<lambda>_. Inr None), td_nft_tokens = (\<lambda>_. Inr [])\<rparr>"

lemma canned_view:
  "contract_view oc rpc_io_ref token_dv sample_client a m args f \<lparr>net_id = i, net_world = ok_response # ws, net_slept = sl\<rparr> =
     Done (map_err Err_Json (f (json_bytes [])), \<lparr>net_id = i + 1, net_world = ws, net_slept = sl\<rparr>)"
  using canned_call [where de = "de_call_function token_dv", OF canned_attempt(1)]
  by (simp add: contract_view_def view_function_def rpc_map_err_def token_dv_def try_rpc_def view_function_json_def)

definition sample_token :: fungible_token where
  "sample_token = fungible_token_new sample_client None ''usdc.near'' 3"

lemma sample_token_run:
  "\<exists>rs c' st'. client_steps (ft_step True rpc_io_ref token_dv token_td) [OpBalanceOf (Inr ''bob.near''), OpTotalSupply] sample_token
       \<lparr>net_id = 0, net_world = [ok_response, ok_response, ok_response], net_slept = []\<rparr> = Done (rs, c', st') \<and>
     rs = [Inr (FvAmount \<lparr>raw = 25, decimals = 6, symbol = ''USDC''\<rparr>), Inr (FvAmount \<lparr>raw = 25, decimals = 6, symbol = ''USDC''\<rparr>)]"
proof -
  have "parse_uint ''25'' = Some (25 :: u128)" by code_simp
  moreover have "io_to_vec rpc_io_ref v = Inr []" for v by (simp add: rpc_io_ref_def)
  ultimately show ?thesis
    by (simp add: sample_token_def fungible_token_new_def ft_balance_of_def ft_total_supply_def ft_get_metadata_def
        get_or_try_init_def client_bind_def client_try_def client_query_def account_args_def canned_view token_td_def
        parse_number_def ft_amount_from_metadata_def ft_amount_new_def)
qed

theorem ft_client_amounts_witness:
  "\<exists>rs c' st' a b. client_steps (ft_step True rpc_io_ref token_dv token_td) [OpBalanceOf (Inr ''bob.near''), OpTotalSupply] sample_token
       \<lparr>net_id = 0, net_world = [ok_response, ok_response, ok_response], net_slept = []\<rparr> = Done (rs, c', st') \<and>
     Inr (FvAmount a) \<in> set rs \<and> Inr (FvAmount b) \<in> set rs \<and> raw a = 25 \<and> raw b = 25 \<and> ft_checked_add a b = Some (a\<lparr>raw := 50\<rparr>)"
proof -
  let ?a = "\<lparr>raw = 25, decimals = 6, symbol = ''USDC''\<rparr> :: ft_amount"
  obtain rs c' st' where run: "client_steps (ft_step True rpc_io_ref token_dv token_td) [OpBalanceOf (Inr ''bob.near''), OpTotalSupply]
      sample_token \<lparr>net_id = 0, net_world = [ok_response, ok_response, ok_response], net_slept = []\<rparr> = Done (rs, c', st')"
    and rs: "rs = [Inr (FvAmount ?a), Inr (FvAmount ?a)]" using sample_token_run by blast
  have "checked_add (25 :: u128) 25 = Some 50" by (simp add: checked_add_def)
  then have "ft_checked_add ?a ?a = Some (?a\<lparr>raw := 50\<rparr>)" using ft_client_amounts [OF run] rs by simp
  then show ?thesis using run rs by (intro exI [of _ rs] exI [of _ c'] exI [of _ st'] exI [of _ ?a]) simp
qed

section \<open>What a transfer sends\<close>

lemma sign_attempt_content:
  assumes "sign_attempt env b r sid ak st = Done (Inr s, st1)"
  shows "tx_signer_id (st_transaction s) = sid \<and> tx_receiver_id (st_transaction s) = tb_receiver_id b \<and>
    tx_actions (st_transaction s) = tb_actions b"
  using assms by (clarsimp simp: sign_attempt_def tx_bind_ok tx_try_rpc_ok sign_transaction_def)

lemma sends_content:
  "sends env b r sid level attempt ak st tr x st' \<Longrightarrow>
     list_all (\<lambda>p. tx_signer_id (tx_of p) = sid \<and> tx_receiver_id (tx_of p) = tb_receiver_id b \<and> tx_actions (tx_of p) = tb_actions b) tr"
  by (induction rule: sends.induct) (auto dest: sign_attempt_content)

lemma send_sends:
  assumes "send env level b st = Done (x, st')" "tb_actions b \<noteq> []" "builder_signer b = Inr r" "tb_max_nonce_retries b \<noteq> - 1"
  shows "\<exists>tr. sends env b r (any_account_id (ts_signers st r)) level 0 None st tr x st'"
proof -
  have "send_loop env b r (any_account_id (ts_signers st r)) level 0 (unat (tb_max_nonce_retries b) + 1) None None st = Done (x, st')"
    using assms(1-3) by (simp add: send_def)
  then show ?thesis using send_loop_sends [OF _ _ assms(4), where attempt = 0] by fastforce
qed

text \<open>A call of a contract that carries the JSON of its arguments.\<close>

lemma contract_call_Done:
  assumes "io_to_vec io (JObj kvs) = Inr args"
  shows "\<exists>call. contract_call io b m kvs (Inr deposit) tgas = Done call \<and> call_finish call =
    add_action (FunctionCall \<lparr>fc_method_name = m, fc_args = args, fc_gas = tgas * GAS_PER_TGAS, fc_deposit = deposit\<rparr>) b"
  using assms by (simp add: contract_call_def call_set_deposit_def call_set_args_def call_set_gas_def function_call_new_def
      call_finish_def function_call_to_action_def action_function_call_def)

text \<open>C13: A transfer of a fungible token through a client for it is sent, in every attempt, as the one
  action of a transaction of the client's signer to the contract that the token has on the
  client's chain: a call of \<open>ft_transfer\<close> with 30 TGas and exactly one yoctoNEAR attached, whose
  arguments are the JSON of the receiver and of the amount, written so that it reads back.\<close>

theorem ft_transfer_sent:
  assumes "near_ft parse_acct n contract = Inr c" "nr_signer n = Some r" "nr_max_nonce_retries n \<noteq> - 1"
    and "io_to_vec (env_io env) (JObj [(''receiver_id'', JStr receiver), (''amount'', JStr (show_word amount))]) = Inr args"
  shows "\<exists>call contract_id. ft_transfer (env_io env) (Inr receiver) amount c = Done call \<and>
    into_contract_id parse_acct contract (nr_chain_id n) = Inr contract_id \<and> parse_uint (show_word amount) = Some amount \<and>
    (\<forall>level st x st'. send env level (call_finish call) st = Done (x, st') \<longrightarrow>
      (\<exists>tr. sends env (call_finish call) r (any_account_id (ts_signers st r)) level 0 None st tr x st' \<and>
        list_all (\<lambda>p. tx_signer_id (tx_of p) = any_account_id (ts_signers st r) \<and> tx_receiver_id (tx_of p) = contract_id \<and>
          tx_actions (tx_of p) = [FunctionCall \<lparr>fc_method_name = ''ft_transfer'', fc_args = args,
            fc_gas = 30 * GAS_PER_TGAS, fc_deposit = 1\<rparr>]) tr))"
proof -
  obtain contract_id where cid: "into_contract_id parse_acct contract (nr_chain_id n) = Inr contract_id"
    and c: "c = fungible_token_new (nr_rpc n) (nr_signer n) contract_id (nr_max_nonce_retries n)"
    using assms(1) by (auto simp: near_ft_def rbind_eq_Inr map_err_eq_Inr)
  let ?f = "FunctionCall \<lparr>fc_method_name = ''ft_transfer'', fc_args = args, fc_gas = 30 * GAS_PER_TGAS, fc_deposit = 1\<rparr>"
  obtain call where call: "ft_transfer (env_io env) (Inr receiver) amount c = Done call" "call_finish call = add_action ?f (ft_transaction c)"
    using contract_call_Done [OF assms(4)] by (fastforce simp: ft_transfer_def)
  then have b: "tb_actions (call_finish call) = [?f]" "builder_signer (call_finish call) = Inr r"
    "tb_max_nonce_retries (call_finish call) \<noteq> - 1" "tb_receiver_id (call_finish call) = contract_id"
    using assms(2,3) c by (simp_all add: add_action_def ft_transaction_def transaction_builder_new_def fungible_token_new_def builder_signer_def)
  have "\<exists>tr. sends env (call_finish call) r (any_account_id (ts_signers st r)) level 0 None st tr x st' \<and>
      list_all (\<lambda>p. tx_signer_id (tx_of p) = any_account_id (ts_signers st r) \<and> tx_receiver_id (tx_of p) = contract_id \<and>
        tx_actions (tx_of p) = [?f]) tr"
    if "send env level (call_finish call) st = Done (x, st')" for level st x st'
    using send_sends [OF that _ b(2,3)] sends_content [of env "call_finish call"] b(1,4) by fastforce
  then show ?thesis using cid call(1) by auto
qed

text \<open>A client of the main network that signs with the first signer of the store.\<close>

definition sample_near :: near where
  "sample_near = \<lparr>nr_rpc = sample_client, nr_signer = Some 0, nr_chain_id = ''mainnet'', nr_max_nonce_retries = 3\<rparr>"

theorem ft_transfer_sent_witness:
  "\<exists>c call x st' tr. near_ft parse_account_ref sample_near (ContractToken W_NEAR) = Inr c \<and>
     ft_transfer rpc_io_ref (Inr ''bob.near'') 25 c = Done call \<and>
     send (send_env False) Submitted (call_finish call) (send_state [ok_response, ok_response] alice_signer) = Done (x, st') \<and>
     sends (send_env False) (call_finish call) 0 ''alice.near'' Submitted 0 None (send_state [ok_response, ok_response] alice_signer) tr x st' \<and>
     list_all (\<lambda>p. tx_receiver_id (tx_of p) = ''wrap.near'' \<and> length (tx_actions (tx_of p)) = 1) tr"
proof -
  let ?st = "send_state [ok_response, ok_response] alice_signer"
  have wrap: "into_contract_id parse_account_ref (ContractToken W_NEAR) ''mainnet'' = Inr ''wrap.near''"
    by (simp add: known_token_resolve_def W_NEAR_def parse_account_ref_def acct_alnum_def acct_sep_def char_code_def)
  then obtain c where c: "near_ft parse_account_ref sample_near (ContractToken W_NEAR) = Inr c"
      "c = fungible_token_new sample_client (Some 0) ''wrap.near'' 3"
    by (simp add: near_ft_def sample_near_def)
  have io: "env_io (send_env False) = rpc_io_ref" "io_to_vec rpc_io_ref v = Inr []" for v
    by (simp_all add: send_env_def rpc_io_ref_def)
  obtain call where call: "ft_transfer rpc_io_ref (Inr ''bob.near'') 25 c = Done call"
    and sent: "\<And>x st'. send (send_env False) Submitted (call_finish call) ?st = Done (x, st') \<Longrightarrow>
      \<exists>tr. sends (send_env False) (call_finish call) 0 ''alice.near'' Submitted 0 None ?st tr x st' \<and>
        list_all (\<lambda>p. tx_receiver_id (tx_of p) = ''wrap.near'' \<and> length (tx_actions (tx_of p)) = 1) tr"
    using ft_transfer_sent [OF c(1), of 0 "send_env False" "''bob.near''" 25 "[]"] wrap io
    by (fastforce simp: sample_near_def send_state_def alice_signer_def list_all_iff)
  have f: "call_finish call = add_action (FunctionCall \<lparr>fc_method_name = ''ft_transfer'', fc_args = [],
      fc_gas = 30 * GAS_PER_TGAS, fc_deposit = 1\<rparr>) (ft_transaction c)"
    using call contract_call_Done [of rpc_io_ref "[(''receiver_id'', JStr ''bob.near''), (''amount'', JStr (show_word (25 :: u128)))]"
        "[]" "ft_transaction c" "''ft_transfer''" 1 30, OF io(2)]
    by (auto simp: ft_transfer_def)
  have "serializable borsh_le (call_finish call) ''alice.near''" "client_ok (send_env False) (call_finish call)"
    using send_client_ok
    by (simp_all add: f c(2) client_ok_def fungible_token_new_def ft_transaction_def serializable_def send_builder_def add_action_def
        transaction_builder_new_def ser_transaction_def borsh_le_def enc_list_def cat.simps le_enc_str_def le_enc_bytes_def
        le_enc_len_def ser_public_key_def ser_crypto_hash_def ser_function_call_action_def enc_vec_def)
  moreover have "any_ok crypto_ref (ts_signers ?st 0)" "any_account_id (ts_signers ?st 0) = ''alice.near''" "\<not> poisoned (ts_nonces ?st)"
    using alice_ok by (simp_all add: send_state_def alice_signer_def nonce_manager_new_def)
  moreover have "builder_signer (call_finish call) = Inr 0" "tb_actions (call_finish call) \<noteq> []"
    by (simp_all add: f c(2) fungible_token_new_def ft_transaction_def add_action_def transaction_builder_new_def builder_signer_def)
  ultimately obtain x st' where "send (send_env False) Submitted (call_finish call) ?st = Done (x, st')"
    using send_loop_returns [of "send_env False" "call_finish call" "''alice.near''" ?st 0] signature_laws_ref
    by (fastforce simp: send_def simp del: send_loop.simps)
  then show ?thesis using c(1) call sent by blast
qed

end
