(* ===== verification/Tx_Concurrent.thy ===== *)
theory Tx_Concurrent
  imports Tx_Send
begin

text \<open>
  Several transactions in flight at once (\<open>client/transaction.rs\<close>, \<open>client/nonce_manager.rs\<close>). Builders
  share the process-wide nonce manager, the signers behind their \<open>Arc\<close> and the network, and every
  \<open>await\<close> lets another task run. A task is one call of \<open>build\<close>, \<open>sign\<close> or \<open>send\<close>; \<open>task_step\<close> is its code
  between two points at which another task may be scheduled (a claimed key, an answer of the
  node, a nonce taken under the lock), and \<open>interleaved\<close> runs the tasks in any order, with changes
  of the network by others in between. A panic ends one task; a panic under the lock poisons the
  nonce manager for all of them.

  A task that runs alone does what the operation of the theories \<open>Tx_Builder\<close> and \<open>Tx_Send\<close> does.
\<close>

section \<open>Tasks\<close>

datatype task_kind = Building | Signing | Sending wait_level

record task =
  tk_kind :: task_kind
  tk_builder :: transaction_builder

datatype task_value = Built transaction | Signed signed_transaction | Sent level_response

text \<open>The local variables of the loop of \<open>send\<close>: the signer and its account, the attempt and the
  iterations left, the nonce that the node reported last and the error to report at the end.\<close>

record loop_vars =
  lv_signer :: signer_ref
  lv_signer_id :: account_id
  lv_attempt :: u32
  lv_left :: nat
  lv_last_ak_nonce :: "u64 option"
  lv_last_error :: "near_error option"

text \<open>Where a task stands. Building has no key of its own, so that it carries the public key only.\<close>

datatype phase =
    Initial
  | At_top loop_vars
  | At_view loop_vars "signing_key option" public_key
  | At_nonce loop_vars "signing_key option" public_key access_key_view
  | At_sign loop_vars signing_key transaction
  | At_send loop_vars wait_level signed_transaction
  | Finished "near_error + task_value"
  | Panicked

abbreviation task_url :: "task \<Rightarrow> string" where
  "task_url t \<equiv> cl_url (tb_rpc (tk_builder t))"

fun enter_task :: "task \<Rightarrow> 'w tx_state \<Rightarrow> phase" where
  "enter_task t st =
     (if tb_actions (tk_builder t) = [] then Finished (Inl no_actions)
      else case builder_signer (tk_builder t) of
        Inl e \<Rightarrow> Finished (Inl e)
      | Inr r \<Rightarrow> At_top \<lparr>lv_signer = r, lv_signer_id = any_account_id (ts_signers st r), lv_attempt = 0,
          lv_left = (case tk_kind t of Sending _ \<Rightarrow> unat (tb_max_nonce_retries (tk_builder t)) + 1 | _ \<Rightarrow> 1),
          lv_last_ak_nonce = None, lv_last_error = None\<rparr>)"

text \<open>The top of an iteration: out of iterations, or the key of this attempt.\<close>

fun top_step :: "'w tx_env \<Rightarrow> task \<Rightarrow> loop_vars \<Rightarrow> 'w tx_state \<Rightarrow> phase \<times> 'w tx_state" where
  "top_step env t c st =
     (if lv_left c = 0 then
        (Finished (Inl (case lv_last_error c of Some e \<Rightarrow> e
           | None \<Rightarrow> Err_InvalidTransaction ''Unknown error during transaction send'')), st)
      else case tk_kind t of
        Building \<Rightarrow>
          (case any_public_key (tx_cr env) (ts_signers st (lv_signer c)) of
             Panic \<Rightarrow> (Panicked, st) | Done pk \<Rightarrow> (At_view c None pk, st))
      | _ \<Rightarrow>
          (case claim_key (tx_cr env) (lv_signer c) st of
             Panic \<Rightarrow> (Panicked, st) | Done (k, st) \<Rightarrow> (At_view c (Some k) (sk_public_key k), st)))"

fun view_step ::
  "'w tx_env \<Rightarrow> task \<Rightarrow> loop_vars \<Rightarrow> signing_key option \<Rightarrow> public_key \<Rightarrow> 'w tx_state \<Rightarrow> phase \<times> 'w tx_state" where
  "view_step env t c k pk st =
     (case tx_try_rpc (view_access_key (env_oc env) (env_io env) (tb_rpc (tk_builder t)) (env_dv env) (lv_signer_id c) pk
             (RefFinality FinalityFinal)) st of
        Panic \<Rightarrow> (Panicked, st)
      | Done (Inl e, st) \<Rightarrow> (Finished (Inl e), st)
      | Done (Inr access_key, st) \<Rightarrow> (At_nonce c k pk access_key, st))"

text \<open>The call of \<open>next\<close> under the lock; the transaction that it completes is the event of this step.\<close>

fun nonce_step ::
  "'w tx_env \<Rightarrow> task \<Rightarrow> loop_vars \<Rightarrow> signing_key option \<Rightarrow> public_key \<Rightarrow> access_key_view \<Rightarrow> 'w tx_state
     \<Rightarrow> phase \<times> 'w tx_state \<times> transaction list" where
  "nonce_step env t c k pk access_key st =
     (case nonce_manager_next (env_oc env) (ts_nonces st) (task_url t, lv_signer_id c, pk)
             (case lv_last_ak_nonce c of Some n \<Rightarrow> n | None \<Rightarrow> akv_nonce access_key) of
        (nm, Panic) \<Rightarrow> (Panicked, st\<lparr>ts_nonces := nm\<rparr>, [])
      | (nm, Done nonce) \<Rightarrow>
          let tx = \<lparr>tx_signer_id = lv_signer_id c, tx_public_key = pk, tx_nonce = nonce,
                tx_receiver_id = tb_receiver_id (tk_builder t), tx_block_hash = akv_block_hash access_key,
                tx_actions = tb_actions (tk_builder t)\<rparr> in
          (case k of None \<Rightarrow> Finished (Inr (Built tx)) | Some k \<Rightarrow> At_sign c k tx, st\<lparr>ts_nonces := nm\<rparr>, [tx]))"

fun sign_step :: "'w tx_env \<Rightarrow> task \<Rightarrow> loop_vars \<Rightarrow> signing_key \<Rightarrow> transaction \<Rightarrow> phase" where
  "sign_step env t c k tx =
     (case sign_transaction (env_bo env) (tx_cr env) k tx of
        Panic \<Rightarrow> Panicked
      | Done (Inl e) \<Rightarrow> Finished (Inl e)
      | Done (Inr s) \<Rightarrow> (case tk_kind t of Sending level \<Rightarrow> At_send c level s | _ \<Rightarrow> Finished (Inr (Signed s))))"

fun send_step ::
  "'w tx_env \<Rightarrow> task \<Rightarrow> loop_vars \<Rightarrow> wait_level \<Rightarrow> signed_transaction \<Rightarrow> 'w tx_state \<Rightarrow> phase \<times> 'w tx_state" where
  "send_step env t c level s st =
     (case send_attempt env (tk_builder t) level s st of
        Panic \<Rightarrow> (Panicked, st)
      | Done (res, st) \<Rightarrow>
          (case judge env (tk_builder t) (lv_signer_id c) level (lv_attempt c) res of
             Panic \<Rightarrow> (Panicked, st)
           | Done (Final_result x) \<Rightarrow> (Finished (rmap Sent x), st)
           | Done (Retry ak e) \<Rightarrow>
               (At_top (c\<lparr>lv_attempt := lv_attempt c + 1, lv_left := lv_left c - 1, lv_last_ak_nonce := ak,
                  lv_last_error := Some e\<rparr>), st)))"

fun task_step :: "'w tx_env \<Rightarrow> task \<Rightarrow> phase \<Rightarrow> 'w tx_state \<Rightarrow> (phase \<times> 'w tx_state \<times> transaction list) option" where
  "task_step env t Initial st = Some (enter_task t st, st, [])"
| "task_step env t (At_top c) st = Some (case top_step env t c st of (p, st) \<Rightarrow> (p, st, []))"
| "task_step env t (At_view c k pk) st = Some (case view_step env t c k pk st of (p, st) \<Rightarrow> (p, st, []))"
| "task_step env t (At_nonce c k pk access_key) st = Some (nonce_step env t c k pk access_key st)"
| "task_step env t (At_sign c k tx) st = Some (sign_step env t c k tx, st, [])"
| "task_step env t (At_send c level s) st = Some (case send_step env t c level s st of (p, st) \<Rightarrow> (p, st, []))"
| "task_step env t (Finished x) st = None"
| "task_step env t Panicked st = None"

section \<open>Interleaving\<close>

text \<open>The phases of the tasks, the shared state and the transactions numbered so far, with the task
  that holds each.\<close>

record 'w system =
  sy_phases :: "phase list"
  sy_state :: "'w tx_state"
  sy_log :: "(nat \<times> transaction) list"

inductive interleaved :: "'w tx_env \<Rightarrow> task list \<Rightarrow> 'w system \<Rightarrow> 'w system \<Rightarrow> bool" for env ts where
  task_runs:
    "i < length ts \<Longrightarrow> length (sy_phases y) = length ts \<Longrightarrow>
     task_step env (ts ! i) (sy_phases y ! i) (sy_state y) = Some (p, st, txs) \<Longrightarrow>
     interleaved env ts y \<lparr>sy_phases = (sy_phases y)[i := p], sy_state = st, sy_log = sy_log y @ map (Pair i) txs\<rparr>"
| network_changes:
    "interleaved env ts y (y\<lparr>sy_state := (sy_state y)\<lparr>ts_net := net\<rparr>\<rparr>)"

definition system_start :: "task list \<Rightarrow> 'w tx_state \<Rightarrow> 'w system" where
  "system_start ts st = \<lparr>sy_phases = replicate (length ts) Initial, sy_state = st, sy_log = []\<rparr>"

definition reachable :: "'w tx_env \<Rightarrow> task list \<Rightarrow> 'w tx_state \<Rightarrow> 'w system \<Rightarrow> bool" where
  "reachable env ts st y \<longleftrightarrow> (interleaved env ts)\<^sup>*\<^sup>* (system_start ts st) y"

inductive_cases interleavedE: "interleaved env ts y y'"

text \<open>A schedule as data, for executions and for counting the steps of a task.\<close>

datatype 'w event = Run nat | Net "'w net"

fun sys_step :: "'w tx_env \<Rightarrow> task list \<Rightarrow> 'w event \<Rightarrow> 'w system \<Rightarrow> 'w system" where
  "sys_step env ts (Run i) y =
     (if i < length ts then
        (case task_step env (ts ! i) (sy_phases y ! i) (sy_state y) of
           None \<Rightarrow> y
         | Some (p, st, txs) \<Rightarrow>
             \<lparr>sy_phases = (sy_phases y)[i := p], sy_state = st, sy_log = sy_log y @ map (Pair i) txs\<rparr>)
      else y)"
| "sys_step env ts (Net n) y = y\<lparr>sy_state := (sy_state y)\<lparr>ts_net := n\<rparr>\<rparr>"

fun run_schedule :: "'w tx_env \<Rightarrow> task list \<Rightarrow> 'w event list \<Rightarrow> 'w system \<Rightarrow> 'w system" where
  "run_schedule env ts [] y = y"
| "run_schedule env ts (e # es) y = run_schedule env ts es (sys_step env ts e y)"

lemma sys_step_length [simp]: "length (sy_phases (sys_step env ts e y)) = length (sy_phases y)"
  by (cases e) (simp_all split: option.split prod.split)

lemma sys_step_interleaved:
  "length (sy_phases y) = length ts \<Longrightarrow> (interleaved env ts)\<^sup>*\<^sup>* y (sys_step env ts e y)"
  by (cases e) (auto split: option.split intro: interleaved.intros)

lemma run_schedule_interleaved:
  "length (sy_phases y) = length ts \<Longrightarrow> (interleaved env ts)\<^sup>*\<^sup>* y (run_schedule env ts es y)"
proof (induction es arbitrary: y)
  case (Cons e es)
  then have "(interleaved env ts)\<^sup>*\<^sup>* (sys_step env ts e y) (run_schedule env ts (e # es) y)" by simp
  with sys_step_interleaved [OF Cons.prems] show ?case by (rule rtranclp_trans)
qed simp

lemma run_schedule_append: "run_schedule env ts (es @ fs) y = run_schedule env ts fs (run_schedule env ts es y)"
  by (induction es arbitrary: y) simp_all

lemma interleaved_run_schedule: "interleaved env ts y y' \<Longrightarrow> \<exists>e. y' = sys_step env ts e y"
proof (induction rule: interleaved.induct)
  case (task_runs i y p st txs)
  then show ?case by (intro exI [of _ "Run i"]) simp
next
  case (network_changes y net)
  then show ?case by (intro exI [of _ "Net net"]) simp
qed

lemma reachable_schedule: "reachable env ts st y \<longleftrightarrow> (\<exists>es. y = run_schedule env ts es (system_start ts st))"
proof
  assume "reachable env ts st y"
  then show "\<exists>es. y = run_schedule env ts es (system_start ts st)"
    unfolding reachable_def
  proof (induction rule: rtranclp_induct)
    case base
    show ?case by (rule exI [of _ "[]"]) simp
  next
    case (step y z)
    then obtain es e where "y = run_schedule env ts es (system_start ts st)" "z = sys_step env ts e y"
      using interleaved_run_schedule by blast
    then show ?case by (intro exI [of _ "es @ [e]"]) (simp add: run_schedule_append)
  qed
qed (auto simp: reachable_def system_start_def intro!: run_schedule_interleaved)

section \<open>Nonces under interleaving\<close>

lemma next_monotone:
  assumes "nonce_manager_next oc nm k n = (nm', r)" "oc \<or> r \<noteq> Done 0"
  shows "last_nonce nm k' \<le> last_nonce nm' k'"
    and "r = Done x \<Longrightarrow> n < x \<and> last_nonce nm k < x \<and> last_nonce nm' k = x"
proof -
  let ?m = "case nonces nm k of Some c \<Rightarrow> max c n | None \<Rightarrow> n"
  have m: "n \<le> ?m" "last_nonce nm k \<le> ?m" by (auto simp: last_nonce_def split: option.split)
  have cases: "nm' = nm \<and> r = Panic \<or>
      arith_add oc ?m 1 = Panic \<and> r = Panic \<and> nonces nm' = (nonces nm)(k \<mapsto> ?m) \<or>
      (\<exists>z. arith_add oc ?m 1 = Done z \<and> r = Done z \<and> nonces nm' = (nonces nm)(k \<mapsto> z))"
    using assms(1) by (cases "arith_add oc ?m 1") (auto simp: nonce_manager_next_def Let_def split: if_splits)
  have z: "?m < z" if "arith_add oc ?m 1 = Done z" "r = Done z" for z
    using arith_add_1_less [OF that(1)] that(2) assms(2) by auto
  show "last_nonce nm k' \<le> last_nonce nm' k'"
    using cases m(2) z by (cases "k' = k") (fastforce simp: last_nonce_def)+
  show "r = Done x \<Longrightarrow> n < x \<and> last_nonce nm k < x \<and> last_nonce nm' k = x"
    using cases m z by (fastforce simp: last_nonce_def)
qed

text \<open>The numbered transaction that a phase holds.\<close>

fun phase_txs :: "phase \<Rightarrow> transaction list" where
  "phase_txs (At_sign c k tx) = [tx]"
| "phase_txs (At_send c level s) = [st_transaction s]"
| "phase_txs (Finished (Inr (Built tx))) = [tx]"
| "phase_txs (Finished (Inr (Signed s))) = [st_transaction s]"
| "phase_txs _ = []"

definition nonce_key_of :: "task \<Rightarrow> transaction \<Rightarrow> nonce_key" where
  "nonce_key_of t tx = (task_url t, tx_signer_id tx, tx_public_key tx)"

lemma claim_key_nonces: "claim_key cr r st = Done (k, st') \<Longrightarrow> ts_nonces st' = ts_nonces st"
  by (auto simp: claim_key_def)

lemma tx_try_rpc_nonces: "tx_try_rpc call st = Done (x, st') \<Longrightarrow> ts_nonces st' = ts_nonces st"
  by (auto simp: tx_try_rpc_def tx_rpc_def)

lemma send_attempt_nonces: "send_attempt env b level s st = Done (x, st') \<Longrightarrow> ts_nonces st' = ts_nonces st"
  by (auto simp: send_attempt_def tx_rpc_def)

lemma sign_transaction_tx: "sign_transaction bo cr k tx = Done (Inr s) \<Longrightarrow> st_transaction s = tx"
  by (auto simp: sign_transaction_def)

lemma top_step_quiet: "top_step env t c st = (p, st') \<Longrightarrow> ts_nonces st' = ts_nonces st \<and> phase_txs p = []"
  by (auto split: if_splits task_kind.splits run.splits prod.splits dest!: claim_key_nonces)

lemma view_step_quiet: "view_step env t c k pk st = (p, st') \<Longrightarrow> ts_nonces st' = ts_nonces st \<and> phase_txs p = []"
  by (auto split: run.splits prod.splits sum.splits dest!: tx_try_rpc_nonces)

lemma phase_txs_sent [simp]: "phase_txs (Finished (rmap Sent x)) = []"
  by (cases x) simp_all

lemma send_step_quiet: "send_step env t c level s st = (p, st') \<Longrightarrow> ts_nonces st' = ts_nonces st \<and> phase_txs p = []"
  by (auto split: run.splits prod.splits attempt_verdict.splits dest!: send_attempt_nonces)

lemma enter_task_quiet: "phase_txs (enter_task t st) = []"
  by (simp split: sum.split)

lemma sign_step_tx: "set (phase_txs (sign_step env t c k tx)) \<subseteq> {tx}"
  by (auto split: run.splits sum.splits task_kind.splits dest!: sign_transaction_tx)

text \<open>A step of a task hands out at most one nonce, and that one is fresh for its key.\<close>

lemma task_step_nonces:
  assumes "task_step env t p st = Some (p', st', txs)" "env_oc env \<or> (\<forall>tx\<in>set txs. tx_nonce tx \<noteq> 0)"
  shows "(\<forall>k. last_nonce (ts_nonces st) k \<le> last_nonce (ts_nonces st') k) \<and>
    set (phase_txs p') \<subseteq> set (phase_txs p) \<union> set txs \<and>
    (txs = [] \<or> (\<exists>tx. txs = [tx] \<and> tx_receiver_id tx = tb_receiver_id (tk_builder t) \<and>
       tx_actions tx = tb_actions (tk_builder t) \<and>
       last_nonce (ts_nonces st) (nonce_key_of t tx) < tx_nonce tx \<and>
       last_nonce (ts_nonces st') (nonce_key_of t tx) = tx_nonce tx))"
proof (cases p)
  case (At_nonce c k pk ak)
  obtain nm r where nm: "nonce_manager_next (env_oc env) (ts_nonces st) (task_url t, lv_signer_id c, pk)
      (case lv_last_ak_nonce c of Some n \<Rightarrow> n | None \<Rightarrow> akv_nonce ak) = (nm, r)" by fastforce
  have nz: "env_oc env \<or> r \<noteq> Done 0"
    using assms nm At_nonce by (auto simp: Let_def split: run.splits)
  show ?thesis
    using assms(1) nm At_nonce next_monotone [OF nm nz]
    by (cases r; cases k) (auto simp: Let_def nonce_key_of_def)
next
  case Initial
  then show ?thesis using assms(1) enter_task_quiet [of t st] by (auto simp del: enter_task.simps)
next
  case (At_top c)
  then show ?thesis using assms(1) top_step_quiet [of env t c st] by (simp del: top_step.simps split: prod.splits)
next
  case (At_view c k pk)
  then show ?thesis using assms(1) view_step_quiet [of env t c k pk st] by (simp del: view_step.simps split: prod.splits)
next
  case (At_sign c k tx)
  then show ?thesis using assms(1) sign_step_tx [of env t c k tx] by (simp del: sign_step.simps)
next
  case (At_send c level s)
  then show ?thesis using assms(1) send_step_quiet [of env t c level s st] by (simp del: send_step.simps split: prod.splits)
qed (use assms(1) in simp_all)

text \<open>What holds in every reachable system, relative to the nonces handed out before.\<close>

definition entry_ok :: "task list \<Rightarrow> nonce_manager \<Rightarrow> nonce_manager \<Rightarrow> nat \<times> transaction \<Rightarrow> bool" where
  "entry_ok ts nm0 nm e \<longleftrightarrow>
     (case e of (i, tx) \<Rightarrow> i < length ts \<and>
        last_nonce nm0 (nonce_key_of (ts ! i) tx) < tx_nonce tx \<and>
        tx_nonce tx \<le> last_nonce nm (nonce_key_of (ts ! i) tx) \<and>
        tx_receiver_id tx = tb_receiver_id (tk_builder (ts ! i)) \<and> tx_actions tx = tb_actions (tk_builder (ts ! i)))"

definition nonces_ascend :: "task list \<Rightarrow> (nat \<times> transaction) list \<Rightarrow> bool" where
  "nonces_ascend ts l \<longleftrightarrow>
     sorted_wrt (\<lambda>(i, tx) (j, ty). nonce_key_of (ts ! i) tx = nonce_key_of (ts ! j) ty \<longrightarrow> tx_nonce tx < tx_nonce ty) l"

definition system_inv :: "task list \<Rightarrow> 'w tx_state \<Rightarrow> 'w system \<Rightarrow> bool" where
  "system_inv ts st0 y \<longleftrightarrow>
     length (sy_phases y) = length ts \<and>
     (\<forall>k. last_nonce (ts_nonces st0) k \<le> last_nonce (ts_nonces (sy_state y)) k) \<and>
     nonces_ascend ts (sy_log y) \<and>
     (\<forall>e\<in>set (sy_log y). entry_ok ts (ts_nonces st0) (ts_nonces (sy_state y)) e) \<and>
     (\<forall>i<length ts. \<forall>tx\<in>set (phase_txs (sy_phases y ! i)). (i, tx) \<in> set (sy_log y))"

lemma entry_ok_mono:
  "entry_ok ts nm0 nm e \<Longrightarrow> (\<And>k. last_nonce nm k \<le> last_nonce nm' k) \<Longrightarrow> entry_ok ts nm0 nm' e"
  by (cases e) (simp add: entry_ok_def, meson order_trans)

lemma nonces_ascend_snoc:
  assumes "nonces_ascend ts l" "\<And>e. e \<in> set l \<Longrightarrow> entry_ok ts nm0 nm e" "last_nonce nm (nonce_key_of (ts ! i) tx) < tx_nonce tx"
  shows "nonces_ascend ts (l @ [(i, tx)])"
proof -
  have "tx_nonce ty < tx_nonce tx" if "(j, ty) \<in> set l" "nonce_key_of (ts ! j) ty = nonce_key_of (ts ! i) tx" for j ty
    using assms(2) [OF that(1)] that(2) assms(3) by (auto simp: entry_ok_def intro: le_less_trans)
  then show ?thesis using assms(1) by (auto simp: nonces_ascend_def sorted_wrt_append)
qed

lemma system_inv_start: "system_inv ts st (system_start ts st)"
  by (simp add: system_inv_def system_start_def nonces_ascend_def)

lemma system_inv_task:
  assumes inv: "system_inv ts st0 y" and i: "i < length ts"
    and s: "task_step env (ts ! i) (sy_phases y ! i) (sy_state y) = Some (p, st, txs)"
    and nz: "env_oc env \<or> (\<forall>tx\<in>set txs. tx_nonce tx \<noteq> 0)"
  shows "system_inv ts st0 \<lparr>sy_phases = (sy_phases y)[i := p], sy_state = st, sy_log = sy_log y @ map (Pair i) txs\<rparr>"
proof -
  note st = task_step_nonces [OF s nz]
  have mono: "last_nonce (ts_nonces (sy_state y)) k \<le> last_nonce (ts_nonces st) k" for k using st by blast
  have len: "length (sy_phases y) = length ts" and up: "last_nonce (ts_nonces st0) k \<le> last_nonce (ts_nonces (sy_state y)) k"
    and asc: "nonces_ascend ts (sy_log y)" for k using inv unfolding system_inv_def by blast+
  have old: "entry_ok ts (ts_nonces st0) (ts_nonces (sy_state y)) e" if "e \<in> set (sy_log y)" for e
    using inv that by (simp add: system_inv_def)
  have held: "\<forall>tx\<in>set (phase_txs ((sy_phases y)[i := p] ! j)). (j, tx) \<in> set (sy_log y @ map (Pair i) txs)"
    if "j < length ts" for j
    using that st inv by (cases "j = i") (auto simp: system_inv_def len)
  have "nonces_ascend ts (sy_log y @ map (Pair i) txs) \<and>
      (\<forall>e\<in>set (map (Pair i) txs). entry_ok ts (ts_nonces st0) (ts_nonces st) e)"
  proof (cases "txs = []")
    case False
    then obtain tx where tx: "txs = [tx]" "tx_receiver_id tx = tb_receiver_id (tk_builder (ts ! i))"
       "tx_actions tx = tb_actions (tk_builder (ts ! i))"
       "last_nonce (ts_nonces (sy_state y)) (nonce_key_of (ts ! i) tx) < tx_nonce tx"
       "last_nonce (ts_nonces st) (nonce_key_of (ts ! i) tx) = tx_nonce tx" using st by blast
    then show ?thesis
      using nonces_ascend_snoc [OF asc old tx(4)] le_less_trans [OF up tx(4)] i by (simp add: entry_ok_def)
  qed (simp add: asc)
  moreover have "entry_ok ts (ts_nonces st0) (ts_nonces st) e" if "e \<in> set (sy_log y)" for e
    using entry_ok_mono [OF old [OF that] mono] .
  ultimately show ?thesis
    using order_trans [OF up mono] held len by (auto simp: system_inv_def)
qed

lemma sys_step_log: "\<exists>l. sy_log (sys_step env ts e y) = sy_log y @ l"
  by (cases e) (simp_all split: option.split)

lemma run_schedule_log: "\<exists>l. sy_log (run_schedule env ts es y) = sy_log y @ l"
proof (induction es arbitrary: y)
  case (Cons e es)
  obtain l where "sy_log (run_schedule env ts es (sys_step env ts e y)) = sy_log (sys_step env ts e y) @ l" using Cons by blast
  then show ?case using sys_step_log [of env ts e y] by fastforce
qed simp

lemma system_inv_step:
  assumes inv: "system_inv ts st0 y" and nz: "env_oc env \<or> (\<forall>(i, tx)\<in>set (sy_log (sys_step env ts e y)). tx_nonce tx \<noteq> 0)"
  shows "system_inv ts st0 (sys_step env ts e y)"
proof (cases e)
  case (Run i)
  show ?thesis
  proof (cases "task_step env (ts ! i) (sy_phases y ! i) (sy_state y)")
    case None
    then show ?thesis using inv Run by simp
  next
    case (Some r)
    obtain p st txs where r: "r = (p, st, txs)" by (cases r)
    then show ?thesis using system_inv_task [OF inv] Some nz Run inv by fastforce
  qed
next
  case (Net n)
  then show ?thesis using inv by (simp add: system_inv_def)
qed

lemma system_inv_run:
  assumes "system_inv ts st0 y" "env_oc env \<or> (\<forall>(i, tx)\<in>set (sy_log (run_schedule env ts es y)). tx_nonce tx \<noteq> 0)"
  shows "system_inv ts st0 (run_schedule env ts es y)"
  using assms
proof (induction es arbitrary: y)
  case (Cons e es)
  have "env_oc env \<or> (\<forall>(i, tx)\<in>set (sy_log (sys_step env ts e y)). tx_nonce tx \<noteq> 0)"
    using Cons.prems(2) run_schedule_log [of env ts es "sys_step env ts e y"] by auto
  then show ?case using Cons.IH [OF system_inv_step [OF Cons.prems(1)]] Cons.prems(2) by simp
qed simp

section \<open>Every task ends\<close>

text \<open>An upper bound of the steps that a task has left, whatever the others do.\<close>

definition task_bound :: "task \<Rightarrow> nat" where
  "task_bound t = (case tk_kind t of Sending _ \<Rightarrow> unat (tb_max_nonce_retries (tk_builder t)) + 1 | _ \<Rightarrow> 1)"

fun steps_left :: "task \<Rightarrow> phase \<Rightarrow> nat" where
  "steps_left t Initial = 5 * task_bound t + 2"
| "steps_left t (At_top c) = 5 * lv_left c + 1"
| "steps_left t (At_view c k pk) = 5 * lv_left c"
| "steps_left t (At_nonce c k pk ak) = 5 * lv_left c - 1"
| "steps_left t (At_sign c k tx) = 5 * lv_left c - 2"
| "steps_left t (At_send c level s) = 5 * lv_left c - 3"
| "steps_left t (Finished x) = 0"
| "steps_left t Panicked = 0"

fun left_ok :: "phase \<Rightarrow> bool" where
  "left_ok (At_view c k pk) \<longleftrightarrow> 0 < lv_left c"
| "left_ok (At_nonce c k pk ak) \<longleftrightarrow> 0 < lv_left c"
| "left_ok (At_sign c k tx) \<longleftrightarrow> 0 < lv_left c"
| "left_ok (At_send c level s) \<longleftrightarrow> 0 < lv_left c"
| "left_ok _ \<longleftrightarrow> True"

lemma enter_task_left: "left_ok (enter_task t st) \<and> steps_left t (enter_task t st) < 5 * task_bound t + 2"
  by (auto simp: task_bound_def split: sum.split task_kind.split)

lemma top_step_left: "top_step env t c st = (p, st') \<Longrightarrow> left_ok p \<and> steps_left t p < 5 * lv_left c + 1"
  by (auto split: if_splits task_kind.splits run.splits prod.splits)

lemma view_step_left: "view_step env t c k pk st = (p, st') \<Longrightarrow> 0 < lv_left c \<Longrightarrow> left_ok p \<and> steps_left t p < 5 * lv_left c"
  by (auto split: run.splits prod.splits sum.splits)

lemma nonce_step_left:
  "nonce_step env t c k pk ak st = (p, st', txs) \<Longrightarrow> 0 < lv_left c \<Longrightarrow> left_ok p \<and> steps_left t p < 5 * lv_left c - 1"
  by (cases k) (auto simp: Let_def split: run.splits prod.splits)

lemma sign_step_left:
  "0 < lv_left c \<Longrightarrow> left_ok (sign_step env t c k tx) \<and> steps_left t (sign_step env t c k tx) < 5 * lv_left c - 2"
  by (auto split: run.split sum.split task_kind.split)

lemma send_step_left:
  "send_step env t c level s st = (p, st') \<Longrightarrow> 0 < lv_left c \<Longrightarrow> left_ok p \<and> steps_left t p < 5 * lv_left c - 3"
  by (auto split: run.splits prod.splits attempt_verdict.splits)

lemma task_step_left:
  assumes "task_step env t p st = Some (p', st', txs)" "left_ok p"
  shows "left_ok p' \<and> steps_left t p' < steps_left t p"
proof (cases p)
  case Initial
  then show ?thesis using assms enter_task_left [of t st] by (auto simp del: enter_task.simps)
next
  case (At_top c)
  then show ?thesis using assms top_step_left [of env t c st] by (simp del: top_step.simps split: prod.splits)
next
  case (At_view c k pk)
  then show ?thesis using assms view_step_left [of env t c k pk st] by (simp del: view_step.simps split: prod.splits)
next
  case (At_nonce c k pk ak)
  then show ?thesis using assms nonce_step_left [of env t c k pk ak st] by (simp del: nonce_step.simps)
next
  case (At_sign c k tx)
  then show ?thesis using assms sign_step_left [of c env t k tx] by (auto simp del: sign_step.simps)
next
  case (At_send c level s)
  then show ?thesis using assms send_step_left [of env t c level s st] by (simp del: send_step.simps split: prod.splits)
qed (use assms in simp_all)

lemma task_step_None: "task_step env t p st = None \<longleftrightarrow> steps_left t p = 0 \<and> left_ok p"
  by (cases p) auto

text \<open>The turns of a task in a schedule.\<close>

definition turns :: "nat \<Rightarrow> 'w event list \<Rightarrow> nat" where
  "turns i es = length (filter (\<lambda>e. case e of Run j \<Rightarrow> j = i | Net _ \<Rightarrow> False) es)"

definition system_left_ok :: "task list \<Rightarrow> 'w system \<Rightarrow> bool" where
  "system_left_ok ts y \<longleftrightarrow> length (sy_phases y) = length ts \<and> list_all left_ok (sy_phases y)"

lemma sys_step_left:
  assumes "system_left_ok ts y" "i < length ts"
  shows "system_left_ok ts (sys_step env ts e y) \<and>
    steps_left (ts ! i) (sy_phases (sys_step env ts e y) ! i) + turns i [e] \<le> max (turns i [e]) (steps_left (ts ! i) (sy_phases y ! i))"
proof (cases e)
  case (Run j)
  show ?thesis
  proof (cases "j < length ts \<and> task_step env (ts ! j) (sy_phases y ! j) (sy_state y) \<noteq> None")
    case True
    then obtain p st txs where s: "j < length ts" "task_step env (ts ! j) (sy_phases y ! j) (sy_state y) = Some (p, st, txs)" by auto
    have "left_ok (sy_phases y ! j)" using assms s(1) by (simp add: system_left_ok_def list_all_length)
    note p = task_step_left [OF s(2) this]
    have "list_all left_ok ((sy_phases y)[j := p])" using assms p s(1)
      by (auto simp: system_left_ok_def list_all_length nth_list_update)
    then show ?thesis using Run s p assms by (auto simp: system_left_ok_def turns_def nth_list_update)
  next
    case False
    then have "sys_step env ts e y = y" using Run by (cases "j < length ts") (simp_all del: not_None_eq)
    moreover have "steps_left (ts ! i) (sy_phases y ! i) = 0" if "j = i"
      using False that assms(2) task_step_None [of env "ts ! i"] by blast
    ultimately show ?thesis using Run assms(1) by (auto simp: turns_def)
  qed
qed (use assms in \<open>simp add: turns_def system_left_ok_def\<close>)

lemma run_schedule_left:
  assumes "system_left_ok ts y" "i < length ts"
  shows "steps_left (ts ! i) (sy_phases (run_schedule env ts es y) ! i) \<le> steps_left (ts ! i) (sy_phases y ! i) - turns i es"
  using assms
proof (induction es arbitrary: y)
  case (Cons e es)
  note s = sys_step_left [OF Cons.prems, of env e]
  have "turns i (e # es) = turns i [e] + turns i es" by (simp add: turns_def split: event.split)
  moreover have "steps_left (ts ! i) (sy_phases (run_schedule env ts es (sys_step env ts e y)) ! i) \<le>
      steps_left (ts ! i) (sy_phases (sys_step env ts e y) ! i) - turns i es"
    using Cons.IH s Cons.prems(2) by blast
  moreover have "steps_left (ts ! i) (sy_phases (sys_step env ts e y) ! i) \<le> steps_left (ts ! i) (sy_phases y ! i) - turns i [e]"
    using s by (auto simp: max_def split: if_splits)
  ultimately show ?case by simp
qed (simp add: turns_def)

lemma steps_left_0: "steps_left t p = 0 \<Longrightarrow> left_ok p \<Longrightarrow> (\<exists>x. p = Finished x) \<or> p = Panicked"
  by (cases p) auto

lemma run_schedule_left_ok: "system_left_ok ts y \<Longrightarrow> system_left_ok ts (run_schedule env ts es y)"
proof (induction es arbitrary: y)
  case (Cons e es)
  have "system_left_ok ts (sys_step env ts e y)"
  proof (cases "ts = []")
    case True
    then show ?thesis using Cons.prems by (cases e) (simp_all add: system_left_ok_def)
  next
    case False
    then show ?thesis using sys_step_left [OF Cons.prems, of 0 env e] by simp
  qed
  then show ?case using Cons.IH by simp
qed simp

section \<open>A task alone\<close>

text \<open>The steps of one task when nothing else runs.\<close>

inductive alone :: "'w tx_env \<Rightarrow> task \<Rightarrow> phase \<times> 'w tx_state \<Rightarrow> phase \<times> 'w tx_state \<Rightarrow> bool" for env t where
  alone_step: "task_step env t p st = Some (p', st', txs) \<Longrightarrow> alone env t (p, st) (p', st')"

lemma alone_deterministic: "alone env t x y \<Longrightarrow> alone env t x z \<Longrightarrow> y = z"
  by (auto elim!: alone.cases)

lemma alone_ends: "steps_left t p = 0 \<Longrightarrow> left_ok p \<Longrightarrow> \<not> alone env t (p, st) y"
  using task_step_None [of env t p st] by (auto elim!: alone.cases)

lemma alone_unique:
  assumes "(alone env t)\<^sup>*\<^sup>* x y" "(alone env t)\<^sup>*\<^sup>* x z" "\<And>v. \<not> alone env t y v" "\<And>v. \<not> alone env t z v"
  shows "y = z"
  using assms
proof (induction rule: converse_rtranclp_induct)
  case base
  then show ?case by (auto elim: converse_rtranclpE)
next
  case (step x x')
  show ?case
  proof (cases "x = z")
    case True
    then show ?thesis using step by blast
  next
    case False
    then obtain x'' where "alone env t x x''" "(alone env t)\<^sup>*\<^sup>* x'' z" using step.prems(1) by (auto elim: converse_rtranclpE)
    then show ?thesis using step alone_deterministic by metis
  qed
qed

text \<open>How an operation of the library ends a task: with its result and state, or with a panic.\<close>

fun ends_as :: "'w tx_env \<Rightarrow> task \<Rightarrow> phase \<times> 'w tx_state \<Rightarrow> ((near_error + task_value) \<times> 'w tx_state) run \<Rightarrow> bool" where
  "ends_as env t x (Done (r, st')) \<longleftrightarrow> (alone env t)\<^sup>*\<^sup>* x (Finished r, st')"
| "ends_as env t x Panic \<longleftrightarrow> (\<exists>st'. (alone env t)\<^sup>*\<^sup>* x (Panicked, st'))"

lemma ends_as_step: "task_step env t p st = Some (p', st', txs) \<Longrightarrow> ends_as env t (p', st') m \<Longrightarrow> ends_as env t (p, st) m"
  by (cases "(env, t, (p, st), m)" rule: ends_as.cases)
     (auto intro: converse_rtranclp_into_rtranclp alone_step)

lemma ends_as_Done: "ends_as env t (Finished r, st) (Done (r, st))"
  by simp

lemma ends_as_Panic: "ends_as env t (Panicked, st) Panic"
  by auto

lemma ends_as_iff:
  assumes "ends_as env t x m"
  shows "m = Done (r, st') \<longleftrightarrow> (alone env t)\<^sup>*\<^sup>* x (Finished r, st')"
    and "m = Panic \<longleftrightarrow> (\<exists>st'. (alone env t)\<^sup>*\<^sup>* x (Panicked, st'))"
proof -
  have f: "\<not> alone env t (Finished a, b) v" and p: "\<not> alone env t (Panicked, b) v" for a b v by (simp_all add: alone_ends)
  have u: "y = z" if "(alone env t)\<^sup>*\<^sup>* x y" "(alone env t)\<^sup>*\<^sup>* x z" "fst y = Panicked \<or> (\<exists>a. fst y = Finished a)"
      "fst z = Panicked \<or> (\<exists>a. fst z = Finished a)" for y z
    using alone_unique [OF that(1,2)] that(3,4) f p by (cases y; cases z) auto
  show "m = Done (r, st') \<longleftrightarrow> (alone env t)\<^sup>*\<^sup>* x (Finished r, st')"
    using assms u by (cases m) (auto, fastforce+)
  show "m = Panic \<longleftrightarrow> (\<exists>st'. (alone env t)\<^sup>*\<^sup>* x (Panicked, st'))"
    using assms u by (cases m) (auto, fastforce+)
qed

text \<open>From the call of \<open>next\<close> on: what the operations do with the claimed key and the access key.\<close>

lemma nonce_step_next:
  "nonce_step env t c k pk ak st =
     (case next_nonce (env_oc env) (task_url t, lv_signer_id c, pk) (case lv_last_ak_nonce c of Some n \<Rightarrow> n | None \<Rightarrow> akv_nonce ak) st of
        Panic \<Rightarrow> (Panicked, st\<lparr>ts_nonces := fst (nonce_manager_next (env_oc env) (ts_nonces st) (task_url t, lv_signer_id c, pk)
          (case lv_last_ak_nonce c of Some n \<Rightarrow> n | None \<Rightarrow> akv_nonce ak))\<rparr>, [])
      | Done (nonce, st') \<Rightarrow>
          let tx = \<lparr>tx_signer_id = lv_signer_id c, tx_public_key = pk, tx_nonce = nonce,
                tx_receiver_id = tb_receiver_id (tk_builder t), tx_block_hash = akv_block_hash ak,
                tx_actions = tb_actions (tk_builder t)\<rparr> in
          (case k of None \<Rightarrow> Finished (Inr (Built tx)) | Some k \<Rightarrow> At_sign c k tx, st', [tx]))"
  by (simp add: next_nonce_def Let_def split: prod.split run.split)

definition map_result :: "('a \<Rightarrow> 'b) \<Rightarrow> ('w, 'a) tx_result \<Rightarrow> ('w, 'b) tx_result" where
  "map_result f m = run_bind m (\<lambda>(r, st). Done (rmap f r, st))"

lemma map_result_simps [simp]:
  "map_result f Panic = Panic" "map_result f (Done (Inl e, st)) = Done (Inl e, st)" "map_result f (Done (Inr x, st)) = Done (Inr (f x), st)"
  by (simp_all add: map_result_def)

lemma map_result_bind: "map_result f (tx_bind m g) = tx_bind m (\<lambda>x st. map_result f (g x st))"
  by (cases m) (auto simp: map_result_def tx_bind_def split: sum.split)

lemma map_result_run_bind: "map_result f (run_bind m g) = run_bind m (\<lambda>x. map_result f (g x))"
  by (cases m) simp_all

lemma tx_bind_run_bind: "tx_bind (run_bind m g) f = run_bind m (\<lambda>x. tx_bind (g x) f)"
  by (cases m) simp_all

lemma tx_bind_assoc: "tx_bind (tx_bind m g) f = tx_bind m (\<lambda>x st. tx_bind (g x st) f)"
  by (cases m) (auto simp: tx_bind_def split: sum.split)

text \<open>The steps of an attempt before sending, from the last to the first, continued by what the
  task does with the signed transaction.\<close>

definition continues ::
  "'w tx_env \<Rightarrow> task \<Rightarrow> loop_vars \<Rightarrow> (signed_transaction \<Rightarrow> 'w tx_state \<Rightarrow> ('w, task_value) tx_result) \<Rightarrow> bool" where
  "continues env t c f \<longleftrightarrow>
     (\<forall>s st'. (\<exists>level. tk_kind t = Sending level \<and> ends_as env t (At_send c level s, st') (f s st')) \<or>
       (tk_kind t = Signing \<and> f s st' = Done (Inr (Signed s), st')))"

lemma sign_ends:
  assumes "continues env t c f"
  shows "ends_as env t (At_sign c k tx, st)
    (run_bind (sign_transaction (env_bo env) (tx_cr env) k tx) (\<lambda>s. tx_bind (Done (s, st)) f))"
proof -
  have "ends_as env t (sign_step env t c k tx, st)
    (run_bind (sign_transaction (env_bo env) (tx_cr env) k tx) (\<lambda>s. tx_bind (Done (s, st)) f))"
  proof (cases "sign_transaction (env_bo env) (tx_cr env) k tx")
    case Panic
    then show ?thesis using ends_as_Panic by simp
  next
    case (Done r)
    then show ?thesis using assms by (cases r; cases "tk_kind t") (auto simp: continues_def)
  qed
  then show ?thesis using ends_as_step [of env t "At_sign c k tx" st] by simp
qed

lemma nonce_ends:
  assumes "continues env t c f"
  shows "ends_as env t (At_nonce c (Some k) pk ak, st)
    (run_bind (next_nonce (env_oc env) (task_url t, lv_signer_id c, pk) (case lv_last_ak_nonce c of Some n \<Rightarrow> n | None \<Rightarrow> akv_nonce ak) st)
      (\<lambda>(nonce, st). run_bind (sign_transaction (env_bo env) (tx_cr env) k
         \<lparr>tx_signer_id = lv_signer_id c, tx_public_key = pk, tx_nonce = nonce,
          tx_receiver_id = tb_receiver_id (tk_builder t), tx_block_hash = akv_block_hash ak,
          tx_actions = tb_actions (tk_builder t)\<rparr>) (\<lambda>s. tx_bind (Done (s, st)) f)))"
    (is "ends_as env t _ (run_bind ?n ?g)")
proof -
  obtain p st' txs where s: "nonce_step env t c (Some k) pk ak st = (p, st', txs)" by (cases "nonce_step env t c (Some k) pk ak st")
  have "ends_as env t (p, st') (run_bind ?n ?g)"
  proof (cases ?n)
    case Panic
    then show ?thesis using s ends_as_Panic unfolding nonce_step_next by auto
  next
    case (Done r)
    obtain nonce st1 where r: "r = (nonce, st1)" by (cases r)
    then have "p = At_sign c k \<lparr>tx_signer_id = lv_signer_id c, tx_public_key = pk, tx_nonce = nonce,
          tx_receiver_id = tb_receiver_id (tk_builder t), tx_block_hash = akv_block_hash ak,
          tx_actions = tb_actions (tk_builder t)\<rparr>" "st' = st1"
      using s Done unfolding nonce_step_next by (auto simp: Let_def)
    then show ?thesis using Done r sign_ends [OF assms] by simp
  qed
  then show ?thesis using ends_as_step s by (metis task_step.simps(4))
qed

lemma view_ends:
  assumes f: "\<And>ak st'. ends_as env t (At_nonce c k pk ak, st') (g ak st')"
  shows "ends_as env t (At_view c k pk, st) (tx_bind (tx_try_rpc (view_access_key (env_oc env) (env_io env) (tb_rpc (tk_builder t))
    (env_dv env) (lv_signer_id c) pk (RefFinality FinalityFinal)) st) g)" (is "ends_as env t _ (tx_bind ?v g)")
proof -
  obtain p st' where s: "view_step env t c k pk st = (p, st')" by (cases "view_step env t c k pk st")
  have "ends_as env t (p, st') (tx_bind ?v g)"
  proof (cases ?v)
    case Panic
    then show ?thesis using s ends_as_Panic by auto
  next
    case (Done r)
    then show ?thesis using s f by (cases r; cases "fst r") auto
  qed
  then show ?thesis using ends_as_step [of env t "At_view c k pk" st p st' "[]"] s by (simp del: view_step.simps)
qed

lemma attempt_ends:
  assumes "0 < lv_left c" "continues env t c f"
  shows "ends_as env t (At_top c, st)
    (tx_bind (sign_attempt env (tk_builder t) (lv_signer c) (lv_signer_id c) (lv_last_ak_nonce c) st) f)"
proof -
  have kind: "tk_kind t \<noteq> Building" using assms(2) by (auto simp: continues_def)
  show ?thesis
  proof (cases "claim_key (tx_cr env) (lv_signer c) st")
    case Panic
    then have "task_step env t (At_top c) st = Some (Panicked, st, [])" using assms kind by (cases "tk_kind t") auto
    from ends_as_step [OF this ends_as_Panic] show ?thesis using Panic by (simp add: sign_attempt_def)
  next
    case (Done ks)
    obtain k st1 where k: "claim_key (tx_cr env) (lv_signer c) st = Done (k, st1)" using Done by (cases ks) auto
    then have s1: "task_step env t (At_top c) st = Some (At_view c (Some k) (sk_public_key k), st1, [])"
      using assms kind by (cases "tk_kind t") auto
    show ?thesis
      using ends_as_step [OF s1 view_ends [OF nonce_ends [OF assms(2)]]] k
      by (simp add: sign_attempt_def tx_bind_run_bind tx_bind_assoc split_def)
  qed
qed

text \<open>The loop of \<open>send\<close>.\<close>

lemma send_loop_ends:
  assumes "tk_kind t = Sending level"
  shows "ends_as env t (At_top c, st) (map_result Sent (send_loop env (tk_builder t) (lv_signer c) (lv_signer_id c) level
    (lv_attempt c) (lv_left c) (lv_last_ak_nonce c) (lv_last_error c) st))"
proof (induction "lv_left c" arbitrary: c st)
  case 0
  then have "task_step env t (At_top c) st = Some (Finished (Inl (case lv_last_error c of Some e \<Rightarrow> e
    | None \<Rightarrow> Err_InvalidTransaction ''Unknown error during transaction send'')), st, [])" by simp
  from ends_as_step [OF this ends_as_Done] 0 show ?case by (simp flip: 0)
next
  case (Suc n)
  define f where "f s st = map_result Sent (run_bind (send_attempt env (tk_builder t) level s st) (\<lambda>(res, st).
     run_bind (judge env (tk_builder t) (lv_signer_id c) level (lv_attempt c) res) (\<lambda>v.
       case v of
         Final_result x \<Rightarrow> Done (x, st)
       | Retry ak e \<Rightarrow> send_loop env (tk_builder t) (lv_signer c) (lv_signer_id c) level (lv_attempt c + 1) n ak (Some e) st)))"
    for s st
  have "ends_as env t (At_send c level s, st') (f s st')" for s st'
  proof -
    obtain p st2 where s: "send_step env t c level s st' = (p, st2)" by (cases "send_step env t c level s st'")
    have "ends_as env t (p, st2) (f s st')"
    proof (cases "send_attempt env (tk_builder t) level s st'")
      case Panic
      then show ?thesis using s ends_as_Panic by (auto simp: f_def)
    next
      case (Done r)
      obtain res st3 where r: "r = (res, st3)" by (cases r)
      let ?c = "\<lambda>ak e. c\<lparr>lv_attempt := lv_attempt c + 1, lv_left := lv_left c - 1, lv_last_ak_nonce := ak, lv_last_error := Some e\<rparr>"
      have ih: "ends_as env t (At_top (?c ak e), st3) (map_result Sent (send_loop env (tk_builder t) (lv_signer c) (lv_signer_id c) level
          (lv_attempt c + 1) n ak (Some e) st3))" for ak e
        using Suc(1) [of "?c ak e" st3] by (simp flip: Suc(2))
      show ?thesis
      proof (cases "judge env (tk_builder t) (lv_signer_id c) level (lv_attempt c) res")
        case Panic
        then show ?thesis using s Done r ends_as_Panic by (auto simp: f_def)
      next
        case (Done v)
        then show ?thesis using s \<open>send_attempt _ _ _ _ _ = _\<close> r ih
          by (cases v) (auto simp: f_def map_result_def)
      qed
    qed
    then show ?thesis using ends_as_step [of env t "At_send c level s" st' p st2 "[]"] s by (simp del: send_step.simps)
  qed
  then have "continues env t c f" using assms by (simp add: continues_def)
  from attempt_ends [OF _ this, of st] show ?case by (simp add: f_def [abs_def] map_result_bind flip: Suc(2))
qed

text \<open>The operation of the library that a task stands for.\<close>

fun run_task :: "'w tx_env \<Rightarrow> task \<Rightarrow> 'w tx_state \<Rightarrow> ('w, task_value) tx_result" where
  "run_task env t st =
     (case tk_kind t of
        Building \<Rightarrow> map_result Built (build env (tk_builder t) st)
      | Signing \<Rightarrow> map_result Signed (sign env (tk_builder t) st)
      | Sending level \<Rightarrow> map_result Sent (send env level (tk_builder t) st))"

lemma build_ends:
  assumes kind: "tk_kind t = Building" and left: "0 < lv_left c" and nak: "lv_last_ak_nonce c = None"
  shows "ends_as env t (At_top c, st) (run_bind (any_public_key (tx_cr env) (ts_signers st (lv_signer c))) (\<lambda>pk.
    tx_bind (tx_try_rpc (view_access_key (env_oc env) (env_io env) (tb_rpc (tk_builder t)) (env_dv env) (lv_signer_id c) pk
      (RefFinality FinalityFinal)) st) (\<lambda>ak st.
    run_bind (next_nonce (env_oc env) (task_url t, lv_signer_id c, pk) (akv_nonce ak) st) (\<lambda>(nonce, st).
      Done (Inr (Built \<lparr>tx_signer_id = lv_signer_id c, tx_public_key = pk, tx_nonce = nonce,
              tx_receiver_id = tb_receiver_id (tk_builder t), tx_block_hash = akv_block_hash ak,
              tx_actions = tb_actions (tk_builder t)\<rparr>), st)))))"
proof (cases "any_public_key (tx_cr env) (ts_signers st (lv_signer c))")
  case Panic
  then have "task_step env t (At_top c) st = Some (Panicked, st, [])" using kind left by simp
  from ends_as_step [OF this ends_as_Panic] show ?thesis using Panic by simp
next
  case (Done pk)
  then have s: "task_step env t (At_top c) st = Some (At_view c None pk, st, [])" using kind left by simp
  define tx where "tx ak nonce = \<lparr>tx_signer_id = lv_signer_id c, tx_public_key = pk, tx_nonce = nonce,
      tx_receiver_id = tb_receiver_id (tk_builder t), tx_block_hash = akv_block_hash ak,
      tx_actions = tb_actions (tk_builder t)\<rparr>" for ak :: access_key_view and nonce
  have "ends_as env t (At_nonce c None pk ak, st') (run_bind (next_nonce (env_oc env) (task_url t, lv_signer_id c, pk) (akv_nonce ak) st')
      (\<lambda>(nonce, st). Done (Inr (Built (tx ak nonce)), st)))" (is "ends_as env t _ (run_bind ?n ?g)") for ak st'
  proof -
    obtain p st2 txs where n: "nonce_step env t c None pk ak st' = (p, st2, txs)" by (cases "nonce_step env t c None pk ak st'")
    have "ends_as env t (p, st2) (run_bind ?n ?g)"
    proof (cases ?n)
      case Panic
      then show ?thesis using n nak ends_as_Panic unfolding nonce_step_next by auto
    next
      case (Done r)
      then show ?thesis using n nak unfolding nonce_step_next by (cases r) (auto simp: Let_def tx_def)
    qed
    then show ?thesis using ends_as_step n by (metis task_step.simps(4))
  qed
  note this [unfolded tx_def]
  from ends_as_step [OF s view_ends [OF this]] show ?thesis using Done by simp
qed

lemma sign_then_Signed: "tx_bind m (\<lambda>s st. Done (Inr (Signed s), st)) = map_result Signed m"
  by (cases m) (auto simp: tx_bind_def map_result_def split: sum.split)

lemma run_task_ends: "ends_as env t (Initial, st) (run_task env t st)"
proof -
  let ?b = "tk_builder t"
  have "ends_as env t (enter_task t st, st) (run_task env t st)"
  proof (cases "tb_actions ?b = [] \<or> (\<exists>e. builder_signer ?b = Inl e)")
    case True
    then show ?thesis by (cases "tk_kind t") (auto simp: build_def sign_def send_def)
  next
    case False
    then obtain r where r: "builder_signer ?b = Inr r" and as: "tb_actions ?b \<noteq> []" by (cases "builder_signer ?b") auto
    show ?thesis
    proof (cases "tk_kind t")
      case Building
      then show ?thesis using build_ends [OF Building, of "case enter_task t st of At_top c \<Rightarrow> c" env st] r as
        by (simp add: build_def map_result_bind map_result_run_bind Let_def split_def)
    next
      case Signing
      have "continues env t c (\<lambda>s st. Done (Inr (Signed s), st))" for c using Signing by (simp add: continues_def)
      from attempt_ends [OF _ this, of "case enter_task t st of At_top c \<Rightarrow> c" st] show ?thesis
        using Signing r as by (simp add: sign_def sign_then_Signed)
    next
      case (Sending level)
      then show ?thesis using send_loop_ends [OF Sending, of env "case enter_task t st of At_top c \<Rightarrow> c" st] r as
        by (simp add: send_def)
    qed
  qed
  then show ?thesis using ends_as_step [of env t Initial st] by (simp del: enter_task.simps run_task.simps)
qed

lemma alone_run:
  assumes "(alone env t)\<^sup>*\<^sup>* x (q, st')" "steps_left t q = 0" "left_ok q" "left_ok (fst x)"
    and "sy_phases y = [fst x]" "sy_state y = snd x" "steps_left t (fst x) \<le> n"
  shows "sy_phases (run_schedule env [t] (replicate n (Run 0)) y) = [q] \<and>
    sy_state (run_schedule env [t] (replicate n (Run 0)) y) = st'"
  using assms
proof (induction arbitrary: y n rule: converse_rtranclp_induct)
  case base
  have "task_step env t q st' = None" using base task_step_None by blast
  then have "sys_step env [t] (Run 0) y = y" using base by simp
  then have "run_schedule env [t] (replicate n (Run 0)) y = y" for n by (induction n) simp_all
  then show ?case using base by simp
next
  case (step x z)
  then obtain txs where s: "task_step env t (fst x) (snd x) = Some (fst z, snd z, txs)" by (auto elim: alone.cases)
  note l = task_step_left [OF s step.prems(3)]
  then obtain m where m: "n = Suc m" "steps_left t (fst z) \<le> m" using step.prems(6) by (cases n) auto
  have "sy_phases (sys_step env [t] (Run 0) y) = [fst z]" "sy_state (sys_step env [t] (Run 0) y) = snd z"
    using step.prems s by simp_all
  then show ?case using step.IH [OF step.prems(1,2), of "sys_step env [t] (Run 0) y" m] l m by simp
qed

section \<open>The nonces that a task uses\<close>

fun nonces_left :: "task \<Rightarrow> phase \<Rightarrow> nat" where
  "nonces_left t Initial = task_bound t"
| "nonces_left t (At_top c) = lv_left c"
| "nonces_left t (At_view c k pk) = lv_left c"
| "nonces_left t (At_nonce c k pk ak) = lv_left c"
| "nonces_left t (At_sign c k tx) = lv_left c - 1"
| "nonces_left t (At_send c level s) = lv_left c - 1"
| "nonces_left t _ = 0"

lemma enter_task_budget: "nonces_left t (enter_task t st) \<le> task_bound t"
  by (auto simp: task_bound_def split: sum.split task_kind.split)

lemma top_step_budget: "top_step env t c st = (p, st') \<Longrightarrow> nonces_left t p \<le> lv_left c"
  by (auto split: if_splits task_kind.splits run.splits prod.splits)

lemma view_step_budget: "view_step env t c k pk st = (p, st') \<Longrightarrow> nonces_left t p \<le> lv_left c"
  by (auto split: run.splits prod.splits sum.splits)

lemma nonce_step_budget:
  "nonce_step env t c k pk ak st = (p, st', txs) \<Longrightarrow> 0 < lv_left c \<Longrightarrow> nonces_left t p + length txs \<le> lv_left c"
  by (cases k) (auto simp: Let_def split: run.splits prod.splits)

lemma sign_step_budget: "nonces_left t (sign_step env t c k tx) \<le> lv_left c - 1"
  by (auto split: run.split sum.split task_kind.split)

lemma send_step_budget: "send_step env t c level s st = (p, st') \<Longrightarrow> nonces_left t p \<le> lv_left c - 1"
  by (auto split: run.splits prod.splits attempt_verdict.splits)

lemma task_step_budget:
  assumes "task_step env t p st = Some (p', st', txs)" "left_ok p"
  shows "nonces_left t p' + length txs \<le> nonces_left t p"
proof (cases p)
  case Initial
  then show ?thesis using assms enter_task_budget [of t st] by (auto simp del: enter_task.simps)
next
  case (At_top c)
  then show ?thesis using assms top_step_budget [of env t c st] by (auto simp del: top_step.simps split: prod.splits)
next
  case (At_view c k pk)
  then show ?thesis using assms view_step_budget [of env t c k pk st] by (auto simp del: view_step.simps split: prod.splits)
next
  case (At_nonce c k pk ak)
  then show ?thesis using assms nonce_step_budget [of env t c k pk ak st] by (simp del: nonce_step.simps)
next
  case (At_sign c k tx)
  then show ?thesis using assms sign_step_budget [of t env c k tx] by (auto simp del: sign_step.simps)
next
  case (At_send c level s)
  then show ?thesis using assms send_step_budget [of env t c level s st] by (auto simp del: send_step.simps split: prod.splits)
qed (use assms in simp_all)

text \<open>The transactions that task \<open>i\<close> numbered.\<close>

definition numbered_by :: "nat \<Rightarrow> (nat \<times> transaction) list \<Rightarrow> transaction list" where
  "numbered_by i l = map snd (filter (\<lambda>e. fst e = i) l)"

lemma numbered_by_append [simp]: "numbered_by i (l @ map (Pair j) txs) = numbered_by i l @ (if j = i then txs else [])"
  by (auto simp: numbered_by_def filter_map comp_def)

lemma run_schedule_budget:
  assumes "system_left_ok ts y" "i < length ts"
  shows "nonces_left (ts ! i) (sy_phases (run_schedule env ts es y) ! i) + length (numbered_by i (sy_log (run_schedule env ts es y)))
    \<le> nonces_left (ts ! i) (sy_phases y ! i) + length (numbered_by i (sy_log y))"
  using assms
proof (induction es arbitrary: y)
  case (Cons e es)
  have ok: "system_left_ok ts (sys_step env ts e y)" using sys_step_left [OF Cons.prems] by blast
  have "nonces_left (ts ! i) (sy_phases (sys_step env ts e y) ! i) + length (numbered_by i (sy_log (sys_step env ts e y)))
    \<le> nonces_left (ts ! i) (sy_phases y ! i) + length (numbered_by i (sy_log y))"
  proof (cases e)
    case (Run j)
    have "left_ok (sy_phases y ! i)" "length (sy_phases y) = length ts"
      using Cons.prems by (simp_all add: system_left_ok_def list_all_length)
    then show ?thesis using Run Cons.prems(2) task_step_budget [of env "ts ! i" "sy_phases y ! i" "sy_state y"]
      by (cases "j = i") (force split: option.split)+
  qed simp
  then show ?case using Cons.IH [OF ok Cons.prems(2)] by simp
qed simp

section \<open>Properties of concurrent use\<close>

text \<open>C1: However the steps of any number of concurrent builds, signatures and sends interleave, with
  any changes of the network in between, the nonces handed out for one network, account and
  public key ascend in the order of the calls: no two transactions share one, and all exceed
  what was handed out before the start. Every transaction that a task holds, has signed or
  returns is one of these, with the receiver and the actions of its own builder. With overflow
  checks this needs nothing else; without them, no nonce may have wrapped to 0.\<close>

theorem concurrent_nonces:
  assumes "reachable env ts st y" "env_oc env \<or> (\<forall>(i, tx)\<in>set (sy_log y). tx_nonce tx \<noteq> 0)"
  shows "sorted_wrt (\<lambda>(i, tx) (j, ty). nonce_key_of (ts ! i) tx = nonce_key_of (ts ! j) ty \<longrightarrow> tx_nonce tx < tx_nonce ty) (sy_log y) \<and>
    (\<forall>(i, tx)\<in>set (sy_log y). i < length ts \<and> last_nonce (ts_nonces st) (nonce_key_of (ts ! i) tx) < tx_nonce tx \<and>
       tx_receiver_id tx = tb_receiver_id (tk_builder (ts ! i)) \<and> tx_actions tx = tb_actions (tk_builder (ts ! i))) \<and>
    (\<forall>i<length ts. \<forall>tx\<in>set (phase_txs (sy_phases y ! i)). (i, tx) \<in> set (sy_log y))"
proof -
  obtain es where "y = run_schedule env ts es (system_start ts st)" using assms(1) reachable_schedule by blast
  then have "system_inv ts st y" using system_inv_run [OF system_inv_start] assms(2) by blast
  then show ?thesis by (auto simp: system_inv_def nonces_ascend_def entry_ok_def)
qed

text \<open>C5: Whatever the others do, a task is over after a number of turns that its own builder bounds,
  five for each attempt and two more: it has returned a value or an error, or it has panicked.
  It uses at most one nonce per attempt, one in all unless it sends.\<close>

theorem concurrent_tasks_end:
  assumes "i < length ts" "5 * task_bound (ts ! i) + 2 \<le> turns i es"
    and "y = run_schedule env ts es (system_start ts st)"
  shows "((\<exists>x. sy_phases y ! i = Finished x) \<or> sy_phases y ! i = Panicked) \<and>
    length (numbered_by i (sy_log y)) \<le> task_bound (ts ! i)"
proof -
  let ?y = "system_start ts st"
  have ok: "system_left_ok ts ?y" by (simp add: system_left_ok_def system_start_def list_all_length)
  have i: "sy_phases ?y ! i = Initial" "sy_log ?y = []" using assms(1) by (simp_all add: system_start_def)
  have "steps_left (ts ! i) (sy_phases y ! i) = 0"
    using run_schedule_left [OF ok assms(1), of env es] assms(2,3) i by simp
  moreover have "left_ok (sy_phases y ! i)"
    using run_schedule_left_ok [OF ok, of env es] assms(1,3) by (simp add: system_left_ok_def list_all_length)
  moreover have "length (numbered_by i (sy_log y)) \<le> task_bound (ts ! i)"
    using run_schedule_budget [OF ok assms(1), of env es] assms(3) i by (simp add: numbered_by_def)
  ultimately show ?thesis using steps_left_0 by blast
qed

text \<open>The operations of the library are the tasks that run alone: a build, a signature or a send
  returns exactly what its task has reached after the turns of its bound, with the state it
  leaves behind, and it panics exactly when the task does.\<close>

lemma operations_are_tasks:
  "let y = run_schedule env [t] (replicate (5 * task_bound t + 2) (Run 0)) (system_start [t] st) in
     (case run_task env t st of
        Done (r, st') \<Rightarrow> sy_phases y = [Finished r] \<and> sy_state y = st'
      | Panic \<Rightarrow> sy_phases y = [Panicked])"
proof -
  have run: "sy_phases (run_schedule env [t] (replicate (5 * task_bound t + 2) (Run 0)) (system_start [t] st)) = [q] \<and>
      sy_state (run_schedule env [t] (replicate (5 * task_bound t + 2) (Run 0)) (system_start [t] st)) = st'"
    if "(alone env t)\<^sup>*\<^sup>* (Initial, st) (q, st')" "steps_left t q = 0" "left_ok q" for q st'
    using alone_run [OF that, of "system_start [t] st" "5 * task_bound t + 2"] by (simp add: system_start_def)
  show ?thesis
  proof (cases "run_task env t st")
    case Panic
    then show ?thesis using run_task_ends [of env t st] run by auto
  next
    case (Done r)
    then show ?thesis using run_task_ends [of env t st] run by (cases r) (auto simp del: run_task.simps)
  qed
qed

section \<open>Two builders at once\<close>

definition alice_builds :: task where
  "alice_builds = \<lparr>tk_kind = Building, tk_builder = send_builder\<rparr>"

abbreviation two_answers :: "(rpc_error + transport_response) list tx_state" where
  "two_answers \<equiv> send_state [ok_response, ok_response] alice_signer"

text \<open>Both read the same nonce of the access key; the second to read it takes its nonce first.\<close>

definition crossing :: "(rpc_error + transport_response) list event list" where
  "crossing = map Run [0, 1, 0, 1, 0, 1, 1, 0]"

lemma alice_public_key: "any_public_key crypto_ref alice_signer = Done (PublicKey_Ed25519 (replicate 32 1))"
  using alice_claims [of "send_state [] alice_signer" 0]
  by (auto simp: claim_key_def send_state_def alice_signer_def)

lemma alice_builds_facts:
  "tb_actions (tk_builder alice_builds) = [Transfer 5]" "builder_signer (tk_builder alice_builds) = Inr 0"
  "tb_rpc (tk_builder alice_builds) = sample_client" "tk_kind alice_builds = Building"
  "env_io (send_env True) = rpc_io_ref" "env_dv (send_env True) = send_dv" "io_cr rpc_io_ref = crypto_ref" "any_account_id alice_signer = ''alice.near''"
  by (simp_all add: alice_builds_def send_builder_def add_action_def transaction_builder_new_def builder_signer_def
      send_env_def alice_signer_def rpc_io_ref_def rpc_env_ref_def)

lemma crossing_run:
  "map (tx_nonce \<circ> snd) (sy_log (run_schedule (send_env True) [alice_builds, alice_builds] crossing
     (system_start [alice_builds, alice_builds] two_answers))) = [6, 7]"
  by (simp add: crossing_def system_start_def alice_builds_facts alice_public_key send_state_def tx_try_rpc_def tx_rpc_def canned_calls
      nonce_manager_next_def nonce_manager_new_def arith_add_def Let_def)

theorem concurrent_nonces_witness:
  "\<exists>y. reachable (send_env True) [alice_builds, alice_builds] two_answers y \<and> map (tx_nonce \<circ> snd) (sy_log y) = [6, 7] \<and>
     sorted_wrt (\<lambda>(i, tx) (j, ty). nonce_key_of ([alice_builds, alice_builds] ! i) tx = nonce_key_of ([alice_builds, alice_builds] ! j) ty
       \<longrightarrow> tx_nonce tx < tx_nonce ty) (sy_log y)"
proof -
  let ?ts = "[alice_builds, alice_builds]"
  let ?y = "run_schedule (send_env True) ?ts crossing (system_start ?ts two_answers)"
  have r: "reachable (send_env True) ?ts two_answers ?y" unfolding reachable_schedule by (rule exI) (rule refl)
  have "env_oc (send_env True)" by simp
  then have "env_oc (send_env True) \<or> (\<forall>(i, tx)\<in>set (sy_log ?y). tx_nonce tx \<noteq> 0)" by (rule disjI1)
  note n = concurrent_nonces [OF r this, THEN conjunct1]
  show ?thesis by (intro exI conjI) (rule r, rule crossing_run, rule n)
qed

theorem concurrent_tasks_end_witness:
  "\<exists>x. (sy_phases (run_schedule (send_env True) [alice_builds] (replicate 7 (Run 0)) (system_start [alice_builds] two_answers)) ! 0
      = Finished x \<or> sy_phases (run_schedule (send_env True) [alice_builds] (replicate 7 (Run 0)) (system_start [alice_builds] two_answers)) ! 0
      = Panicked) \<and> task_bound alice_builds = 1"
proof -
  have "task_bound alice_builds = 1" "turns 0 (replicate 7 (Run 0 :: (rpc_error + transport_response) list event)) = 7"
    by (simp_all add: task_bound_def alice_builds_def turns_def)
  then show ?thesis
    using concurrent_tasks_end [of 0 "[alice_builds]" "replicate 7 (Run 0)" _ "send_env True" two_answers, OF _ _ refl] by fastforce
qed

end
