(* ===== verification/Tx_Chain.thy ===== *)
theory Tx_Chain
  imports Tx_Send
begin

text \<open>
  Sending against a chain (\<open>client/transaction.rs\<close> together with the protocol's rule for nonces). The
  locale \<open>chain_node\<close> describes a node as the client sees it through its calls: it knows the nonce of
  one access key, accepts a valid transaction exactly when its nonce is larger, and otherwise
  rejects it with the nonce it knows. A nonce must also stay below the limit that the protocol
  derives from the block height. The answer to a query for the access key may be old, and other
  holders of the key may move its nonce on, a bounded number of times. What the node does with the
  nonce of a transaction that it accepts - record it at once or when the transaction is included -
  is left open. Under these conditions the loop of \<open>send\<close> gets the transaction accepted when it has
  more retries than the nonce moves. At the end a node that decodes the transactions it receives,
  checks their key, signature and nonce, records the nonces it accepts, and answers with the JSON
  of the protocol's errors meets the conditions.
\<close>

section \<open>A node that applies the nonce rule\<close>

abbreviation nonce_rejection :: "u64 \<Rightarrow> u64 \<Rightarrow> rpc_error" where
  "nonce_rejection ak tn \<equiv> Rpc_InvalidTx (InvalidTx_InvalidNonce ak tn)"

text \<open>Between two requests that do not change it for this client, the nonce moves only by transactions
  of others, of which \<open>others\<close> are still to come, and at most to \<open>reach\<close>; the limit does not shrink.\<close>

definition others_only ::
  "('n \<Rightarrow> u64) \<Rightarrow> ('n \<Rightarrow> nat) \<Rightarrow> ('n \<Rightarrow> nat) \<Rightarrow> ('n \<Rightarrow> nat) \<Rightarrow> 'n \<Rightarrow> 'n \<Rightarrow> bool" where
  "others_only chain_nonce nonce_limit others reach net net' \<longleftrightarrow>
     others net' + (if chain_nonce net' = chain_nonce net then 0 else 1) \<le> others net \<and>
     reach net' \<le> reach net \<and> nonce_limit net \<le> nonce_limit net'"

locale chain_node =
  fixes env :: "'w tx_env" and cl :: rpc_client and acct :: account_id and key :: public_key
    and chain_nonce :: "'w net \<Rightarrow> u64" and nonce_limit :: "'w net \<Rightarrow> nat" and others :: "'w net \<Rightarrow> nat" and reach :: "'w net \<Rightarrow> nat"
    and valid :: "signed_transaction \<Rightarrow> bool" and sane :: "'w net \<Rightarrow> bool"
  assumes within_reach: "sane net \<Longrightarrow> unat (chain_nonce net) \<le> reach net \<and> nonce_limit net \<le> 2 ^ 64"
    and view_answers:
      "sane net \<Longrightarrow> \<exists>ak net'. view_access_key (env_oc env) (env_io env) cl (env_dv env) acct key (RefFinality FinalityFinal) net = Done (Inr ak, net') \<and> sane net' \<and>
         akv_nonce ak \<le> chain_nonce net' \<and> crypto_hash_ok (akv_block_hash ak) \<and>
         others_only chain_nonce nonce_limit others reach net net'"
    and send_answers:
      "sane net \<Longrightarrow> tx_signer_id (st_transaction s) = acct \<Longrightarrow> tx_public_key (st_transaction s) = key \<Longrightarrow> valid s \<Longrightarrow>
       unat (tx_nonce (st_transaction s)) < nonce_limit net \<Longrightarrow>
       \<exists>a net'. send_tx (env_oc env) (env_bo env) (env_io env) cl (env_dv env) s status net = Done (a, net') \<and> sane net' \<and>
         (if chain_nonce net < tx_nonce (st_transaction s) then \<exists>response. a = Inr response
          else a = Inl (nonce_rejection (chain_nonce net) (tx_nonce (st_transaction s))) \<and>
            others_only chain_nonce nonce_limit others reach net net')"

text \<open>A signer with one key claims that key and stays as it is.\<close>

definition holds_key :: "crypto_ops \<Rightarrow> any_signer \<Rightarrow> account_id \<Rightarrow> public_key \<Rightarrow> bool" where
  "holds_key cr s acct key \<longleftrightarrow>
     (\<exists>t k. s = OneKey t \<and> ims_account_id t = acct \<and> in_memory_key cr t = Done k \<and> signing_key_ok cr k \<and> sk_public_key k = key)"

lemma holds_key_claim:
  assumes "holds_key cr (ts_signers st r) acct key"
  shows "\<exists>k. claim_key cr r st = Done (k, st) \<and> signing_key_ok cr k \<and> sk_public_key k = key"
  using assms by (auto simp: holds_key_def claim_key_def fun_upd_idem)

text \<open>The transactions that the node must not refuse for another reason.\<close>

definition builder_valid :: "'w tx_env \<Rightarrow> transaction_builder \<Rightarrow> account_id \<Rightarrow> public_key \<Rightarrow> (signed_transaction \<Rightarrow> bool) \<Rightarrow> bool" where
  "builder_valid env b acct key valid \<longleftrightarrow>
     (\<forall>s. signed_for env b acct s \<and> tx_public_key (st_transaction s) = key \<and> crypto_hash_ok (tx_block_hash (st_transaction s))
        \<longrightarrow> valid s)"

lemma next_nonce_room:
  assumes "\<not> poisoned (ts_nonces st)" "unat (last_nonce (ts_nonces st) k) \<le> B" "unat n \<le> B" "B + 1 < 2 ^ 64"
  shows "\<exists>x nm. next_nonce oc k n st = Done (x, st\<lparr>ts_nonces := nm\<rparr>) \<and> \<not> poisoned nm \<and> n < x \<and> unat x \<le> B + 1 \<and>
    last_nonce nm k = x"
proof -
  let ?m = "case nonces (ts_nonces st) k of Some c \<Rightarrow> max c n | None \<Rightarrow> n"
  have m: "unat ?m \<le> B" "n \<le> ?m" using assms(2,3) by (auto simp: last_nonce_def max_def split: option.split)
  then have u: "unat (?m + 1) = unat ?m + 1" using assms(4) by (subst unat_add_nowrap) simp_all
  then have "arith_add oc ?m 1 = Done (?m + 1)" using m assms(4) by (simp add: arith_add_def)
  moreover have "n < ?m + 1" using m(2) u by (simp add: word_less_nat_alt word_le_nat_alt)
  ultimately show ?thesis using assms(1) m(1) u
    by (auto simp: next_nonce_def nonce_manager_next_def last_nonce_def Let_def)
qed

context chain_node
begin

text \<open>The state in which an attempt of the loop starts, with an upper bound of the nonces in use.\<close>

definition ready :: "transaction_builder \<Rightarrow> signer_ref \<Rightarrow> nat \<Rightarrow> 'w tx_state \<Rightarrow> bool" where
  "ready b r B st \<longleftrightarrow> holds_key (tx_cr env) (ts_signers st r) acct key \<and> \<not> poisoned (ts_nonces st) \<and>
     sane (ts_net st) \<and> unat (handed_out st b acct key) \<le> B \<and> reach (ts_net st) \<le> B \<and> B + 1 < nonce_limit (ts_net st)"

text \<open>How many rejections are possible: the moves of the chain's nonce, and one more unless the
  attempt starts from a nonce that the chain has not passed.\<close>

definition slack :: "u64 option \<Rightarrow> 'w net \<Rightarrow> nat" where
  "slack last_ak net = others net + (case last_ak of Some m \<Rightarrow> (if chain_nonce net \<le> m then 0 else 1) | None \<Rightarrow> 1)"

lemma sign_part:
  assumes laws: "signature_laws (tx_cr env)" and b: "tb_rpc b = cl" "serializable (env_bo env) b acct"
    and ready: "ready b r B st" and ak: "\<And>m. last_ak = Some m \<Longrightarrow> unat m \<le> B"
  shows "\<exists>s st1. sign_attempt env b r acct last_ak st = Done (Inr s, st1) \<and> signed_for env b acct s \<and>
    tx_public_key (st_transaction s) = key \<and> crypto_hash_ok (tx_block_hash (st_transaction s)) \<and>
    (\<forall>m. last_ak = Some m \<longrightarrow> m < tx_nonce (st_transaction s)) \<and> unat (tx_nonce (st_transaction s)) \<le> B + 1 \<and>
    ts_signers st1 = ts_signers st \<and> sane (ts_net st1) \<and> \<not> poisoned (ts_nonces st1) \<and> unat (handed_out st1 b acct key) \<le> B + 1 \<and>
    others_only chain_nonce nonce_limit others reach (ts_net st) (ts_net st1)"
proof -
  note rd = ready [unfolded ready_def]
  obtain k where k: "claim_key (tx_cr env) r st = Done (k, st)" "signing_key_ok (tx_cr env) k" "sk_public_key k = key"
    using holds_key_claim rd by blast
  obtain access_key :: access_key_view and net where v: "view_access_key (env_oc env) (env_io env) cl (env_dv env) acct key
      (RefFinality FinalityFinal) (ts_net st) = Done (Inr access_key, net)" "akv_nonce access_key \<le> chain_nonce net"
      "crypto_hash_ok (akv_block_hash access_key)" "sane net" "others_only chain_nonce nonce_limit others reach (ts_net st) net"
    using view_answers [of "ts_net st"] rd by blast
  let ?n = "case last_ak of Some n \<Rightarrow> n | None \<Rightarrow> akv_nonce access_key"
  have "unat (akv_nonce access_key) \<le> B"
    using v(2,5) within_reach [OF v(4)] rd by (simp add: others_only_def word_le_nat_alt)
  then have "unat ?n \<le> B" using ak by (simp split: option.split)
  moreover have "B + 1 < 2 ^ 64" using rd within_reach [of "ts_net st"] by linarith
  ultimately obtain x nm where x: "next_nonce (env_oc env) (cl_url cl, acct, key) ?n (st\<lparr>ts_net := net\<rparr>) =
      Done (x, st\<lparr>ts_net := net, ts_nonces := nm\<rparr>)" "\<not> poisoned nm" "?n < x" "unat x \<le> B + 1" "last_nonce nm (cl_url cl, acct, key) = x"
    using next_nonce_room [of "st\<lparr>ts_net := net\<rparr>" "(cl_url cl, acct, key)" B ?n "env_oc env"] rd b(1) by auto
  let ?tx = "\<lparr>tx_signer_id = acct, tx_public_key = key, tx_nonce = x,
          tx_receiver_id = tb_receiver_id b, tx_block_hash = akv_block_hash access_key, tx_actions = tb_actions b\<rparr>"
  obtain h where h: "tx_get_hash (env_bo env) (tx_cr env) ?tx = Done h"
    using b(2) by (fastforce simp: serializable_def tx_get_hash_def)
  obtain sig where sig: "signing_key_sign (tx_cr env) k h = Done (Inr sig)" "signature_verify (tx_cr env) sig h key"
    using signer.key_signs [OF any_signer_law [OF laws] k(2)] k(3) by blast
  let ?s = "\<lparr>st_transaction = ?tx, st_signature = sig\<rparr>" and ?st1 = "st\<lparr>ts_net := net, ts_nonces := nm\<rparr>"
  have "sign_transaction (env_bo env) (tx_cr env) k ?tx = Done (Inr ?s)" using h sig(1) by (simp add: sign_transaction_def)
  then have "sign_attempt env b r acct last_ak st = Done (Inr ?s, ?st1)"
    using k v(1) x(1) b(1) by (simp add: sign_attempt_def tx_try_rpc_def tx_rpc_def)
  moreover have "signed_for env b acct ?s" using h sig(2) by (simp add: signed_for_def)
  moreover have "\<forall>m. last_ak = Some m \<longrightarrow> m < x" using x(3) by auto
  ultimately show ?thesis using x v b(1) by (intro exI [of _ ?s] exI [of _ ?st1]) simp
qed

lemma attempt_part:
  assumes laws: "signature_laws (tx_cr env)" and b: "tb_rpc b = cl" "serializable (env_bo env) b acct"
    and valid: "builder_valid env b acct key valid"
    and ready: "ready b r B st" and ak: "\<And>m. last_ak = Some m \<Longrightarrow> unat m \<le> B"
  shows "\<exists>s st1 a st2. sign_attempt env b r acct last_ak st = Done (Inr s, st1) \<and> send_attempt env b level s st1 = Done (a, st2) \<and>
    ((\<exists>response. a = Inr response) \<or>
     (\<exists>m t. a = Inl (nonce_rejection m t) \<and> unat m \<le> B \<and> slack (Some m) (ts_net st2) < slack last_ak (ts_net st) \<and>
        nonce_limit (ts_net st) \<le> nonce_limit (ts_net st2) \<and> reach (ts_net st2) \<le> B \<and>
        holds_key (tx_cr env) (ts_signers st2 r) acct key \<and> sane (ts_net st2) \<and> \<not> poisoned (ts_nonces st2) \<and> unat (handed_out st2 b acct key) \<le> B + 1))"
proof -
  note rd = ready [unfolded ready_def]
  obtain s st1 where s: "sign_attempt env b r acct last_ak st = Done (Inr s, st1)" "signed_for env b acct s"
    "tx_public_key (st_transaction s) = key" "crypto_hash_ok (tx_block_hash (st_transaction s))"
    "\<And>m. last_ak = Some m \<Longrightarrow> m < tx_nonce (st_transaction s)" "unat (tx_nonce (st_transaction s)) \<le> B + 1"
    "ts_signers st1 = ts_signers st" "sane (ts_net st1)" "\<not> poisoned (ts_nonces st1)" "unat (handed_out st1 b acct key) \<le> B + 1"
    and o1: "others_only chain_nonce nonce_limit others reach (ts_net st) (ts_net st1)"
    using sign_part [OF laws b ready ak] by blast
  have "tx_signer_id (st_transaction s) = acct" using s(2) by (simp add: signed_for_def Let_def)
  moreover have "valid s" using valid s(2-4) by (simp add: builder_valid_def)
  moreover have "unat (tx_nonce (st_transaction s)) < nonce_limit (ts_net st1)" using s(6) rd o1 by (simp add: others_only_def)
  ultimately obtain a net where a: "send_tx (env_oc env) (env_bo env) (env_io env) cl (env_dv env) s (level_status level) (ts_net st1) = Done (a, net)" "sane net"
    "if chain_nonce (ts_net st1) < tx_nonce (st_transaction s) then \<exists>response. a = Inr response
     else a = Inl (nonce_rejection (chain_nonce (ts_net st1)) (tx_nonce (st_transaction s))) \<and>
       others_only chain_nonce nonce_limit others reach (ts_net st1) net"
    using send_answers [of "ts_net st1" s "level_status level"] s(3,8) by blast
  let ?m = "chain_nonce (ts_net st1)" and ?st2 = "st1\<lparr>ts_net := net\<rparr>"
  have sa: "send_attempt env b level s st1 = Done (a, ?st2)" using a(1) b(1) by (simp add: send_attempt_def tx_rpc_def)
  show ?thesis
  proof (cases "?m < tx_nonce (st_transaction s)")
    case True
    then show ?thesis using s(1) sa a(3) by (intro exI [of _ s] exI [of _ st1] exI [of _ a] exI [of _ ?st2]) simp
  next
    case False
    then have rej: "a = Inl (nonce_rejection ?m (tx_nonce (st_transaction s)))" "others_only chain_nonce nonce_limit others reach (ts_net st1) net"
      using a(3) by simp_all
    have "slack (Some ?m) net < slack last_ak (ts_net st)"
    proof (cases last_ak)
      case None
      then show ?thesis using o1 rej(2) by (auto simp: slack_def others_only_def split: if_splits)
    next
      case (Some m)
      have "m < ?m" using s(5) [OF Some] False by (simp add: not_less)
      then show ?thesis using o1 rej(2) Some by (auto simp: slack_def others_only_def not_le split: if_splits)
    qed
    moreover have "unat ?m \<le> B" "reach net \<le> B" "nonce_limit (ts_net st) \<le> nonce_limit net"
      using within_reach [OF s(8)] o1 rej(2) rd by (simp_all add: others_only_def)
    ultimately show ?thesis using s(1,7-10) sa a(2) rej(1) rd
      by (intro exI [of _ s] exI [of _ st1] exI [of _ a] exI [of _ ?st2]) simp
  qed
qed

text \<open>The loop gets through when the slack is within the iterations left.\<close>

lemma loop_accepted:
  assumes laws: "signature_laws (tx_cr env)" and b: "tb_rpc b = cl" "serializable (env_bo env) b acct"
    and valid: "builder_valid env b acct key valid"
    and ready: "ready b r B st" and ak: "\<And>m. last_ak = Some m \<Longrightarrow> unat m \<le> B"
    and room: "B + n < nonce_limit (ts_net st)" and left: "n + unat attempt = unat (tb_max_nonce_retries b) + 1"
    and slack: "slack last_ak (ts_net st) < n"
  shows "\<exists>tr response st'. send_loop env b r acct level attempt n last_ak err st = Done (level_convert (tx_cr env) level response acct, st') \<and>
    sends env b r acct level attempt last_ak st tr (level_convert (tx_cr env) level response acct) st' \<and>
    tr \<noteq> [] \<and> snd (last tr) = Inr response \<and> length tr \<le> slack last_ak (ts_net st) + 1"
  using ready ak room left slack
proof (induction n arbitrary: B st last_ak attempt err)
  case (Suc n)
  obtain s st1 a st2 where s: "sign_attempt env b r acct last_ak st = Done (Inr s, st1)" "send_attempt env b level s st1 = Done (a, st2)"
    and a: "(\<exists>response. a = Inr response) \<or>
     (\<exists>m t. a = Inl (nonce_rejection m t) \<and> unat m \<le> B \<and> slack (Some m) (ts_net st2) < slack last_ak (ts_net st) \<and>
        nonce_limit (ts_net st) \<le> nonce_limit (ts_net st2) \<and> reach (ts_net st2) \<le> B \<and>
        holds_key (tx_cr env) (ts_signers st2 r) acct key \<and> sane (ts_net st2) \<and> \<not> poisoned (ts_nonces st2) \<and> unat (handed_out st2 b acct key) \<le> B + 1)"
    using attempt_part [OF laws b valid Suc.prems(1,2)] by blast
  show ?case
  proof (cases a)
    case (Inr response)
    then have j: "judge env b acct level attempt a = Done (Final_result (level_convert (tx_cr env) level response acct))"
      by (simp add: judge_def)
    show ?thesis
      using s j sends_attempt_intros(2) [OF s j] Inr
      by (intro exI [of _ "[(s, a)]"] exI [of _ response] exI [of _ st2]) simp
  next
    case (Inl e)
    then obtain m t where m: "a = Inl (nonce_rejection m t)" "unat m \<le> B" "slack (Some m) (ts_net st2) < slack last_ak (ts_net st)"
      "nonce_limit (ts_net st) \<le> nonce_limit (ts_net st2)" "reach (ts_net st2) \<le> B"
      "holds_key (tx_cr env) (ts_signers st2 r) acct key" "sane (ts_net st2)" "\<not> poisoned (ts_nonces st2)" "unat (handed_out st2 b acct key) \<le> B + 1"
      using a by auto
    have lt: "attempt < tb_max_nonce_retries b" using Suc.prems(4,5) m(3) by (simp add: word_less_nat_alt)
    then have j: "judge env b acct level attempt a = Done (Retry (Some m) (Err_InvalidTx (InvalidTx_InvalidNonce m t)))"
      using m(1) by (simp add: judge_def)
    have "ready b r (B + 1) st2" using m(3-9) Suc.prems(3,5) by (simp add: ready_def)
    moreover have "n + unat (attempt + 1) = unat (tb_max_nonce_retries b) + 1" using Suc.prems(4) attempt_step(1) [OF lt] by simp
    moreover have "slack (Some m) (ts_net st2) < n" using m(3) Suc.prems(5) by simp
    moreover have "B + 1 + n < nonce_limit (ts_net st2)" "\<And>m'. Some m = Some m' \<Longrightarrow> unat m' \<le> B + 1" using Suc.prems(3) m(2,4) by simp_all
    ultimately obtain tr response st' where ih:
      "send_loop env b r acct level (attempt + 1) n (Some m) (Some (Err_InvalidTx (InvalidTx_InvalidNonce m t))) st2 =
         Done (level_convert (tx_cr env) level response acct, st')"
      "sends env b r acct level (attempt + 1) (Some m) st2 tr (level_convert (tx_cr env) level response acct) st'"
      "tr \<noteq> []" "snd (last tr) = Inr response" "length tr \<le> slack (Some m) (ts_net st2) + 1"
      using Suc.IH by blast
    show ?thesis
      using s j ih m(3) sends_attempt_intros(3) [OF s j ih(2)]
      by (intro exI [of _ "(s, a) # tr"] exI [of _ response] exI [of _ st']) simp
  qed
qed simp

end

section \<open>Acceptance\<close>

lemma chain_accepts:
  assumes "chain_node env (tb_rpc b) acct key chain_nonce nonce_limit others reach valid sane" "signature_laws (tx_cr env)"
    and "tb_actions b \<noteq> []" "builder_signer b = Inr r" "serializable (env_bo env) b acct"
    and "builder_valid env b acct key valid"
    and "holds_key (tx_cr env) (ts_signers st r) acct key" "\<not> poisoned (ts_nonces st)" "sane (ts_net st)"
    and "unat (handed_out st b acct key) \<le> high" "reach (ts_net st) \<le> high" "high + unat (tb_max_nonce_retries b) + 1 < nonce_limit (ts_net st)"
    and "others (ts_net st) < unat (tb_max_nonce_retries b)"
  shows "\<exists>tr response st'. send env level b st = Done (level_convert (tx_cr env) level response acct, st') \<and>
    sends env b r acct level 0 None st tr (level_convert (tx_cr env) level response acct) st' \<and>
    tr \<noteq> [] \<and> snd (last tr) = Inr response \<and> length tr \<le> others (ts_net st) + 2"
proof -
  have ready: "chain_node.ready env acct key nonce_limit reach sane b r high st"
    using assms(7-12) by (simp add: chain_node.ready_def [OF assms(1)])
  have sl: "chain_node.slack chain_nonce others None (ts_net st) = others (ts_net st) + 1"
    by (simp add: chain_node.slack_def [OF assms(1)])
  have "any_account_id (ts_signers st r) = acct" using assms(7) by (auto simp: holds_key_def)
  then show ?thesis
    using chain_node.loop_accepted [OF assms(1,2) refl assms(5,6) ready, of None "unat (tb_max_nonce_retries b) + 1" 0 level None]
      assms(3,4,12,13) sl
    by (simp add: send_def del: send_loop.simps)
qed

text \<open>C3: Against a node that accepts valid transactions exactly when their nonce exceeds the one it knows
  for the access key - whatever older nonce it answers to the query for the key, and with other
  users of the key who move its nonce a bounded number of times - a builder whose retries exceed
  these moves is accepted: \<open>send\<close> returns what the requested level makes of the node's response,
  after at most two attempts more than the moves; two are enough when nobody else uses the key.
  The nonces involved must leave room for the attempts below the limit of the protocol.\<close>

theorem send_accepted:
  assumes "chain_node env (tb_rpc b) acct key chain_nonce nonce_limit others reach valid sane" "signature_laws (tx_cr env)"
    and "tb_actions b \<noteq> []" "builder_signer b = Inr r" "serializable (env_bo env) b acct"
    and "builder_valid env b acct key valid"
    and "holds_key (tx_cr env) (ts_signers st r) acct key" "\<not> poisoned (ts_nonces st)" "sane (ts_net st)"
    and "unat (handed_out st b acct key) \<le> high" "reach (ts_net st) \<le> high" "high + unat (tb_max_nonce_retries b) + 1 < nonce_limit (ts_net st)"
    and "others (ts_net st) < unat (tb_max_nonce_retries b)"
  shows "\<exists>tr response st'. send env level b st = Done (level_convert (tx_cr env) level response acct, st') \<and>
    sends env b r acct level 0 None st tr (level_convert (tx_cr env) level response acct) st' \<and>
    tr \<noteq> [] \<and> snd (last tr) = Inr response \<and> length tr \<le> others (ts_net st) + 2"
  by (rule chain_accepts [OF assms])

section \<open>A node\<close>

text \<open>The registered access key with its nonce, the nonce of an older block that queries see, the
  block height, and the nonces of transactions that other holders of the key get included, one
  with each request.\<close>

record chain_world =
  cw_account :: account_id
  cw_key :: public_key
  cw_nonce :: u64
  cw_view :: u64
  cw_height :: u64
  cw_others :: "u64 list"

definition chain_advance :: "chain_world \<Rightarrow> chain_world" where
  "chain_advance w = (case cw_others w of
     [] \<Rightarrow> w\<lparr>cw_view := cw_nonce w\<rparr>
   | n # ns \<Rightarrow> w\<lparr>cw_view := cw_nonce w, cw_nonce := max (cw_nonce w) n, cw_others := ns\<rparr>)"

text \<open>The protocol bounds nonces by the block height times a million.\<close>

definition chain_limit :: "chain_world \<Rightarrow> nat" where
  "chain_limit w = unat (cw_height w) * 10 ^ 6"

definition chain_reach :: "chain_world \<Rightarrow> nat" where
  "chain_reach w = foldr (\<lambda>n m. max (unat n) m) (cw_others w) (unat (cw_nonce w))"

text \<open>A request is a tag and, for a transaction, its bytes.\<close>

definition chain_request :: "json \<Rightarrow> bytes" where
  "chain_request v =
     (case Option.bind (json_get ''params'' v) (json_get ''signed_tx_base64'') of
        Some (JStr t) \<Rightarrow> 1 # (case b64_decode crypto_ref t of Inr bs \<Rightarrow> bs | Inl _ \<Rightarrow> [])
      | _ \<Rightarrow> [0])"

text \<open>The replies as texts, and the JSON that they stand for: an access key, an accepted transaction
  and the error for a nonce, as the protocol writes it.\<close>

definition chain_reply :: "string \<Rightarrow> rpc_error + transport_response" where
  "chain_reply s = Inr \<lparr>tr_status = 200, tr_body = as_bytes s\<rparr>"

definition nonce_text :: "u64 \<Rightarrow> string" where
  "nonce_text n = ''nonce:'' @ show_word n"

definition stale_text :: "u64 \<Rightarrow> u64 \<Rightarrow> string" where
  "stale_text ak tn = ''stale:'' @ show_word ak @ CHR '','' # show_word tn"

definition invalid_nonce_error :: "u64 \<Rightarrow> u64 \<Rightarrow> json_rpc_error" where
  "invalid_nonce_error ak tn =
     \<lparr>je_code = - 32000, je_message = ''Server error'',
      je_data = Some (JObj [(''TxExecutionError'', JObj [(''InvalidTxError'',
        JObj [(''InvalidNonce'', JObj [(''tx_nonce'', JInt (uint tn)), (''ak_nonce'', JInt (uint ak))])])])]),
      je_cause = Some \<lparr>ec_name = ''INVALID_TRANSACTION'', ec_info = None\<rparr>, je_name = Some ''HANDLER_ERROR''\<rparr>"

definition chain_de_response :: "string \<Rightarrow> string + json_rpc_response" where
  "chain_de_response s =
     (let result = (\<lambda>v. Inr \<lparr>jr_jsonrpc = ''2.0'', jr_id = 0, jr_result = Some v, jr_error = None\<rparr>) in
      if s = ''ok'' then result JNull
      else case split_once CHR '':'' s of
        None \<Rightarrow> Inl ''expected value''
      | Some (t, rest) \<Rightarrow>
          if t = ''nonce'' then
            (case parse_uint rest of None \<Rightarrow> Inl ''expected number''
             | Some (n :: u64) \<Rightarrow> result (JObj [(''nonce'', JInt (uint n))]))
          else case split_once CHR '','' rest of
            None \<Rightarrow> Inl ''expected value''
          | Some (a, b) \<Rightarrow>
             (case (parse_uint a, parse_uint b) of
                (Some ak, Some tn) \<Rightarrow>
                  Inr \<lparr>jr_jsonrpc = ''2.0'', jr_id = 0, jr_result = None, jr_error = Some (invalid_nonce_error ak tn)\<rparr>
              | _ \<Rightarrow> Inl ''expected number''))"

definition chain_de_invalid_tx :: "json \<Rightarrow> string + invalid_tx_error" where
  "chain_de_invalid_tx v =
     (case json_get ''InvalidNonce'' v of
        None \<Rightarrow> Inr (InvalidTx_Unknown v)
      | Some i \<Rightarrow>
         (case (json_get ''ak_nonce'' i, json_get ''tx_nonce'' i) of
            (Some (JInt a), Some (JInt t)) \<Rightarrow> Inr (InvalidTx_InvalidNonce (word_of_int a) (word_of_int t))
          | _ \<Rightarrow> Inl ''missing field''))"

definition chain_dv :: view_de where
  "chain_dv = send_dv\<lparr>de_key := (\<lambda>v. case json_get ''nonce'' v of
     Some (JInt n) \<Rightarrow> Inr \<lparr>akv_nonce = word_of_int n, akv_permission = AkvFullAccess, akv_block_height = 1, akv_block_hash = replicate 32 0\<rparr>
   | _ \<Rightarrow> Inl ''missing field'')\<rparr>"

text \<open>A transaction of the registered key whose signature verifies.\<close>

definition verifies :: "signed_transaction \<Rightarrow> bool" where
  "verifies s = (case tx_get_hash borsh_le crypto_ref (st_transaction s) of
     Done h \<Rightarrow> signature_verify crypto_ref (st_signature s) h (tx_public_key (st_transaction s)) | Panic \<Rightarrow> False)"

definition chain_post :: "bytes \<Rightarrow> chain_world \<Rightarrow> (rpc_error + transport_response) \<times> chain_world" where
  "chain_post body w =
     (if hd body = 0 then (chain_reply (nonce_text (cw_view w)), chain_advance w)
      else case signed_from_bytes borsh_le crypto_ref (tl body) of
        Inl _ \<Rightarrow> (Inl (Rpc_Network ''bad request'' (Some 400) False), chain_advance w)
      | Inr s \<Rightarrow>
         (let tx = st_transaction s in
          if tx_signer_id tx \<noteq> cw_account w \<or> tx_public_key tx \<noteq> cw_key w \<or> \<not> verifies s \<or> chain_limit w \<le> unat (tx_nonce tx)
          then (Inl (Rpc_Network ''bad request'' (Some 400) False), chain_advance w)
          else if tx_nonce tx \<le> cw_nonce w then (chain_reply (stale_text (cw_nonce w) (tx_nonce tx)), chain_advance w)
          else (chain_reply ''ok'', chain_advance (w\<lparr>cw_nonce := tx_nonce tx\<rparr>))))"

definition chain_io :: "chain_world rpc_io" where
  "chain_io = \<lparr>io_env = rpc_env_ref\<lparr>env_sd := serde_ref\<lparr>de_invalid_tx := chain_de_invalid_tx\<rparr>\<rparr>,
     io_to_vec = (\<lambda>v. Inr (chain_request v)), io_de_response = chain_de_response, io_post = (\<lambda>url. chain_post)\<rparr>"

definition chain_env :: "chain_world tx_env" where
  "chain_env = \<lparr>env_oc = True, env_bo = borsh_le, env_io = chain_io, env_dv = chain_dv, env_de_height = (\<lambda>_. Inl [])\<rparr>"

definition chain_sane :: "account_id \<Rightarrow> public_key \<Rightarrow> chain_world net \<Rightarrow> bool" where
  "chain_sane acct key net \<longleftrightarrow>
     (let w = net_world net in cw_account w = acct \<and> cw_key w = key \<and> cw_view w \<le> cw_nonce w \<and> chain_limit w \<le> 2 ^ 64)"

subsection \<open>Its replies\<close>

lemma chain_io_simps [simp]:
  "io_to_vec chain_io v = Inr (chain_request v)" "io_post chain_io url = chain_post" "io_cr chain_io = crypto_ref"
  "io_de_response chain_io = chain_de_response"
  by (simp_all add: chain_io_def rpc_env_ref_def)

lemma chain_env_simps [simp]:
  "env_oc chain_env = True" "env_bo chain_env = borsh_le" "env_io chain_env = chain_io" "env_dv chain_env = chain_dv"
  by (simp_all add: chain_env_def)

lemma utf8_lossy_ascii: "list_all (\<lambda>n. n < 128) cs \<Longrightarrow> utf8_lossy_codes cs = cs"
proof (induction cs)
  case (Cons a cs)
  then show ?case by (simp add: utf8_lossy_codes.simps [of "a # cs"])
qed (simp add: utf8_lossy_codes.simps)

lemma from_utf8_lossy_ascii:
  assumes "list_all (\<lambda>c. char_code c < 128) s"
  shows "from_utf8_lossy (as_bytes s) = s"
proof -
  have u: "map unat (as_bytes s) = map char_code s"
    using assms by (induction s) (simp_all add: as_bytes_def unat_of_nat)
  have "utf8_lossy_codes (map char_code s) = map char_code s"
    using assms by (intro utf8_lossy_ascii) (simp add: list.pred_map comp_def)
  then show ?thesis using u by (simp add: from_utf8_lossy_def char_code_def comp_def)
qed

lemma show_word_plain:
  "list_all (\<lambda>c. char_code c < 128) (show_word w)" "CHR '','' \<notin> set (show_word w)" "CHR '':'' \<notin> set (show_word w)"
proof -
  have d: "digits (show_word w)" by simp
  then show "list_all (\<lambda>c. char_code c < 128) (show_word w)"
    by (auto simp: list_all_iff is_ascii_digit_def char_code_def)
  show "CHR '','' \<notin> set (show_word w)" "CHR '':'' \<notin> set (show_word w)"
    using d by (auto simp: list_all_iff is_ascii_digit_def char_code_def)
qed

lemma chain_de_response_simps:
  "chain_de_response ''ok'' = Inr \<lparr>jr_jsonrpc = ''2.0'', jr_id = 0, jr_result = Some JNull, jr_error = None\<rparr>"
  "chain_de_response (nonce_text n) =
     Inr \<lparr>jr_jsonrpc = ''2.0'', jr_id = 0, jr_result = Some (JObj [(''nonce'', JInt (uint n))]), jr_error = None\<rparr>"
  "chain_de_response (stale_text ak tn) =
     Inr \<lparr>jr_jsonrpc = ''2.0'', jr_id = 0, jr_result = None, jr_error = Some (invalid_nonce_error ak tn)\<rparr>"
proof -
  have n: "split_once CHR '':'' (nonce_text n) = Some (''nonce'', show_word n)"
    using split_once_append [of "CHR '':''" "''nonce''" "show_word n"] by (simp add: nonce_text_def)
  have s: "split_once CHR '':'' (stale_text ak tn) = Some (''stale'', show_word ak @ CHR '','' # show_word tn)"
    using split_once_append [of "CHR '':''" "''stale''"] by (simp add: stale_text_def)
  show "chain_de_response ''ok'' = Inr \<lparr>jr_jsonrpc = ''2.0'', jr_id = 0, jr_result = Some JNull, jr_error = None\<rparr>"
    by (simp add: chain_de_response_def)
  have "nonce_text n \<noteq> ''ok''" "stale_text ak tn \<noteq> ''ok''" by (simp_all add: nonce_text_def stale_text_def)
  then show "chain_de_response (nonce_text n) =
     Inr \<lparr>jr_jsonrpc = ''2.0'', jr_id = 0, jr_result = Some (JObj [(''nonce'', JInt (uint n))]), jr_error = None\<rparr>"
    "chain_de_response (stale_text ak tn) =
     Inr \<lparr>jr_jsonrpc = ''2.0'', jr_id = 0, jr_result = None, jr_error = Some (invalid_nonce_error ak tn)\<rparr>"
    using n s by (simp_all add: chain_de_response_def show_word_plain)
qed

lemma chain_rejects:
  "parse_rpc_error (io_env chain_io) (invalid_nonce_error ak tn) = Done (nonce_rejection ak tn)"
  by (simp add: parse_rpc_error_def invalid_nonce_error_def cause_error_def parse_error_block_context_def node_cause_error_def
      chain_io_def rpc_invalid_transaction_def try_parse_invalid_tx_def chain_de_invalid_tx_def Let_def)

lemma chain_read:
  "read_response chain_io de m \<lparr>tr_status = 200, tr_body = as_bytes ''ok''\<rparr> = Done (map_err Rpc_Json (de JNull))"
  "read_response chain_io de m \<lparr>tr_status = 200, tr_body = as_bytes (nonce_text n)\<rparr> =
     Done (map_err Rpc_Json (de (JObj [(''nonce'', JInt (uint n))])))"
  "read_response chain_io de m \<lparr>tr_status = 200, tr_body = as_bytes (stale_text ak tn)\<rparr> = Done (Inl (nonce_rejection ak tn))"
proof -
  have "from_utf8_lossy (as_bytes ''ok'') = ''ok''" "from_utf8_lossy (as_bytes (nonce_text n)) = nonce_text n"
    "from_utf8_lossy (as_bytes (stale_text ak tn)) = stale_text ak tn"
    by (rule from_utf8_lossy_ascii; simp add: nonce_text_def stale_text_def char_code_def show_word_plain(1) [unfolded char_code_def])+
  then show
    "read_response chain_io de m \<lparr>tr_status = 200, tr_body = as_bytes ''ok''\<rparr> = Done (map_err Rpc_Json (de JNull))"
    "read_response chain_io de m \<lparr>tr_status = 200, tr_body = as_bytes (nonce_text n)\<rparr> =
       Done (map_err Rpc_Json (de (JObj [(''nonce'', JInt (uint n))])))"
    "read_response chain_io de m \<lparr>tr_status = 200, tr_body = as_bytes (stale_text ak tn)\<rparr> = Done (Inl (nonce_rejection ak tn))"
    by (simp_all add: read_response_def chain_de_response_simps chain_rejects json_get_def Let_def)
qed

lemma chain_try:
  "try_call chain_io url de m ps i w =
     (case chain_post (chain_request (json_rpc_request i m ps)) w of
        (Inl e, w') \<Rightarrow> Done (Inl e, w')
      | (Inr response, w') \<Rightarrow> run_bind (read_response chain_io de m response) (\<lambda>r. Done (r, w')))"
  by (simp add: try_call_def)

lemma chain_call:
  assumes "try_call chain_io (cl_url sample_client) de m ps (net_id net) (net_world net) = Done (r, w')" "\<And>e. r = Inl e \<Longrightarrow> \<not> rpc_is_retryable e"
  shows "rpc_call oc chain_io sample_client de m ps net = Done (r, net\<lparr>net_id := net_id net + 1, net_world := w'\<rparr>)"
proof -
  have loop: "call_loop oc chain_io sample_client de m ps t k (Suc n) net = Done (r, net\<lparr>net_id := net_id net + 1, net_world := w'\<rparr>)" for t k n
    using assms by (cases r) simp_all
  have "arith_add oc (rc_max_retries (cl_retry sample_client)) 1 = Done 4"
    by (simp add: sample_client_def retry_config_default_def arith_add_def)
  then show ?thesis using loop [of 4 0 3] by (simp add: rpc_call_def del: call_loop.simps)
qed

lemma chain_view:
  "view_access_key oc chain_io sample_client chain_dv a pk (RefFinality FinalityFinal) net =
     Done (Inr \<lparr>akv_nonce = cw_view (net_world net), akv_permission = AkvFullAccess, akv_block_height = 1, akv_block_hash = replicate 32 0\<rparr>,
       net\<lparr>net_id := net_id net + 1, net_world := chain_advance (net_world net)\<rparr>)"
proof -
  let ?ps = "merge_block_reference crypto_ref (JObj [(''account_id'', JStr a), (''public_key'', JStr (public_key_display crypto_ref pk))])
    (RefFinality FinalityFinal)"
  have "chain_request (json_rpc_request i m ?ps) = [0]" for i m
    by (simp add: chain_request_def json_rpc_request_def json_get_def merge_block_reference_def json_extend_def)
  then have "try_call chain_io (cl_url sample_client) (de_key chain_dv) m ?ps (net_id net) (net_world net) =
      Done (Inr \<lparr>akv_nonce = cw_view (net_world net), akv_permission = AkvFullAccess, akv_block_height = 1, akv_block_hash = replicate 32 0\<rparr>,
        chain_advance (net_world net))" for m
    by (simp add: chain_try chain_post_def chain_reply_def chain_read chain_dv_def)
  from chain_call [OF this] show ?thesis by (simp add: view_access_key_def rpc_map_err_def)
qed

text \<open>The transactions that this node must not refuse for another reason than their nonce.\<close>

definition chain_valid :: "signed_transaction \<Rightarrow> bool" where
  "chain_valid s \<longleftrightarrow> signed_transaction_ok borsh_le crypto_ref s \<and> ser_transaction borsh_le (st_transaction s) \<noteq> None \<and> verifies s"

lemma chain_send:
  fixes net :: "chain_world net"
  defines "w \<equiv> net_world net"
  assumes "chain_valid s" "tx_signer_id (st_transaction s) = cw_account w" "tx_public_key (st_transaction s) = cw_key w"
    and "unat (tx_nonce (st_transaction s)) < chain_limit w"
  shows "\<exists>a. send_tx oc borsh_le chain_io sample_client chain_dv s status net =
      Done (a, net\<lparr>net_id := net_id net + 1, net_world := chain_advance (if cw_nonce w < tx_nonce (st_transaction s)
        then w\<lparr>cw_nonce := tx_nonce (st_transaction s)\<rparr> else w)\<rparr>) \<and>
    (if cw_nonce w < tx_nonce (st_transaction s) then \<exists>response. a = Inr response
     else a = Inl (nonce_rejection (cw_nonce w) (tx_nonce (st_transaction s))))"
proof -
  let ?tn = "tx_nonce (st_transaction s)"
  let ?w = "chain_advance (if cw_nonce w < ?tn then w\<lparr>cw_nonce := ?tn\<rparr> else w)"
  obtain bs where bs: "ser_signed_transaction borsh_le s = Some bs"
    using assms(2) by (auto simp: chain_valid_def ser_signed_transaction_def ser_signature_def)
  then obtain h where h: "signed_get_hash borsh_le crypto_ref s = Done h"
    using assms(2) by (auto simp: signed_get_hash_def tx_get_hash_def chain_valid_def)
  have t: "signed_to_base64 borsh_le crypto_ref s = Done (b64_encode crypto_ref bs)"
    using bs by (simp add: signed_to_base64_def signed_to_bytes_def)
  have dec: "signed_from_bytes borsh_le crypto_ref bs = Inr s"
    using wire_env.signed_transaction_rt [OF wire_env.intro [OF le.borsh_laws_axioms]] assms(2) bs
    by (simp add: signed_from_bytes_def chain_valid_def)
  let ?ps = "JObj [(''signed_tx_base64'', JStr (b64_encode crypto_ref bs)), (''wait_until'', JStr (status_as_str status))]"
  have req: "chain_request (json_rpc_request i m ?ps) = 1 # bs" for i m
    by (simp add: chain_request_def json_rpc_request_def json_get_def)
  have tc: "try_call chain_io (cl_url sample_client) (de_raw_tx chain_dv) m ?ps (net_id net) w =
      Done (if cw_nonce w < ?tn then Inr \<lparr>rt_transaction_hash = [], rt_final_execution_status = StNone, rt_outcome = None\<rparr>
        else Inl (nonce_rejection (cw_nonce w) ?tn), ?w)" for m
    using assms(2-5) not_le [of ?tn "cw_nonce w"]
    by (simp add: chain_try req chain_post_def dec chain_reply_def chain_read chain_dv_def send_dv_def chain_valid_def Let_def)
  have "rpc_call oc chain_io sample_client (de_raw_tx chain_dv) m ?ps net =
      Done (if cw_nonce w < ?tn then Inr \<lparr>rt_transaction_hash = [], rt_final_execution_status = StNone, rt_outcome = None\<rparr>
        else Inl (nonce_rejection (cw_nonce w) ?tn), net\<lparr>net_id := net_id net + 1, net_world := ?w\<rparr>)" for m
    using tc unfolding w_def by (intro chain_call) (auto split: if_splits)
  then show ?thesis using h t by (cases "cw_nonce w < ?tn") (simp_all add: send_tx_def)
qed

lemma chain_reach_bounds: "unat (cw_nonce w) \<le> chain_reach w" "n \<in> set (cw_others w) \<Longrightarrow> unat n \<le> chain_reach w"
proof -
  have "unat x \<le> foldr (\<lambda>n m. max (unat n) m) ns (unat x)" for x :: u64 and ns :: "u64 list" by (induction ns) auto
  then show "unat (cw_nonce w) \<le> chain_reach w" by (simp add: chain_reach_def)
  have "n \<in> set ns \<Longrightarrow> unat n \<le> foldr (\<lambda>n m. max (unat n) m) ns m" for n :: u64 and ns :: "u64 list" and m by (induction ns) auto
  then show "n \<in> set (cw_others w) \<Longrightarrow> unat n \<le> chain_reach w" by (simp add: chain_reach_def)
qed

lemma chain_reach_advance: "chain_reach (chain_advance w) \<le> chain_reach w"
proof -
  have "foldr (\<lambda>n m. max (unat n) m) ns (unat (max x y)) = max (unat y) (foldr (\<lambda>n m. max (unat n) m) ns (unat x))"
    for x y :: u64 and ns :: "u64 list"
    by (induction ns) (auto simp: max_def word_le_nat_alt)
  then show ?thesis by (auto simp: chain_reach_def chain_advance_def split: list.split)
qed

lemma chain_advance_laws:
  defines "chain_nonce \<equiv> \<lambda>net. cw_nonce (net_world net)"
  assumes "net' = net\<lparr>net_id := i, net_world := chain_advance (net_world net)\<rparr>"
  shows "others_only chain_nonce (\<lambda>net. chain_limit (net_world net)) (\<lambda>net. length (cw_others (net_world net)))
      (\<lambda>net. chain_reach (net_world net)) net net'"
    and "cw_nonce (net_world net) \<le> chain_nonce net'"
  using assms chain_reach_advance
  by (auto simp: others_only_def chain_limit_def chain_advance_def split: list.split)

lemma chain_sane_advance:
  "chain_sane acct key (net\<lparr>net_id := i, net_world := chain_advance w\<rparr>) \<longleftrightarrow>
     cw_account w = acct \<and> cw_key w = key \<and> chain_limit w \<le> 2 ^ 64"
  by (auto simp: chain_sane_def chain_advance_def chain_limit_def Let_def split: list.split)

interpretation small_chain: chain_node chain_env sample_client acct key "\<lambda>net. cw_nonce (net_world net)"
  "\<lambda>net. chain_limit (net_world net)" "\<lambda>net. length (cw_others (net_world net))" "\<lambda>net. chain_reach (net_world net)"
  chain_valid "chain_sane acct key" for acct key
proof unfold_locales
  fix net :: "chain_world net" and s :: signed_transaction and status
  assume sane: "chain_sane acct key net"
  let ?net = "net\<lparr>net_id := net_id net + 1, net_world := chain_advance (net_world net)\<rparr>"
  note adv = chain_advance_laws [of ?net net "net_id net + 1", OF refl]
  note w = sane [unfolded chain_sane_def Let_def]
  show "unat (cw_nonce (net_world net)) \<le> chain_reach (net_world net) \<and> chain_limit (net_world net) \<le> 2 ^ 64"
    using w chain_reach_bounds(1) by simp
  have "cw_view (net_world net) \<le> cw_nonce (net_world ?net)" using w adv(2) by (meson order_trans)
  then show "\<exists>ak net'. view_access_key (env_oc chain_env) (env_io chain_env) sample_client (env_dv chain_env) acct key
         (RefFinality FinalityFinal) net = Done (Inr ak, net') \<and> chain_sane acct key net' \<and>
         akv_nonce ak \<le> cw_nonce (net_world net') \<and> crypto_hash_ok (akv_block_hash ak) \<and>
         others_only (\<lambda>net. cw_nonce (net_world net)) (\<lambda>net. chain_limit (net_world net)) (\<lambda>net. length (cw_others (net_world net)))
           (\<lambda>net. chain_reach (net_world net)) net net'"
    using adv(1) w by (simp add: chain_view crypto_hash_ok_def chain_sane_advance)
  show "\<exists>a net'. send_tx (env_oc chain_env) (env_bo chain_env) (env_io chain_env) sample_client (env_dv chain_env) s status net = Done (a, net') \<and>
         chain_sane acct key net' \<and>
         (if cw_nonce (net_world net) < tx_nonce (st_transaction s) then \<exists>response. a = Inr response
          else a = Inl (nonce_rejection (cw_nonce (net_world net)) (tx_nonce (st_transaction s))) \<and>
            others_only (\<lambda>net. cw_nonce (net_world net)) (\<lambda>net. chain_limit (net_world net)) (\<lambda>net. length (cw_others (net_world net)))
              (\<lambda>net. chain_reach (net_world net)) net net')"
    if tx: "tx_signer_id (st_transaction s) = acct" "tx_public_key (st_transaction s) = key" "chain_valid s"
      "unat (tx_nonce (st_transaction s)) < chain_limit (net_world net)"
    using chain_send [of s net True status] tx w adv(1)
    by (cases "cw_nonce (net_world net) < tx_nonce (st_transaction s)")
       (auto simp: chain_sane_advance chain_limit_def)
qed

text \<open>A transaction that this node has accepted, it does not accept again.\<close>

lemma chain_no_replay:
  assumes "chain_sane acct key net" "tx_signer_id (st_transaction s) = acct" "tx_public_key (st_transaction s) = key" "chain_valid s"
    and "unat (tx_nonce (st_transaction s)) < chain_limit (net_world net)"
    and "send_tx oc borsh_le chain_io sample_client chain_dv s status net = Done (Inr response, net')"
  shows "\<exists>ak net''. send_tx oc borsh_le chain_io sample_client chain_dv s status net' = Done (Inl (nonce_rejection ak (tx_nonce (st_transaction s))), net'')"
proof -
  let ?w = "(net_world net)\<lparr>cw_nonce := tx_nonce (st_transaction s)\<rparr>"
  have lt: "cw_nonce (net_world net) < tx_nonce (st_transaction s)"
    and n: "net' = net\<lparr>net_id := net_id net + 1, net_world := chain_advance ?w\<rparr>"
    using chain_send [of s net oc status] assms by (auto simp: chain_sane_def Let_def split: if_splits)
  have "tx_nonce (st_transaction s) \<le> cw_nonce (chain_advance ?w)" "cw_account (chain_advance ?w) = acct"
    "cw_key (chain_advance ?w) = key" "chain_limit (chain_advance ?w) = chain_limit (net_world net)"
    using assms(1) by (auto simp: chain_advance_def chain_sane_def chain_limit_def Let_def split: list.split)
  then show ?thesis using chain_send [of s net' oc status] assms(2-5) n by auto
qed

subsection \<open>A builder that meets it\<close>

definition alice_key :: public_key where
  "alice_key = PublicKey_Ed25519 (replicate 32 1)"

definition busy_chain :: "chain_world tx_state" where
  "busy_chain = \<lparr>ts_net = \<lparr>net_id = 0, net_world =
       \<lparr>cw_account = ''alice.near'', cw_key = alice_key, cw_nonce = 9, cw_view = 5, cw_height = 7, cw_others = [11, 14]\<rparr>, net_slept = []\<rparr>,
     ts_nonces = nonce_manager_new, ts_signers = (\<lambda>_. alice_signer)\<rparr>"

lemma busy_chain_facts:
  "chain_sane ''alice.near'' alice_key (ts_net busy_chain)" "length (cw_others (net_world (ts_net busy_chain))) = 2"
  "\<not> poisoned (ts_nonces busy_chain)" "unat (handed_out busy_chain send_builder ''alice.near'' alice_key) \<le> 14"
  "chain_reach (net_world (ts_net busy_chain)) \<le> 14" "chain_limit (net_world (ts_net busy_chain)) = 7000000"
  by (simp_all add: busy_chain_def chain_sane_def chain_limit_def chain_reach_def nonce_manager_new_def last_nonce_def Let_def)

lemma alice_holds: "holds_key crypto_ref (ts_signers busy_chain 0) ''alice.near'' alice_key"
  by (simp add: holds_key_def busy_chain_def alice_signer_def alice_key_def in_memory_key_def signing_key_new_def signing_key_ok_def
      crypto_ref_def)

lemma send_builder_facts:
  "tb_actions send_builder = [Transfer 5]" "tb_receiver_id send_builder = ''bob.near''" "tb_rpc send_builder = sample_client"
  "builder_signer send_builder = Inr 0" "tb_max_nonce_retries send_builder = 3"
  by (simp_all add: send_builder_def add_action_def transaction_builder_new_def builder_signer_def)

lemma alice_signature_ok:
  "signature_verify crypto_ref sig h alice_key \<Longrightarrow> signature_ok sig"
  by (cases "(crypto_ref, sig, h, alice_key)" rule: signature_verify.cases)
     (auto simp: alice_key_def crypto_ref_def signature_ok_def)

lemma alice_valid: "builder_valid chain_env send_builder ''alice.near'' alice_key chain_valid"
proof -
  have "chain_valid s" if s: "signed_for chain_env send_builder ''alice.near'' s" "tx_public_key (st_transaction s) = alice_key"
    "crypto_hash_ok (tx_block_hash (st_transaction s))" for s
  proof -
    let ?tx = "st_transaction s"
    have f: "tx_signer_id ?tx = ''alice.near''" "tx_receiver_id ?tx = ''bob.near''" "tx_actions ?tx = [Transfer 5]" "verifies s"
      using s(1) by (auto simp: signed_for_def verifies_def Let_def send_builder_facts split: run.splits)
    have "signature_ok (st_signature s)"
      using s(1,2) alice_signature_ok by (auto simp: signed_for_def Let_def split: run.splits)
    moreover have "ser_transaction borsh_le ?tx \<noteq> None"
      using f by (simp add: ser_transaction_def borsh_le_def
        enc_list_def cat.simps le_enc_str_def le_enc_bytes_def le_enc_len_def ser_public_key_def ser_crypto_hash_def)
    moreover have "transaction_ok borsh_le crypto_ref ?tx"
      using f s(2,3) by (simp add: transaction_ok_def alice_key_def crypto_ref_def borsh_le_def sample_accounts)
    ultimately show ?thesis using f(4) by (simp add: chain_valid_def signed_transaction_ok_def)
  qed
  then show ?thesis by (simp add: builder_valid_def)
qed

theorem send_accepted_witness:
  "\<exists>tr response st'. send chain_env Submitted send_builder busy_chain = Done (level_convert crypto_ref Submitted response ''alice.near'', st') \<and>
     sends chain_env send_builder 0 ''alice.near'' Submitted 0 None busy_chain tr (level_convert crypto_ref Submitted response ''alice.near'') st' \<and>
     length tr \<le> 4"
proof -
  have "\<exists>tr response st'. send chain_env Submitted send_builder busy_chain = Done (level_convert (tx_cr chain_env) Submitted response ''alice.near'', st') \<and>
     sends chain_env send_builder 0 ''alice.near'' Submitted 0 None busy_chain tr (level_convert (tx_cr chain_env) Submitted response ''alice.near'') st' \<and>
     tr \<noteq> [] \<and> snd (last tr) = Inr response \<and> length tr \<le> length (cw_others (net_world (ts_net busy_chain))) + 2"
    by (rule send_accepted [of chain_env send_builder "''alice.near''" alice_key "\<lambda>net. cw_nonce (net_world net)"
          "\<lambda>net. chain_limit (net_world net)" "\<lambda>net. length (cw_others (net_world net))" "\<lambda>net. chain_reach (net_world net)"
          chain_valid "chain_sane ''alice.near'' alice_key" 0 busy_chain 14 Submitted])
       (use small_chain.chain_node_axioms signature_laws_ref sample_serializable alice_valid alice_holds busy_chain_facts in
         \<open>simp_all add: send_builder_facts\<close>)
  then show ?thesis unfolding chain_env_simps chain_io_simps busy_chain_facts(2) by fastforce
qed

end
