(* ===== verification/Rust_Split.thy ===== *)
theory Rust_Split
  imports Rust_Str
begin

text \<open>
  Further operations of the Rust standard library on strings and slices: splitting at the last
  occurrence of a character, at the first of several characters, and into chunks.
\<close>

section \<open>Operations\<close>

definition rsplit_once :: "char \<Rightarrow> str \<Rightarrow> (str \<times> str) option" where
  "rsplit_once c s = map_option (\<lambda>(a, b). (rev b, rev a)) (split_once c (rev s))"

text \<open>\<open>s.split_at(s.find(cs).unwrap_or(s.len()))\<close>\<close>

definition split_at_any :: "char list \<Rightarrow> str \<Rightarrow> str \<times> str" where
  "split_at_any cs s = (takeWhile (\<lambda>c. c \<notin> set cs) s, dropWhile (\<lambda>c. c \<notin> set cs) s)"

text \<open>\<open>slice.chunks(n)\<close>; a chunk size of 0 panics, which the callers with constant sizes avoid.\<close>

fun chunks :: "nat \<Rightarrow> 'a list \<Rightarrow> 'a list list" where
  "chunks n [] = []"
| "chunks n (x # xs) = (if n = 0 then [] else take n (x # xs) # chunks n (drop n (x # xs)))"

section \<open>Lemmas\<close>

lemma rsplit_once_append [simp]: "c \<notin> set t \<Longrightarrow> rsplit_once c (s @ c # t) = Some (s, t)"
  by (simp add: rsplit_once_def)

lemma rsplit_once_None [simp]: "c \<notin> set s \<Longrightarrow> rsplit_once c s = None"
  by (simp add: rsplit_once_def)

lemma rsplit_once_SomeD: "rsplit_once c s = Some (a, b) \<Longrightarrow> s = a @ c # b \<and> c \<notin> set b"
proof -
  assume "rsplit_once c s = Some (a, b)"
  then have "split_once c (rev s) = Some (rev b, rev a)" by (auto simp: rsplit_once_def)
  from split_once_SomeD [OF this] have "rev (rev s) = rev (rev b @ c # rev a)" "c \<notin> set b" by simp_all
  then show ?thesis by simp
qed

lemma rsplit_once_NoneD: "rsplit_once c s = None \<Longrightarrow> c \<notin> set s"
proof
  assume none: "rsplit_once c s = None" and "c \<in> set s"
  then obtain a b where "s = a @ c # b" "c \<notin> set b" by (meson split_list_last)
  then show False using none by simp
qed

lemma split_at_any_append:
  "list_all (\<lambda>c. c \<notin> set cs) s \<Longrightarrow> t = [] \<or> hd t \<in> set cs \<Longrightarrow> split_at_any cs (s @ t) = (s, t)"
  by (cases t) (auto simp: split_at_any_def list_all_iff takeWhile_append dropWhile_append)

lemma split_at_any_parts:
  assumes "split_at_any cs s = (a, b)"
  shows "s = a @ b" and "list_all (\<lambda>c. c \<notin> set cs) a" and "b = [] \<or> hd b \<in> set cs"
proof -
  have ab: "a = takeWhile (\<lambda>c. c \<notin> set cs) s" "b = dropWhile (\<lambda>c. c \<notin> set cs) s" using assms by (simp_all add: split_at_any_def)
  show "s = a @ b" using ab by simp
  show "list_all (\<lambda>c. c \<notin> set cs) a" using ab by (auto simp: list_all_iff dest: set_takeWhileD)
  show "b = [] \<or> hd b \<in> set cs" using ab hd_dropWhile [of "\<lambda>c. c \<notin> set cs" s] by blast
qed

lemma concat_chunks: "0 < n \<Longrightarrow> concat (chunks n xs) = xs"
  by (induction n xs rule: chunks.induct) simp_all

lemma chunks_bounds: "c \<in> set (chunks n xs) \<Longrightarrow> 0 < length c \<and> length c \<le> n"
  by (induction n xs rule: chunks.induct) (auto split: if_splits)

end
