(* ===== verification/Sandbox.thy ===== *)
theory Sandbox
  imports Near_Client Rust_Split
begin

text \<open>
  The sandbox for tests (\<open>sandbox.rs\<close>): the image and its environment, the builder, the shared
  instance behind a process-wide cell, and the operations that patch the state of a running node.
  Docker (the crate \<open>testcontainers\<close>) is a parameter: a function that starts a container of an image and
  gives its id, host and port, or fails. The environment of the process is a function from names to
  values.
\<close>

section \<open>The image\<close>

record sandbox_image =
  si_image_name :: string
  si_tag :: string
  si_env_vars :: "(string \<times> string) list"

definition DEFAULT_IMAGE :: string where "DEFAULT_IMAGE = ''nearprotocol/sandbox''"
definition DEFAULT_VERSION :: string where "DEFAULT_VERSION = ''2.13.0-rc.2''"

text \<open>The name and the tag that the variable \<open>NEAR_SANDBOX_IMAGE\<close> gives.\<close>

definition image_ref :: "string option \<Rightarrow> string \<Rightarrow> string \<times> string" where
  "image_ref image_var version =
     (case image_var of
        Some s \<Rightarrow>
          let val = trim s in
          if val = [] then (DEFAULT_IMAGE, version)
          else (case rsplit_once CHR '':'' val of
                  Some (name, tag) \<Rightarrow> if name \<noteq> [] \<and> tag \<noteq> [] then (name, tag) else (val, version)
                | None \<Rightarrow> (val, version))
      | None \<Rightarrow> (DEFAULT_IMAGE, version))"

definition sandbox_image_new :: "(string \<Rightarrow> string option) \<Rightarrow> string \<Rightarrow> sandbox_image" where
  "sandbox_image_new var version =
     (case image_ref (var ''NEAR_SANDBOX_IMAGE'') version of (name, tag) \<Rightarrow>
       \<lparr>si_image_name = name, si_tag = tag, si_env_vars = [(''NEAR_ENABLE_SANDBOX_LOG'', ''1'')]\<rparr>)"

definition with_account_id :: "string \<Rightarrow> sandbox_image \<Rightarrow> sandbox_image" where
  "with_account_id a i = i\<lparr>si_env_vars := si_env_vars i @ [(''NEAR_ROOT_ACCOUNT'', a)]\<rparr>"

definition with_chain_id :: "string \<Rightarrow> sandbox_image \<Rightarrow> sandbox_image" where
  "with_chain_id c i = i\<lparr>si_env_vars := si_env_vars i @ [(''NEAR_CHAIN_ID'', c)]\<rparr>"

section \<open>Starting a sandbox\<close>

record container =
  co_id :: string
  co_host :: "string option"
  co_port :: "u16 option"

type_synonym 'c container_runtime = "sandbox_image \<Rightarrow> 'c \<Rightarrow> container option \<times> 'c"

record sandbox =
  sb_container_id :: string
  sb_rpc_url :: string
  sb_root_account :: string
  sb_chain_id :: "string option"

definition SANDBOX_ROOT_ACCOUNT :: string where "SANDBOX_ROOT_ACCOUNT = ''sandbox''"
definition SANDBOX_ROOT_SECRET_KEY :: string where
  "SANDBOX_ROOT_SECRET_KEY =
     ''ed25519:3JoAjwLppjgvxkk6kNsu5wQj3FfUJnpBKWieC73hVTpBeA6FZiCc5tfyZL3a3tHeQJegQe4qGSv8FLsYp7TYd1r6''"

definition start_image :: "(string \<Rightarrow> string option) \<Rightarrow> string \<Rightarrow> string \<Rightarrow> string option \<Rightarrow> sandbox_image" where
  "start_image var version root_account chain_id =
     (let image = with_account_id root_account (sandbox_image_new var version) in
      case chain_id of Some i \<Rightarrow> with_chain_id i image | None \<Rightarrow> image)"

definition sandbox_start ::
  "(string \<Rightarrow> string option) \<Rightarrow> 'c container_runtime \<Rightarrow> string \<Rightarrow> string \<Rightarrow> string option \<Rightarrow> 'c \<Rightarrow> (sandbox \<times> 'c) run" where
  "sandbox_start var docker version root_account chain_id c =
     (case docker (start_image var version root_account chain_id) c of (started, c) \<Rightarrow>
      run_bind (expect started) (\<lambda>container.
      run_bind (expect (co_host container)) (\<lambda>host.
      run_bind (expect (co_port container)) (\<lambda>host_port.
        Done (\<lparr>sb_container_id = co_id container, sb_rpc_url = ''http://'' @ host @ '':'' @ show_word host_port,
               sb_root_account = root_account, sb_chain_id = chain_id\<rparr>, c)))))"

section \<open>Configuration\<close>

record sandbox_builder =
  sbb_version :: "string option"
  sbb_root_account :: "string option"
  sbb_chain_id :: "string option"

definition sandbox_builder_new :: sandbox_builder where
  "sandbox_builder_new = \<lparr>sbb_version = None, sbb_root_account = None, sbb_chain_id = None\<rparr>"

definition sbb_set_version :: "string \<Rightarrow> sandbox_builder \<Rightarrow> sandbox_builder" where
  "sbb_set_version v b = b\<lparr>sbb_version := Some v\<rparr>"

definition sbb_set_root_account :: "string + account_id \<Rightarrow> sandbox_builder \<Rightarrow> sandbox_builder run" where
  "sbb_set_root_account name b = run_bind (expect (ok_opt name)) (\<lambda>a. Done (b\<lparr>sbb_root_account := Some a\<rparr>))"

definition sbb_set_chain_id :: "string \<Rightarrow> sandbox_builder \<Rightarrow> sandbox_builder run" where
  "sbb_set_chain_id c b = (if c = ''mainnet'' \<or> c = ''testnet'' then Panic else Done (b\<lparr>sbb_chain_id := Some c\<rparr>))"

definition or_default :: "'a option \<Rightarrow> 'a \<Rightarrow> 'a" where
  "or_default x d = (case x of Some v \<Rightarrow> v | None \<Rightarrow> d)"

definition sandbox_fresh ::
  "(string \<Rightarrow> string option) \<Rightarrow> 'c container_runtime \<Rightarrow> sandbox_builder \<Rightarrow> 'c \<Rightarrow> (sandbox \<times> 'c) run" where
  "sandbox_fresh var docker b c =
     sandbox_start var docker (or_default (sbb_version b) DEFAULT_VERSION)
       (or_default (sbb_root_account b) SANDBOX_ROOT_ACCOUNT) (sbb_chain_id b) c"

text \<open>The state of the process: the cell of the shared sandbox, the exit handlers that were
  registered, and Docker.\<close>

record 'c sandbox_process =
  sp_shared :: "sandbox option"
  sp_exit_handlers :: nat
  sp_docker :: 'c

definition sandbox_shared ::
  "(string \<Rightarrow> string option) \<Rightarrow> 'c container_runtime \<Rightarrow> sandbox_builder \<Rightarrow> 'c sandbox_process \<Rightarrow> (sandbox \<times> 'c sandbox_process) run" where
  "sandbox_shared var docker b p =
     (case sp_shared p of
        Some s \<Rightarrow> Done (s, p)
      | None \<Rightarrow>
          run_bind (sandbox_fresh var docker b (sp_docker p)) (\<lambda>(s, c).
            Done (s, \<lparr>sp_shared = Some s, sp_exit_handlers = sp_exit_handlers p + 1, sp_docker = c\<rparr>)))"

text \<open>\<open>SandboxConfig\<close>: the defaults.\<close>

definition config_shared ::
  "(string \<Rightarrow> string option) \<Rightarrow> 'c container_runtime \<Rightarrow> 'c sandbox_process \<Rightarrow> (sandbox \<times> 'c sandbox_process) run" where
  "config_shared var docker p = sandbox_shared var docker sandbox_builder_new p"

definition config_fresh ::
  "(string \<Rightarrow> string option) \<Rightarrow> 'c container_runtime \<Rightarrow> 'c \<Rightarrow> (sandbox \<times> 'c) run" where
  "config_fresh var docker c = sandbox_start var docker DEFAULT_VERSION SANDBOX_ROOT_ACCOUNT None c"

text \<open>The command that an exit handler runs.\<close>

definition cleanup_shared_sandbox :: "'c sandbox_process \<Rightarrow> string list option" where
  "cleanup_shared_sandbox p = map_option (\<lambda>s. [''docker'', ''rm'', ''-f'', ''-v'', sb_container_id s]) (sp_shared p)"

section \<open>Operations on a running sandbox\<close>

definition sandbox_client ::
  "crypto_ops \<Rightarrow> serde_ops \<Rightarrow> signer_ref \<Rightarrow> sandbox \<Rightarrow> signer_store \<Rightarrow> (near \<times> signer_store) run" where
  "sandbox_client cr sd r s store =
     near_sandbox cr sd r (sb_rpc_url s) (sb_root_account s) SANDBOX_ROOT_SECRET_KEY (sb_chain_id s) store"

definition view_account_params :: "account_id \<Rightarrow> json" where
  "view_account_params account_id =
     JObj [(''finality'', JStr ''optimistic''), (''request_type'', JStr ''view_account''), (''account_id'', JStr account_id)]"

definition patched_account :: "near_token \<Rightarrow> json \<Rightarrow> json" where
  "patched_account balance v =
     (case v of JObj m \<Rightarrow> JObj (json_insert ''amount'' (JStr (show_word balance)) m) | _ \<Rightarrow> v)"

definition patch_records :: "account_id \<Rightarrow> json \<Rightarrow> json" where
  "patch_records account_id account =
     JArr [JObj [(''Account'', JObj [(''account_id'', JStr account_id), (''account'', account)])]]"

text \<open>The polls that are left; an error of a poll counts as a balance that is not there yet.\<close>

fun await_balance ::
  "bool \<Rightarrow> 'w rpc_io \<Rightarrow> view_de \<Rightarrow> near \<Rightarrow> account_id \<Rightarrow> near_token \<Rightarrow> nat \<Rightarrow> 'w net \<Rightarrow> ('w, unit) query_result" where
  "await_balance oc io dv near account_id balance 0 st = Done (Inr (), st)"
| "await_balance oc io dv near account_id balance (Suc n) st =
     run_bind (near_query near (Inr account_id)) (\<lambda>q.
     run_bind (account_query oc io dv q st) (\<lambda>(r, st).
       if (case r of Inr account \<Rightarrow> av_amount account = balance | Inl _ \<Rightarrow> False) then Done (Inr (), st)
       else await_balance oc io dv near account_id balance n (st\<lparr>net_slept := net_slept st @ [100]\<rparr>)))"

definition query_bind :: "('w, 'a) rpc_result \<Rightarrow> ('a \<Rightarrow> 'w net \<Rightarrow> ('w, 'b) query_result) \<Rightarrow> ('w, 'b) query_result" where
  "query_bind m f = run_bind m (\<lambda>(r, st). case r of Inl e \<Rightarrow> Done (Inl (Err_Rpc e), st) | Inr x \<Rightarrow> f x st)"

definition set_balance ::
  "bool \<Rightarrow> 'w rpc_io \<Rightarrow> view_de \<Rightarrow> near \<Rightarrow> account_id \<Rightarrow> near_token \<Rightarrow> 'w net \<Rightarrow> ('w, unit) query_result" where
  "set_balance oc io dv near account_id balance st =
     query_bind (rpc_call oc io (nr_rpc near) Inr ''query'' (view_account_params account_id) st) (\<lambda>account_response st.
     query_bind (sandbox_patch_state oc io (nr_rpc near)
         (patch_records account_id (patched_account balance account_response)) st) (\<lambda>_ st.
       await_balance oc io dv near account_id balance 50 st))"

definition sandbox_set_balance ::
  "bool \<Rightarrow> 'w rpc_io \<Rightarrow> view_de \<Rightarrow> signer_ref \<Rightarrow> sandbox \<Rightarrow> account_id \<Rightarrow> near_token \<Rightarrow> signer_store \<Rightarrow> 'w net
     \<Rightarrow> ('w, unit) query_result" where
  "sandbox_set_balance oc io dv r s account_id balance store st =
     run_bind (sandbox_client (io_cr io) (env_sd (io_env io)) r s store) (\<lambda>(near, store).
       set_balance oc io dv near account_id balance st)"

definition fast_forward ::
  "bool \<Rightarrow> 'w rpc_io \<Rightarrow> signer_ref \<Rightarrow> sandbox \<Rightarrow> u64 \<Rightarrow> signer_store \<Rightarrow> 'w net \<Rightarrow> ('w, unit) query_result" where
  "fast_forward oc io r s delta_height store st =
     run_bind (sandbox_client (io_cr io) (env_sd (io_env io)) r s store) (\<lambda>(near, store).
       try_rpc (sandbox_fast_forward oc io (nr_rpc near) delta_height st) Inr)"

section \<open>Properties\<close>

text \<open>A sequence of requests for the shared sandbox, each with its own options.\<close>

fun shared_calls ::
  "(string \<Rightarrow> string option) \<Rightarrow> 'c container_runtime \<Rightarrow> sandbox_builder list \<Rightarrow> 'c sandbox_process
     \<Rightarrow> (sandbox list \<times> 'c sandbox_process) run" where
  "shared_calls var docker [] p = Done ([], p)"
| "shared_calls var docker (b # bs) p =
     run_bind (sandbox_shared var docker b p) (\<lambda>(s, p).
     run_bind (shared_calls var docker bs p) (\<lambda>(ss, p). Done (s # ss, p)))"

lemma shared_calls_set: "sp_shared p = Some s \<Longrightarrow> shared_calls var docker bs p = Done (replicate (length bs) s, p)"
  by (induction bs) (simp_all add: sandbox_shared_def)

lemma sandbox_start_names:
  assumes "sandbox_start var docker v root ch c = Done (s, c')"
  shows "sb_root_account s = root" "sb_chain_id s = ch"
  using assms by (auto simp: sandbox_start_def split: prod.splits)

text \<open>C20: However many tests ask for the shared sandbox and with whatever options, one container is
  started, with the options of the first request; all get the same sandbox, one exit handler
  removes it, and every request after the first leaves the process unchanged. The sandbox carries
  the requested root account and chain id, and the variables of its container name exactly
  these.\<close>

theorem shared_sandbox_once:
  assumes "sp_shared p = None" "shared_calls var docker (b # bs) p = Done (ss, p')"
  shows "\<exists>s c. sandbox_fresh var docker b (sp_docker p) = Done (s, c) \<and> ss = replicate (length (b # bs)) s \<and>
    p' = \<lparr>sp_shared = Some s, sp_exit_handlers = sp_exit_handlers p + 1, sp_docker = c\<rparr> \<and>
    c = snd (docker (start_image var (or_default (sbb_version b) DEFAULT_VERSION) (sb_root_account s) (sb_chain_id s)) (sp_docker p)) \<and>
    sb_root_account s = or_default (sbb_root_account b) SANDBOX_ROOT_ACCOUNT \<and> sb_chain_id s = sbb_chain_id b \<and>
    map_of (si_env_vars (start_image var (or_default (sbb_version b) DEFAULT_VERSION) (sb_root_account s) (sb_chain_id s))) =
      [''NEAR_ENABLE_SANDBOX_LOG'' \<mapsto> ''1'', ''NEAR_ROOT_ACCOUNT'' \<mapsto> sb_root_account s](''NEAR_CHAIN_ID'' := sbb_chain_id b) \<and>
    cleanup_shared_sandbox p' = Some [''docker'', ''rm'', ''-f'', ''-v'', sb_container_id s]"
proof -
  obtain s c where s: "sandbox_fresh var docker b (sp_docker p) = Done (s, c)"
    using assms by (cases "sandbox_fresh var docker b (sp_docker p)") (auto simp: sandbox_shared_def)
  let ?p = "\<lparr>sp_shared = Some s, sp_exit_handlers = sp_exit_handlers p + 1, sp_docker = c\<rparr>"
  have 1: "ss = s # replicate (length bs) s" "p' = ?p"
    using assms s shared_calls_set [of ?p s var docker bs] by (auto simp: sandbox_shared_def)
  have f: "sb_root_account s = or_default (sbb_root_account b) SANDBOX_ROOT_ACCOUNT" "sb_chain_id s = sbb_chain_id b"
    using sandbox_start_names [OF s [unfolded sandbox_fresh_def]] by simp_all
  have "c = snd (docker (start_image var (or_default (sbb_version b) DEFAULT_VERSION) (sb_root_account s) (sb_chain_id s)) (sp_docker p))"
    using s by (auto simp: sandbox_fresh_def sandbox_start_def f split: prod.splits)
  moreover have "map_of (si_env_vars (start_image var v r ch)) =
      [''NEAR_ENABLE_SANDBOX_LOG'' \<mapsto> ''1'', ''NEAR_ROOT_ACCOUNT'' \<mapsto> r](''NEAR_CHAIN_ID'' := ch)" for v r ch
    by (cases ch) (auto simp: start_image_def sandbox_image_new_def with_account_id_def with_chain_id_def Let_def fun_eq_iff split: prod.split)
  ultimately show ?thesis using s 1 f by (simp add: cleanup_shared_sandbox_def)
qed

definition sample_docker :: "nat container_runtime" where
  "sample_docker i n = (Some \<lparr>co_id = show_nat n, co_host = Some ''localhost'', co_port = Some 3030\<rparr>, n + 1)"

theorem shared_sandbox_once_witness:
  "shared_calls (\<lambda>_. None) sample_docker [sbb_set_version ''2.10.5'' sandbox_builder_new, sandbox_builder_new]
     \<lparr>sp_shared = None, sp_exit_handlers = 0, sp_docker = 7\<rparr> =
   Done (replicate 2 \<lparr>sb_container_id = ''7'', sb_rpc_url = ''http://localhost:3030'', sb_root_account = ''sandbox'', sb_chain_id = None\<rparr>,
     \<lparr>sp_shared = Some \<lparr>sb_container_id = ''7'', sb_rpc_url = ''http://localhost:3030'', sb_root_account = ''sandbox'', sb_chain_id = None\<rparr>,
      sp_exit_handlers = 1, sp_docker = 8\<rparr>)"
  (is "shared_calls _ _ [?b, _] ?p = Done (replicate 2 ?s, ?q)")
proof -
  have "show_nat 7 = ''7''" "show_word (3030 :: u16) = ''3030''" by code_simp+
  then have f: "sandbox_fresh (\<lambda>_. None) sample_docker ?b 7 = Done (?s, 8)"
    by (simp add: sandbox_fresh_def sandbox_start_def sample_docker_def sbb_set_version_def sandbox_builder_new_def or_default_def SANDBOX_ROOT_ACCOUNT_def)
  then have "\<exists>ss p'. shared_calls (\<lambda>_. None) sample_docker [?b, sandbox_builder_new] ?p = Done (ss, p')"
    by (simp add: sandbox_shared_def)
  then show ?thesis
    using shared_sandbox_once [of ?p "\<lambda>_. None" sample_docker ?b "[sandbox_builder_new]"] f by (auto simp: numeral_2_eq_2)
qed

text \<open>The polls of a wait and what each of them answered.\<close>

inductive polled ::
  "bool \<Rightarrow> 'w rpc_io \<Rightarrow> view_de \<Rightarrow> near \<Rightarrow> account_id \<Rightarrow> 'w net \<Rightarrow> (near_error + account_view) list \<Rightarrow> 'w net \<Rightarrow> bool"
  for oc io dv near account_id where
  polled_Nil: "polled oc io dv near account_id st [] st"
| polled_last: "account_query oc io dv (query_new (nr_rpc near) account_id) st = Done (r, st1) \<Longrightarrow>
    polled oc io dv near account_id st [r] st1"
| polled_Cons: "account_query oc io dv (query_new (nr_rpc near) account_id) st = Done (r, st1) \<Longrightarrow>
    polled oc io dv near account_id (st1\<lparr>net_slept := net_slept st1 @ [100]\<rparr>) rs st2 \<Longrightarrow>
    polled oc io dv near account_id st (r # rs) st2"

definition shows_balance :: "near_token \<Rightarrow> near_error + account_view \<Rightarrow> bool" where
  "shows_balance balance r \<longleftrightarrow> (case r of Inr account \<Rightarrow> av_amount account = balance | Inl _ \<Rightarrow> False)"

lemma await_balance_polls:
  assumes "await_balance oc io dv near account_id balance n st = Done (x, st')"
  shows "\<exists>rs. polled oc io dv near account_id st rs st' \<and> x = Inr () \<and> length rs \<le> n \<and>
    list_all (\<lambda>r. \<not> shows_balance balance r) (butlast rs) \<and>
    (rs \<noteq> [] \<and> shows_balance balance (last rs) \<or> length rs = n \<and> list_all (\<lambda>r. \<not> shows_balance balance r) rs)"
  using assms
proof (induction n arbitrary: st)
  case 0
  then show ?case by (auto intro!: exI [of _ "[]"] polled_Nil)
next
  case (Suc n)
  obtain r st1 where q: "account_query oc io dv (query_new (nr_rpc near) account_id) st = Done (r, st1)"
    and c: "(if shows_balance balance r then Done (Inr (), st1)
      else await_balance oc io dv near account_id balance n (st1\<lparr>net_slept := net_slept st1 @ [100]\<rparr>)) = Done (x, st')"
    using Suc.prems by (auto simp: near_query_def shows_balance_def)
  show ?case
  proof (cases "shows_balance balance r")
    case True
    then show ?thesis using c q by (intro exI [of _ "[r]"]) (auto intro: polled_last)
  next
    case False
    with c obtain rs where rs: "polled oc io dv near account_id (st1\<lparr>net_slept := net_slept st1 @ [100]\<rparr>) rs st'" "x = Inr ()" "length rs \<le> n"
      "list_all (\<lambda>r. \<not> shows_balance balance r) (butlast rs)"
      "rs \<noteq> [] \<and> shows_balance balance (last rs) \<or> length rs = n \<and> list_all (\<lambda>r. \<not> shows_balance balance r) rs"
      using Suc.IH by auto
    then show ?thesis using False polled_Cons [OF q rs(1)] by (intro exI [of _ "r # rs"]) auto
  qed
qed

lemma patched_account_fields:
  "json_get ''amount'' (patched_account balance (JObj m)) = Some (JStr (show_word balance))"
  "k \<noteq> ''amount'' \<Longrightarrow> json_get k (patched_account balance v) = json_get k v"
  by (simp_all add: patched_account_def json_get_def split: json.split)

text \<open>C39: A balance is set by patching the account record as the node returned it, with the amount and
  nothing else replaced. The operation never reports that the patch had no effect: once the patch
  was accepted it returns success, after a poll that saw the new balance or after fifty polls
  none of which did; only errors of the first query and of the patch are returned.\<close>

theorem set_balance_settles:
  assumes "set_balance oc io dv near account_id balance st = Done (x, st')"
  shows "(\<exists>e. x = Inl (Err_Rpc e) \<and>
      (rpc_call oc io (nr_rpc near) Inr ''query'' (view_account_params account_id) st = Done (Inl e, st') \<or>
       (\<exists>account st1. rpc_call oc io (nr_rpc near) Inr ''query'' (view_account_params account_id) st = Done (Inr account, st1) \<and>
          sandbox_patch_state oc io (nr_rpc near) (patch_records account_id (patched_account balance account)) st1 = Done (Inl e, st')))) \<or>
    (x = Inr () \<and> (\<exists>account st1 st2 rs.
       rpc_call oc io (nr_rpc near) Inr ''query'' (view_account_params account_id) st = Done (Inr account, st1) \<and>
       sandbox_patch_state oc io (nr_rpc near) (patch_records account_id (patched_account balance account)) st1 = Done (Inr (), st2) \<and>
       (\<forall>k. json_get k (patched_account balance account) =
          (if k = ''amount'' \<and> (\<exists>m. account = JObj m) then Some (JStr (show_word balance)) else json_get k account)) \<and>
       polled oc io dv near account_id st2 rs st' \<and> length rs \<le> 50 \<and> list_all (\<lambda>r. \<not> shows_balance balance r) (butlast rs) \<and>
       (rs \<noteq> [] \<and> shows_balance balance (last rs) \<or> length rs = 50 \<and> list_all (\<lambda>r. \<not> shows_balance balance r) rs)))"
proof -
  obtain r st1 where q: "rpc_call oc io (nr_rpc near) Inr ''query'' (view_account_params account_id) st = Done (r, st1)"
    using assms by (cases "rpc_call oc io (nr_rpc near) Inr ''query'' (view_account_params account_id) st")
      (auto simp: set_balance_def query_bind_def)
  show ?thesis
  proof (cases r)
    case (Inl e)
    then show ?thesis using q assms by (auto simp: set_balance_def query_bind_def)
  next
    case (Inr account)
    let ?p = "sandbox_patch_state oc io (nr_rpc near) (patch_records account_id (patched_account balance account)) st1"
    obtain r2 st2 where p: "?p = Done (r2, st2)" using q Inr assms by (cases ?p) (auto simp: set_balance_def query_bind_def)
    show ?thesis
    proof (cases r2)
      case (Inl e)
      then show ?thesis using q Inr p assms \<open>r = Inr account\<close> by (auto simp: set_balance_def query_bind_def)
    next
      case (Inr u)
      then have "await_balance oc io dv near account_id balance 50 st2 = Done (x, st')"
        using q p assms \<open>r = Inr account\<close> by (simp add: set_balance_def query_bind_def del: await_balance.simps)
      note w = await_balance_polls [OF this]
      have "json_get k (patched_account balance account) =
          (if k = ''amount'' \<and> (\<exists>m. account = JObj m) then Some (JStr (show_word balance)) else json_get k account)" for k
        using patched_account_fields by (cases account) (auto simp: patched_account_def)
      then show ?thesis using q p w Inr \<open>r = Inr account\<close> by auto
    qed
  qed
qed

text \<open>The witness: a node that answers the query and both patches, but has no such account afterwards.\<close>

definition sandbox_near :: near where
  "sandbox_near = \<lparr>nr_rpc = sample_client, nr_signer = None, nr_chain_id = ''sandbox'', nr_max_nonce_retries = 3\<rparr>"

definition three_answers :: "(rpc_error + transport_response) list net" where
  "three_answers = \<lparr>net_id = 0, net_world = [ok_response, ok_response, ok_response], net_slept = []\<rparr>"

lemma closed_query:
  "\<exists>e. account_query True rpc_io_ref dv (query_new sample_client a) \<lparr>net_id = i, net_world = [], net_slept = sl\<rparr> =
     Done (Inl e, \<lparr>net_id = i + 1, net_world = [], net_slept = sl\<rparr>)"
proof -
  have "try_call rpc_io_ref (cl_url sample_client) de m ps i [] = Done (Inl (Rpc_Network ''closed'' None False), [])" for de :: "json \<Rightarrow> string + account_view" and m ps
    by (simp add: try_call_def rpc_io_ref_def)
  from canned_call [OF this] show ?thesis
    by (simp add: account_query_def query_new_def try_rpc_def view_account_def)
qed

lemma closed_polls:
  "\<exists>st'. await_balance True rpc_io_ref dv sandbox_near a balance n \<lparr>net_id = i, net_world = [], net_slept = sl\<rparr> = Done (Inr (), st')"
proof (induction n arbitrary: i sl)
  case (Suc n)
  obtain e where "account_query True rpc_io_ref dv (query_new sample_client a) \<lparr>net_id = i, net_world = [], net_slept = sl\<rparr> =
     Done (Inl e, \<lparr>net_id = i + 1, net_world = [], net_slept = sl\<rparr>)" using closed_query by blast
  then show ?case using Suc.IH [of "i + 1" "sl @ [100]"] by (simp add: near_query_def sandbox_near_def)
qed simp

theorem set_balance_settles_witness:
  "\<exists>st' st2 rs. set_balance True rpc_io_ref send_dv sandbox_near ''alice.near'' 5 three_answers = Done (Inr (), st') \<and>
     polled True rpc_io_ref send_dv sandbox_near ''alice.near'' st2 rs st' \<and> length rs \<le> 50"
proof -
  have c: "rpc_call True rpc_io_ref sample_client (Inr :: json \<Rightarrow> string + json) m ps \<lparr>net_id = i, net_world = ok_response # ws, net_slept = sl\<rparr> =
      Done (Inr JNull, \<lparr>net_id = i + 1, net_world = ws, net_slept = sl\<rparr>)" for m ps i ws sl
    using canned_call [where de = "Inr :: json \<Rightarrow> string + json", OF canned_attempt(1)] by simp
  have near: "nr_rpc sandbox_near = sample_client" by (simp add: sandbox_near_def)
  obtain st' where "await_balance True rpc_io_ref send_dv sandbox_near ''alice.near'' 5 50 \<lparr>net_id = 3, net_world = [], net_slept = [100]\<rparr> =
      Done (Inr (), st')" using closed_polls by blast
  then have r: "set_balance True rpc_io_ref send_dv sandbox_near ''alice.near'' 5 three_answers = Done (Inr (), st')"
    by (simp add: set_balance_def query_bind_def sandbox_patch_state_def three_answers_def near c Let_def del: await_balance.simps)
  show ?thesis using set_balance_settles [OF r] r by auto
qed

section \<open>Images with a registry port\<close>

text \<open>The last colon of the variable need not start a tag: without one, the port of a registry and
  the rest of the path become the tag.\<close>

lemma image_ref_registry_port:
  "image_ref (Some ''localhost:5000/sandbox'') version = (''localhost'', ''5000/sandbox'')"
proof -
  have "trim ''localhost:5000/sandbox'' = ''localhost:5000/sandbox''"
    "rsplit_once CHR '':'' ''localhost:5000/sandbox'' = Some (''localhost'', ''5000/sandbox'')" by code_simp+
  then show ?thesis by (simp add: image_ref_def)
qed

end
