(* ===== verification/Call_Builder.thy ===== *)
theory Call_Builder
  imports Tx_Send
begin

text \<open>
  The fluent interface of \<open>client/transaction.rs\<close>: the methods of a call builder, which configure the
  open function call or finish it and go on with the transaction builder, the values that are
  awaited to send, the accessors of a delegate result, and the summary of the actions that is traced.
  Chains of calls are the data type \<open>build_op\<close>.
\<close>

section \<open>The call builder\<close>

definition call_builder_new :: "transaction_builder \<Rightarrow> string \<Rightarrow> call_builder" where
  "call_builder_new b m = \<lparr>cb_builder = b, cb_call = function_call_new m\<rparr>"

definition cb_args :: "string + bytes \<Rightarrow> call_builder \<Rightarrow> call_builder" where
  "cb_args r c = c\<lparr>cb_call := call_set_args r (cb_call c)\<rparr>"

definition cb_args_raw :: "bytes \<Rightarrow> call_builder \<Rightarrow> call_builder" where
  "cb_args_raw bs c = c\<lparr>cb_call := call_set_args_raw bs (cb_call c)\<rparr>"

definition cb_args_borsh :: "bytes option \<Rightarrow> call_builder \<Rightarrow> call_builder" where
  "cb_args_borsh r c = c\<lparr>cb_call := call_set_args_borsh r (cb_call c)\<rparr>"

definition cb_gas :: "parse_gas_error + gas \<Rightarrow> call_builder \<Rightarrow> call_builder run" where
  "cb_gas g c = run_bind (call_set_gas g (cb_call c)) (\<lambda>f. Done (c\<lparr>cb_call := f\<rparr>))"

definition cb_deposit :: "parse_amount_error + near_token \<Rightarrow> call_builder \<Rightarrow> call_builder run" where
  "cb_deposit d c = run_bind (call_set_deposit d (cb_call c)) (\<lambda>f. Done (c\<lparr>cb_call := f\<rparr>))"

definition cb_add_action :: "action \<Rightarrow> call_builder \<Rightarrow> transaction_builder" where
  "cb_add_action a c = add_action a (call_finish c)"

definition cb_call_next :: "string \<Rightarrow> call_builder \<Rightarrow> call_builder" where
  "cb_call_next m c = tb_call m (call_finish c)"

definition cb_create_account :: "call_builder \<Rightarrow> transaction_builder" where
  "cb_create_account c = tb_create_account (call_finish c)"

definition cb_transfer :: "parse_amount_error + near_token \<Rightarrow> call_builder \<Rightarrow> transaction_builder run" where
  "cb_transfer amount c = tb_transfer amount (call_finish c)"

definition cb_deploy :: "bytes \<Rightarrow> call_builder \<Rightarrow> transaction_builder" where
  "cb_deploy code c = tb_deploy code (call_finish c)"

definition cb_add_full_access_key :: "public_key \<Rightarrow> call_builder \<Rightarrow> transaction_builder" where
  "cb_add_full_access_key pk c = tb_add_full_access_key pk (call_finish c)"

definition cb_add_function_call_key ::
  "public_key \<Rightarrow> string + account_id \<Rightarrow> string list \<Rightarrow> near_token option \<Rightarrow> call_builder \<Rightarrow> transaction_builder run" where
  "cb_add_function_call_key pk receiver_id method_names allowance c =
     tb_add_function_call_key pk receiver_id method_names allowance (call_finish c)"

definition cb_delete_key :: "public_key \<Rightarrow> call_builder \<Rightarrow> transaction_builder" where
  "cb_delete_key pk c = tb_delete_key pk (call_finish c)"

definition cb_delete_account :: "string + account_id \<Rightarrow> call_builder \<Rightarrow> transaction_builder run" where
  "cb_delete_account beneficiary_id c = tb_delete_account beneficiary_id (call_finish c)"

definition cb_stake :: "parse_amount_error + near_token \<Rightarrow> public_key \<Rightarrow> call_builder \<Rightarrow> transaction_builder run" where
  "cb_stake amount pk c = tb_stake amount pk (call_finish c)"

definition cb_publish :: "bytes \<Rightarrow> publish_mode \<Rightarrow> call_builder \<Rightarrow> transaction_builder" where
  "cb_publish code mode c = tb_publish code mode (call_finish c)"

definition cb_deploy_from ::
  "(string \<Rightarrow> string + account_id) \<Rightarrow> global_contract_arg \<Rightarrow> call_builder \<Rightarrow> transaction_builder run" where
  "cb_deploy_from parse_acct contract_ref c = tb_deploy_from parse_acct contract_ref (call_finish c)"

definition cb_state_init ::
  "(state_init \<Rightarrow> account_id) \<Rightarrow> state_init \<Rightarrow> parse_amount_error + near_token \<Rightarrow> call_builder \<Rightarrow> transaction_builder run" where
  "cb_state_init derive_account_id si deposit c = tb_state_init derive_account_id si deposit (call_finish c)"

definition cb_sign_with :: "signer_ref \<Rightarrow> call_builder \<Rightarrow> transaction_builder" where
  "cb_sign_with r c = tb_sign_with r (call_finish c)"

definition cb_max_nonce_retries :: "u32 \<Rightarrow> call_builder \<Rightarrow> transaction_builder" where
  "cb_max_nonce_retries n c = max_nonce_retries n (call_finish c)"

definition cb_delegate ::
  "'w tx_env \<Rightarrow> delegate_options \<Rightarrow> call_builder \<Rightarrow> 'w tx_state \<Rightarrow> ('w, delegate_result) tx_result" where
  "cb_delegate env opts c st = delegate env opts (call_finish c) st"

definition cb_sign_offline ::
  "'w tx_env \<Rightarrow> crypto_hash \<Rightarrow> u64 \<Rightarrow> call_builder \<Rightarrow> 'w tx_state \<Rightarrow> ('w, signed_transaction) tx_result" where
  "cb_sign_offline env block_hash nonce c st = sign_offline env block_hash nonce (call_finish c) st"

definition cb_sign :: "'w tx_env \<Rightarrow> call_builder \<Rightarrow> 'w tx_state \<Rightarrow> ('w, signed_transaction) tx_result" where
  "cb_sign env c st = sign env (call_finish c) st"

section \<open>Values that are awaited\<close>

text \<open>The wait level is a type parameter of the Rust structs.\<close>

record transaction_send =
  tsd_builder :: transaction_builder
  tsd_level :: wait_level

definition tb_send :: "transaction_builder \<Rightarrow> transaction_send" where
  "tb_send b = \<lparr>tsd_builder = b, tsd_level = ExecutedOptimistic\<rparr>"

definition send_wait_until :: "wait_level \<Rightarrow> transaction_send \<Rightarrow> transaction_send" where
  "send_wait_until w s = s\<lparr>tsd_level := w\<rparr>"

definition send_max_nonce_retries :: "u32 \<Rightarrow> transaction_send \<Rightarrow> transaction_send" where
  "send_max_nonce_retries n s = s\<lparr>tsd_builder := (tsd_builder s)\<lparr>tb_max_nonce_retries := n\<rparr>\<rparr>"

definition tb_wait_until :: "wait_level \<Rightarrow> transaction_builder \<Rightarrow> transaction_send" where
  "tb_wait_until w b = send_wait_until w (tb_send b)"

definition cb_send :: "call_builder \<Rightarrow> transaction_send" where
  "cb_send c = tb_send (call_finish c)"

definition cb_wait_until :: "wait_level \<Rightarrow> call_builder \<Rightarrow> transaction_send" where
  "cb_wait_until w c = tb_wait_until w (call_finish c)"

definition await_send :: "'w tx_env \<Rightarrow> transaction_send \<Rightarrow> 'w tx_state \<Rightarrow> ('w, level_response) tx_result" where
  "await_send env s st = send env (tsd_level s) (tsd_builder s) st"

definition await_builder :: "'w tx_env \<Rightarrow> transaction_builder \<Rightarrow> 'w tx_state \<Rightarrow> ('w, level_response) tx_result" where
  "await_builder env b st = await_send env (tb_send b) st"

definition await_call :: "'w tx_env \<Rightarrow> call_builder \<Rightarrow> 'w tx_state \<Rightarrow> ('w, level_response) tx_result" where
  "await_call env c st = await_send env (cb_send c) st"

record signed_transaction_send =
  sts_rpc :: rpc_client
  sts_signed_tx :: signed_transaction
  sts_level :: wait_level

definition signed_transaction_send_new :: "rpc_client \<Rightarrow> signed_transaction \<Rightarrow> signed_transaction_send" where
  "signed_transaction_send_new rpc s = \<lparr>sts_rpc = rpc, sts_signed_tx = s, sts_level = ExecutedOptimistic\<rparr>"

definition signed_wait_until :: "wait_level \<Rightarrow> signed_transaction_send \<Rightarrow> signed_transaction_send" where
  "signed_wait_until w s = s\<lparr>sts_level := w\<rparr>"

definition await_signed :: "'w tx_env \<Rightarrow> signed_transaction_send \<Rightarrow> 'w tx_state \<Rightarrow> ('w, level_response) tx_result" where
  "await_signed env s st = send_signed env (sts_rpc s) (sts_level s) (sts_signed_tx s) st"

section \<open>Delegate results and summaries\<close>

definition delegate_result_to_bytes :: "borsh_ops \<Rightarrow> delegate_result \<Rightarrow> bytes option" where
  "delegate_result_to_bytes bo r = signed_delegate_to_bytes bo (dr_signed_delegate_action r)"

definition delegate_result_sender_id :: "delegate_result \<Rightarrow> account_id" where
  "delegate_result_sender_id r = da_sender_id (sd_delegate_action (dr_signed_delegate_action r))"

definition delegate_result_receiver_id :: "delegate_result \<Rightarrow> account_id" where
  "delegate_result_receiver_id r = da_receiver_id (sd_delegate_action (dr_signed_delegate_action r))"

fun action_summary :: "action \<Rightarrow> string" where
  "action_summary CreateAccount = ''create_account''"
| "action_summary (DeployContract _) = ''deploy_contract''"
| "action_summary (FunctionCall fc) = ''function_call('' @ fc_method_name fc @ '')''"
| "action_summary (Transfer _) = ''transfer''"
| "action_summary (Stake _) = ''stake''"
| "action_summary (AddKey _) = ''add_key''"
| "action_summary (DeleteKey _) = ''delete_key''"
| "action_summary (DeleteAccount _) = ''delete_account''"
| "action_summary (Delegate _) = ''delegate''"
| "action_summary (DeployGlobalContract _) = ''deploy_global_contract''"
| "action_summary (UseGlobalContract _) = ''use_global_contract''"
| "action_summary (DeterministicStateInit _) = ''deterministic_state_init''"
| "action_summary (TransferToGasKey _) = ''transfer_to_gas_key''"
| "action_summary (WithdrawFromGasKey _) = ''withdraw_from_gas_key''"
| "action_summary (DelegateV2 _) = ''delegate_v2''"

fun actions_summary :: "action list \<Rightarrow> string" where
  "actions_summary [] = []"
| "actions_summary (a # as) = action_summary a @ concat (map (\<lambda>a. '','' @ action_summary a) as)"

text \<open>What tracing records of the function calls of a transaction: the fields of the span for a
  single call, one event per call for several.\<close>

datatype call_trace = Span_fields string gas near_token | Call_events "(string \<times> gas \<times> near_token) list" | No_calls

fun function_calls :: "action list \<Rightarrow> function_call_action list" where
  "function_calls [] = []"
| "function_calls (FunctionCall fc # as) = fc # function_calls as"
| "function_calls (_ # as) = function_calls as"

definition record_function_call_fields :: "action list \<Rightarrow> call_trace" where
  "record_function_call_fields as =
     (case function_calls as of
        [] \<Rightarrow> No_calls
      | [fc] \<Rightarrow> Span_fields (fc_method_name fc) (fc_gas fc) (fc_deposit fc)
      | fcs \<Rightarrow> Call_events (map (\<lambda>fc. (fc_method_name fc, fc_gas fc, fc_deposit fc)) fcs))"

section \<open>Chains\<close>

text \<open>The conversions that the crates and the account id type do.\<close>

record chain_ops =
  ch_parse_account :: "string \<Rightarrow> string + account_id"
  ch_derive_account_id :: "state_init \<Rightarrow> account_id"

datatype build_op =
    Op_add_action action | Op_create_account | Op_transfer "parse_amount_error + near_token" | Op_deploy bytes
  | Op_add_full_access_key public_key
  | Op_add_function_call_key public_key "string + account_id" "string list" "near_token option"
  | Op_delete_key public_key | Op_delete_account "string + account_id"
  | Op_stake "parse_amount_error + near_token" public_key | Op_publish bytes publish_mode
  | Op_deploy_from global_contract_arg | Op_state_init state_init "parse_amount_error + near_token"
  | Op_sign_with signer_ref | Op_max_nonce_retries u32

datatype call_op =
    Set_args "string + bytes" | Set_args_raw bytes | Set_args_borsh "bytes option"
  | Set_gas "parse_gas_error + gas" | Set_deposit "parse_amount_error + near_token"

datatype step = Build build_op | Call string | Configure call_op | Finish

datatype fluent = In_tx transaction_builder | In_call call_builder

fun tb_op :: "chain_ops \<Rightarrow> build_op \<Rightarrow> transaction_builder \<Rightarrow> transaction_builder run" where
  "tb_op ops (Op_add_action a) b = Done (add_action a b)"
| "tb_op ops Op_create_account b = Done (tb_create_account b)"
| "tb_op ops (Op_transfer n) b = tb_transfer n b"
| "tb_op ops (Op_deploy code) b = Done (tb_deploy code b)"
| "tb_op ops (Op_add_full_access_key pk) b = Done (tb_add_full_access_key pk b)"
| "tb_op ops (Op_add_function_call_key pk r ms al) b = tb_add_function_call_key pk r ms al b"
| "tb_op ops (Op_delete_key pk) b = Done (tb_delete_key pk b)"
| "tb_op ops (Op_delete_account a) b = tb_delete_account a b"
| "tb_op ops (Op_stake n pk) b = tb_stake n pk b"
| "tb_op ops (Op_publish code mode) b = Done (tb_publish code mode b)"
| "tb_op ops (Op_deploy_from g) b = tb_deploy_from (ch_parse_account ops) g b"
| "tb_op ops (Op_state_init si d) b = tb_state_init (ch_derive_account_id ops) si d b"
| "tb_op ops (Op_sign_with r) b = Done (tb_sign_with r b)"
| "tb_op ops (Op_max_nonce_retries n) b = Done (max_nonce_retries n b)"

fun cb_op :: "chain_ops \<Rightarrow> build_op \<Rightarrow> call_builder \<Rightarrow> transaction_builder run" where
  "cb_op ops (Op_add_action a) c = Done (cb_add_action a c)"
| "cb_op ops Op_create_account c = Done (cb_create_account c)"
| "cb_op ops (Op_transfer n) c = cb_transfer n c"
| "cb_op ops (Op_deploy code) c = Done (cb_deploy code c)"
| "cb_op ops (Op_add_full_access_key pk) c = Done (cb_add_full_access_key pk c)"
| "cb_op ops (Op_add_function_call_key pk r ms al) c = cb_add_function_call_key pk r ms al c"
| "cb_op ops (Op_delete_key pk) c = Done (cb_delete_key pk c)"
| "cb_op ops (Op_delete_account a) c = cb_delete_account a c"
| "cb_op ops (Op_stake n pk) c = cb_stake n pk c"
| "cb_op ops (Op_publish code mode) c = Done (cb_publish code mode c)"
| "cb_op ops (Op_deploy_from g) c = cb_deploy_from (ch_parse_account ops) g c"
| "cb_op ops (Op_state_init si d) c = cb_state_init (ch_derive_account_id ops) si d c"
| "cb_op ops (Op_sign_with r) c = Done (cb_sign_with r c)"
| "cb_op ops (Op_max_nonce_retries n) c = Done (cb_max_nonce_retries n c)"

fun configure :: "call_op \<Rightarrow> call_builder \<Rightarrow> call_builder run" where
  "configure (Set_args r) c = Done (cb_args r c)"
| "configure (Set_args_raw bs) c = Done (cb_args_raw bs c)"
| "configure (Set_args_borsh r) c = Done (cb_args_borsh r c)"
| "configure (Set_gas g) c = cb_gas g c"
| "configure (Set_deposit d) c = cb_deposit d c"

text \<open>A step on the builder at hand; \<open>None\<close> where its type has no such method.\<close>

fun fluent_step :: "chain_ops \<Rightarrow> step \<Rightarrow> fluent \<Rightarrow> fluent run option" where
  "fluent_step ops (Build x) (In_tx b) = Some (run_bind (tb_op ops x b) (\<lambda>b. Done (In_tx b)))"
| "fluent_step ops (Build x) (In_call c) = Some (run_bind (cb_op ops x c) (\<lambda>b. Done (In_tx b)))"
| "fluent_step ops (Call m) (In_tx b) = Some (Done (In_call (tb_call m b)))"
| "fluent_step ops (Call m) (In_call c) = Some (Done (In_call (cb_call_next m c)))"
| "fluent_step ops (Configure x) (In_call c) = Some (run_bind (configure x c) (\<lambda>c. Done (In_call c)))"
| "fluent_step ops (Configure x) (In_tx b) = None"
| "fluent_step ops Finish (In_call c) = Some (Done (In_tx (call_finish c)))"
| "fluent_step ops Finish (In_tx b) = None"

fun fluent_run :: "chain_ops \<Rightarrow> step list \<Rightarrow> fluent \<Rightarrow> fluent run option" where
  "fluent_run ops [] f = Some (Done f)"
| "fluent_run ops (s # ss) f =
     (case fluent_step ops s f of
        None \<Rightarrow> None | Some Panic \<Rightarrow> Some Panic | Some (Done f') \<Rightarrow> fluent_run ops ss f')"

text \<open>The transaction that a builder stands for when it is sent, signed or delegated.\<close>

fun closed :: "fluent \<Rightarrow> transaction_builder" where
  "closed (In_tx b) = b"
| "closed (In_call c) = call_finish c"

section \<open>The transaction of a chain\<close>

text \<open>A well-formed chain is a sequence of steps of the builder and of calls with their
  configuration. Each adds at most one action of its own.\<close>

datatype block = Single build_op | Called string "call_op list"

fun steps_of :: "block \<Rightarrow> step list" where
  "steps_of (Single x) = [Build x]"
| "steps_of (Called m cs) = Call m # map Configure cs"

fun op_action :: "chain_ops \<Rightarrow> build_op \<Rightarrow> action list run" where
  "op_action ops (Op_add_action a) = Done [a]"
| "op_action ops Op_create_account = Done [CreateAccount]"
| "op_action ops (Op_transfer n) = run_bind (expect (ok_opt n)) (\<lambda>a. Done [Transfer a])"
| "op_action ops (Op_deploy code) = Done [DeployContract code]"
| "op_action ops (Op_add_full_access_key pk) = Done [action_add_full_access_key pk]"
| "op_action ops (Op_add_function_call_key pk r ms al) =
     run_bind (expect (ok_opt r)) (\<lambda>r. Done [action_add_function_call_key pk r ms al])"
| "op_action ops (Op_delete_key pk) = Done [DeleteKey pk]"
| "op_action ops (Op_delete_account a) = run_bind (expect (ok_opt a)) (\<lambda>a. Done [DeleteAccount a])"
| "op_action ops (Op_stake n pk) = run_bind (expect (ok_opt n)) (\<lambda>a. Done [action_stake a pk])"
| "op_action ops (Op_publish code mode) = Done [action_publish code mode]"
| "op_action ops (Op_deploy_from g) = run_bind (into_identifier (ch_parse_account ops) g) (\<lambda>g. Done [UseGlobalContract g])"
| "op_action ops (Op_state_init si d) = run_bind (expect (ok_opt d)) (\<lambda>d. Done [action_state_init si d])"
| "op_action ops _ = Done []"

fun set_call :: "call_op \<Rightarrow> function_call \<Rightarrow> function_call run" where
  "set_call (Set_args r) f = Done (call_set_args r f)"
| "set_call (Set_args_raw bs) f = Done (call_set_args_raw bs f)"
| "set_call (Set_args_borsh r) f = Done (call_set_args_borsh r f)"
| "set_call (Set_gas g) f = call_set_gas g f"
| "set_call (Set_deposit d) f = call_set_deposit d f"

fun set_calls :: "call_op list \<Rightarrow> function_call \<Rightarrow> function_call run" where
  "set_calls [] f = Done f"
| "set_calls (c # cs) f = run_bind (set_call c f) (set_calls cs)"

fun block_action :: "chain_ops \<Rightarrow> block \<Rightarrow> action list run" where
  "block_action ops (Single x) = op_action ops x"
| "block_action ops (Called m cs) = run_bind (set_calls cs (function_call_new m)) (\<lambda>f. Done [function_call_to_action f])"

fun block_settings :: "chain_ops \<Rightarrow> block \<Rightarrow> transaction_builder \<Rightarrow> transaction_builder" where
  "block_settings ops (Single (Op_state_init si d)) b = b\<lparr>tb_receiver_id := ch_derive_account_id ops si\<rparr>"
| "block_settings ops (Single (Op_sign_with r)) b = b\<lparr>tb_signer_override := Some r\<rparr>"
| "block_settings ops (Single (Op_max_nonce_retries n)) b = b\<lparr>tb_max_nonce_retries := n\<rparr>"
| "block_settings ops _ b = b"

abbreviation more_actions :: "action list \<Rightarrow> transaction_builder \<Rightarrow> transaction_builder" where
  "more_actions as b \<equiv> b\<lparr>tb_actions := tb_actions b @ as\<rparr>"

lemma run_bind_cong_Done: "run_bind (run_bind m f) g = run_bind m (\<lambda>x. run_bind (f x) g)"
  by (cases m) simp_all

lemma cb_op_finish: "cb_op ops x c = tb_op ops x (call_finish c)"
  by (cases x) (simp_all add: cb_add_action_def cb_create_account_def cb_transfer_def cb_deploy_def cb_add_full_access_key_def
      cb_add_function_call_key_def cb_delete_key_def cb_delete_account_def cb_stake_def cb_publish_def cb_deploy_from_def
      cb_state_init_def cb_sign_with_def cb_max_nonce_retries_def)

lemma fluent_build: "fluent_step ops (Build x) f = Some (run_bind (tb_op ops x (closed f)) (\<lambda>b. Done (In_tx b)))"
  by (cases f) (simp_all add: cb_op_finish)

lemma fluent_call: "fluent_step ops (Call m) f = Some (Done (In_call (tb_call m (closed f))))"
  by (cases f) (simp_all add: cb_call_next_def)

lemma tb_op_spec:
  "tb_op ops x b = run_bind (op_action ops x) (\<lambda>as. Done (block_settings ops (Single x) (more_actions as b)))"
  by (cases b; cases x) (simp_all add: add_action_def tb_create_account_def tb_transfer_def tb_deploy_def tb_add_full_access_key_def
      tb_add_function_call_key_def tb_delete_key_def tb_delete_account_def tb_stake_def tb_publish_def tb_deploy_from_def
      tb_state_init_def tb_sign_with_def max_nonce_retries_def run_bind_cong_Done)

lemma configure_spec: "configure x c = run_bind (set_call x (cb_call c)) (\<lambda>f. Done (c\<lparr>cb_call := f\<rparr>))"
  by (cases x) (simp_all add: cb_args_def cb_args_raw_def cb_args_borsh_def cb_gas_def cb_deposit_def)

lemma fluent_run_append:
  "fluent_run ops (ss @ ts) f = (case fluent_run ops ss f of None \<Rightarrow> None | Some Panic \<Rightarrow> Some Panic | Some (Done f') \<Rightarrow> fluent_run ops ts f')"
  by (induction ss arbitrary: f) (auto split: option.split run.split)

lemma fluent_configure:
  "fluent_run ops (map Configure cs) (In_call c) =
     Some (run_bind (set_calls cs (cb_call c)) (\<lambda>f. Done (In_call (c\<lparr>cb_call := f\<rparr>))))"
proof (induction cs arbitrary: c)
  case (Cons x cs)
  show ?case
  proof (cases "set_call x (cb_call c)")
    case (Done f)
    then show ?thesis using Cons [of "c\<lparr>cb_call := f\<rparr>"] by (simp add: configure_spec)
  qed (simp add: configure_spec)
qed simp

lemma fluent_block:
  "\<exists>m. fluent_run ops (steps_of blk) f = Some m \<and>
     (case block_action ops blk of Panic \<Rightarrow> m = Panic
      | Done as \<Rightarrow> \<exists>f'. m = Done f' \<and> closed f' = block_settings ops blk (more_actions as (closed f)))"
proof (cases blk)
  case (Single x)
  then show ?thesis using fluent_build [of ops x f] by (cases "op_action ops x") (simp_all add: tb_op_spec)
next
  case (Called m cs)
  then show ?thesis using fluent_call [of ops m f] fluent_configure [of ops cs "tb_call m (closed f)"]
    by (cases "set_calls cs (function_call_new m)") (simp_all add: tb_call_def call_finish_def add_action_def)
qed

lemma fluent_blocks:
  "\<exists>m. fluent_run ops (concat (map steps_of blks)) f = Some m \<and>
     (case m of
        Panic \<Rightarrow> \<exists>blk\<in>set blks. block_action ops blk = Panic
      | Done f' \<Rightarrow> \<exists>ass. map (block_action ops) blks = map Done ass \<and>
          closed f' = fold (\<lambda>(blk, as) b. block_settings ops blk (more_actions as b)) (zip blks ass) (closed f))"
proof (induction blks arbitrary: f)
  case (Cons blk blks)
  obtain m where m: "fluent_run ops (steps_of blk) f = Some m"
    "case block_action ops blk of Panic \<Rightarrow> m = Panic
      | Done as \<Rightarrow> \<exists>f'. m = Done f' \<and> closed f' = block_settings ops blk (more_actions as (closed f))"
    using fluent_block by blast
  show ?case
  proof (cases "block_action ops blk")
    case Panic
    then show ?thesis using m by (simp add: fluent_run_append)
  next
    case (Done as)
    then obtain f1 where f1: "m = Done f1" "closed f1 = block_settings ops blk (more_actions as (closed f))" using m(2) by auto
    obtain m2 where m2: "fluent_run ops (concat (map steps_of blks)) f1 = Some m2"
      "case m2 of Panic \<Rightarrow> \<exists>blk\<in>set blks. block_action ops blk = Panic
        | Done f' \<Rightarrow> \<exists>ass. map (block_action ops) blks = map Done ass \<and>
          closed f' = fold (\<lambda>(blk, as) b. block_settings ops blk (more_actions as b)) (zip blks ass) (closed f1)"
      using Cons.IH by blast
    show ?thesis
    proof (cases m2)
      case (Done f2)
      then obtain ass where "map (block_action ops) blks = map Done ass"
        "closed f2 = fold (\<lambda>(blk, as) b. block_settings ops blk (more_actions as b)) (zip blks ass) (closed f1)" using m2(2) by auto
      then show ?thesis using m f1 m2(1) Done \<open>block_action ops blk = Done as\<close>
        by (auto simp: fluent_run_append intro!: exI [of _ "as # ass"])
    qed (use m f1 m2 in \<open>auto simp: fluent_run_append\<close>)
  qed
qed simp

lemma fold_actions:
  "length ass = length blks \<Longrightarrow>
   fold (\<lambda>(blk, as) b. block_settings ops blk (more_actions as b)) (zip blks ass) b =
     more_actions (concat ass) (fold (block_settings ops) blks b)"
proof (induction blks arbitrary: ass b)
  case (Cons blk blks)
  then obtain as ass' where ass: "ass = as # ass'" "length ass' = length blks" by (cases ass) auto
  have swap: "block_settings ops blk (more_actions as c) = more_actions as (block_settings ops blk c)" for blk as c
    by (cases c; cases "(ops, blk, c)" rule: block_settings.cases) simp_all
  have push: "fold (block_settings ops) bs (more_actions as c) = more_actions as (fold (block_settings ops) bs c)" for bs as c
    by (induction bs arbitrary: c) (simp_all add: swap)
  show ?case
    using Cons.IH [OF ass(2), of "block_settings ops blk (more_actions as b)"] ass(1)
    by (simp add: swap push)
qed simp

text \<open>C19: A chain of builder methods, with function calls that are configured in between and finished
  by whatever follows, gives exactly the transaction whose actions are those of its steps in
  order, each call with all of its configuration and none of its neighbour's; the receiver, the
  signer and the retries are the last ones that were set. The chain panics exactly when one of its
  own arguments does not parse.\<close>

theorem fluent_chain_exact:
  "\<exists>m. fluent_run ops (concat (map steps_of blks)) f = Some m \<and>
     (case m of
        Panic \<Rightarrow> \<exists>blk\<in>set blks. block_action ops blk = Panic
      | Done f' \<Rightarrow> \<exists>ass. map (block_action ops) blks = map Done ass \<and>
          closed f' = (let b = fold (block_settings ops) blks (closed f) in b\<lparr>tb_actions := tb_actions (closed f) @ concat ass\<rparr>))"
proof -
  obtain m where m: "fluent_run ops (concat (map steps_of blks)) f = Some m"
    "case m of Panic \<Rightarrow> \<exists>blk\<in>set blks. block_action ops blk = Panic
      | Done f' \<Rightarrow> \<exists>ass. map (block_action ops) blks = map Done ass \<and>
          closed f' = fold (\<lambda>(blk, as) b. block_settings ops blk (more_actions as b)) (zip blks ass) (closed f)"
    using fluent_blocks by blast
  have keep: "tb_actions (block_settings ops blk b) = tb_actions b" for blk b
    by (cases "(ops, blk, b)" rule: block_settings.cases) simp_all
  have "tb_actions (fold (block_settings ops) bs b) = tb_actions b" for bs b
    by (induction bs arbitrary: b) (simp_all add: keep)
  moreover have "length ass = length blks" if "map (block_action ops) blks = map Done ass" for ass
    using arg_cong [OF that, of length] by simp
  ultimately show ?thesis using m fold_actions [of _ blks ops "closed f"]
    by (cases m) (auto simp: Let_def)
qed

end
