(* ===== verification/Contract_Macro.thy ===== *)
theory Contract_Macro
  imports Near_Client Call_Builder
begin

text \<open>
  The attribute macro for typed contract interfaces (\<open>near-kit-macros/src/lib.rs\<close>) and the traits it
  implements (\<open>contract.rs\<close>). The parser of Rust (the crate \<open>syn\<close>) is not part of the sources; what the macro
  looks at of a parsed trait is the record \<open>item_trait\<close>, and an error that \<open>syn\<close> reports itself is
  \<open>Syn_error\<close>. The generated code is data as well: a method with its parameter and the chain of calls
  in its body. The functions \<open>run_view\<close>, \<open>run_call\<close> and \<open>run_function_call\<close> give these chains their
  meaning in terms of the client and the builders, with an argument as the results of its two
  serializations.
\<close>

section \<open>Parsed traits\<close>

datatype serialization_format = Json | Borsh

text \<open>Tokens of an attribute's argument: identifiers, and everything else.\<close>

datatype token = Tok_ident string | Tok_other

datatype macro_error = Macro_error string | Syn_error

record contract_args = ca_format :: serialization_format
record call_args = cl_payable :: bool

definition contract_args_parse :: "token list \<Rightarrow> macro_error + contract_args" where
  "contract_args_parse input =
     (case input of
        [] \<Rightarrow> Inr \<lparr>ca_format = Json\<rparr>
      | Tok_other # _ \<Rightarrow> Inl Syn_error
      | Tok_ident i # rest \<Rightarrow>
          rbind (if i = ''json'' then Inr Json else if i = ''borsh'' then Inr Borsh
                 else Inl (Macro_error (''unknown format '' @ [CHR 0x27] @ i @ [CHR 0x27] @ '', expected '' @ [CHR 0x27] @ ''json''
                   @ [CHR 0x27] @ '' or '' @ [CHR 0x27] @ ''borsh'' @ [CHR 0x27]))) (\<lambda>format.
          if rest = [] then Inr \<lparr>ca_format = format\<rparr> else Inl Syn_error))"

definition call_args_parse :: "token list \<Rightarrow> macro_error + call_args" where
  "call_args_parse input =
     (case input of
        [] \<Rightarrow> Inr \<lparr>cl_payable = False\<rparr>
      | Tok_other # _ \<Rightarrow> Inl Syn_error
      | Tok_ident i # rest \<Rightarrow>
          if i \<noteq> ''payable'' then Inl (Macro_error (''unknown call option '' @ [CHR 0x27] @ i @ [CHR 0x27] @ '', expected ''
            @ [CHR 0x27] @ ''payable'' @ [CHR 0x27]))
          else if rest = [] then Inr \<lparr>cl_payable = True\<rparr> else Inl Syn_error)"

datatype meta = Meta_path | Meta_list "token list" | Meta_name_value

record attribute =
  at_path :: string
  at_meta :: meta

text \<open>\<open>&self\<close> and \<open>&mut self\<close>, or any other form of \<open>self\<close>.\<close>

datatype receiver = By_reference bool | Other_receiver

text \<open>A parameter is its pattern, when that is an identifier, and its type.\<close>

type_synonym rust_type = string

record trait_fn =
  tf_ident :: string
  tf_receiver :: "receiver option"
  tf_attrs :: "attribute list"
  tf_typed_inputs :: "(string option \<times> rust_type) list"
  tf_output :: "rust_type option"
  tf_has_default :: bool

datatype trait_item = Item_fn trait_fn | Item_other

record item_trait =
  it_ident :: string
  it_unsafe :: bool
  it_auto :: bool
  it_generic_params :: "string list"
  it_where_clause :: bool
  it_supertraits :: "string list"
  it_items :: "trait_item list"

section \<open>Methods\<close>

record method_info =
  mi_name :: string
  mi_is_view :: bool
  mi_is_call :: bool
  mi_is_payable :: bool
  mi_format_override :: "serialization_format option"
  mi_arg_name :: "string option"
  mi_arg_type :: "rust_type option"
  mi_return_type :: "rust_type option"

definition receiver_kind :: "receiver option \<Rightarrow> macro_error + bool \<times> bool" where
  "receiver_kind r =
     (case r of
        Some (By_reference m) \<Rightarrow> Inr (\<not> m, m)
      | Some Other_receiver \<Rightarrow> Inl (Macro_error ''contract methods must take &self or &mut self'')
      | None \<Rightarrow> Inl (Macro_error ''contract methods must have a receiver (&self or &mut self)''))"

definition call_attr :: "attribute list \<Rightarrow> macro_error + bool \<times> bool" where
  "call_attr as =
     (case find (\<lambda>a. at_path a = ''call'') as of
        None \<Rightarrow> Inr (False, False)
      | Some a \<Rightarrow>
          (case at_meta a of
             Meta_path \<Rightarrow> Inr (True, False)
           | Meta_list ts \<Rightarrow> rbind (call_args_parse ts) (\<lambda>c. Inr (True, cl_payable c))
           | Meta_name_value \<Rightarrow> Inl Syn_error))"

definition format_attr :: "attribute list \<Rightarrow> serialization_format option" where
  "format_attr as =
     (if list_ex (\<lambda>a. at_path a = ''json'') as then Some Json
      else if list_ex (\<lambda>a. at_path a = ''borsh'') as then Some Borsh else None)"

text \<open>The loop over the typed parameters, with the state it keeps.\<close>

fun parse_inputs ::
  "(string option \<times> rust_type) list \<Rightarrow> nat \<Rightarrow> string option \<Rightarrow> rust_type option
     \<Rightarrow> macro_error + string option \<times> rust_type option" where
  "parse_inputs [] n name ty = Inr (name, ty)"
| "parse_inputs ((pat, t) # rest) n name ty =
     (if 1 < n + 1 then
        Inl (Macro_error ''contract methods can have at most one argument (use a struct for multiple parameters)'')
      else parse_inputs rest (n + 1) (case pat of Some i \<Rightarrow> Some i | None \<Rightarrow> name) (Some t))"

definition parse_method :: "trait_fn \<Rightarrow> macro_error + method_info" where
  "parse_method f =
     rbind (receiver_kind (tf_receiver f)) (\<lambda>(is_view, is_mut).
     rbind (call_attr (tf_attrs f)) (\<lambda>(is_call, is_payable).
     if is_view \<and> is_call then Inl (Macro_error ''view methods (&self) should not have #[call] attribute'')
     else if is_mut \<and> \<not> is_call then Inl (Macro_error ''call methods (&mut self) must have #[call] attribute'')
     else rbind (parse_inputs (tf_typed_inputs f) 0 None None) (\<lambda>(arg_name, arg_type).
       Inr \<lparr>mi_name = tf_ident f, mi_is_view = is_view, mi_is_call = is_call, mi_is_payable = is_payable,
         mi_format_override = format_attr (tf_attrs f), mi_arg_name = arg_name, mi_arg_type = arg_type,
         mi_return_type = tf_output f\<rparr>)))"

section \<open>Generated code\<close>

text \<open>The calls in the body of a generated method.\<close>

datatype gen_call = Gen_args string | Gen_args_borsh string | Gen_args_raw bytes | Gen_borsh

record gen_method =
  gm_name :: string
  gm_param :: "(string \<times> rust_type) option"
  gm_return :: rust_type
  gm_method_str :: string
  gm_calls :: "gen_call list"

definition method_format :: "method_info \<Rightarrow> serialization_format \<Rightarrow> serialization_format" where
  "method_format m contract_format = (case mi_format_override m of Some f \<Rightarrow> f | None \<Rightarrow> contract_format)"

definition method_param :: "method_info \<Rightarrow> (string \<times> rust_type) option" where
  "method_param m = (case (mi_arg_name m, mi_arg_type m) of (Some n, Some t) \<Rightarrow> Some (n, t) | _ \<Rightarrow> None)"

fun args_calls :: "serialization_format \<Rightarrow> (string \<times> rust_type) option \<Rightarrow> gen_call list" where
  "args_calls Json (Some (n, t)) = [Gen_args n]"
| "args_calls Borsh (Some (n, t)) = [Gen_args_borsh n]"
| "args_calls Json None = [Gen_args_raw (as_bytes ''{}'')]"
| "args_calls Borsh None = []"

definition generate_view_method :: "method_info \<Rightarrow> serialization_format \<Rightarrow> gen_method" where
  "generate_view_method m contract_format =
     (let format = method_format m contract_format;
          return_type = (case mi_return_type m of Some t \<Rightarrow> t | None \<Rightarrow> ''()'') in
      \<lparr>gm_name = mi_name m, gm_param = method_param m,
       gm_return = (case format of Json \<Rightarrow> ''near_kit::ViewCall<'' @ return_type @ ''>''
         | Borsh \<Rightarrow> ''near_kit::ViewCallBorsh<'' @ return_type @ ''>''),
       gm_method_str = mi_name m,
       gm_calls = args_calls format (method_param m) @ (case format of Json \<Rightarrow> [] | Borsh \<Rightarrow> [Gen_borsh])\<rparr>)"

definition generate_call_method :: "method_info \<Rightarrow> serialization_format \<Rightarrow> gen_method" where
  "generate_call_method m contract_format =
     \<lparr>gm_name = mi_name m, gm_param = method_param m, gm_return = ''near_kit::CallBuilder'',
      gm_method_str = mi_name m, gm_calls = args_calls (method_format m contract_format) (method_param m)\<rparr>"

definition generate_function_call_method :: "method_info \<Rightarrow> serialization_format \<Rightarrow> gen_method" where
  "generate_function_call_method m contract_format =
     \<lparr>gm_name = mi_name m, gm_param = method_param m, gm_return = ''near_kit::FunctionCall'',
      gm_method_str = mi_name m, gm_calls = args_calls (method_format m contract_format) (method_param m)\<rparr>"

section \<open>The macro\<close>

text \<open>The marker struct with its constructors of function calls, and the client struct.\<close>

record gen_contract =
  gc_struct :: string
  gc_function_calls :: "gen_method list"
  gc_client :: string
  gc_client_methods :: "gen_method list"

fun parse_items :: "trait_item list \<Rightarrow> macro_error + method_info list" where
  "parse_items [] = Inr []"
| "parse_items (Item_fn f # items) =
     (if tf_has_default f then Inl (Macro_error ''#[near_kit::contract] does not support default method implementations'')
      else rbind (parse_method f) (\<lambda>m. rbind (parse_items items) (\<lambda>ms. Inr (m # ms))))"
| "parse_items (Item_other # items) = Inl (Macro_error ''#[near_kit::contract] only supports methods in traits'')"

definition contract_impl :: "contract_args \<Rightarrow> item_trait \<Rightarrow> macro_error + gen_contract" where
  "contract_impl args input =
     (if it_unsafe input then Inl (Macro_error ''#[near_kit::contract] does not support unsafe traits'')
      else if it_auto input then Inl (Macro_error ''#[near_kit::contract] does not support auto traits'')
      else if it_generic_params input \<noteq> [] then Inl (Macro_error ''#[near_kit::contract] does not support generic parameters'')
      else if it_where_clause input then Inl (Macro_error ''#[near_kit::contract] does not support where clauses'')
      else if it_supertraits input \<noteq> [] then Inl (Macro_error ''#[near_kit::contract] does not support supertraits'')
      else rbind (parse_items (it_items input)) (\<lambda>methods.
        Inr \<lparr>gc_struct = it_ident input,
          gc_function_calls = map (\<lambda>m. generate_function_call_method m (ca_format args)) (filter (\<lambda>m. \<not> mi_is_view m) methods),
          gc_client = it_ident input @ ''Client'',
          gc_client_methods = map (\<lambda>m. if mi_is_view m then generate_view_method m (ca_format args)
            else generate_call_method m (ca_format args)) methods\<rparr>))"

text \<open>The entry point; \<open>parse_macro_input!\<close> stops at a failing attribute argument.\<close>

definition contract :: "token list \<Rightarrow> item_trait \<Rightarrow> macro_error + gen_contract" where
  "contract attr item = rbind (contract_args_parse attr) (\<lambda>args. contract_impl args item)"

section \<open>What the generated code does\<close>

text \<open>The client of a contract: \<open>new\<close>, \<open>contract_id\<close> and \<open>with_signer\<close> of the generated struct, and
  \<open>Near::contract\<close>.\<close>

record contract_client =
  cc_near :: near
  cc_contract_id :: account_id

definition contract_client_new :: "near \<Rightarrow> account_id \<Rightarrow> contract_client" where
  "contract_client_new n contract_id = \<lparr>cc_near = n, cc_contract_id = contract_id\<rparr>"

definition contract_client_with_signer :: "signer_ref \<Rightarrow> any_signer \<Rightarrow> contract_client \<Rightarrow> signer_store \<Rightarrow> contract_client \<times> signer_store" where
  "contract_client_with_signer r s c store =
     (case near_with_signer r s (cc_near c) store of (n, store) \<Rightarrow> (\<lparr>cc_near = n, cc_contract_id = cc_contract_id c\<rparr>, store))"

definition near_contract :: "near \<Rightarrow> string + account_id \<Rightarrow> contract_client run" where
  "near_contract n contract_id = run_bind (expect (ok_opt contract_id)) (\<lambda>c. Done (contract_client_new n c))"

text \<open>The value of the parameter, as its JSON and its Borsh serialization.\<close>

record arg_value =
  av_json :: "string + bytes"
  av_borsh :: "bytes option"

fun run_gen_view :: "arg_value \<Rightarrow> gen_call \<Rightarrow> view_call \<Rightarrow> view_call" where
  "run_gen_view v (Gen_args _) c = view_call_args (av_json v) c"
| "run_gen_view v (Gen_args_borsh _) c = view_call_args_borsh (av_borsh v) c"
| "run_gen_view v (Gen_args_raw bs) c = view_call_args_raw bs c"
| "run_gen_view v Gen_borsh c = c"

fun run_gen_call :: "arg_value \<Rightarrow> gen_call \<Rightarrow> call_builder \<Rightarrow> call_builder" where
  "run_gen_call v (Gen_args _) c = cb_args (av_json v) c"
| "run_gen_call v (Gen_args_borsh _) c = cb_args_borsh (av_borsh v) c"
| "run_gen_call v (Gen_args_raw bs) c = cb_args_raw bs c"
| "run_gen_call v Gen_borsh c = c"

fun run_gen_function_call :: "arg_value \<Rightarrow> gen_call \<Rightarrow> function_call \<Rightarrow> function_call" where
  "run_gen_function_call v (Gen_args _) c = call_set_args (av_json v) c"
| "run_gen_function_call v (Gen_args_borsh _) c = call_set_args_borsh (av_borsh v) c"
| "run_gen_function_call v (Gen_args_raw bs) c = call_set_args_raw bs c"
| "run_gen_function_call v Gen_borsh c = c"

definition run_view :: "gen_method \<Rightarrow> contract_client \<Rightarrow> arg_value \<Rightarrow> view_call run" where
  "run_view g c v =
     run_bind (near_view (cc_near c) (Inr (cc_contract_id c)) (gm_method_str g)) (\<lambda>q. Done (fold (run_gen_view v) (gm_calls g) q))"

definition run_call :: "gen_method \<Rightarrow> contract_client \<Rightarrow> arg_value \<Rightarrow> call_builder run" where
  "run_call g c v =
     run_bind (near_call (cc_near c) (Inr (cc_contract_id c)) (gm_method_str g)) (\<lambda>b. Done (fold (run_gen_call v) (gm_calls g) b))"

definition run_function_call :: "gen_method \<Rightarrow> arg_value \<Rightarrow> function_call" where
  "run_function_call g v = fold (run_gen_function_call v) (gm_calls g) (function_call_new (gm_method_str g))"

section \<open>Which traits are accepted\<close>

text \<open>A method of an acceptable trait: read by \<open>&self\<close> and none of its attributes is \<open>#[call]\<close>, or written by
  \<open>&mut self\<close> and the first of its \<open>#[call]\<close> attributes is bare or has as argument nothing or \<open>payable\<close>;
  and at most one argument.\<close>

definition call_marked :: "attribute list \<Rightarrow> bool" where
  "call_marked as \<longleftrightarrow> (\<exists>pre a post. as = pre @ a # post \<and> ''call'' \<notin> at_path ` set pre \<and> at_path a = ''call'' \<and>
     at_meta a \<in> {Meta_path, Meta_list [], Meta_list [Tok_ident ''payable'']})"

definition method_ok :: "trait_fn \<Rightarrow> bool" where
  "method_ok f \<longleftrightarrow>
     (tf_receiver f = Some (By_reference False) \<and> ''call'' \<notin> at_path ` set (tf_attrs f) \<or>
      tf_receiver f = Some (By_reference True) \<and> call_marked (tf_attrs f)) \<and> length (tf_typed_inputs f) \<le> 1"

lemma call_args_parse_ok:
  "(\<exists>c. call_args_parse ts = Inr c) \<longleftrightarrow> ts = [] \<or> ts = [Tok_ident ''payable'']"
  by (auto simp: call_args_parse_def split: list.split token.split)

lemma call_marked_Cons:
  "call_marked (a # as) \<longleftrightarrow>
     (if at_path a = ''call'' then at_meta a \<in> {Meta_path, Meta_list [], Meta_list [Tok_ident ''payable'']} else call_marked as)"
proof
  assume "call_marked (a # as)"
  then obtain pre b post where p: "a # as = pre @ b # post" "''call'' \<notin> at_path ` set pre" "at_path b = ''call''"
    "at_meta b \<in> {Meta_path, Meta_list [], Meta_list [Tok_ident ''payable'']}" unfolding call_marked_def by blast
  show "if at_path a = ''call'' then at_meta a \<in> {Meta_path, Meta_list [], Meta_list [Tok_ident ''payable'']} else call_marked as"
  proof (cases pre)
    case (Cons x pre')
    then have "at_path a \<noteq> ''call''" "as = pre' @ b # post" "''call'' \<notin> at_path ` set pre'" using p(1,2) by auto
    then show ?thesis using p(3,4) unfolding call_marked_def by metis
  qed (use p in simp)
next
  assume r: "if at_path a = ''call'' then at_meta a \<in> {Meta_path, Meta_list [], Meta_list [Tok_ident ''payable'']} else call_marked as"
  show "call_marked (a # as)"
  proof (cases "at_path a = ''call''")
    case True
    then show ?thesis using r unfolding call_marked_def by (intro exI [of _ "[]"] exI [of _ a] exI [of _ as]) simp
  next
    case False
    then obtain pre b post where p: "as = pre @ b # post" "''call'' \<notin> at_path ` set pre" "at_path b = ''call''"
      "at_meta b \<in> {Meta_path, Meta_list [], Meta_list [Tok_ident ''payable'']}" using r unfolding call_marked_def by auto
    then show ?thesis using False unfolding call_marked_def
      by (intro exI [of _ "a # pre"] exI [of _ b] exI [of _ post]) simp
  qed
qed

lemma call_attr_ok:
  "(\<exists>p. call_attr as = Inr (True, p)) \<longleftrightarrow> call_marked as"
  "(\<exists>p. call_attr as = Inr (False, p)) \<longleftrightarrow> ''call'' \<notin> at_path ` set as"
proof (induction as)
  case Nil
  case 1 then show ?case by (simp add: call_attr_def call_marked_def)
  case 2 then show ?case by (auto simp: call_attr_def)
next
  case (Cons a as)
  have skip: "at_path a \<noteq> ''call'' \<Longrightarrow> call_attr (a # as) = call_attr as" by (simp add: call_attr_def)
  have hit: "at_path a = ''call'' \<Longrightarrow> (\<exists>p. call_attr (a # as) = Inr (True, p)) \<longleftrightarrow>
      at_meta a \<in> {Meta_path, Meta_list [], Meta_list [Tok_ident ''payable'']}"
    "at_path a = ''call'' \<Longrightarrow> \<not> (\<exists>p. call_attr (a # as) = Inr (False, p))"
    using call_args_parse_ok by (auto simp: call_attr_def split: meta.split elim!: rbind.elims)
  case 1 then show ?case using hit(1) skip Cons.IH(1) unfolding call_marked_Cons by presburger
  case 2 then show ?case using hit(2) skip Cons.IH(2) by (cases "at_path a = ''call''") auto
qed

lemma parse_inputs_cases:
  "parse_inputs inputs 0 None None =
     (case inputs of [] \<Rightarrow> Inr (None, None) | [(pat, t)] \<Rightarrow> Inr (pat, Some t)
      | _ \<Rightarrow> Inl (Macro_error ''contract methods can have at most one argument (use a struct for multiple parameters)''))"
  by (auto split: list.split option.split)

lemma parse_method_ok:
  "(\<exists>m. parse_method f = Inr m) \<longleftrightarrow> method_ok f"
proof -
  have inputs: "(\<exists>x. parse_inputs (tf_typed_inputs f) 0 None None = Inr x) \<longleftrightarrow> length (tf_typed_inputs f) \<le> 1"
    by (auto simp: parse_inputs_cases split: list.split)
  show ?thesis
    using inputs
    by (cases "tf_receiver f"; cases "the (tf_receiver f)"; cases "call_attr (tf_attrs f)";
        cases "parse_inputs (tf_typed_inputs f) 0 None None")
       (use call_attr_ok [of "tf_attrs f"] in \<open>auto simp: parse_method_def receiver_kind_def method_ok_def split: if_splits\<close>)
qed

lemma parse_method_fields:
  assumes "parse_method f = Inr m"
  shows "mi_name m = tf_ident f" "mi_format_override m = format_attr (tf_attrs f)"
    "tf_receiver f = Some (By_reference (\<not> mi_is_view m))"
    "method_param m = (case tf_typed_inputs f of [(Some n, t)] \<Rightarrow> Some (n, t) | _ \<Rightarrow> None)"
  using assms
  by (auto simp: parse_method_def receiver_kind_def method_param_def parse_inputs_cases
      split: option.splits receiver.splits sum.splits if_splits list.splits prod.splits elim!: rbind.elims)

lemma ex_fn_items:
  "(\<exists>fs. Item_fn f # items = map Item_fn fs \<and> list_all P fs) \<longleftrightarrow> P f \<and> (\<exists>fs. items = map Item_fn fs \<and> list_all P fs)"
proof
  assume "P f \<and> (\<exists>fs. items = map Item_fn fs \<and> list_all P fs)"
  then obtain fs where "P f" "items = map Item_fn fs" "list_all P fs" by blast
  then show "\<exists>fs. Item_fn f # items = map Item_fn fs \<and> list_all P fs" by (intro exI [of _ "f # fs"]) simp
qed (auto simp: Cons_eq_map_conv)

lemma parse_items_ok:
  "(\<exists>ms. parse_items items = Inr ms) \<longleftrightarrow> (\<exists>fs. items = map Item_fn fs \<and> list_all (\<lambda>f. \<not> tf_has_default f \<and> method_ok f) fs)"
proof (induction items rule: parse_items.induct)
  case (2 f items)
  show ?case
  proof (cases "parse_method f")
    case (Inl e)
    then have "\<not> method_ok f" using parse_method_ok [of f] by auto
    then show ?thesis using Inl unfolding ex_fn_items by simp
  next
    case (Inr m)
    then have "method_ok f" using parse_method_ok [of f] by auto
    then show ?thesis using Inr 2 unfolding ex_fn_items by (cases "parse_items items") simp_all
  qed
qed (auto simp: Cons_eq_map_conv)

text \<open>C21: The macro accepts a trait exactly when its argument is empty or names one of the two
  formats, the trait is safe, not \<open>auto\<close>, and has no generic parameters, where clause or supertraits, and
  all its items are methods without a body, each with at most one argument and either \<open>&self\<close> and no
  attribute \<open>#[call]\<close>, or \<open>&mut self\<close> and an attribute \<open>#[call]\<close>, the first of which is bare, has an empty
  argument list or has the single argument \<open>payable\<close>.\<close>

theorem contract_accepts:
  "(\<exists>gc. contract attr item = Inr gc) \<longleftrightarrow>
     attr \<in> {[], [Tok_ident ''json''], [Tok_ident ''borsh'']} \<and>
     \<not> it_unsafe item \<and> \<not> it_auto item \<and> it_generic_params item = [] \<and> \<not> it_where_clause item \<and> it_supertraits item = [] \<and>
     (\<exists>fs. it_items item = map Item_fn fs \<and> list_all (\<lambda>f. \<not> tf_has_default f \<and>
        (tf_receiver f = Some (By_reference False) \<and> ''call'' \<notin> at_path ` set (tf_attrs f) \<or>
         tf_receiver f = Some (By_reference True) \<and>
           (\<exists>pre a post. tf_attrs f = pre @ a # post \<and> ''call'' \<notin> at_path ` set pre \<and> at_path a = ''call'' \<and>
              at_meta a \<in> {Meta_path, Meta_list [], Meta_list [Tok_ident ''payable'']})) \<and>
        length (tf_typed_inputs f) \<le> 1) fs)"
proof -
  have a: "(\<exists>x. contract_args_parse attr = Inr x) \<longleftrightarrow> attr \<in> {[], [Tok_ident ''json''], [Tok_ident ''borsh'']}"
    by (auto simp: contract_args_parse_def split: list.split token.split if_splits)
  have i: "(\<exists>gc. contract_impl args item = Inr gc) \<longleftrightarrow> \<not> it_unsafe item \<and> \<not> it_auto item \<and> it_generic_params item = [] \<and>
      \<not> it_where_clause item \<and> it_supertraits item = [] \<and> (\<exists>ms. parse_items (it_items item) = Inr ms)" for args
    by (cases "parse_items (it_items item)") (simp_all add: contract_impl_def)
  show ?thesis
    using a i parse_items_ok [of "it_items item"] unfolding method_ok_def call_marked_def
    by (cases "contract_args_parse attr") (simp_all add: contract_def)
qed

section \<open>The two forms of a call\<close>

text \<open>The bytes that a method sends for its argument.\<close>

definition sent_args :: "serialization_format \<Rightarrow> (string option \<times> rust_type) list \<Rightarrow> arg_value \<Rightarrow> bytes" where
  "sent_args format inputs v =
     (case inputs of
        [(Some n, t)] \<Rightarrow>
          (case format of Json \<Rightarrow> (case av_json v of Inr bs \<Rightarrow> bs | Inl _ \<Rightarrow> []) | Borsh \<Rightarrow> (case av_borsh v of Some bs \<Rightarrow> bs | None \<Rightarrow> []))
      | _ \<Rightarrow> (case format of Json \<Rightarrow> as_bytes ''{}'' | Borsh \<Rightarrow> []))"

definition fn_format :: "contract_args \<Rightarrow> trait_fn \<Rightarrow> serialization_format" where
  "fn_format args f = (case format_attr (tf_attrs f) of Some x \<Rightarrow> x | None \<Rightarrow> ca_format args)"

lemma run_function_call_args:
  assumes "parse_method f = Inr m"
  shows "run_function_call (generate_function_call_method m fmt) v =
    (function_call_new (tf_ident f))\<lparr>call_args := sent_args (method_format m fmt) (tf_typed_inputs f) v\<rparr>"
  using parse_method_fields [OF assms]
  by (cases "method_format m fmt")
     (auto simp: run_function_call_def generate_function_call_method_def sent_args_def call_set_args_def call_set_args_borsh_def
       call_set_args_raw_def function_call_new_def split: list.split option.split sum.split)

lemma run_call_builder:
  assumes "parse_method f = Inr m"
  shows "run_call (generate_call_method m fmt) c v =
    Done \<lparr>cb_builder = transaction_builder_new (nr_rpc (cc_near c)) (nr_signer (cc_near c)) (cc_contract_id c) (nr_max_nonce_retries (cc_near c)),
          cb_call = run_function_call (generate_function_call_method m fmt) v\<rparr>"
proof -
  have "fold (run_gen_call v) gs b = b\<lparr>cb_call := fold (run_gen_function_call v) gs (cb_call b)\<rparr>" for gs b
  proof (induction gs arbitrary: b)
    case (Cons g gs)
    have "run_gen_call v g b = b\<lparr>cb_call := run_gen_function_call v g (cb_call b)\<rparr>"
      by (cases g) (simp_all add: cb_args_def cb_args_borsh_def cb_args_raw_def)
    then show ?case using Cons by simp
  qed simp
  then show ?thesis
    by (simp add: run_call_def near_call_def near_transaction_def tb_call_def run_function_call_def generate_call_method_def
        generate_function_call_method_def)
qed

lemma run_view_query:
  assumes "parse_method f = Inr m"
  shows "run_view (generate_view_method m fmt) c v =
    Done ((view_call_new (nr_rpc (cc_near c)) (cc_contract_id c) (tf_ident f))
      \<lparr>vc_args := sent_args (method_format m fmt) (tf_typed_inputs f) v\<rparr>)"
  using parse_method_fields [OF assms]
  by (cases "method_format m fmt")
     (auto simp: run_view_def near_view_def generate_view_method_def sent_args_def view_call_args_def view_call_args_borsh_def
       view_call_args_raw_def view_call_new_def Let_def split: list.split option.split sum.split)

lemma parse_items_map:
  "parse_items items = Inr ms \<Longrightarrow> \<exists>fs. items = map Item_fn fs \<and> length ms = length fs \<and> (\<forall>i<length fs. parse_method (fs ! i) = Inr (ms ! i))"
proof (induction items arbitrary: ms rule: parse_items.induct)
  case (2 f items)
  then obtain m ms' where m: "parse_method f = Inr m" "parse_items items = Inr ms'" "ms = m # ms'"
    by (auto split: if_splits elim!: rbind.elims)
  then obtain fs where "items = map Item_fn fs" "length ms' = length fs" "\<forall>i<length fs. parse_method (fs ! i) = Inr (ms' ! i)"
    using 2 by (auto split: if_splits)
  then show ?case using m by (intro exI [of _ "f # fs"]) (auto simp: nth_Cons split: nat.split)
qed auto

text \<open>What a generated client method does for a method of the trait.\<close>

definition client_method_for :: "gen_contract \<Rightarrow> contract_args \<Rightarrow> contract_client \<Rightarrow> arg_value \<Rightarrow> trait_fn \<Rightarrow> gen_method \<Rightarrow> bool" where
  "client_method_for gc args c v f g \<longleftrightarrow>
     (let bytes = sent_args (fn_format args f) (tf_typed_inputs f) v in
      gm_name g = tf_ident f \<and> gm_param g = (case tf_typed_inputs f of [(Some n, t)] \<Rightarrow> Some (n, t) | _ \<Rightarrow> None) \<and>
      (tf_receiver f = Some (By_reference False) \<and>
         run_view g c v = Done ((view_call_new (nr_rpc (cc_near c)) (cc_contract_id c) (tf_ident f))\<lparr>vc_args := bytes\<rparr>) \<or>
       tf_receiver f = Some (By_reference True) \<and>
         (\<exists>h\<in>set (gc_function_calls gc). \<exists>cb. gm_name h = tf_ident f \<and> gm_param h = gm_param g \<and>
            run_function_call h v = (function_call_new (tf_ident f))\<lparr>call_args := bytes\<rparr> \<and>
            run_call g c v = Done cb \<and>
            Done (call_finish cb) = run_bind (near_transaction (cc_near c) (Inr (cc_contract_id c)))
              (\<lambda>b. Done (add_action (function_call_to_action (run_function_call h v)) b)))))"

lemma view_method_for:
  assumes pm: "parse_method f = Inr m" "mi_is_view m" and fmt: "method_format m (ca_format args) = fn_format args f"
  shows "client_method_for gc args c v f (generate_view_method m (ca_format args))"
  using parse_method_fields [OF pm(1)] run_view_query [OF pm(1), of "ca_format args" c v] fmt pm(2)
  unfolding client_method_for_def Let_def by (simp add: generate_view_method_def Let_def)

lemma call_method_for:
  assumes pm: "parse_method f = Inr m" "\<not> mi_is_view m" and fmt: "method_format m (ca_format args) = fn_format args f"
    and h: "generate_function_call_method m (ca_format args) \<in> set (gc_function_calls gc)"
  shows "client_method_for gc args c v f (generate_call_method m (ca_format args))"
proof -
  let ?h = "generate_function_call_method m (ca_format args)" and ?g = "generate_call_method m (ca_format args)"
  note pf = parse_method_fields [OF pm(1)]
  have n: "gm_name ?h = tf_ident f" "gm_param ?h = method_param m" "gm_name ?g = tf_ident f" "gm_param ?g = method_param m"
    using pf(1) by (simp_all add: generate_function_call_method_def generate_call_method_def)
  note args = run_function_call_args [OF pm(1), of "ca_format args" v, unfolded fmt]
  let ?cb = "\<lparr>cb_builder = transaction_builder_new (nr_rpc (cc_near c)) (nr_signer (cc_near c)) (cc_contract_id c) (nr_max_nonce_retries (cc_near c)),
    cb_call = run_function_call ?h v\<rparr>"
  have "Done (call_finish ?cb) = run_bind (near_transaction (cc_near c) (Inr (cc_contract_id c)))
      (\<lambda>b. Done (add_action (function_call_to_action (run_function_call ?h v)) b))"
    by (simp add: near_transaction_def call_finish_def)
  then have "\<exists>cb. run_call ?g c v = Done cb \<and> Done (call_finish cb) = run_bind (near_transaction (cc_near c) (Inr (cc_contract_id c)))
      (\<lambda>b. Done (add_action (function_call_to_action (run_function_call ?h v)) b))"
    using run_call_builder [OF pm(1), of "ca_format args" c v] by blast
  moreover have "gm_param ?h = gm_param ?g" "tf_receiver f = Some (By_reference True)" using n pf(3) pm(2) by simp_all
  moreover have "gm_param ?g = (case tf_typed_inputs f of [(Some n, t)] \<Rightarrow> Some (n, t) | _ \<Rightarrow> None)" using n(4) pf(4) by (rule trans)
  ultimately show ?thesis unfolding client_method_for_def Let_def using h n(1,3) args by blast
qed

text \<open>C18: A generated client has a method for each method of the trait, in order and under its name. A
  read method makes the view call of that name on the client's contract. A write method makes a
  call that, when finished, is the transaction to the contract with exactly the function call that
  the constructor of the same name on the marker struct gives, so that calls made by the client and
  calls composed into other transactions agree. In all of them the argument is sent in the format
  of the method or else of the contract, an empty JSON object standing for no argument; an
  argument that is not bound to a name is not sent, nor is it a parameter.\<close>

theorem typed_contract_calls:
  assumes "contract attr item = Inr gc"
  shows "\<exists>fs args. it_items item = map Item_fn fs \<and> contract_args_parse attr = Inr args \<and>
    list_all2 (client_method_for gc args c v) fs (gc_client_methods gc)"
proof -
  obtain args where args: "contract_args_parse attr = Inr args" "contract_impl args item = Inr gc"
    using assms by (auto simp: contract_def elim!: rbind.elims)
  obtain ms where ms: "parse_items (it_items item) = Inr ms"
    and gc: "gc_client_methods gc = map (\<lambda>m. if mi_is_view m then generate_view_method m (ca_format args) else generate_call_method m (ca_format args)) ms"
      "gc_function_calls gc = map (\<lambda>m. generate_function_call_method m (ca_format args)) (filter (\<lambda>m. \<not> mi_is_view m) ms)"
    using args(2) by (auto simp: contract_impl_def split: if_splits elim!: rbind.elims)
  obtain fs where fs: "it_items item = map Item_fn fs" "length ms = length fs" "\<And>i. i < length fs \<Longrightarrow> parse_method (fs ! i) = Inr (ms ! i)"
    using parse_items_map [OF ms] by blast
  have "client_method_for gc args c v (fs ! i) (gc_client_methods gc ! i)" if i: "i < length fs" for i
  proof -
    have fmt: "method_format (ms ! i) (ca_format args) = fn_format args (fs ! i)"
      using parse_method_fields(2) [OF fs(3) [OF i]] by (simp add: method_format_def fn_format_def)
    have g: "gc_client_methods gc ! i =
        (if mi_is_view (ms ! i) then generate_view_method (ms ! i) (ca_format args) else generate_call_method (ms ! i) (ca_format args))"
      using gc(1) fs(2) i by simp
    have "generate_function_call_method (ms ! i) (ca_format args) \<in> set (gc_function_calls gc)" if "\<not> mi_is_view (ms ! i)"
      using gc(2) that fs(2) i by auto
    then show ?thesis using g view_method_for [OF fs(3) [OF i] _ fmt] call_method_for [OF fs(3) [OF i] _ fmt] by simp
  qed
  moreover have "length (gc_client_methods gc) = length fs" using gc(1) fs(2) by simp
  ultimately have "list_all2 (client_method_for gc args c v) fs (gc_client_methods gc)" by (simp add: list_all2_conv_all_nth)
  then show ?thesis using fs(1) args(1) by blast
qed

definition counter_trait :: item_trait where
  "counter_trait = \<lparr>it_ident = ''Counter'', it_unsafe = False, it_auto = False, it_generic_params = [], it_where_clause = False,
     it_supertraits = [], it_items =
       [Item_fn \<lparr>tf_ident = ''get_count'', tf_receiver = Some (By_reference False), tf_attrs = [], tf_typed_inputs = [],
          tf_output = Some ''u64'', tf_has_default = False\<rparr>,
        Item_fn \<lparr>tf_ident = ''add'', tf_receiver = Some (By_reference True), tf_attrs = [\<lparr>at_path = ''call'', at_meta = Meta_path\<rparr>],
          tf_typed_inputs = [(Some ''args'', ''AddArgs'')], tf_output = None, tf_has_default = False\<rparr>]\<rparr>"

theorem typed_contract_calls_witness:
  "\<forall>c v. \<exists>gc. contract [] counter_trait = Inr gc \<and> map gm_name (gc_client_methods gc) = [''get_count'', ''add''] \<and>
     run_view (gc_client_methods gc ! 0) c v =
       Done ((view_call_new (nr_rpc (cc_near c)) (cc_contract_id c) ''get_count'')\<lparr>vc_args := as_bytes ''{}''\<rparr>)"
proof (intro allI)
  fix c v
  let ?f = "\<lparr>tf_ident = ''get_count'', tf_receiver = Some (By_reference False), tf_attrs = [], tf_typed_inputs = [],
          tf_output = Some ''u64'', tf_has_default = False\<rparr>"
  let ?g = "\<lparr>tf_ident = ''add'', tf_receiver = Some (By_reference True), tf_attrs = [\<lparr>at_path = ''call'', at_meta = Meta_path\<rparr>],
          tf_typed_inputs = [(Some ''args'', ''AddArgs'')], tf_output = None, tf_has_default = False\<rparr>"
  obtain m n where m: "parse_method ?f = Inr m" "parse_method ?g = Inr n" "mi_name m = ''get_count''" "mi_name n = ''add''"
    by (simp add: parse_method_def receiver_kind_def call_attr_def)
  then have "parse_items (it_items counter_trait) = Inr [m, n]" by (simp add: counter_trait_def)
  then have "\<exists>gc. contract [] counter_trait = Inr gc \<and> map gm_name (gc_client_methods gc) = [''get_count'', ''add'']"
    using m(3,4) by (simp add: contract_def contract_args_parse_def contract_impl_def generate_view_method_def generate_call_method_def Let_def)
       (simp add: counter_trait_def)
  then obtain gc where gc: "contract [] counter_trait = Inr gc" "map gm_name (gc_client_methods gc) = [''get_count'', ''add'']" by (elim exE conjE)
  obtain fs args where fs: "it_items counter_trait = map Item_fn fs" "contract_args_parse [] = Inr args"
    "list_all2 (client_method_for gc args c v) fs (gc_client_methods gc)" using typed_contract_calls [OF gc(1), of c v] by blast
  have "fs \<noteq> []" "hd fs = ?f" using fs(1) by (auto simp: counter_trait_def Cons_eq_map_conv)
  then have "client_method_for gc args c v ?f (gc_client_methods gc ! 0)"
    using fs(3) by (metis hd_conv_nth length_greater_0_conv list_all2_nthD)
  moreover have "ca_format args = Json" using fs(2) by (auto simp: contract_args_parse_def)
  ultimately have rv: "run_view (gc_client_methods gc ! 0) c v =
      Done ((view_call_new (nr_rpc (cc_near c)) (cc_contract_id c) ''get_count'')\<lparr>vc_args := as_bytes ''{}''\<rparr>)"
    by (simp add: client_method_for_def Let_def sent_args_def fn_format_def format_attr_def)
  show "\<exists>gc. contract [] counter_trait = Inr gc \<and> map gm_name (gc_client_methods gc) = [''get_count'', ''add''] \<and>
     run_view (gc_client_methods gc ! 0) c v =
       Done ((view_call_new (nr_rpc (cc_near c)) (cc_contract_id c) ''get_count'')\<lparr>vc_args := as_bytes ''{}''\<rparr>)" by (intro exI conjI) (rule gc, rule gc, rule rv)
qed

end
