(* ===== verification/Block_Views.thy ===== *)
theory Block_Views
  imports Rpc_Methods
begin

text \<open>
  What a node reports about blocks, chunks, validators, state changes and itself
  (\<open>types/rpc.rs\<close> and \<open>types/rpc_extra.rs\<close>): the results of \<open>block\<close>, \<open>block_effects\<close>,
  \<open>maintenance_windows\<close>, \<open>status\<close>, \<open>gas_price\<close>, \<open>validators\<close>, \<open>view_code\<close> and \<open>receipt_to_tx\<close>, whose
  calls are in \<open>Rpc_Methods\<close>, with the operations on them. Large numbers come as strings or as
  numbers; the two hand-written deserializers for them are modelled over what serde derives
  for the enum of the two shapes (locale \<open>string_or_num_laws\<close>), and shown to accept exactly
  the decimal texts that fit the type.
\<close>

section \<open>Validators\<close>

record validator_stake_view_v1 =
  vsv_account_id :: account_id
  vsv_public_key :: public_key
  vsv_stake :: near_token

datatype validator_stake_view = StakeV1 validator_stake_view_v1

primrec stake_into_v1 :: "validator_stake_view \<Rightarrow> validator_stake_view_v1" where
  "stake_into_v1 (StakeV1 v) = v"

primrec stake_account_id :: "validator_stake_view \<Rightarrow> account_id" where
  "stake_account_id (StakeV1 v) = vsv_account_id v"

primrec stake_amount :: "validator_stake_view \<Rightarrow> near_token" where
  "stake_amount (StakeV1 v) = vsv_stake v"

record slashed_validator =
  sv_account_id :: account_id
  sv_is_double_sign :: bool

datatype validator_kickout_reason =
    KickSlashed
  | KickNotEnoughBlocks u64 u64
  | KickNotEnoughChunks u64 u64
  | KickUnstaked
  | KickNotEnoughStake near_token near_token
  | KickDidNotGetASeat
  | KickNotEnoughChunkEndorsements u64 u64
  | KickProtocolVersionTooOld u32 u32

record validator_kickout_view =
  vk_account_id :: account_id
  vk_reason :: validator_kickout_reason

record current_epoch_validator_info =
  cv_account_id :: account_id
  cv_public_key :: public_key
  cv_is_slashed :: bool
  cv_stake :: near_token
  cv_shards_produced :: "u64 list"
  cv_num_produced_blocks :: u64
  cv_num_expected_blocks :: u64
  cv_num_produced_chunks :: u64
  cv_num_expected_chunks :: u64
  cv_num_produced_chunks_per_shard :: "u64 list"
  cv_num_expected_chunks_per_shard :: "u64 list"
  cv_num_produced_endorsements :: u64
  cv_num_expected_endorsements :: u64
  cv_num_produced_endorsements_per_shard :: "u64 list"
  cv_num_expected_endorsements_per_shard :: "u64 list"
  cv_shards_endorsed :: "u64 list"

record next_epoch_validator_info =
  nv_account_id :: account_id
  nv_public_key :: public_key
  nv_stake :: near_token
  nv_shards :: "u64 list"

record epoch_validator_info =
  ev_current_validators :: "current_epoch_validator_info list"
  ev_next_validators :: "next_epoch_validator_info list"
  ev_current_fishermen :: "validator_stake_view list"
  ev_next_fishermen :: "validator_stake_view list"
  ev_current_proposals :: "validator_stake_view list"
  ev_prev_epoch_kickout :: "validator_kickout_view list"
  ev_epoch_start_height :: u64
  ev_epoch_height :: u64
  ev_validator_reward_paid_prev_epoch :: "account_id \<rightharpoonup> near_token"

section \<open>Chunks and blocks\<close>

record bandwidth_request_bitmap =
  bw_data :: bytes

record bandwidth_request =
  bw_to_shard :: u16
  bw_requested_values_bitmap :: bandwidth_request_bitmap

record bandwidth_requests_v1 =
  bw_requests :: "bandwidth_request list"

datatype bandwidth_requests = BandwidthV1 bandwidth_requests_v1

record trie_split =
  ts_boundary_account :: account_id
  ts_left_memory :: u64
  ts_right_memory :: u64

record congestion_info_view =
  cg_delayed_receipts_gas :: u128
  cg_buffered_receipts_gas :: u128
  cg_receipt_bytes :: u64
  cg_allowed_shard :: u16

record chunk_header_view =
  ch_chunk_hash :: crypto_hash
  ch_prev_block_hash :: crypto_hash
  ch_outcome_root :: crypto_hash
  ch_prev_state_root :: crypto_hash
  ch_encoded_merkle_root :: crypto_hash
  ch_encoded_length :: u64
  ch_height_created :: u64
  ch_height_included :: u64
  ch_shard_id :: u64
  ch_gas_used :: u64
  ch_gas_limit :: u64
  ch_validator_reward :: near_token
  ch_balance_burnt :: near_token
  ch_outgoing_receipts_root :: crypto_hash
  ch_tx_root :: crypto_hash
  ch_validator_proposals :: "validator_stake_view list"
  ch_congestion_info :: "congestion_info_view option"
  ch_bandwidth_requests :: "bandwidth_requests option"
  ch_rent_paid :: "near_token option"
  ch_proposed_split :: "trie_split option option"
  ch_signature :: signature

record block_header_view =
  bh_height :: u64
  bh_prev_height :: "u64 option"
  bh_hash :: crypto_hash
  bh_prev_hash :: crypto_hash
  bh_prev_state_root :: crypto_hash
  bh_chunk_receipts_root :: crypto_hash
  bh_chunk_headers_root :: crypto_hash
  bh_chunk_tx_root :: crypto_hash
  bh_outcome_root :: crypto_hash
  bh_chunks_included :: u64
  bh_challenges_root :: crypto_hash
  bh_timestamp :: u64
  bh_timestamp_nanosec :: string
  bh_random_value :: crypto_hash
  bh_validator_proposals :: "validator_stake_view list"
  bh_chunk_mask :: "bool list"
  bh_gas_price :: near_token
  bh_block_ordinal :: "u64 option"
  bh_total_supply :: near_token
  bh_challenges_result :: "slashed_validator list"
  bh_last_final_block :: crypto_hash
  bh_last_ds_final_block :: crypto_hash
  bh_epoch_id :: crypto_hash
  bh_next_epoch_id :: crypto_hash
  bh_next_bp_hash :: crypto_hash
  bh_block_merkle_root :: crypto_hash
  bh_epoch_sync_data_hash :: "crypto_hash option"
  bh_block_body_hash :: "crypto_hash option"
  bh_approvals :: "signature option list"
  bh_signature :: signature
  bh_latest_protocol_version :: u32
  bh_rent_paid :: "near_token option"
  bh_validator_reward :: "near_token option"
  bh_chunk_endorsements :: "bytes list option"
  bh_shard_split :: "(u64 \<times> account_id) option"

record block_view =
  bv_author :: account_id
  bv_header :: block_header_view
  bv_chunks :: "chunk_header_view list"

section \<open>State changes\<close>

datatype state_change_kind_view =
    AccountTouched account_id
  | AccessKeyTouched account_id
  | DataTouched account_id
  | ContractCodeTouched account_id

record block_effects_view =
  be_block_hash :: crypto_hash
  be_changes :: "state_change_kind_view list"

record maintenance_window =
  mw_start :: u64
  mw_end :: u64

datatype state_change_cause_view =
    CauseNotWritableToDisk
  | CauseInitialState
  | CauseTransactionProcessing crypto_hash
  | CauseActionReceiptProcessingStarted crypto_hash
  | CauseActionReceiptGasReward crypto_hash
  | CauseReceiptProcessing crypto_hash
  | CausePostponedReceipt crypto_hash
  | CauseUpdatedDelayedReceipts
  | CauseValidatorAccountsUpdate
  | CauseMigration
  | CauseBandwidthSchedulerStateUpdate

datatype state_change_value_view =
    ChangeAccountUpdate account_id json
  | ChangeAccountDeletion account_id
  | ChangeAccessKeyUpdate account_id public_key_handle access_key_details
  | ChangeAccessKeyDeletion account_id public_key_handle
  | ChangeGasKeyNonceUpdate account_id public_key_handle u16 u64
  | ChangeDataUpdate account_id string string
  | ChangeDataDeletion account_id string
  | ChangeContractCodeUpdate account_id string
  | ChangeContractCodeDeletion account_id

record state_change_with_cause_view =
  scc_cause :: state_change_cause_view
  scc_value :: state_change_value_view

section \<open>Light client\<close>

record block_header_inner_lite_view =
  il_height :: u64
  il_epoch_id :: crypto_hash
  il_next_epoch_id :: crypto_hash
  il_prev_state_root :: crypto_hash
  il_outcome_root :: crypto_hash
  il_timestamp :: u64
  il_timestamp_nanosec :: string
  il_next_bp_hash :: crypto_hash
  il_block_merkle_root :: crypto_hash

record light_client_block_view =
  lc_prev_block_hash :: crypto_hash
  lc_next_block_inner_hash :: crypto_hash
  lc_inner_lite :: block_header_inner_lite_view
  lc_inner_rest_hash :: crypto_hash
  lc_next_bps :: "validator_stake_view list option"
  lc_approvals_after_next :: "signature option list"

record light_client_block_lite_view =
  ll_prev_block_hash :: crypto_hash
  ll_inner_rest_hash :: crypto_hash
  ll_inner_lite :: block_header_inner_lite_view

section \<open>The node\<close>

record validator_info =
  vi_account_id :: account_id

record sync_info =
  sy_latest_block_hash :: crypto_hash
  sy_latest_block_height :: u64
  sy_latest_state_root :: "crypto_hash option"
  sy_latest_block_time :: string
  sy_syncing :: bool
  sy_earliest_block_hash :: "crypto_hash option"
  sy_earliest_block_height :: "u64 option"
  sy_earliest_block_time :: "string option"
  sy_epoch_id :: "crypto_hash option"
  sy_epoch_start_height :: "u64 option"

record node_version =
  no_version :: string
  no_build :: string
  no_commit :: "string option"
  no_rustc_version :: "string option"

record status_response =
  sr_protocol_version :: u32
  sr_latest_protocol_version :: u32
  sr_chain_id :: string
  sr_genesis_hash :: crypto_hash
  sr_rpc_addr :: "string option"
  sr_node_public_key :: "string option"
  sr_node_key :: "string option"
  sr_validator_account_id :: "account_id option"
  sr_validator_public_key :: "public_key option"
  sr_validators :: "validator_info list"
  sr_sync_info :: sync_info
  sr_version :: node_version
  sr_uptime_sec :: "u64 option"

record gas_price_view =
  gpv_gas_price :: near_token

definition gas_price_as_u128 :: "gas_price_view \<Rightarrow> u128" where
  "gas_price_as_u128 g = gpv_gas_price g"

record receipt_to_tx_response =
  rtt_transaction_hash :: crypto_hash
  rtt_sender_account_id :: account_id

record contract_code_view =
  cc_code :: bytes
  cc_hash :: crypto_hash
  cc_block_height :: u64
  cc_block_hash :: crypto_hash

section \<open>Large numbers\<close>

text \<open>The text of a \<open>ParseIntError\<close>: the first byte that is no digit or makes the number too large
  decides. A sign alone is no digit, and an unsigned type takes no minus.\<close>

fun int_error_from :: "nat \<Rightarrow> nat \<Rightarrow> str \<Rightarrow> string option" where
  "int_error_from b acc [] = None"
| "int_error_from b acc (c # s) =
     (if \<not> is_ascii_digit c then Some ''invalid digit found in string''
      else let n = acc * 10 + digit_value c
           in if n < b then int_error_from b n s else Some ''number too large to fit in target type'')"

definition parse_int_error :: "nat \<Rightarrow> str \<Rightarrow> string option" where
  "parse_int_error b s =
     (if s = [] then Some ''cannot parse integer from empty string''
      else if s = ''+'' \<or> s = ''-'' then Some ''invalid digit found in string''
      else int_error_from b 0 (if hd s = CHR ''+'' then tl s else s))"

definition parse_uint_result :: "str \<Rightarrow> string + 'a::len word" where
  "parse_uint_result s =
     (case parse_int_error (2 ^ LENGTH('a)) s of
        Some e \<Rightarrow> Inl e
      | None \<Rightarrow> Inr (of_nat (dec_value (if hd s = CHR ''+'' then tl s else s))))"

text \<open>The enum \<open>StringOrNum\<close> inside both functions; its derived deserializer is an argument.\<close>

datatype 'a string_or_num = SonString string | SonNum 'a

definition dec_format :: "(json \<Rightarrow> string + u128 string_or_num) \<Rightarrow> json \<Rightarrow> string + u128" where
  "dec_format de v =
     (case de v of
        Inl e \<Rightarrow> Inl e
      | Inr (SonString s) \<Rightarrow> parse_uint_result s
      | Inr (SonNum n) \<Rightarrow> Inr n)"

definition gas_dec_format :: "(json \<Rightarrow> string + u64 string_or_num) \<Rightarrow> json \<Rightarrow> string + gas" where
  "gas_dec_format de v =
     (case de v of
        Inl e \<Rightarrow> Inl e
      | Inr (SonString s) \<Rightarrow> parse_uint_result s
      | Inr (SonNum n) \<Rightarrow> Inr n)"

text \<open>What serde documents for an untagged enum of a string and a number: the shapes are tried in
  order, and a JSON integer is one of at most 64 bits.\<close>

locale string_or_num_laws =
  fixes de :: "json \<Rightarrow> string + ('a::len word) string_or_num"
  assumes string_shape: "de (JStr s) = Inr (SonString s)"
    and number_shape: "0 \<le> n \<Longrightarrow> n < 2 ^ 64 \<Longrightarrow> de (JInt n) = Inr (SonNum (of_int n))"
    and other_shape: "\<lbrakk>\<nexists>s. v = JStr s; \<nexists>n. v = JInt n \<and> 0 \<le> n \<and> n < 2 ^ 64\<rbrakk> \<Longrightarrow> \<exists>e. de v = Inl e"
begin

lemma shapes:
  "de v = Inr (SonString s) \<longleftrightarrow> v = JStr s"
  "de v = Inr (SonNum w) \<longleftrightarrow> (\<exists>n. v = JInt n \<and> 0 \<le> n \<and> n < 2 ^ 64 \<and> w = of_int n)"
proof -
  consider t where "v = JStr t" | n where "v = JInt n" "0 \<le> n" "n < 2 ^ 64"
    | "\<nexists>s. v = JStr s" "\<nexists>n. v = JInt n \<and> 0 \<le> n \<and> n < 2 ^ 64" by blast
  then have "(de v = Inr (SonString s) \<longleftrightarrow> v = JStr s)
      \<and> (de v = Inr (SonNum w) \<longleftrightarrow> (\<exists>n. v = JInt n \<and> 0 \<le> n \<and> n < 2 ^ 64 \<and> w = of_int n))"
  proof cases
    case 3
    from other_shape [OF this] obtain e where "de v = Inl e" by blast
    with 3 show ?thesis by auto
  qed (auto simp: string_shape number_shape)
  then show "de v = Inr (SonString s) \<longleftrightarrow> v = JStr s"
    and "de v = Inr (SonNum w) \<longleftrightarrow> (\<exists>n. v = JInt n \<and> 0 \<le> n \<and> n < 2 ^ 64 \<and> w = of_int n)" by blast+
qed

end

definition untagged_string_or_num :: "json \<Rightarrow> string + ('a::len word) string_or_num" where
  "untagged_string_or_num v =
     (case v of
        JStr s \<Rightarrow> Inr (SonString s)
      | JInt n \<Rightarrow> if 0 \<le> n \<and> n < 2 ^ 64 then Inr (SonNum (of_int n))
                  else Inl ''data did not match any variant of untagged enum StringOrNum''
      | _ \<Rightarrow> Inl ''data did not match any variant of untagged enum StringOrNum'')"

interpretation son: string_or_num_laws untagged_string_or_num
  by unfold_locales (auto simp: untagged_string_or_num_def split: json.splits)

section \<open>Lemmas\<close>

lemma int_error_from_None:
  assumes "acc < b"
  shows "int_error_from b acc s = None
    \<longleftrightarrow> (\<exists>n. digits_from acc s = Some n \<and> n < b)"
  using assms
proof (induction s arbitrary: acc)
  case (Cons c s)
  have "n < b \<Longrightarrow> digits_from m s = Some n \<Longrightarrow> m < b" for m n
  proof -
    have "digits_from m t = Some n \<Longrightarrow> m \<le> n" for t m n
      by (induction t arbitrary: m) (force split: if_splits)+
    then show "n < b \<Longrightarrow> digits_from m s = Some n \<Longrightarrow> m < b" by fastforce
  qed
  with Cons show ?case by (auto simp: Let_def)
qed simp

lemma digits_from_sign: "digits_from acc (CHR ''-'' # s) = None"
  by (simp add: is_ascii_digit_def char_code_def)

lemma parse_int_error_None:
  assumes "0 < b"
  shows "parse_int_error b s = None \<longleftrightarrow> (\<exists>n. parse_nat s = Some n \<and> n < b)"
proof (cases s)
  case (Cons c t)
  show ?thesis
    using int_error_from_None [OF assms, of t] int_error_from_None [OF assms, of "c # t"] digits_from_sign [of 0 "[]"] Cons
    by (auto simp: parse_int_error_def simp del: digits_from.simps(2) int_error_from.simps(2))
qed (simp add: parse_int_error_def)

lemma parse_nat_value: "parse_nat s = Some n \<Longrightarrow> dec_value (if hd s = CHR ''+'' then tl s else s) = n"
  unfolding parse_nat_Some by (auto simp: neq_Nil_conv dest: digit_not_plus)

text \<open>\<open>str::parse\<close> with its error, and without.\<close>

lemma parse_uint_result_Inr: "parse_uint_result s = Inr (w :: 'a::len word) \<longleftrightarrow> parse_uint s = Some w"
proof -
  have "parse_int_error (2 ^ LENGTH('a)) s = None \<longleftrightarrow> (\<exists>v :: 'a word. parse_uint s = Some v)"
    by (auto simp: parse_int_error_None parse_uint_def split: option.splits)
  moreover have "dec_value (if hd s = CHR ''+'' then tl s else s) = unat v" if "parse_uint s = Some v" for v :: "'a word"
    using that by (simp add: parse_uint_Some parse_nat_value)
  ultimately show ?thesis
    by (cases "parse_int_error (2 ^ LENGTH('a)) s") (auto simp: parse_uint_result_def)
qed

text \<open>Both deserializers take a number written out, with an optional plus sign, or a JSON integer,
  and keep its value; nothing else, and nothing that does not fit.\<close>

theorem large_numbers_exact:
  assumes "string_or_num_laws de" and "string_or_num_laws dg"
  shows "dec_format de v = Inr n
      \<longleftrightarrow> (\<exists>s. v = JStr s \<and> parse_uint s = Some n) \<or> (v = JInt (uint n) \<and> uint n < 2 ^ 64)"
    and "gas_dec_format dg v = Inr g \<longleftrightarrow> (\<exists>s. v = JStr s \<and> parse_uint s = Some g) \<or> v = JInt (uint g)"
proof -
  have g: "uint g < 2 ^ 64" using uint_bounded [of g] by simp
  have i: "uint (of_int i :: u128) = i" if "0 \<le> i" "i < 2 ^ 64" for i
    using that by (simp add: uint_word_of_int take_bit_int_eq_self)
  have j: "uint (of_int i :: u64) = i" if "0 \<le> i" "i < 2 ^ 64" for i
    using that by (simp add: uint_word_of_int take_bit_int_eq_self)
  have "dec_format de v = Inr n \<longleftrightarrow> (\<exists>s. de v = Inr (SonString s) \<and> parse_uint s = Some n) \<or> de v = Inr (SonNum n)"
    by (auto simp: dec_format_def parse_uint_result_Inr split: sum.splits string_or_num.splits)
  then show "dec_format de v = Inr n
      \<longleftrightarrow> (\<exists>s. v = JStr s \<and> parse_uint s = Some n) \<or> (v = JInt (uint n) \<and> uint n < 2 ^ 64)"
    by (auto simp: string_or_num_laws.shapes [OF assms(1)] i)
  have "gas_dec_format dg v = Inr g \<longleftrightarrow> (\<exists>s. dg v = Inr (SonString s) \<and> parse_uint s = Some g) \<or> dg v = Inr (SonNum g)"
    by (auto simp: gas_dec_format_def parse_uint_result_Inr split: sum.splits string_or_num.splits)
  with g show "gas_dec_format dg v = Inr g \<longleftrightarrow> (\<exists>s. v = JStr s \<and> parse_uint s = Some g) \<or> v = JInt (uint g)"
    by (auto simp: string_or_num_laws.shapes [OF assms(2)] j)
qed

text \<open>So a printed number is read back by both.\<close>

lemma large_numbers_printed:
  "dec_format untagged_string_or_num (JStr (show_word n)) = Inr n"
  "gas_dec_format untagged_string_or_num (JStr (show_word g)) = Inr g"
  by (simp_all add: large_numbers_exact [OF son.string_or_num_laws_axioms son.string_or_num_laws_axioms])

end
