(* ===== verification/Key_Gen.thy ===== *)
theory Key_Gen
  imports Signers
begin

text \<open>
  Random keys, key pairs, seed phrases and nonces (\<open>types/csprng.rs\<close>, the generating constructors
  of \<open>types/key.rs\<close>, \<open>types/nep413.rs\<close> and \<open>client/signer.rs\<close>). The source of the operating system is an argument that
  threads its state and may fail; the library wraps it so that a failure panics. The generators
  of the curve crates draw from the wrapped source. With a working source every generator
  returns a key that signs; with a broken one it panics and no key is made.
\<close>

text \<open>\<open>kg_fill\<close> is \<open>SysRng\<close>, with \<open>None\<close> for its error; the other two are \<open>SigningKey::generate\<close> and
  \<open>SecretKey::generate_from_rng\<close>, functions of the source they are given.\<close>

record 'g keygen_ops =
  kg_fill :: "nat \<Rightarrow> 'g \<Rightarrow> bytes option \<times> 'g"
  kg_ed25519 :: "(nat \<Rightarrow> 'g \<Rightarrow> (bytes \<times> 'g) run) \<Rightarrow> 'g \<Rightarrow> (bytes \<times> 'g) run"
  kg_k256 :: "(nat \<Rightarrow> 'g \<Rightarrow> (bytes \<times> 'g) run) \<Rightarrow> 'g \<Rightarrow> (bytes \<times> 'g) run"

section \<open>The source\<close>

definition os_csprng :: "'g keygen_ops \<Rightarrow> nat \<Rightarrow> 'g \<Rightarrow> (bytes \<times> 'g) run" where
  "os_csprng kg n g = (case kg_fill kg n g of (Some bs, g') \<Rightarrow> Done (bs, g') | (None, _) \<Rightarrow> Panic)"

definition fill_random :: "'g keygen_ops \<Rightarrow> nat \<Rightarrow> 'g \<Rightarrow> (bytes \<times> 'g) run" where
  "fill_random kg n g = os_csprng kg n g"

section \<open>Secret keys\<close>

definition generate_ed25519 :: "'g keygen_ops \<Rightarrow> 'g \<Rightarrow> (secret_key \<times> 'g) run" where
  "generate_ed25519 kg g =
     run_bind (kg_ed25519 kg (os_csprng kg) g) (\<lambda>(bs, g). Done (SecretKey_Ed25519 bs, g))"

text \<open>\<open>copy_from_slice\<close> panics on another length.\<close>

definition generate_secp256k1 :: "'g keygen_ops \<Rightarrow> 'g \<Rightarrow> (secret_key \<times> 'g) run" where
  "generate_secp256k1 kg g =
     run_bind (kg_k256 kg (os_csprng kg) g) (\<lambda>(bs, g).
       if length bs = 32 then Done (SecretKey_Secp256k1 bs, g) else Panic)"

definition generate_ml_dsa65 :: "'g keygen_ops \<Rightarrow> 'g \<Rightarrow> (secret_key \<times> 'g) run" where
  "generate_ml_dsa65 kg g =
     run_bind (fill_random kg ML_DSA_65_SEED_LENGTH g) (\<lambda>(seed, g). Done (SecretKey_MlDsa65 (Seed seed), g))"

definition generate_ml_dsa65_expanded :: "crypto_ops \<Rightarrow> 'g keygen_ops \<Rightarrow> 'g \<Rightarrow> (secret_key \<times> 'g) run" where
  "generate_ml_dsa65_expanded cr kg g =
     run_bind (generate_ml_dsa65 kg g) (\<lambda>(sk, g).
     run_bind (to_ml_dsa65_expanded cr sk) (\<lambda>m.
     run_bind (expect m) (\<lambda>sk'. Done (sk', g))))"

section \<open>Key pairs\<close>

definition random_ed25519 :: "crypto_ops \<Rightarrow> 'g keygen_ops \<Rightarrow> 'g \<Rightarrow> (key_pair \<times> 'g) run" where
  "random_ed25519 cr kg g =
     run_bind (generate_ed25519 kg g) (\<lambda>(sk, g).
     run_bind (secret_public_key cr sk) (\<lambda>pk. Done (\<lparr>kp_secret_key = sk, kp_public_key = pk\<rparr>, g)))"

definition random_secp256k1 :: "crypto_ops \<Rightarrow> 'g keygen_ops \<Rightarrow> 'g \<Rightarrow> (key_pair \<times> 'g) run" where
  "random_secp256k1 cr kg g =
     run_bind (generate_secp256k1 kg g) (\<lambda>(sk, g).
     run_bind (secret_public_key cr sk) (\<lambda>pk. Done (\<lparr>kp_secret_key = sk, kp_public_key = pk\<rparr>, g)))"

definition random_ml_dsa65 :: "crypto_ops \<Rightarrow> 'g keygen_ops \<Rightarrow> 'g \<Rightarrow> (key_pair \<times> 'g) run" where
  "random_ml_dsa65 cr kg g =
     run_bind (generate_ml_dsa65 kg g) (\<lambda>(sk, g).
     run_bind (secret_public_key cr sk) (\<lambda>pk. Done (\<lparr>kp_secret_key = sk, kp_public_key = pk\<rparr>, g)))"

definition key_pair_random :: "crypto_ops \<Rightarrow> 'g keygen_ops \<Rightarrow> 'g \<Rightarrow> (key_pair \<times> 'g) run" where
  "key_pair_random cr kg g = random_ed25519 cr kg g"

text \<open>The nonce of a message, now: the time and 24 random bytes.\<close>

definition generate_nonce_now :: "'g keygen_ops \<Rightarrow> u64 \<Rightarrow> 'g \<Rightarrow> (bytes \<times> 'g) run" where
  "generate_nonce_now kg now_ms g =
     run_bind (fill_random kg 24 g) (\<lambda>(random, g). Done (generate_nonce now_ms random, g))"

text \<open>\<open>InMemorySigner::generate_implicit\<close>.\<close>

definition generate_implicit ::
  "crypto_ops \<Rightarrow> (bytes \<Rightarrow> string) \<Rightarrow> serde_ops \<Rightarrow> 'g keygen_ops \<Rightarrow> 'g \<Rightarrow> (in_memory_signer \<times> 'g) run" where
  "generate_implicit cr hex_encode sd kg g =
     run_bind (generate_ed25519 kg g) (\<lambda>(sk, g).
     run_bind (in_memory_implicit cr hex_encode sd sk) (\<lambda>s. Done (s, g)))"

section \<open>What the crates promise\<close>

text \<open>A source fills the buffer that it is given. A generator that is given such a source returns
  the 32 bytes of a valid secret; given one that panics, it panics.\<close>

definition source_ok :: "(nat \<Rightarrow> 'g \<Rightarrow> (bytes \<times> 'g) run) \<Rightarrow> bool" where
  "source_ok src \<longleftrightarrow> (\<forall>n g. \<exists>bs g'. src n g = Done (bs, g') \<and> length bs = n)"

definition generator_ok :: "(bytes \<Rightarrow> bool) \<Rightarrow> ((nat \<Rightarrow> 'g \<Rightarrow> (bytes \<times> 'g) run) \<Rightarrow> 'g \<Rightarrow> (bytes \<times> 'g) run) \<Rightarrow> bool" where
  "generator_ok P gen \<longleftrightarrow>
     (\<forall>src g. source_ok src \<longrightarrow> (\<exists>bs g'. gen src g = Done (bs, g') \<and> length bs = 32 \<and> P bs)) \<and>
     (\<forall>src g. (\<forall>n g. src n g = Panic) \<longrightarrow> gen src g = Panic)"

locale keygen_laws =
  fixes cr :: crypto_ops and kg :: "'g keygen_ops"
  assumes fill_length: "kg_fill kg n g = (Some bs, g') \<Longrightarrow> length bs = n"
    and ed25519_generates: "generator_ok (\<lambda>_. True) (kg_ed25519 kg)"
    and k256_generates: "generator_ok (k256_scalar_ok cr) (kg_k256 kg)"
begin

lemma working_source: "(\<And>n g. fst (kg_fill kg n g) \<noteq> None) \<Longrightarrow> source_ok (os_csprng kg)"
proof -
  assume working: "\<And>n g. fst (kg_fill kg n g) \<noteq> None"
  have "\<exists>bs g'. os_csprng kg n g = Done (bs, g') \<and> length bs = n" for n g
    using working [of n g] fill_length [of n g]
    by (cases "kg_fill kg n g") (auto simp: os_csprng_def)
  then show ?thesis by (simp add: source_ok_def)
qed

lemma generated:
  assumes "source_ok (os_csprng kg)"
  shows "\<exists>sk g'. generate_ed25519 kg g = Done (sk, g') \<and> secret_key_ok cr sk \<and> secret_key_type sk = KeyType_Ed25519"
    and "\<exists>sk g'. generate_secp256k1 kg g = Done (sk, g') \<and> secret_key_ok cr sk \<and> secret_key_type sk = KeyType_Secp256k1"
    and "\<exists>sk g'. generate_ml_dsa65 kg g = Done (sk, g') \<and> secret_key_ok cr sk \<and> secret_key_type sk = KeyType_MlDsa65"
proof -
  obtain b g' where "kg_ed25519 kg (os_csprng kg) g = Done (b, g')" "length b = 32"
    using ed25519_generates assms by (metis generator_ok_def)
  then show "\<exists>sk g'. generate_ed25519 kg g = Done (sk, g') \<and> secret_key_ok cr sk \<and> secret_key_type sk = KeyType_Ed25519"
    by (simp add: generate_ed25519_def)
  obtain c g' where "kg_k256 kg (os_csprng kg) g = Done (c, g')" "length c = 32" "k256_scalar_ok cr c"
    using k256_generates assms by (metis generator_ok_def)
  then show "\<exists>sk g'. generate_secp256k1 kg g = Done (sk, g') \<and> secret_key_ok cr sk \<and> secret_key_type sk = KeyType_Secp256k1"
    by (simp add: generate_secp256k1_def)
  obtain s g' where "os_csprng kg ML_DSA_65_SEED_LENGTH g = Done (s, g')" "length s = ML_DSA_65_SEED_LENGTH"
    using assms by (metis source_ok_def)
  then show "\<exists>sk g'. generate_ml_dsa65 kg g = Done (sk, g') \<and> secret_key_ok cr sk \<and> secret_key_type sk = KeyType_MlDsa65"
    by (simp add: generate_ml_dsa65_def fill_random_def)
qed

lemma broken_source:
  assumes "\<And>n g. fst (kg_fill kg n g) = None"
  shows "generate_ed25519 kg g = Panic" "generate_secp256k1 kg g = Panic" "generate_ml_dsa65 kg g = Panic"
proof -
  have "os_csprng kg n g = Panic" for n g
    using assms [of n g] by (cases "kg_fill kg n g") (simp add: os_csprng_def)
  then have "kg_ed25519 kg (os_csprng kg) g = Panic" "kg_k256 kg (os_csprng kg) g = Panic"
    "fill_random kg ML_DSA_65_SEED_LENGTH g = Panic"
    using ed25519_generates k256_generates by (auto simp: generator_ok_def fill_random_def)
  then show "generate_ed25519 kg g = Panic" "generate_secp256k1 kg g = Panic" "generate_ml_dsa65 kg g = Panic"
    by (simp_all add: generate_ed25519_def generate_secp256k1_def generate_ml_dsa65_def)
qed

end

text \<open>A source that counts, and generators that take the first 32 bytes.\<close>

definition counting_ops :: "nat keygen_ops" where
  "counting_ops = \<lparr>kg_fill = (\<lambda>n g. (Some (replicate n (of_nat g)), Suc g)),
     kg_ed25519 = (\<lambda>src. src 32), kg_k256 = (\<lambda>src. src 32)\<rparr>"

interpretation counting: keygen_laws crypto_ref counting_ops
  by unfold_locales
     (auto simp: counting_ops_def generator_ok_def source_ok_def crypto_ref_def)

section \<open>Properties\<close>

text \<open>A pair made from a generated key: what it signs verifies under its public key.\<close>

definition pair_signs :: "crypto_ops \<Rightarrow> key_type \<Rightarrow> key_pair \<Rightarrow> bool" where
  "pair_signs cr kt kp \<longleftrightarrow>
     secret_key_ok cr (kp_secret_key kp) \<and> public_key_ok cr (kp_public_key kp) \<and>
     public_key_type (kp_public_key kp) = kt \<and>
     (\<forall>m. \<exists>sig. secret_sign cr (kp_secret_key kp) m = Done sig \<and> signature_verify cr sig m (kp_public_key kp))"

lemma pair_of_key:
  assumes "signature_laws cr" "secret_key_ok cr sk"
  shows "\<exists>pk. secret_public_key cr sk = Done pk \<and>
    pair_signs cr (secret_key_type sk) \<lparr>kp_secret_key = sk, kp_public_key = pk\<rparr>"
proof -
  obtain pk where pk: "secret_public_key cr sk = Done pk" "public_key_ok cr pk" "public_key_type pk = secret_key_type sk"
    using signing_verifies [OF assms, of "[]"] by blast
  have "\<exists>sig. secret_sign cr sk m = Done sig \<and> signature_verify cr sig m pk" for m
    using signing_verifies [OF assms, of m] pk(1) by auto
  with pk assms(2) show ?thesis by (simp add: pair_signs_def)
qed

text \<open>A generated implicit signer signs for the account that its key names, when the account parser
  takes the hexadecimal form of 32 bytes.\<close>

lemma generate_implicit_signs:
  assumes "keygen_laws cr kg" "signature_laws cr" "source_ok (os_csprng kg)"
    and "\<And>bs. length bs = 32 \<Longrightarrow> parse_account sd (hex_encode bs) = Inr (hex_encode bs)"
  shows "\<exists>s g' pk. generate_implicit cr hex_encode sd kg g = Done (s, g') \<and> ims_public_key s = PublicKey_Ed25519 pk \<and>
    ims_account_id s = hex_encode pk \<and>
    pair_signs cr KeyType_Ed25519 \<lparr>kp_secret_key = ims_secret_key s, kp_public_key = ims_public_key s\<rparr>"
proof -
  obtain sk g' where sk: "generate_ed25519 kg g = Done (sk, g')" "secret_key_ok cr sk" "secret_key_type sk = KeyType_Ed25519"
    using keygen_laws.generated(1) [OF assms(1,3)] by blast
  then obtain p where p: "secret_public_key cr sk = Done p" "pair_signs cr KeyType_Ed25519 \<lparr>kp_secret_key = sk, kp_public_key = p\<rparr>"
    using pair_of_key [OF assms(2) sk(2)] by auto
  then have ok: "public_key_ok cr p" "public_key_type p = KeyType_Ed25519" by (simp_all add: pair_signs_def)
  then obtain pk where pk: "p = PublicKey_Ed25519 pk" by (cases p) simp_all
  moreover have "length pk = 32" using ok(1) pk by simp
  ultimately show ?thesis using sk(1) p assms(4)
    by (simp add: generate_implicit_def in_memory_implicit_def)
qed

text \<open>C32: With a working source of randomness, generating a key pair of each of the three types
  returns a well-formed pair of that type whose signatures verify; when the source of the
  operating system fails, every generator panics and no key is made from anything weaker.\<close>

theorem random_key_pairs:
  assumes "keygen_laws cr kg" "signature_laws cr"
  shows "((\<forall>n g. fst (kg_fill kg n g) \<noteq> None) \<longrightarrow>
      (\<exists>kp g'. random_ed25519 cr kg g = Done (kp, g') \<and> pair_signs cr KeyType_Ed25519 kp) \<and>
      (\<exists>kp g'. random_secp256k1 cr kg g = Done (kp, g') \<and> pair_signs cr KeyType_Secp256k1 kp) \<and>
      (\<exists>kp g'. random_ml_dsa65 cr kg g = Done (kp, g') \<and> pair_signs cr KeyType_MlDsa65 kp)) \<and>
    ((\<forall>n g. fst (kg_fill kg n g) = None) \<longrightarrow>
      random_ed25519 cr kg g = Panic \<and> random_secp256k1 cr kg g = Panic \<and> random_ml_dsa65 cr kg g = Panic \<and>
      generate_ml_dsa65_expanded cr kg g = Panic)"
proof (intro conjI impI)
  assume "\<forall>n g. fst (kg_fill kg n g) \<noteq> None"
  then have "source_ok (os_csprng kg)" by (intro keygen_laws.working_source [OF assms(1)]) simp
  note gen = keygen_laws.generated [OF assms(1) this, of g] pair_of_key [OF assms(2)]
  show "\<exists>kp g'. random_ed25519 cr kg g = Done (kp, g') \<and> pair_signs cr KeyType_Ed25519 kp"
    and "\<exists>kp g'. random_secp256k1 cr kg g = Done (kp, g') \<and> pair_signs cr KeyType_Secp256k1 kp"
    and "\<exists>kp g'. random_ml_dsa65 cr kg g = Done (kp, g') \<and> pair_signs cr KeyType_MlDsa65 kp"
    using gen by (fastforce simp: random_ed25519_def random_secp256k1_def random_ml_dsa65_def)+
next
  assume "\<forall>n g. fst (kg_fill kg n g) = None"
  then show "random_ed25519 cr kg g = Panic" "random_secp256k1 cr kg g = Panic" "random_ml_dsa65 cr kg g = Panic"
    "generate_ml_dsa65_expanded cr kg g = Panic"
    using keygen_laws.broken_source [OF assms(1)]
    by (simp_all add: random_ed25519_def random_secp256k1_def random_ml_dsa65_def generate_ml_dsa65_expanded_def)
qed

text \<open>A run of the counting source from 7, and a source that has failed.\<close>

definition failing_ops :: "nat keygen_ops" where
  "failing_ops = counting_ops\<lparr>kg_fill := (\<lambda>n g. (None, g))\<rparr>"

interpretation failing: keygen_laws crypto_ref failing_ops
  by unfold_locales
     (auto simp: counting_ops_def failing_ops_def generator_ok_def source_ok_def crypto_ref_def)

theorem random_key_pairs_witness:
  "(\<exists>kp g'. random_secp256k1 crypto_ref counting_ops 7 = Done (kp, g') \<and> pair_signs crypto_ref KeyType_Secp256k1 kp \<and>
      kp_secret_key kp = SecretKey_Secp256k1 (replicate 32 7)) \<and>
   random_secp256k1 crypto_ref failing_ops 7 = Panic"
proof -
  have "\<forall>n g. fst (kg_fill counting_ops n g) \<noteq> None" by (simp add: counting_ops_def)
  then obtain kp g' where kp: "random_secp256k1 crypto_ref counting_ops 7 = Done (kp, g')"
    "pair_signs crypto_ref KeyType_Secp256k1 kp"
    using random_key_pairs [OF counting.keygen_laws_axioms signature_laws_ref, of 7] by blast
  have "kp_secret_key kp = SecretKey_Secp256k1 (replicate 32 7)"
    using kp(1) by (cases "secret_public_key crypto_ref (SecretKey_Secp256k1 (replicate 32 7))")
      (auto simp: random_secp256k1_def generate_secp256k1_def counting_ops_def os_csprng_def)
  moreover have "\<forall>n g. fst (kg_fill failing_ops n g) = None" by (simp add: failing_ops_def)
  then have "random_secp256k1 crypto_ref failing_ops 7 = Panic"
    using random_key_pairs [OF failing.keygen_laws_axioms signature_laws_ref, of 7] by blast
  ultimately show ?thesis using kp by blast
qed

end
