(* ===== verification/Client_Errors.thy ===== *)
theory Client_Errors
  imports Rpc_Errors
begin

text \<open>
  The texts of the errors of the client (\<open>error.rs\<close>, as the attributes of \<open>thiserror\<close> spell them)
  and their names in traces. Texts of other crates are part of the error values.
\<close>

section \<open>Parsing, signing, credentials\<close>

primrec parse_amount_error_display :: "parse_amount_error \<Rightarrow> string" where
  "parse_amount_error_display (AmbiguousAmount s) =
     ''Ambiguous amount '' @ quoted s @ ''. Use explicit units like '' @ quoted ''5 NEAR'' @ '' or '' @ quoted ''1000 yocto''"
| "parse_amount_error_display (AmountInvalidFormat s) = ''Invalid amount format: '' @ quoted s"
| "parse_amount_error_display (AmountInvalidNumber s) = ''Invalid number in amount: '' @ quoted s"
| "parse_amount_error_display AmountOverflow = ''Amount overflow: value too large''"

primrec parse_gas_error_display :: "parse_gas_error \<Rightarrow> string" where
  "parse_gas_error_display (GasInvalidFormat s) =
     ''Invalid gas format: '' @ quoted s @ ''. Use '' @ quoted ''30 Tgas'' @ '', '' @ quoted ''5 Ggas'' @ '', or '' @ quoted ''1000000 gas''"
| "parse_gas_error_display (GasInvalidNumber s) = ''Invalid number in gas: '' @ quoted s"
| "parse_gas_error_display GasOverflow = ''Gas overflow: value too large''"

primrec parse_hash_error_display :: "parse_hash_error \<Rightarrow> string" where
  "parse_hash_error_display (HashInvalidBase58 e) = ''Invalid base58 encoding: '' @ e"
| "parse_hash_error_display (HashInvalidLength n) = ''Invalid hash length: expected 32 bytes, got '' @ show_nat n"

primrec signer_error_display :: "signer_error \<Rightarrow> string" where
  "signer_error_display InvalidSeedPhrase = ''Invalid seed phrase''"
| "signer_error_display (SigningFailed s) = ''Signing failed: '' @ s"
| "signer_error_display (KeyDerivationFailed s) = ''Key derivation failed: '' @ s"

primrec key_store_error_display :: "key_store_error \<Rightarrow> string" where
  "key_store_error_display (KeyStore_KeyNotFound a) = ''Key not found for account: '' @ a"
| "key_store_error_display (KeyStore_Io s) = ''IO error: '' @ s"
| "key_store_error_display (KeyStore_Json s) = ''JSON error: '' @ s"
| "key_store_error_display (KeyStore_InvalidFormat s) = ''Invalid credential format: '' @ s"
| "key_store_error_display (KeyStore_InvalidKey e) = ''Invalid key: '' @ parse_key_error_display e"
| "key_store_error_display (KeyStore_PathError s) = ''Path error: '' @ s"
| "key_store_error_display (KeyStore_Platform s) = ''Platform keyring error: '' @ s"

text \<open>\<open>io_show\<close> is the text of an error of \<open>std::io\<close>.\<close>

primrec decode_error_display :: "(io_error \<Rightarrow> string) \<Rightarrow> decode_error \<Rightarrow> string" where
  "decode_error_display io_show (DecodeBase64 e) = ''base64 decode error: '' @ e"
| "decode_error_display io_show (DecodeBorsh e) = ''borsh decode error: '' @ io_show e"

section \<open>RPC errors\<close>

definition show_i64 :: "int \<Rightarrow> string" where
  "show_i64 i = (if i < 0 then CHR ''-'' # show_nat (nat (- i)) else show_nat (nat i))"

primrec rpc_error_display :: "crypto_ops \<Rightarrow> fmt_ops \<Rightarrow> rpc_error \<Rightarrow> string" where
  "rpc_error_display cr fm (Rpc_Http e) = ''HTTP error: '' @ reqwest_text e"
| "rpc_error_display cr fm (Rpc_Network msg _ _) = ''Network error: '' @ msg"
| "rpc_error_display cr fm (Rpc_Timeout n) = ''Timeout after '' @ show_word n @ '' retries''"
| "rpc_error_display cr fm (Rpc_Json e) = ''JSON parse error: '' @ e"
| "rpc_error_display cr fm (Rpc_InvalidResponse s) = ''Invalid response: '' @ s"
| "rpc_error_display cr fm (Rpc_Rpc code msg _) = ''RPC error: '' @ msg @ '' (code: '' @ show_i64 code @ '')''"
| "rpc_error_display cr fm (Rpc_AccountNotFound a _ _) = ''Account not found: '' @ a"
| "rpc_error_display cr fm (Rpc_InvalidAccount a _ _) = ''Invalid account ID: '' @ a"
| "rpc_error_display cr fm (Rpc_AccessKeyNotFound a pk _ _) =
     ''Access key not found: '' @ a @ '' / '' @ public_key_display cr pk"
| "rpc_error_display cr fm (Rpc_GasKeyNotFound a pk _ _) =
     ''Gas key not found: '' @ a @ '' / '' @ public_key_display cr pk"
| "rpc_error_display cr fm (Rpc_ContractNotDeployed a _ _) = ''Contract not deployed on account: '' @ a"
| "rpc_error_display cr fm (Rpc_ContractStateTooLarge a _ _) = ''Contract state too large for account: '' @ a"
| "rpc_error_display cr fm (Rpc_GlobalContractNotFound i _ _) = ''Global contract not found: '' @ gciv_display cr i"
| "rpc_error_display cr fm (Rpc_ContractExecution a _ msg _ _) =
     ''contract execution failed on '' @ a @ '': '' @ msg"
| "rpc_error_display cr fm (Rpc_MethodNotFound a m _ _) =
     ''contract method not found: '' @ [CHR 0x60] @ a @ ''::'' @ m @ [CHR 0x60]"
| "rpc_error_display cr fm (Rpc_ContractPanic msg _ _) = ''contract panic: '' @ msg"
| "rpc_error_display cr fm (Rpc_UnknownBlock s) =
     ''Block not found: '' @ s @ ''. It may have been garbage-collected. Try an archival node for blocks older than 5 epochs.''"
| "rpc_error_display cr fm (Rpc_UnknownChunk s) =
     ''Chunk not found: '' @ s @ ''. It may have been garbage-collected. Try an archival node.''"
| "rpc_error_display cr fm (Rpc_UnknownEpoch s) =
     ''Epoch not found for block: '' @ s @ ''. The block may be invalid or too old. Try an archival node.''"
| "rpc_error_display cr fm (Rpc_InvalidShardId s) = ''Invalid shard ID: '' @ s"
| "rpc_error_display cr fm (Rpc_UnknownReceipt s) = ''Receipt not found: '' @ s"
| "rpc_error_display cr fm (Rpc_InvalidTx e) = ''Invalid transaction: '' @ invalid_tx_error_display cr fm e"
| "rpc_error_display cr fm (Rpc_InvalidTransaction msg _) = ''Invalid transaction: '' @ msg"
| "rpc_error_display cr fm (Rpc_ShardUnavailable s) = ''Shard unavailable: '' @ s"
| "rpc_error_display cr fm (Rpc_NodeNotSynced s) = ''Node not synced: '' @ s"
| "rpc_error_display cr fm (Rpc_InternalError s) = ''Internal server error: '' @ s"
| "rpc_error_display cr fm (Rpc_ParseError s) = ''Parse error: '' @ s"
| "rpc_error_display cr fm (Rpc_RequestTimeout msg _) = ''Request timeout: '' @ msg"
| "rpc_error_display cr fm (Rpc_TooManyAccessKeys a limit _ _) =
     ''account '' @ a @ '' has more than '' @ show_word limit @ '' access keys; use a paginated view_access_key_list request''"

primrec rpc_variant_name :: "rpc_error \<Rightarrow> string" where
  "rpc_variant_name (Rpc_Http _) = ''Http''"
| "rpc_variant_name (Rpc_Network _ _ _) = ''Network''"
| "rpc_variant_name (Rpc_Timeout _) = ''Timeout''"
| "rpc_variant_name (Rpc_Json _) = ''Json''"
| "rpc_variant_name (Rpc_InvalidResponse _) = ''InvalidResponse''"
| "rpc_variant_name (Rpc_Rpc _ _ _) = ''Rpc''"
| "rpc_variant_name (Rpc_AccountNotFound _ _ _) = ''AccountNotFound''"
| "rpc_variant_name (Rpc_InvalidAccount _ _ _) = ''InvalidAccount''"
| "rpc_variant_name (Rpc_AccessKeyNotFound _ _ _ _) = ''AccessKeyNotFound''"
| "rpc_variant_name (Rpc_GasKeyNotFound _ _ _ _) = ''GasKeyNotFound''"
| "rpc_variant_name (Rpc_ContractNotDeployed _ _ _) = ''ContractNotDeployed''"
| "rpc_variant_name (Rpc_ContractStateTooLarge _ _ _) = ''ContractStateTooLarge''"
| "rpc_variant_name (Rpc_GlobalContractNotFound _ _ _) = ''GlobalContractNotFound''"
| "rpc_variant_name (Rpc_ContractExecution _ _ _ _ _) = ''ContractExecution''"
| "rpc_variant_name (Rpc_MethodNotFound _ _ _ _) = ''MethodNotFound''"
| "rpc_variant_name (Rpc_ContractPanic _ _ _) = ''ContractPanic''"
| "rpc_variant_name (Rpc_UnknownBlock _) = ''UnknownBlock''"
| "rpc_variant_name (Rpc_UnknownChunk _) = ''UnknownChunk''"
| "rpc_variant_name (Rpc_UnknownEpoch _) = ''UnknownEpoch''"
| "rpc_variant_name (Rpc_InvalidShardId _) = ''InvalidShardId''"
| "rpc_variant_name (Rpc_UnknownReceipt _) = ''UnknownReceipt''"
| "rpc_variant_name (Rpc_InvalidTx _) = ''InvalidTx''"
| "rpc_variant_name (Rpc_InvalidTransaction _ _) = ''InvalidTransaction''"
| "rpc_variant_name (Rpc_ShardUnavailable _) = ''ShardUnavailable''"
| "rpc_variant_name (Rpc_NodeNotSynced _) = ''NodeNotSynced''"
| "rpc_variant_name (Rpc_InternalError _) = ''InternalError''"
| "rpc_variant_name (Rpc_ParseError _) = ''ParseError''"
| "rpc_variant_name (Rpc_RequestTimeout _ _) = ''RequestTimeout''"
| "rpc_variant_name (Rpc_TooManyAccessKeys _ _ _ _) = ''TooManyAccessKeys''"

section \<open>Errors of the client\<close>

text \<open>A transparent variant shows what it wraps.\<close>

primrec near_error_display :: "(io_error \<Rightarrow> string) \<Rightarrow> crypto_ops \<Rightarrow> fmt_ops \<Rightarrow> near_error \<Rightarrow> string" where
  "near_error_display io cr fm Err_NoSigner =
     ''No signer configured. Use .credentials()/.signer() on NearBuilder, .with_signer() on the client, or .sign_with() on the transaction.''"
| "near_error_display io cr fm Err_NoSignerAccount =
     ''No signer account ID. Call .default_account() on NearBuilder or use a signer with an account ID.''"
| "near_error_display io cr fm (Err_Config s) = ''Invalid configuration: '' @ s"
| "near_error_display io cr fm (Err_ParseAccountId s) = s"
| "near_error_display io cr fm (Err_ParseAmount e) = parse_amount_error_display e"
| "near_error_display io cr fm (Err_ParseGas e) = parse_gas_error_display e"
| "near_error_display io cr fm (Err_ParseKey e) = parse_key_error_display e"
| "near_error_display io cr fm (Err_Rpc e) = rpc_error_display cr fm e"
| "near_error_display io cr fm (Err_InvalidTx e) = ''Invalid transaction: '' @ invalid_tx_error_display cr fm e"
| "near_error_display io cr fm (Err_InvalidTransaction s) = ''Invalid transaction: '' @ s"
| "near_error_display io cr fm (Err_Signing e) = ''Signing failed: '' @ signer_error_display e"
| "near_error_display io cr fm (Err_KeyStore e) = key_store_error_display e"
| "near_error_display io cr fm (Err_Json s) = ''JSON error: '' @ s"
| "near_error_display io cr fm (Err_Borsh s) = ''Borsh error: '' @ s"
| "near_error_display io cr fm (Err_DelegateDecode e) = ''Delegate action decode error: '' @ decode_error_display io e"
| "near_error_display io cr fm (Err_TokenNotAvailable token chain) =
     ''Token '' @ token @ '' is not available on chain '' @ chain"

definition error_is_invalid_tx :: "near_error \<Rightarrow> bool" where
  "error_is_invalid_tx e = (case e of Err_InvalidTx _ \<Rightarrow> True | _ \<Rightarrow> False)"

section \<open>Lemmas\<close>

text \<open>Promoting an RPC error keeps its text, and only a rejected transaction changes its variant.\<close>

lemma error_from_rpc_text: "near_error_display io cr fm (error_from_rpc e) = rpc_error_display cr fm e"
  by (cases e) (simp_all add: error_from_rpc_def)

lemma error_from_rpc_promotes: "error_is_invalid_tx (error_from_rpc e) \<longleftrightarrow> rpc_variant_name e = ''InvalidTx''"
  by (cases e) (simp_all add: error_from_rpc_def error_is_invalid_tx_def)

text \<open>The prefix of a failed signature is given twice.\<close>

lemma signing_failed_text:
  "near_error_display io cr fm (Err_Signing (SigningFailed s)) = ''Signing failed: Signing failed: '' @ s"
  by simp

end
