(* ===== verification/Networks.thy ===== *)
theory Networks
  imports Near_Client
begin

text \<open>
  Chain identifiers (\<open>types/network.rs\<close>) with their conversions, the kinds of account
  (\<open>types/account.rs\<close>), and how the presets of the client and the known tokens fit together.
\<close>

section \<open>Chain identifiers\<close>

definition chain_id_new :: "string \<Rightarrow> chain_id" where "chain_id_new i = i"
definition chain_id_mainnet :: chain_id where "chain_id_mainnet = ''mainnet''"
definition chain_id_testnet :: chain_id where "chain_id_testnet = ''testnet''"
definition chain_id_as_str :: "chain_id \<Rightarrow> string" where "chain_id_as_str c = c"
definition chain_id_default :: chain_id where "chain_id_default = chain_id_mainnet"
definition chain_id_display :: "chain_id \<Rightarrow> string" where "chain_id_display c = c"

text \<open>Parsing never fails.\<close>

definition chain_id_from_str :: "string \<Rightarrow> unit + chain_id" where
  "chain_id_from_str s = Inr (chain_id_new s)"

section \<open>Kinds of account\<close>

text \<open>\<open>get_account_type\<close> and the three kinds that the library asks for belong to the crate
  \<open>near-account-id\<close>.\<close>

record 't account_type_ops =
  get_account_type :: "account_id \<Rightarrow> 't"
  NearImplicitAccount :: 't
  EthImplicitAccount :: 't
  NamedAccount :: 't

definition is_implicit :: "'t account_type_ops \<Rightarrow> account_id \<Rightarrow> bool" where
  "is_implicit at a \<longleftrightarrow> get_account_type at a = NearImplicitAccount at"

definition is_evm_implicit :: "'t account_type_ops \<Rightarrow> account_id \<Rightarrow> bool" where
  "is_evm_implicit at a \<longleftrightarrow> get_account_type at a = EthImplicitAccount at"

definition is_named :: "'t account_type_ops \<Rightarrow> account_id \<Rightarrow> bool" where
  "is_named at a \<longleftrightarrow> get_account_type at a = NamedAccount at"

section \<open>Lemmas\<close>

text \<open>A chain identifier is its text.\<close>

lemma chain_id_round_trip:
  "chain_id_from_str (chain_id_display c) = Inr c" "chain_id_as_str (chain_id_new s) = s"
  by (simp_all add: chain_id_from_str_def chain_id_display_def chain_id_new_def chain_id_as_str_def)

text \<open>The presets of the client are on the chains of the two constructors, and no chain is both.\<close>

lemma preset_chains:
  "nb_chain_id near_mainnet = chain_id_mainnet" "nb_chain_id near_testnet = chain_id_testnet"
  "chain_is_mainnet c \<longleftrightarrow> c = chain_id_mainnet" "chain_is_testnet c \<longleftrightarrow> c = chain_id_testnet"
  "\<not> (chain_is_mainnet c \<and> chain_is_testnet c)"
  by (auto simp: near_mainnet_def near_testnet_def near_builder_new_def chain_id_mainnet_def chain_id_testnet_def
      chain_is_mainnet_def chain_is_testnet_def)

text \<open>A known token resolves on the presets that it has an account for and on no other chain.\<close>

lemma known_token_chains:
  assumes "\<And>s. parse_acct s = Inr s"
  shows "known_token_resolve parse_acct t c = Inr a \<longleftrightarrow>
    (chain_is_mainnet c \<and> a = kt_mainnet t) \<or> (chain_is_testnet c \<and> kt_testnet t = Some a)"
  by (cases "kt_testnet t")
     (auto simp: known_token_resolve_def chain_is_mainnet_def chain_is_testnet_def assms)

text \<open>With three different kinds, an account is of at most one of them.\<close>

lemma account_kinds_exclusive:
  assumes "distinct [NearImplicitAccount at, EthImplicitAccount at, NamedAccount at]"
  shows "\<not> (is_implicit at a \<and> is_evm_implicit at a)" "\<not> (is_implicit at a \<and> is_named at a)"
    "\<not> (is_evm_implicit at a \<and> is_named at a)"
  using assms by (auto simp: is_implicit_def is_evm_implicit_def is_named_def)

end
