(* ===== verification/Env_Transfer.thy ===== *)
theory Env_Transfer
  imports Token_Clients Tx_Chain
begin

text \<open>
  A program from its configuration to an accepted transaction: a client configured by the
  environment (\<open>Near::from_env\<close>, \<open>client/near.rs\<close>), an amount written by the user
  (\<open>types/units.rs\<close>), the builder of the transfer (\<open>Near::transfer\<close>), and the loop that signs and
  sends it (\<open>client/transaction.rs\<close>) against a node that applies the nonce rule of the chain. The
  steps are the lemmas of the components; the property composes them.
\<close>

section \<open>The steps\<close>

text \<open>The credentials of the environment become the one key of the client's signer.\<close>

lemma secret_key_parsed_ok: "secret_key_from_str cr s = Inr sk \<Longrightarrow> secret_key_ok cr sk"
  by (auto simp: secret_key_from_str_def dest: secret_key_of_data_Inr split: option.splits sum.splits)

lemma from_env_holds_key:
  assumes "signature_laws cr" "near_from_env cr sd var r store = Done (Inr (n, store'))"
    and "var ''NEAR_ACCOUNT_ID'' = Some a" "parse_account sd a = Inr acct"
    and "var ''NEAR_PRIVATE_KEY'' = Some k" "secret_key_from_str cr k = Inr sk" "secret_public_key cr sk = Done key"
  shows "nr_signer n = Some r" "holds_key cr (store' r) acct key"
proof -
  obtain s where s: "in_memory_new cr (Inr acct) k = Done (Inr s)" "nr_signer n = Some r" "store' = store(r := OneKey s)"
    using assms(2-5) unfolding near_from_env_ok configured by auto
  then show "nr_signer n = Some r" by simp
  have "s = \<lparr>ims_account_id = acct, ims_secret_key = sk, ims_public_key = key\<rparr>"
    using s(1) assms(6,7) by (simp add: in_memory_new_def)
  then show "holds_key cr (store' r) acct key"
    using signing_key_new_ok [OF assms(1) secret_key_parsed_ok [OF assms(6)]] assms(7) s(3)
    by (auto simp: holds_key_def in_memory_key_def)
qed

text \<open>The amount that the user writes is the amount of the one action.\<close>

lemma transfer_of_text:
  assumes "digits i" "digits f" "length f \<le> 24" "i \<noteq> [] \<or> f \<noteq> []" "decimal_value 24 i f < 2 ^ 128"
  shows "run_bind (into_near_token oc (TokenStr ((i @ ''.'' @ f) @ '' NEAR''))) (near_transfer n (Inr receiver)) =
    Done (add_action (Transfer (of_nat (decimal_value 24 i f)))
      (transaction_builder_new (nr_rpc n) (nr_signer n) receiver (nr_max_nonce_retries n)))"
proof -
  have "dec_value i \<le> decimal_value 24 i f" by (simp add: decimal_value_def)
  then show ?thesis
    using assms(3,5) parse_near_fraction [OF assms(1,2,4), of "'' NEAR''" oc]
    by (simp add: near_units_def exact_result_def near_transfer_def near_transaction_def tb_transfer_def)
qed

section \<open>The composition\<close>

text \<open>C4: A client that \<open>Near::from_env\<close> has configured with an account and a key, asked to transfer an
  amount that the user wrote as a decimal number of NEAR, gets it accepted by a node that applies the
  nonce rule to this key, when the amount fits 128 bits, the retries exceed the transactions that
  others get in with the key, and the nonces leave room below the limit of the protocol. Building
  the transfer never fails, sending it returns what the requested level makes of the node's response
  to the last attempt, and every transaction that leaves the client is from the account of the
  environment to the receiver and transfers exactly the amount written, in yoctoNEAR.\<close>

theorem env_transfer_accepted:
  assumes laws: "signature_laws (tx_cr env)"
    and client: "near_from_env (tx_cr env) sd var r store = Done (Inr (n, ts_signers st))"
    and account: "var ''NEAR_ACCOUNT_ID'' = Some a" "parse_account sd a = Inr acct"
    and private_key: "var ''NEAR_PRIVATE_KEY'' = Some k" "secret_key_from_str (tx_cr env) k = Inr sk"
      "secret_public_key (tx_cr env) sk = Done key"
    and amount: "digits i" "digits f" "length f \<le> 24" "i \<noteq> [] \<or> f \<noteq> []" "decimal_value 24 i f < 2 ^ 128"
    and node: "chain_node env (nr_rpc n) acct key chain_nonce nonce_limit others reach valid sane" "sane (ts_net st)"
    and b: "b = add_action (Transfer (of_nat (decimal_value 24 i f)))
      (transaction_builder_new (nr_rpc n) (nr_signer n) receiver (nr_max_nonce_retries n))"
    and wire: "serializable (env_bo env) b acct" "builder_valid env b acct key valid"
    and nonces: "\<not> poisoned (ts_nonces st)" "unat (handed_out st b acct key) \<le> high" "reach (ts_net st) \<le> high"
      "high + unat (nr_max_nonce_retries n) + 1 < nonce_limit (ts_net st)" "others (ts_net st) < unat (nr_max_nonce_retries n)"
  shows "run_bind (into_near_token (env_oc env) (TokenStr ((i @ ''.'' @ f) @ '' NEAR''))) (near_transfer n (Inr receiver)) = Done b \<and>
    (\<exists>tr response st'. send env level b st = Done (level_convert (tx_cr env) level response acct, st') \<and>
      sends env b r acct level 0 None st tr (level_convert (tx_cr env) level response acct) st' \<and>
      tr \<noteq> [] \<and> snd (last tr) = Inr response \<and>
      (\<forall>p \<in> set tr. tx_signer_id (tx_of p) = acct \<and> tx_receiver_id (tx_of p) = receiver \<and>
        (\<exists>t. tx_actions (tx_of p) = [Transfer t] \<and> unat t = decimal_value 24 i f)))"
proof
  show "run_bind (into_near_token (env_oc env) (TokenStr ((i @ ''.'' @ f) @ '' NEAR''))) (near_transfer n (Inr receiver)) = Done b"
    unfolding b by (rule transfer_of_text [OF amount])
  note signer = from_env_holds_key [OF laws client account private_key]
  have builder: "tb_rpc b = nr_rpc n" "tb_actions b = [Transfer (of_nat (decimal_value 24 i f))]" "tb_receiver_id b = receiver"
    "builder_signer b = Inr r" "tb_max_nonce_retries b = nr_max_nonce_retries n"
    unfolding b using signer(1) by (simp_all add: add_action_def transaction_builder_new_def builder_signer_def)
  obtain tr response st' where "send env level b st = Done (level_convert (tx_cr env) level response acct, st')"
    "sends env b r acct level 0 None st tr (level_convert (tx_cr env) level response acct) st'"
    "tr \<noteq> []" "snd (last tr) = Inr response"
    using chain_accepts [of env b acct key chain_nonce nonce_limit others reach valid sane r st high level] laws node wire nonces signer(2) builder
    by auto
  moreover from sends_content [OF this(2)] have "\<forall>p \<in> set tr. tx_signer_id (tx_of p) = acct \<and> tx_receiver_id (tx_of p) = receiver \<and>
      (\<exists>t. tx_actions (tx_of p) = [Transfer t] \<and> unat t = decimal_value 24 i f)"
    using amount(5) builder(2,3) by (simp add: list_all_iff unat_of_nat_small)
  ultimately show "\<exists>tr response st'. send env level b st = Done (level_convert (tx_cr env) level response acct, st') \<and>
      sends env b r acct level 0 None st tr (level_convert (tx_cr env) level response acct) st' \<and>
      tr \<noteq> [] \<and> snd (last tr) = Inr response \<and>
      (\<forall>p \<in> set tr. tx_signer_id (tx_of p) = acct \<and> tx_receiver_id (tx_of p) = receiver \<and>
        (\<exists>t. tx_actions (tx_of p) = [Transfer t] \<and> unat t = decimal_value 24 i f))"
    by blast
qed

section \<open>A client on the concrete node\<close>

text \<open>The variables of a client of the account \<open>alice.near\<close> on the node of \<open>Tx_Chain\<close>.\<close>

definition alice_secret :: secret_key where
  "alice_secret = SecretKey_Ed25519 (replicate 32 1)"

definition alice_vars :: "string \<Rightarrow> string option" where
  "alice_vars = [''NEAR_NETWORK'' \<mapsto> ''http://node'', ''NEAR_ACCOUNT_ID'' \<mapsto> ''alice.near'',
     ''NEAR_PRIVATE_KEY'' \<mapsto> secret_key_display crypto_ref alice_secret]"

definition alice_near :: near where
  "alice_near = \<lparr>nr_rpc = sample_client, nr_signer = Some 0, nr_chain_id = ''custom'', nr_max_nonce_retries = 3\<rparr>"

lemma alice_vars_get [simp]:
  "alice_vars ''NEAR_NETWORK'' = Some ''http://node''" "alice_vars ''NEAR_ACCOUNT_ID'' = Some ''alice.near''"
  "alice_vars ''NEAR_PRIVATE_KEY'' = Some (secret_key_display crypto_ref alice_secret)"
  "alice_vars ''NEAR_CHAIN_ID'' = None" "alice_vars ''NEAR_MAX_NONCE_RETRIES'' = None"
  by (simp_all add: alice_vars_def)

lemma alice_secret_facts:
  "secret_key_from_str crypto_ref (secret_key_display crypto_ref alice_secret) = Inr alice_secret"
  "secret_public_key crypto_ref alice_secret = Done alice_key"
proof -
  have "secret_key_ok crypto_ref alice_secret" by (simp add: alice_secret_def crypto_ref_def)
  then show "secret_key_from_str crypto_ref (secret_key_display crypto_ref alice_secret) = Inr alice_secret"
    by (rule bs58_laws.secret_key_str_rt [OF ref58.bs58_laws_axioms])
qed (simp add: alice_secret_def alice_key_def crypto_ref_def)

lemma alice_from_env:
  "near_from_env crypto_ref serde_ref alice_vars 0 (ts_signers busy_chain) = Done (Inr (alice_near, ts_signers busy_chain))"
proof -
  have "parse_account serde_ref ''alice.near'' = Inr ''alice.near''" by code_simp
  then show ?thesis
    unfolding near_from_env_ok configured
    using alice_secret_facts
    by (auto simp: alice_near_def network_url_def network_chain_def sample_client_def in_memory_new_def busy_chain_def
        alice_signer_def alice_secret_def alice_key_def fun_upd_idem)
qed

theorem env_transfer_accepted_witness:
  "run_bind (into_near_token True (TokenStr ''0.000000000000000000000005 NEAR'')) (near_transfer alice_near (Inr ''bob.near'')) = Done send_builder \<and>
   (\<exists>tr response st'. send chain_env Submitted send_builder busy_chain = Done (level_convert crypto_ref Submitted response ''alice.near'', st') \<and>
      sends chain_env send_builder 0 ''alice.near'' Submitted 0 None busy_chain tr (level_convert crypto_ref Submitted response ''alice.near'') st' \<and>
      tr \<noteq> [] \<and> snd (last tr) = Inr response \<and>
      (\<forall>p \<in> set tr. tx_signer_id (tx_of p) = ''alice.near'' \<and> tx_receiver_id (tx_of p) = ''bob.near'' \<and>
        (\<exists>t. tx_actions (tx_of p) = [Transfer t] \<and> unat t = 5)))"
proof -
  let ?f = "replicate 23 CHR ''0'' @ ''5''"
  have acct: "parse_account serde_ref ''alice.near'' = Inr ''alice.near''" by code_simp
  have written: "''0.000000000000000000000005 NEAR'' = (''0'' @ ''.'' @ ?f) @ '' NEAR''" by (simp add: numeral_eq_Suc)
  have five: "decimal_value 24 ''0'' ?f = 5" "digits ''0''" "digits ?f" by code_simp+
  have b: "send_builder = add_action (Transfer (of_nat (decimal_value 24 ''0'' ?f)))
      (transaction_builder_new (nr_rpc alice_near) (nr_signer alice_near) ''bob.near'' (nr_max_nonce_retries alice_near))"
    unfolding five(1) by (simp add: send_builder_def alice_near_def)
  have "run_bind (into_near_token (env_oc chain_env) (TokenStr ((''0'' @ ''.'' @ ?f) @ '' NEAR''))) (near_transfer alice_near (Inr ''bob.near'')) =
      Done send_builder \<and>
    (\<exists>tr response st'. send chain_env Submitted send_builder busy_chain = Done (level_convert (tx_cr chain_env) Submitted response ''alice.near'', st') \<and>
      sends chain_env send_builder 0 ''alice.near'' Submitted 0 None busy_chain tr (level_convert (tx_cr chain_env) Submitted response ''alice.near'') st' \<and>
      tr \<noteq> [] \<and> snd (last tr) = Inr response \<and>
      (\<forall>p \<in> set tr. tx_signer_id (tx_of p) = ''alice.near'' \<and> tx_receiver_id (tx_of p) = ''bob.near'' \<and>
        (\<exists>t. tx_actions (tx_of p) = [Transfer t] \<and> unat t = decimal_value 24 ''0'' ?f)))"
    by (rule env_transfer_accepted [of chain_env serde_ref alice_vars 0 "ts_signers busy_chain" alice_near busy_chain
          "''alice.near''" "''alice.near''" "secret_key_display crypto_ref alice_secret" alice_secret alice_key "''0''" ?f
          "\<lambda>net. cw_nonce (net_world net)" "\<lambda>net. chain_limit (net_world net)" "\<lambda>net. length (cw_others (net_world net))"
          "\<lambda>net. chain_reach (net_world net)" chain_valid "chain_sane ''alice.near'' alice_key" _ _ 14])
       (use signature_laws_ref alice_from_env acct alice_secret_facts five small_chain.chain_node_axioms sample_serializable
          alice_valid busy_chain_facts b in \<open>simp_all add: alice_near_def\<close>)
  then show ?thesis unfolding written five(1) chain_env_simps chain_io_simps .
qed

end
