(* ===== verification/Spec2Isabelle.thy ===== *)
theory Spec2Isabelle
  imports Token_Clients Tx_Concurrent Tx_Chain Transport Sandbox Contract_Macro Block_Views Key_Gen Client_Errors Networks Debug_Texts
    Env_Transfer
begin

text \<open>
  A verification development for near-kit-rs, a Rust client library for the NEAR protocol
  (\<open>src/crates/near-kit/src\<close>; paths below are relative to it).

  \<^bold>\<open>The program.\<close> A user makes a client \<open>Near\<close> (\<open>client/near.rs\<close>) for a network and a signer. The
  client makes query builders (\<open>client/query.rs\<close>), transaction builders
  (\<open>client/transaction.rs\<close>) and token clients (\<open>tokens/\<close>). A query is a typed method of the RPC
  client (\<open>client/rpc.rs\<close>), which posts a JSON-RPC request, retries what is transient and
  classifies what a node or the network answers (\<open>error.rs\<close>, \<open>types/error.rs\<close>). A transaction
  builder collects actions (\<open>types/action.rs\<close>); to send it, a key is claimed from the signer
  (\<open>client/signer.rs\<close>), the access key is fetched, the process-wide nonce manager
  (\<open>client/nonce_manager.rs\<close>) hands out a nonce, the transaction is serialized with borsh, hashed
  and signed (\<open>types/transaction.rs\<close>, \<open>types/key.rs\<close>) and posted, again with a fresh nonce and
  block hash when the node rejects them. Beside this path, messages are signed off-chain
  (\<open>types/nep413.rs\<close>), keys generated (\<open>types/csprng.rs\<close>) or derived from seed phrases
  (\<open>types/hd.rs\<close>), and amounts parsed and printed (\<open>types/units.rs\<close>, \<open>tokens/types.rs\<close>). Requests
  go out over reqwest or \<open>wasi:http\<close> (\<open>client/transport.rs\<close>); a sandbox node can be started for
  tests (\<open>sandbox.rs\<close>); and the macro of \<open>crates/near-kit-macros\<close> turns a trait into a typed
  contract client.

  \<^bold>\<open>How code becomes definitions.\<close> Structs are records, enums datatypes, the integers of Rust
  words of their width. \<open>Result\<close> is a sum with the error on the left, a panic is the value
  \<open>Panic\<close> of the type \<open>run\<close>, and arithmetic that panics or wraps depending on the build profile
  takes the flag \<open>oc\<close> (overflow checks). Strings are lists of bytes, as in \<open>str\<close>; slicing inside a
  character panics. Shared mutable state is threaded explicitly: the network (request counter,
  world and sleeps, record \<open>net\<close>), the nonce manager with the poison flag of its mutex, the store
  of shared signers (record \<open>tx_state\<close>) and the cells of token clients. A call under a lock is
  atomic; what lies between two awaits of a concurrent task is one step of it, and the inductive
  relation \<open>interleaved\<close> lets any number of tasks take their steps in any order.

  \<^bold>\<open>Code that is not part of the repository\<close> is an argument: \<open>crypto_ops\<close> (hashes, curves,
  \<open>bs58\<close>, \<open>base64\<close>), \<open>borsh_ops\<close> (the borsh crate on base types), \<open>serde_ops\<close>, \<open>view_de\<close>,
  \<open>token_de\<close> (deserializers that serde derives), \<open>fmt_ops\<close> (formatting of other crates), \<open>rpc_io\<close>
  (transport and JSON text), \<open>hd_env\<close> (BIP-39, HMAC), the parser of account ids, clocks and
  randomness. What the code relies on is stated as laws - the locales \<open>borsh_laws\<close>, \<open>bs58_laws\<close>,
  \<open>b64_laws\<close>, and the definition \<open>signature_laws\<close> - and \<open>Borsh_Le\<close>, \<open>Base58\<close> and \<open>Crypto_Ref\<close> give an
  instance that satisfies them: the published borsh format, the real base 58 and base 64, and
  stand-ins of the right lengths for hashes and signatures. The witnesses evaluate on it.

  \<^bold>\<open>Theories.\<close>
  \<^item> \<open>Prelude\<close>, \<open>Rust_Str\<close>: integers, results, panics and the string functions of the standard library.
  \<^item> \<open>Borsh\<close>, \<open>Crypto\<close>, \<open>Json\<close>: wire codecs, the interfaces to crates, JSON values. The locale
    \<open>wire_codec\<close> says that a decoder undoes an encoder whatever follows; \<open>str_codec\<close> the same for texts.
  \<^item> \<open>Rust_Split\<close>: splitting at the last occurrence, at one of several bytes, and into chunks.
  \<^item> \<open>Keys\<close> (\<open>types/key.rs\<close>, \<open>types/hash.rs\<close>), \<open>Hd\<close> (\<open>types/hd.rs\<close>), \<open>Key_Gen\<close> (\<open>types/csprng.rs\<close>): keys, signatures, hashes with their
    text and wire forms, signing, seed phrases, generation. Round trips, exactness of the public key
    decoder, signatures that verify, hardened paths only; generators panic on a failing source
    (locale \<open>keygen_laws\<close>).
  \<^item> \<open>Units\<close>, \<open>Tokens\<close>: amounts and gas, token amounts, known tokens. Parsing is exact or reports
    overflow; printing and parsing are inverse; arithmetic within 128 bits; quirks of the parsers.
  \<^item> \<open>Actions\<close>, \<open>Transactions\<close>: actions, delegate actions, transactions of both versions. All are
    instances of \<open>wire_codec\<close> (by \<open>sublocale\<close>s of \<open>wire_env\<close>); the guard of \<open>NonDelegateAction\<close> keeps the
    recursive deserializer from reading nested delegates; signatures verify.
  \<^item> \<open>Nonces\<close>: the nonce manager as a \<open>nonce_source\<close>; nonces never collide; overflow and poisoning.
  \<^item> \<open>Error_Types\<close>, \<open>Rpc_Errors\<close>, \<open>Rpc_Parse\<close>, \<open>Block_Refs\<close>: errors of the protocol and of the client, how
    an answer becomes one, block references and the order of statuses. Which errors are retried,
    and that the legacy texts are read like the structured errors.
  \<^item> \<open>Rpc_Client\<close>: one call with its retries (\<open>call_loop\<close>, which counts the attempts down), the locale
    \<open>rpc_node\<close>. Termination, delays, classification, and the arithmetic that overflows.
  \<^item> \<open>Action_Views\<close>, \<open>Views\<close>, \<open>Rpc_Methods\<close> (\<open>types/rpc.rs\<close>, \<open>types/wait_level.rs\<close>, the methods of
    \<open>client/rpc.rs\<close>): what a node reports, conversions, pagination. The loop over pages may run forever,
    so it is a \<open>partial_function (option)\<close>; against a node that serves one snapshot (locale \<open>pager\<close>)
    it returns exactly the snapshot.
  \<^item> \<open>Nep413\<close>, \<open>Signers\<close>: off-chain messages and signers; the locale \<open>signer\<close> is the trait. What is
    signed determines its kind and content; a message lives from its nonce to its age; rotation is fair.
  \<^item> \<open>Tx_Builder\<close>, \<open>Tx_Send\<close>: builders, signing, delegation and sending. The inductive relation \<open>sends\<close>
    describes the attempts of a run by what is handed to the RPC client and answered; \<open>send_loop\<close>, which
    counts down the attempts that the bound leaves, is such a run, and signs exactly the content of
    the builder with fresh nonces. It returns, or panics when a nonce is exhausted (\<open>nonce_exhausted\<close>);
    and with a rotating signer it mixes the nonces of two keys.
  \<^item> \<open>Tx_Concurrent\<close>: builds, signatures and sends as tasks that share the nonce manager, the
    signers and the network. No two transactions share a nonce however the tasks interleave, every
    task ends within a bounded number of its turns, and a task alone is the sequential operation.
  \<^item> \<open>Tx_Chain\<close>: a node that applies the nonce rule of the chain while other programs use the same key
    and its view lags (locale \<open>chain_node\<close>, interpreted on a node that decodes what it is sent, checks key,
    signature and the limit of nonces, and records the nonces that it accepts, so that it accepts
    nothing twice). A send with more retries than there are foreign transactions gets accepted.
  \<^item> \<open>Call_Builder\<close>: the chaining methods of \<open>CallBuilder\<close>; a chain gives exactly the actions of its steps.
  \<^item> \<open>Transport\<close>: the reqwest transport and the exchange over \<open>wasi:http\<close> with its URL splitter. The
    splitter gives exactly the parts; over a host that works (locale \<open>http_host\<close>, interpreted on one
    that buffers) an exchange dispatches exactly one request, or none when the host refuses a part of it.
  \<^item> \<open>Block_Views\<close> (\<open>types/rpc.rs\<close>, \<open>types/rpc_extra.rs\<close>): blocks, chunks, validators, state changes and
    node status as data, and the deserializers of large numbers, which take exactly what fits.
  \<^item> \<open>Client_Errors\<close> (\<open>error.rs\<close>): the texts of the errors; \<open>Networks\<close>: chain ids and account kinds.
  \<^item> \<open>Sandbox\<close>: images, the builder, the shared instance, patching of balances. One container and one
    exit handler however often the shared sandbox is asked for; when \<open>set_balance\<close> reports success.
  \<^item> \<open>Contract_Macro\<close>: which traits the macro accepts, the methods it generates as data, and what they
    do when called: the view call or the transaction of their name.
  \<^item> \<open>Queries\<close>, \<open>Near_Client\<close>, \<open>Token_Clients\<close>: query builders, the client and its configuration, token
    clients with their caches (locale \<open>caching_client\<close>). When an account counts as missing, what
    \<open>from_env\<close> accepts, that amounts of one client agree, and what a token transfer sends.
  \<^item> \<open>Debug_Texts\<close>: the \<open>Debug\<close> texts written by hand, over the builders of \<open>std::fmt\<close>. None depends on the
    bytes of a secret key; the URL of a client is shown as it is, and in the span of a call with the
    credentials in it.
  \<^item> \<open>Env_Transfer\<close>: the composition of the path above. A transfer of an amount that the user wrote, by
    a client configured from the environment, is accepted by the node of \<open>Tx_Chain\<close>, and all that
    is sent is from that account to that receiver with exactly that amount.

  \<^bold>\<open>Bounds.\<close> \<open>call_loop\<close> and \<open>send_loop\<close> take the number of iterations that the source computes
  (\<open>max_retries + 1\<close>, \<open>max_nonce_retries + 1\<close>) and it is shown that they never end by exhausting it
  unless that number itself overflows, which the theorems state. A length is 64 bits wide.

  The tasks of \<open>Tx_Concurrent\<close> carry the number of iterations they have left in the same way. The
  mutual recursion of \<open>Action\<close> and \<open>NonDelegateAction\<close> in \<open>Actions\<close> takes the number of bytes plus two as
  depth; the bound is never met (\<open>deserialize_variant_eq\<close>), because the guard stops the second level.

  \<^bold>\<open>Not modelled.\<close> The derived impls of serde are arguments, and so are the parser \<open>syn\<close> of the macro,
  Docker, the reqwest client and the host of \<open>wasi:http\<close>. Left out are the modules that only name
  types (\<open>platform.rs\<close>, \<open>lib.rs\<close>, the \<open>mod.rs\<close> files), tracing (\<open>trace.rs\<close> and its spans; the texts it records
  are modelled), the \<open>Debug\<close> texts that are derived, except of what the hand-written ones contain, accessors
  of one field, and \<open>StateInit::derive_account_id\<close>, which calls another crate. Where a text of another crate
  enters an error message or a \<open>Debug\<close> text it is an argument. The transport setters of \<open>NearBuilder\<close> choose the
  \<open>rpc_io\<close> of the model; \<open>Transport\<close> says what a transport does with a request.
\<close>

end
